(* ===== verification/Prelude.thy ===== *)
theory Prelude
  imports Main "HOL-Library.Monad_Syntax" "HOL-Library.Word"
begin

text \<open>
  What every component of the development shares: C strings and fixed \<open>char\<close> arrays, the
  decimal printing of \<open>std::to_string\<close> and the reading of \<open>atoi\<close>, first-match search and
  update of a vector, and the collections the component proofs extend.

  A \<open>std::string\<close> is an Isabelle \<^typ>\<open>string\<close>: a list of \<^typ>\<open>char\<close>, which are bytes.
  A \<open>char\<close> array of \<open>n\<close> bytes is a list of length \<open>n\<close>; reading it as a C string stops at
  the first \<open>NUL\<close>. An operation of type \<open>'a option\<close> that gives \<^const>\<open>None\<close> is one that does
  not return: the process dies by an uncaught exception or runs into undefined behaviour.
\<close>

named_theorems cstr_simps "evaluation of C string functions"
named_theorems wf_intros "introduction rules of the well-formedness invariants"
named_theorems frame_simps "what an operation leaves alone"

section \<open>C strings\<close>

abbreviation NUL :: char where
  "NUL \<equiv> CHR 0x00"

text \<open>\<open>s.data()\<close>/\<open>s.c_str()\<close> read up to the first \<open>NUL\<close>; \<open>strlen\<close> and
  \<open>strcmp(..) == 0\<close> see only that prefix.\<close>

definition c_str :: "string \<Rightarrow> string" where
  "c_str s = takeWhile (\<lambda>c. c \<noteq> NUL) s"

definition strlen :: "string \<Rightarrow> nat" where
  "strlen s = length (c_str s)"

definition streq :: "string \<Rightarrow> string \<Rightarrow> bool" where
  "streq a b = (c_str a = c_str b)"

text \<open>\<open>strcpy(arr, src)\<close>: the bytes of \<open>src\<close> and the terminator overwrite the front of the
  array; where they do not fit the copy writes past the array (undefined behaviour).\<close>

definition c_strcpy :: "string \<Rightarrow> string \<Rightarrow> string option" where
  "c_strcpy arr src =
     (let s = c_str src in
      if length s < length arr then Some (s @ NUL # drop (length s + 1) arr) else None)"

text \<open>\<open>strncpy(arr, src, n)\<close> writes exactly \<open>n\<close> bytes: at most \<open>n\<close> of \<open>src\<close>, then zeros.\<close>

definition c_strncpy :: "string \<Rightarrow> string \<Rightarrow> nat \<Rightarrow> string" where
  "c_strncpy arr src n =
     (let s = take n (c_str src) in s @ replicate (n - length s) NUL @ drop n arr)"

lemma c_str_Nil [simp]: "c_str [] = []"
  by (simp add: c_str_def)

lemma c_str_idem [simp]: "c_str (c_str s) = c_str s"
  by (simp add: c_str_def)

lemma NUL_notin_c_str [simp]: "NUL \<notin> set (c_str s)"
  by (auto simp: c_str_def dest: set_takeWhileD)

lemma c_str_append_NUL [simp]: "c_str (c_str s @ NUL # t) = c_str s"
  unfolding c_str_def by (induction s) auto

lemma c_str_no_NUL: "NUL \<notin> set s \<Longrightarrow> c_str s = s"
  unfolding c_str_def by (auto simp: takeWhile_eq_all_conv)

lemma c_str_replicate_NUL [simp]: "c_str (replicate n NUL) = []"
  by (cases n) (auto simp: c_str_def)

lemma length_c_str_le: "length (c_str s) \<le> length s"
  by (simp add: c_str_def length_takeWhile_le)

lemma c_str_pad: "NUL \<notin> set s \<Longrightarrow> c_str (s @ replicate n NUL) = s"
  unfolding c_str_def by (cases n) (auto simp: takeWhile_append)

lemma c_strcpy_Some_iff:
  "c_strcpy arr src = Some r \<longleftrightarrow>
     length (c_str src) < length arr \<and> r = c_str src @ NUL # drop (length (c_str src) + 1) arr"
  by (auto simp: c_strcpy_def Let_def)

lemma c_strcpy_None_iff: "c_strcpy arr src = None \<longleftrightarrow> length arr \<le> length (c_str src)"
  by (auto simp: c_strcpy_def Let_def)

lemma c_strcpy_c_str: "c_strcpy arr src = Some r \<Longrightarrow> c_str r = c_str src"
  by (auto simp: c_strcpy_Some_iff)

lemma c_strcpy_length: "c_strcpy arr src = Some r \<Longrightarrow> length r = length arr"
  by (auto simp: c_strcpy_Some_iff)

lemma c_strcpy_NUL: "c_strcpy arr src = Some r \<Longrightarrow> NUL \<in> set r"
  by (auto simp: c_strcpy_Some_iff)

lemma c_strncpy_length:
  "n \<le> length arr \<Longrightarrow> length (c_strncpy arr src n) = length arr"
  by (auto simp: c_strncpy_def Let_def)

lemma strlen_eq_0 [simp]: "strlen s = 0 \<longleftrightarrow> c_str s = []"
  by (simp add: strlen_def)

lemmas [cstr_simps] = c_str_no_NUL c_strcpy_c_str c_strcpy_length streq_def strlen_def

section \<open>Decimal numbers\<close>

definition digit_char :: "nat \<Rightarrow> char" where
  "digit_char d = char_of (48 + d)"

fun show_nat :: "nat \<Rightarrow> string" where
  "show_nat n = (if n < 10 then [digit_char n] else show_nat (n div 10) @ [digit_char (n mod 10)])"

declare show_nat.simps [simp del]

text \<open>\<open>std::to_string\<close> of a signed and of an unsigned 64-bit integer.\<close>

definition show_int :: "int \<Rightarrow> string" where
  "show_int i = (if i < 0 then CHR ''-'' # show_nat (nat (- i)) else show_nat (nat i))"

definition show_u64 :: "64 word \<Rightarrow> string" where
  "show_u64 w = show_nat (unat w)"

definition is_digit :: "char \<Rightarrow> bool" where
  "is_digit c \<longleftrightarrow> 48 \<le> (of_char c :: nat) \<and> (of_char c :: nat) \<le> 57"

definition is_space :: "char \<Rightarrow> bool" where
  "is_space c \<longleftrightarrow> (let n = (of_char c :: nat) in n = 32 \<or> (9 \<le> n \<and> n \<le> 13))"

fun read_digits :: "int \<Rightarrow> string \<Rightarrow> int" where
  "read_digits acc [] = acc"
| "read_digits acc (c # cs) =
     (if is_digit c then read_digits (10 * acc + (int (of_char c) - 48)) cs else acc)"

text \<open>\<open>atoi\<close>: white space, an optional sign, then digits up to the first other character.\<close>

definition atoi :: "string \<Rightarrow> int" where
  "atoi s =
     (case dropWhile is_space s of
        [] \<Rightarrow> 0
      | c # cs \<Rightarrow>
          if c = CHR ''-'' then - read_digits 0 cs
          else if c = CHR ''+'' then read_digits 0 cs
          else read_digits 0 (c # cs))"

lemma of_char_digit [simp]: "d < 10 \<Longrightarrow> (of_char (digit_char d) :: nat) = 48 + d"
  by (simp add: digit_char_def)

lemma is_digit_digit_char [simp]: "d < 10 \<Longrightarrow> is_digit (digit_char d)"
  by (simp add: is_digit_def)

lemma show_nat_digits: "c \<in> set (show_nat n) \<Longrightarrow> is_digit c"
proof (induction n rule: show_nat.induct)
  case (1 n)
  show ?case
  proof (cases "n < 10")
    case True
    with "1.prems" show ?thesis by (subst (asm) show_nat.simps) auto
  next
    case False
    with 1 show ?thesis by (subst (asm) (2) show_nat.simps) auto
  qed
qed

lemma show_nat_nonempty [simp]: "show_nat n \<noteq> []"
  by (subst show_nat.simps) simp

lemma read_digits_append:
  "(\<And>c. c \<in> set xs \<Longrightarrow> is_digit c) \<Longrightarrow> read_digits acc (xs @ ys) = read_digits (read_digits acc xs) ys"
  by (induction xs arbitrary: acc) auto

lemma read_digits_show_nat: "read_digits 0 (show_nat n) = int n"
proof (induction n rule: show_nat.induct)
  case (1 n)
  show ?case
  proof (cases "n < 10")
    case True
    then show ?thesis by (subst show_nat.simps) simp
  next
    case False
    then have "read_digits 0 (show_nat (n div 10)) = int (n div 10)" by (rule "1.IH")
    moreover from False have "read_digits 0 (show_nat n) =
        10 * read_digits 0 (show_nat (n div 10)) + int (n mod 10)"
      by (subst show_nat.simps) (simp add: read_digits_append show_nat_digits)
    ultimately have "read_digits 0 (show_nat n) = 10 * int (n div 10) + int (n mod 10)"
      by (simp only:)
    also have "\<dots> = int (10 * (n div 10) + n mod 10)"
      by (simp only: of_nat_add of_nat_mult of_nat_numeral)
    also have "\<dots> = int n" by (simp only: mult_div_mod_eq)
    finally show ?thesis .
  qed
qed

lemma digit_not_special:
  "is_digit c \<Longrightarrow> \<not> is_space c \<and> c \<noteq> CHR ''-'' \<and> c \<noteq> CHR ''+'' \<and> c \<noteq> CHR ''_'' \<and> c \<noteq> NUL"
  by (auto simp: is_digit_def is_space_def Let_def)

lemma atoi_digits:
  assumes "xs \<noteq> []" and "\<And>c. c \<in> set xs \<Longrightarrow> is_digit c"
  shows "atoi xs = read_digits 0 xs"
proof -
  obtain c cs where xs: "xs = c # cs" using assms(1) by (cases xs) auto
  with assms(2) have "is_digit c" by simp
  with digit_not_special [OF this] xs show ?thesis by (simp add: atoi_def)
qed

lemma atoi_show_nat [simp]: "atoi (show_nat n) = int n"
  by (simp add: atoi_digits show_nat_digits read_digits_show_nat)

lemma atoi_show_int [simp]: "atoi (show_int i) = i"
proof (cases "i < 0")
  case True
  have "\<not> is_space (CHR ''-'')" by (simp add: is_space_def)
  with True show ?thesis by (simp add: show_int_def atoi_def read_digits_show_nat)
next
  case False
  then show ?thesis by (simp add: show_int_def)
qed

lemma show_nat_inject [simp]: "show_nat m = show_nat n \<longleftrightarrow> m = n"
  by (metis atoi_show_nat of_nat_eq_iff)

lemma show_int_inject [simp]: "show_int i = show_int j \<longleftrightarrow> i = j"
  by (metis atoi_show_int)

lemma underscore_notin_show_nat [simp]: "CHR ''_'' \<notin> set (show_nat n)"
  using show_nat_digits digit_not_special by blast

lemma NUL_notin_show_int [simp]: "NUL \<notin> set (show_int i)"
  using show_nat_digits digit_not_special by (fastforce simp: show_int_def split: if_splits)

lemma c_str_show_int [simp]: "c_str (show_int i) = show_int i"
  by (simp add: c_str_no_NUL)

section \<open>First match in a vector\<close>

text \<open>The scanning loops of the code: the first element that satisfies a test, and the vector
  with that element replaced (\<^const>\<open>None\<close> when there is none).\<close>

fun first_match :: "('a \<Rightarrow> bool) \<Rightarrow> 'a list \<Rightarrow> 'a option" where
  "first_match p [] = None"
| "first_match p (x # xs) = (if p x then Some x else first_match p xs)"

fun update_first :: "('a \<Rightarrow> bool) \<Rightarrow> ('a \<Rightarrow> 'a) \<Rightarrow> 'a list \<Rightarrow> 'a list option" where
  "update_first p f [] = None"
| "update_first p f (x # xs) =
     (if p x then Some (f x # xs) else map_option (Cons x) (update_first p f xs))"

lemma first_match_Some: "first_match p xs = Some x \<Longrightarrow> p x \<and> x \<in> set xs"
  by (induction xs) (auto split: if_splits)

lemma first_match_None: "first_match p xs = None \<longleftrightarrow> (\<forall>x \<in> set xs. \<not> p x)"
  by (induction xs) auto

lemma update_first_None: "update_first p f xs = None \<longleftrightarrow> (\<forall>x \<in> set xs. \<not> p x)"
  by (induction xs) auto

lemma update_first_hit: "update_first p f xs = Some ys \<Longrightarrow> \<exists>x. first_match p xs = Some x"
  by (induction xs arbitrary: ys) (auto split: if_splits)

lemma first_match_hit: "first_match p xs = Some x \<Longrightarrow> \<exists>ys. update_first p f xs = Some ys"
  by (induction xs) (auto split: if_splits)

lemma update_first_length: "update_first p f xs = Some ys \<Longrightarrow> length ys = length xs"
  by (induction xs arbitrary: ys) (auto split: if_splits)

lemma update_first_all:
  "update_first p f xs = Some ys \<Longrightarrow> (\<And>x. x \<in> set xs \<Longrightarrow> Q x) \<Longrightarrow> (\<And>x. p x \<Longrightarrow> Q x \<Longrightarrow> Q (f x)) \<Longrightarrow>
   y \<in> set ys \<Longrightarrow> Q y"
  by (induction xs arbitrary: ys) (auto split: if_splits)

lemma first_match_update_same:
  "update_first p f xs = Some ys \<Longrightarrow> (\<And>x. p x \<Longrightarrow> p (f x)) \<Longrightarrow>
   first_match p ys = map_option f (first_match p xs)"
  by (induction xs arbitrary: ys) (auto split: if_splits)

lemma first_match_update_other:
  "update_first p f xs = Some ys \<Longrightarrow> (\<And>x. p x \<Longrightarrow> \<not> q x \<and> \<not> q (f x)) \<Longrightarrow>
   first_match q ys = first_match q xs"
  by (induction xs arbitrary: ys) (auto split: if_splits)

lemma first_match_update_new:
  "update_first p f xs = Some ys \<Longrightarrow> (\<And>x. x \<in> set xs \<Longrightarrow> \<not> q x) \<Longrightarrow> (\<And>x. p x \<Longrightarrow> q (f x)) \<Longrightarrow>
   first_match q ys = map_option f (first_match p xs)"
  by (induction xs arbitrary: ys) (auto split: if_splits)

end
