(* ===== verification/NodeShm.thy ===== *)
theory NodeShm
  imports Prelude
begin

text \<open>
  The session-key cache in System V shared memory: \<open>SeckKeyNodeInfo.h\<close> (the slot layout),
  \<open>BaseShm.cpp\<close> (attach and detach) and \<open>SecKeyShm.cpp\<close> (the three operations). The segment
  is the list of its slots; whether \<open>shmget\<close>/\<open>shmat\<close> give an address is a flag of the state,
  as the kernel decides it. The theory proves the operations correct against a finite map from
  (client, server) to the cached key, and states what their users rely on as the locale
  \<open>key_cache\<close>.
\<close>

section \<open>Slots\<close>

record NodeSHMInfo =
  n_status :: int
  n_seckeyID :: int
  n_clientID :: string
  n_serverID :: string
  n_seckey :: string

definition node_new :: NodeSHMInfo where
  "node_new = \<lparr>n_status = 0, n_seckeyID = 0, n_clientID = replicate 12 NUL,
     n_serverID = replicate 12 NUL, n_seckey = replicate 128 NUL\<rparr>"

text \<open>The arrays keep their sizes, and each holds a terminated C string.\<close>

definition wf_node :: "NodeSHMInfo \<Rightarrow> bool" where
  "wf_node n \<longleftrightarrow> length (n_clientID n) = 12 \<and> length (n_serverID n) = 12 \<and>
     length (n_seckey n) = 128 \<and> NUL \<in> set (n_clientID n) \<and> NUL \<in> set (n_serverID n) \<and>
     NUL \<in> set (n_seckey n)"

text \<open>The test the callers use for a hit: both identifiers are non-empty C strings.\<close>

definition node_hit :: "NodeSHMInfo \<Rightarrow> bool" where
  "node_hit n \<longleftrightarrow> strlen (n_clientID n) \<noteq> 0 \<and> strlen (n_serverID n) \<noteq> 0"

definition node_matches :: "string \<Rightarrow> string \<Rightarrow> NodeSHMInfo \<Rightarrow> bool" where
  "node_matches c v n \<longleftrightarrow> streq (n_clientID n) c \<and> streq (n_serverID n) v"

lemma wf_node_new [simp]: "wf_node node_new"
  by (simp add: wf_node_def node_new_def)

lemma node_hit_new [simp]: "\<not> node_hit node_new"
  by (simp add: node_hit_def node_new_def)

lemma node_new_fields [simp]:
  "n_status node_new = 0" "n_seckeyID node_new = 0" "c_str (n_clientID node_new) = []"
  "c_str (n_serverID node_new) = []" "c_str (n_seckey node_new) = []"
  by (simp_all add: node_new_def)

lemma node_matches_new: "node_matches c v node_new \<longleftrightarrow> c_str c = [] \<and> c_str v = []"
  by (auto simp: node_matches_def streq_def)

lemma node_matches_self [simp]: "node_matches (n_clientID n) (n_serverID n) n"
  by (simp add: node_matches_def streq_def)

lemma node_matches_status [simp]: "node_matches c v (n\<lparr>n_status := st\<rparr>) = node_matches c v n"
  by (simp add: node_matches_def)

lemma node_matches_c_str: "node_matches c v n \<Longrightarrow> c_str (n_clientID n) = c_str c \<and> c_str (n_serverID n) = c_str v"
  by (simp add: node_matches_def streq_def)

lemma wf_node_status [wf_intros]: "wf_node n \<Longrightarrow> wf_node (n\<lparr>n_status := st\<rparr>)"
  by (simp add: wf_node_def)

lemma node_hit_iff: "node_hit n \<longleftrightarrow> c_str (n_clientID n) \<noteq> [] \<and> c_str (n_serverID n) \<noteq> []"
  by (simp add: node_hit_def)

section \<open>The segment and its operations\<close>

record SecKeyShm =
  shm_ok :: bool
  shm_nodes :: "NodeSHMInfo list"

text \<open>The constructor asks for \<open>m_maxNode * sizeof(NodeSHMInfo)\<close> bytes; a fresh segment is
  zero-filled. \<open>ok\<close> is the kernel's answer to \<open>shmget\<close> and \<open>shmat\<close>.\<close>

definition SecKeyShm_new :: "bool \<Rightarrow> nat \<Rightarrow> SecKeyShm" where
  "SecKeyShm_new ok maxNode = \<lparr>shm_ok = ok, shm_nodes = replicate maxNode node_new\<rparr>"

definition mapShm :: "SecKeyShm \<Rightarrow> NodeSHMInfo list option" where
  "mapShm s = (if shm_ok s then Some (shm_nodes s) else None)"

definition shmInit :: "SecKeyShm \<Rightarrow> SecKeyShm" where
  "shmInit s = s\<lparr>shm_nodes := map (\<lambda>_. node_new) (shm_nodes s)\<rparr>"

definition shmWrite :: "NodeSHMInfo \<Rightarrow> SecKeyShm \<Rightarrow> int \<times> SecKeyShm" where
  "shmWrite p s =
     (case mapShm s of
        None \<Rightarrow> (-1, s)
      | Some ns \<Rightarrow>
          (case update_first (node_matches (n_clientID p) (n_serverID p)) (\<lambda>_. p) ns of
             Some ns' \<Rightarrow> (0, s\<lparr>shm_nodes := ns'\<rparr>)
           | None \<Rightarrow>
               (case update_first (\<lambda>n. n = node_new) (\<lambda>_. p) ns of
                  Some ns' \<Rightarrow> (0, s\<lparr>shm_nodes := ns'\<rparr>)
                | None \<Rightarrow> (-1, s))))"

definition shmRead :: "string \<Rightarrow> string \<Rightarrow> SecKeyShm \<Rightarrow> NodeSHMInfo" where
  "shmRead c v s =
     (case mapShm s of
        None \<Rightarrow> node_new
      | Some ns \<Rightarrow>
          (case first_match (node_matches c v) ns of Some n \<Rightarrow> n | None \<Rightarrow> node_new))"

definition shmUpdateStatus :: "string \<Rightarrow> string \<Rightarrow> int \<Rightarrow> SecKeyShm \<Rightarrow> int \<times> SecKeyShm" where
  "shmUpdateStatus c v st s =
     (case mapShm s of
        None \<Rightarrow> (-1, s)
      | Some ns \<Rightarrow>
          (case update_first (node_matches c v) (\<lambda>n. n\<lparr>n_status := st\<rparr>) ns of
             Some ns' \<Rightarrow> (0, s\<lparr>shm_nodes := ns'\<rparr>)
           | None \<Rightarrow> (-1, s)))"

definition wf_shm :: "SecKeyShm \<Rightarrow> bool" where
  "wf_shm s \<longleftrightarrow> (\<forall>n \<in> set (shm_nodes s). wf_node n)"

lemmas shm_defs = mapShm_def shmWrite_def shmRead_def shmUpdateStatus_def

lemma wf_shm_new [wf_intros]: "wf_shm (SecKeyShm_new ok k)"
  by (simp add: wf_shm_def SecKeyShm_new_def)

lemma wf_shm_init [wf_intros]: "wf_shm (shmInit s)"
  by (simp add: wf_shm_def shmInit_def)

lemma wf_shm_write [wf_intros]:
  "wf_shm s \<Longrightarrow> wf_node p \<Longrightarrow> shmWrite p s = (r, s') \<Longrightarrow> wf_shm s'"
  unfolding shm_defs wf_shm_def
  by (auto split: if_splits option.splits elim!: update_first_all [where Q = wf_node])

lemma wf_shm_update [wf_intros]:
  "wf_shm s \<Longrightarrow> shmUpdateStatus c v st s = (r, s') \<Longrightarrow> wf_shm s'"
  unfolding shm_defs wf_shm_def
  by (auto split: if_splits option.splits elim!: update_first_all [where Q = wf_node] intro: wf_intros)

lemma wf_shmRead [wf_intros]: "wf_shm s \<Longrightarrow> wf_node (shmRead c v s)"
  unfolding shm_defs wf_shm_def
  by (auto split: if_splits option.splits dest: first_match_Some)

lemma shmWrite_frame [frame_simps]:
  "shmWrite p s = (r, s') \<Longrightarrow> shm_ok s' = shm_ok s \<and> length (shm_nodes s') = length (shm_nodes s)"
  unfolding shm_defs by (auto split: if_splits option.splits dest: update_first_length)

lemma shmUpdateStatus_frame [frame_simps]:
  "shmUpdateStatus c v st s = (r, s') \<Longrightarrow>
   shm_ok s' = shm_ok s \<and> length (shm_nodes s') = length (shm_nodes s)"
  unfolding shm_defs by (auto split: if_splits option.splits dest: update_first_length)

section \<open>Reading back\<close>

lemma first_match_fill_other:
  assumes "update_first (\<lambda>n. n = node_new) (\<lambda>_. p) ns = Some ns'"
    and "\<not> node_matches c v p" and "c_str c \<noteq> [] \<or> c_str v \<noteq> []"
  shows "first_match (node_matches c v) ns' = first_match (node_matches c v) ns"
proof (rule first_match_update_other [OF assms(1)])
  show "\<not> node_matches c v x \<and> \<not> node_matches c v p" if "x = node_new" for x
    using that assms(2,3) by (auto simp: node_matches_new)
qed

lemma shmRead_write_same:
  assumes "shmWrite p s = (0, s')"
  shows "shmRead (n_clientID p) (n_serverID p) s' = p"
proof -
  let ?m = "node_matches (n_clientID p) (n_serverID p)"
  from assms have ok: "shm_ok s" by (auto simp: shm_defs split: if_splits)
  show ?thesis
  proof (cases "update_first ?m (\<lambda>_. p) (shm_nodes s)")
    case (Some ns')
    then have "first_match ?m ns' = map_option (\<lambda>_. p) (first_match ?m (shm_nodes s))"
      by (rule first_match_update_same) simp
    with update_first_hit [OF Some] assms ok Some show ?thesis by (auto simp: shm_defs)
  next
    case None
    with assms ok obtain ns' where ns': "update_first (\<lambda>n. n = node_new) (\<lambda>_. p) (shm_nodes s) = Some ns'"
      and s': "s' = s\<lparr>shm_nodes := ns'\<rparr>"
      by (auto simp: shm_defs split: option.splits)
    have "first_match ?m ns' = map_option (\<lambda>_. p) (first_match (\<lambda>n. n = node_new) (shm_nodes s))"
      using ns' None by (intro first_match_update_new) (auto simp: update_first_None)
    with update_first_hit [OF ns'] ok s' show ?thesis by (auto simp: shm_defs)
  qed
qed

lemma shmRead_write_other:
  assumes "shmWrite p s = (r, s')" and "\<not> node_matches c v p" and "c_str c \<noteq> [] \<or> c_str v \<noteq> []"
  shows "shmRead c v s' = shmRead c v s"
proof -
  have other: "\<not> node_matches c v x \<and> \<not> node_matches c v p"
    if "node_matches (n_clientID p) (n_serverID p) x" for x
    using that assms(2) by (auto simp: node_matches_def streq_def)
  have fill: "first_match (node_matches c v) ns' = first_match (node_matches c v) (shm_nodes s)"
    if "update_first (\<lambda>n. n = node_new) (\<lambda>_. p) (shm_nodes s) = Some ns'" for ns'
    using that assms(2,3) by (rule first_match_fill_other)
  have over: "first_match (node_matches c v) ns' = first_match (node_matches c v) (shm_nodes s)"
    if "update_first (node_matches (n_clientID p) (n_serverID p)) (\<lambda>_. p) (shm_nodes s) = Some ns'" for ns'
    using that other by (rule first_match_update_other)
  from assms(1) show ?thesis unfolding shm_defs
    by (auto split: if_splits option.splits dest: fill over)
qed

lemma shmWrite_fail: "shmWrite p s = (r, s') \<Longrightarrow> r \<noteq> 0 \<Longrightarrow> s' = s"
  unfolding shm_defs by (auto split: if_splits option.splits)

lemma shmRead_update_same:
  assumes "shmUpdateStatus c v st s = (0, s')"
  shows "shmRead c v s' = (shmRead c v s)\<lparr>n_status := st\<rparr>"
proof -
  let ?f = "\<lambda>n. n\<lparr>n_status := st\<rparr>"
  from assms obtain ns' where ns': "update_first (node_matches c v) ?f (shm_nodes s) = Some ns'"
    and ok: "shm_ok s" and s': "s' = s\<lparr>shm_nodes := ns'\<rparr>"
    by (auto simp: shm_defs split: if_splits option.splits)
  from ns' have "first_match (node_matches c v) ns' = map_option ?f (first_match (node_matches c v) (shm_nodes s))"
    by (rule first_match_update_same) simp
  with update_first_hit [OF ns'] ok s' show ?thesis by (auto simp: shm_defs)
qed

lemma shmRead_update_other:
  assumes "shmUpdateStatus c v st s = (r, s')" and "c_str d \<noteq> c_str c \<or> c_str w \<noteq> c_str v"
  shows "shmRead d w s' = shmRead d w s"
proof -
  have "node_matches c v n \<Longrightarrow> \<not> node_matches d w n" for n
    using assms(2) by (auto simp: node_matches_def streq_def)
  with assms(1) show ?thesis unfolding shm_defs
    by (auto split: if_splits option.splits
        dest!: first_match_update_other [where q = "node_matches d w"])
qed

lemma shmUpdateStatus_fail: "shmUpdateStatus c v st s = (r, s') \<Longrightarrow> r \<noteq> 0 \<Longrightarrow> s' = s"
  unfolding shm_defs by (auto split: if_splits option.splits)

lemma shmUpdateStatus_hit:
  "node_hit (shmRead c v s) \<Longrightarrow> fst (shmUpdateStatus c v st s) = 0"
  unfolding shm_defs
  by (auto split: if_splits option.splits simp: update_first_None dest: first_match_Some)

lemma shmRead_key:
  "node_hit (shmRead c v s) \<Longrightarrow> c_str (n_clientID (shmRead c v s)) = c_str c \<and>
   c_str (n_serverID (shmRead c v s)) = c_str v"
  unfolding shm_defs
  by (auto split: if_splits option.splits dest!: first_match_Some node_matches_c_str)

lemma node_matches_cong:
  "c_str c = c_str d \<Longrightarrow> c_str v = c_str w \<Longrightarrow> node_matches c v = node_matches d w"
  by (rule ext) (simp add: node_matches_def streq_def)

lemma shmRead_c_str: "c_str c = c_str d \<Longrightarrow> c_str v = c_str w \<Longrightarrow> shmRead c v s = shmRead d w s"
  by (simp add: shmRead_def node_matches_cong [of c d v w] split: option.split)

section \<open>The interface its users rely on\<close>

text \<open>
  \<open>ServerOP\<close>, \<open>MessageService\<close>, \<open>ClientOP\<close> and \<open>MessageClient\<close> use the cache through three
  calls. The locale states what they rely on: a successful write is read back, other keys are not
  disturbed, a status update changes only the status of its own key, and a call that reports
  failure changes nothing.
\<close>

locale key_cache =
  fixes cput :: "NodeSHMInfo \<Rightarrow> 's \<Rightarrow> int \<times> 's"
    and cget :: "string \<Rightarrow> string \<Rightarrow> 's \<Rightarrow> NodeSHMInfo"
    and cset :: "string \<Rightarrow> string \<Rightarrow> int \<Rightarrow> 's \<Rightarrow> int \<times> 's"
    and invar :: "'s \<Rightarrow> bool"
  assumes get_write: "cput p s = (0, s') \<Longrightarrow> cget (n_clientID p) (n_serverID p) s' = p"
    and get_write_other: "cput p s = (r, s') \<Longrightarrow> \<not> node_matches c v p \<Longrightarrow>
      c_str c \<noteq> [] \<or> c_str v \<noteq> [] \<Longrightarrow> cget c v s' = cget c v s"
    and write_fail: "cput p s = (r, s') \<Longrightarrow> r \<noteq> 0 \<Longrightarrow> s' = s"
    and get_update: "cset c v st s = (0, s') \<Longrightarrow> cget c v s' = (cget c v s)\<lparr>n_status := st\<rparr>"
    and get_update_other: "cset c v st s = (r, s') \<Longrightarrow> c_str d \<noteq> c_str c \<or> c_str w \<noteq> c_str v \<Longrightarrow>
      cget d w s' = cget d w s"
    and update_fail: "cset c v st s = (r, s') \<Longrightarrow> r \<noteq> 0 \<Longrightarrow> s' = s"
    and update_hit: "node_hit (cget c v s) \<Longrightarrow> fst (cset c v st s) = 0"
    and get_key: "node_hit (cget c v s) \<Longrightarrow> c_str (n_clientID (cget c v s)) = c_str c \<and>
      c_str (n_serverID (cget c v s)) = c_str v"
    and get_cong: "c_str c = c_str d \<Longrightarrow> c_str v = c_str w \<Longrightarrow> cget c v s = cget d w s"
    and invar_write: "invar s \<Longrightarrow> wf_node p \<Longrightarrow> cput p s = (r, s') \<Longrightarrow> invar s'"
    and invar_update: "invar s \<Longrightarrow> cset c v st s = (r, s') \<Longrightarrow> invar s'"
    and invar_read: "invar s \<Longrightarrow> wf_node (cget c v s)"
begin

text \<open>The cache as a finite map: what a hit shows.\<close>

lemma hit_key_nonempty: "node_hit (cget c v s) \<Longrightarrow> c_str c \<noteq> [] \<and> c_str v \<noteq> []"
  by (frule get_key) (simp add: node_hit_iff)

lemma write_lookup:
  assumes "cput p s = (0, s')" and "node_hit p"
  shows "(node_hit (cget c v s') \<and> cget c v s' = n) \<longleftrightarrow>
     (if node_matches c v p then n = p else node_hit (cget c v s) \<and> cget c v s = n)"
proof (cases "node_matches c v p")
  case True
  then have "cget c v s' = cget (n_clientID p) (n_serverID p) s'"
    by (intro get_cong) (auto dest: node_matches_c_str)
  then have got: "cget c v s' = p" by (simp only: get_write [OF assms(1)])
  show ?thesis unfolding got using True assms(2) by (simp add: eq_commute)
next
  case False
  show ?thesis
  proof (cases "c_str c \<noteq> [] \<or> c_str v \<noteq> []")
    case True
    with False get_write_other [OF assms(1)] show ?thesis by simp
  next
    case Empty: False
    then have "\<not> node_hit (cget c v s')" "\<not> node_hit (cget c v s)"
      using hit_key_nonempty by blast+
    with False show ?thesis by simp
  qed
qed

lemma update_lookup:
  assumes "cset c v st s = (0, s')"
  shows "cget d w s' = (if c_str d = c_str c \<and> c_str w = c_str v
     then (cget d w s)\<lparr>n_status := st\<rparr> else cget d w s)"
proof (cases "c_str d = c_str c \<and> c_str w = c_str v")
  case True
  then have "cget d w t = cget c v t" for t by (intro get_cong) auto
  with True get_update [OF assms] show ?thesis by simp
next
  case False
  then show ?thesis using get_update_other [OF assms] by auto
qed

text \<open>Invalidating a key never makes any key usable, whether the call succeeds or not.\<close>

lemma invalidate_never_activates:
  assumes "cset c v 0 s = (r, s')" and "n_status (cget d w s') = 1"
  shows "n_status (cget d w s) = 1 \<and> cget d w s' = cget d w s"
proof (cases "r = 0")
  case True
  with assms update_lookup [of c v 0 s s' d w] show ?thesis by (auto split: if_splits)
next
  case False
  with assms update_fail show ?thesis by blast
qed

lemma invalidate_hit:
  assumes "node_hit (cget c v s)" and "cset c v 0 s = (r, s')"
  shows "r = 0 \<and> n_status (cget c v s') = 0"
proof -
  from update_hit [OF assms(1), of 0] assms(2) have "r = 0" by simp
  with assms(2) get_update [of c v 0 s s'] show ?thesis by simp
qed

end

interpretation shm: key_cache shmWrite shmRead shmUpdateStatus wf_shm
proof (unfold_locales, goal_cases)
  case 1 then show ?case by (rule shmRead_write_same)
next
  case 2 then show ?case by (rule shmRead_write_other)
next
  case 3 then show ?case by (rule shmWrite_fail)
next
  case 4 then show ?case by (rule shmRead_update_same)
next
  case 5 then show ?case by (rule shmRead_update_other)
next
  case 6 then show ?case by (rule shmUpdateStatus_fail)
next
  case 7 then show ?case by (rule shmUpdateStatus_hit)
next
  case 8 then show ?case by (rule shmRead_key)
next
  case 9 then show ?case by (rule shmRead_c_str)
next
  case 10 then show ?case by (rule wf_shm_write)
next
  case 11 then show ?case by (rule wf_shm_update)
next
  case 12 then show ?case by (rule wf_shmRead)
qed

section \<open>Properties\<close>

text \<open>A small cached key and a segment of two slots holding it, for concrete runs.\<close>

definition demo_cached :: NodeSHMInfo where
  "demo_cached = node_new\<lparr>n_status := 1, n_seckeyID := 7,
     n_clientID := ''al'' @ replicate 10 NUL, n_serverID := ''sv'' @ replicate 10 NUL\<rparr>"

definition demo_segment :: SecKeyShm where
  "demo_segment = \<lparr>shm_ok = True, shm_nodes = [demo_cached, node_new]\<rparr>"

lemma demo_cached_hit: "node_hit demo_cached"
  by code_simp

definition cache_lookup :: "string \<Rightarrow> string \<Rightarrow> SecKeyShm \<Rightarrow> NodeSHMInfo option" where
  "cache_lookup c v s = (let n = shmRead c v s in if node_hit n then Some n else None)"

text \<open>C40. The segment refines a finite map from (client, server) to the cached key: a write that
  reports success stores the node under its own key and leaves every other key as it was, and one
  that reports failure changes nothing.\<close>

theorem shmWrite_refines_map:
  assumes "node_hit p"
  shows "(case shmWrite p s of (r, s') \<Rightarrow>
      (r = 0 \<longrightarrow> cache_lookup c v s' = (if node_matches c v p then Some p else cache_lookup c v s)) \<and>
      (r \<noteq> 0 \<longrightarrow> s' = s))"
proof -
  obtain r s' where w: "shmWrite p s = (r, s')" by (cases "shmWrite p s")
  have "cache_lookup c v s' = (if node_matches c v p then Some p else cache_lookup c v s)" if "r = 0"
  proof -
    from w that have w0: "shmWrite p s = (0, s')" by simp
    have "(cache_lookup c v s' = Some n) = ((if node_matches c v p then Some p else cache_lookup c v s) = Some n)"
      for n using shm.write_lookup [OF w0 assms, of c v n] by (auto simp: cache_lookup_def Let_def)
    then show ?thesis by (metis not_Some_eq)
  qed
  with w shmWrite_fail [OF w] show ?thesis by simp
qed

theorem shmWrite_refines_map_witness:
  "fst (shmWrite demo_cached demo_segment) = 0 \<and>
   (case shmWrite demo_cached demo_segment of (r, s') \<Rightarrow>
      (r = 0 \<longrightarrow> cache_lookup ''al'' ''sv'' s' =
        (if node_matches ''al'' ''sv'' demo_cached then Some demo_cached
         else cache_lookup ''al'' ''sv'' demo_segment)) \<and>
      (r \<noteq> 0 \<longrightarrow> s' = demo_segment))"
proof
  show "fst (shmWrite demo_cached demo_segment) = 0" by code_simp
qed (rule shmWrite_refines_map [OF demo_cached_hit])

text \<open>Capacity: a write succeeds exactly when the segment is attached and the key is already
  cached or a zeroed slot is left; the number of slots never changes.\<close>

theorem shmWrite_capacity:
  assumes "node_hit p"
  shows "(fst (shmWrite p s) = 0 \<longleftrightarrow>
      shm_ok s \<and> (cache_lookup (n_clientID p) (n_serverID p) s \<noteq> None \<or> node_new \<in> set (shm_nodes s)))
    \<and> length (shm_nodes (snd (shmWrite p s))) = length (shm_nodes s)"
proof -
  have hit: "node_hit n" if "node_matches (n_clientID p) (n_serverID p) n" for n
    using that assms by (auto simp: node_hit_iff dest: node_matches_c_str)
  have "(fst (shmWrite p s) = 0) = (shm_ok s \<and>
      ((\<exists>n \<in> set (shm_nodes s). node_matches (n_clientID p) (n_serverID p) n) \<or> node_new \<in> set (shm_nodes s)))"
    unfolding shm_defs by (auto split: option.splits simp: update_first_None dest!: update_first_hit dest: first_match_Some)
  moreover have "(cache_lookup (n_clientID p) (n_serverID p) s \<noteq> None) =
      (\<exists>n \<in> set (shm_nodes s). node_matches (n_clientID p) (n_serverID p) n)" if "shm_ok s"
    using that hit unfolding cache_lookup_def shm_defs Let_def
    by (auto split: option.splits simp: first_match_None dest: first_match_Some)
  moreover have "length (shm_nodes (snd (shmWrite p s))) = length (shm_nodes s)"
    using shmWrite_frame [of p s] by (cases "shmWrite p s") auto
  ultimately show ?thesis by auto
qed

theorem shmWrite_capacity_witness:
  "(fst (shmWrite demo_cached demo_segment) = 0) =
     (shm_ok demo_segment \<and>
      (cache_lookup (n_clientID demo_cached) (n_serverID demo_cached) demo_segment \<noteq> None \<or>
       node_new \<in> set (shm_nodes demo_segment)))"
  using shmWrite_capacity [OF demo_cached_hit] by blast

text \<open>Invalidating a cached key (status 0) only ever takes keys out of use: whatever the call
  returns, a key that reads as usable afterwards was usable before and is unchanged.\<close>

theorem shmUpdateStatus_never_activates:
  assumes "shmUpdateStatus c v 0 s = (r, s')" and "n_status (shmRead d w s') = 1"
  shows "n_status (shmRead d w s) = 1 \<and> shmRead d w s' = shmRead d w s"
  by (rule shm.invalidate_never_activates [OF assms])

theorem shmUpdateStatus_never_activates_witness:
  "\<exists>r s'. shmUpdateStatus ''bo'' ''sv'' 0 demo_segment = (r, s') \<and>
     n_status (shmRead ''al'' ''sv'' s') = 1 \<and> n_status (shmRead ''al'' ''sv'' demo_segment) = 1 \<and>
     shmRead ''al'' ''sv'' s' = shmRead ''al'' ''sv'' demo_segment"
proof -
  obtain r s' where run: "shmUpdateStatus ''bo'' ''sv'' 0 demo_segment = (r, s')"
    by (cases "shmUpdateStatus ''bo'' ''sv'' 0 demo_segment")
  have "n_status (shmRead ''al'' ''sv'' (snd (shmUpdateStatus ''bo'' ''sv'' 0 demo_segment))) = 1"
    by code_simp
  with run have st: "n_status (shmRead ''al'' ''sv'' s') = 1" by simp
  from shmUpdateStatus_never_activates [OF run st] run st show ?thesis by blast
qed

end
