(* ===== verification/DateTime.thy ===== *)
theory DateTime
  imports Prelude
begin

text \<open>
  Time stamps as text. \<open>mysqlOP::getCurTime\<close> prints the local time with the \<open>strftime\<close> format
  \<open>%Y-%m-%d %H:%M:%S\<close>; \<open>MessageQueryService::parseDateTimeToTimestamp\<close> reads a database
  \<open>DATETIME\<close> back with \<open>std::get_time\<close> and the same format. The time-zone data base behind
  \<open>localtime\<close> and \<open>mktime\<close> is a parameter (\<open>External\<close>); the two formatting routines are
  modelled here and shown to be inverse on calendar values.
\<close>

record tm =
  tm_year :: nat
  tm_mon :: nat
  tm_mday :: nat
  tm_hour :: nat
  tm_min :: nat
  tm_sec :: nat

text \<open>\<open>tm_year\<close> is the year itself and \<open>tm_mon\<close> counts from 1: the offsets 1900 and 1 of the
  C structure are added by \<open>%Y\<close> and \<open>%m\<close> when printing and subtracted when reading.\<close>

definition pad2 :: "nat \<Rightarrow> string" where
  "pad2 n = [digit_char (n div 10 mod 10), digit_char (n mod 10)]"

definition pad4 :: "nat \<Rightarrow> string" where
  "pad4 n = [digit_char (n div 1000 mod 10), digit_char (n div 100 mod 10),
     digit_char (n div 10 mod 10), digit_char (n mod 10)]"

definition strftime_dt :: "tm \<Rightarrow> string" where
  "strftime_dt t = pad4 (tm_year t) @ ''-'' @ pad2 (tm_mon t) @ ''-'' @ pad2 (tm_mday t) @ '' '' @
     pad2 (tm_hour t) @ '':'' @ pad2 (tm_min t) @ '':'' @ pad2 (tm_sec t)"

text \<open>One numeric conversion of \<open>get_time\<close>: \<open>len\<close> digits whose value lies in the range; and one
  ordinary character of the format.\<close>

definition get_num :: "nat \<Rightarrow> int \<Rightarrow> int \<Rightarrow> string \<Rightarrow> (nat \<times> string) option" where
  "get_num len lo hi s =
     (let ds = take len s; v = read_digits 0 ds in
      if length ds = len \<and> list_all is_digit ds \<and> lo \<le> v \<and> v \<le> hi then Some (nat v, drop len s) else None)"

fun get_lit :: "char \<Rightarrow> string \<Rightarrow> string option" where
  "get_lit c [] = None"
| "get_lit c (x # xs) = (if x = c then Some xs else None)"

definition get_time :: "string \<Rightarrow> tm option" where
  "get_time s = do {
     (y, s) \<leftarrow> get_num 4 0 9999 s;
     s \<leftarrow> get_lit CHR ''-'' s;
     (mo, s) \<leftarrow> get_num 2 1 12 s;
     s \<leftarrow> get_lit CHR ''-'' s;
     (d, s) \<leftarrow> get_num 2 1 31 s;
     (h, s) \<leftarrow> get_num 2 0 23 (dropWhile is_space s);
     s \<leftarrow> get_lit CHR '':'' s;
     (mi, s) \<leftarrow> get_num 2 0 59 s;
     s \<leftarrow> get_lit CHR '':'' s;
     (se, s) \<leftarrow> get_num 2 0 60 s;
     Some \<lparr>tm_year = y, tm_mon = mo, tm_mday = d, tm_hour = h, tm_min = mi, tm_sec = se\<rparr>
   }"

definition tm_ok :: "tm \<Rightarrow> bool" where
  "tm_ok t \<longleftrightarrow> tm_year t \<le> 9999 \<and> 1 \<le> tm_mon t \<and> tm_mon t \<le> 12 \<and> 1 \<le> tm_mday t \<and> tm_mday t \<le> 31 \<and>
     tm_hour t \<le> 23 \<and> tm_min t \<le> 59 \<and> tm_sec t \<le> 60"

lemma digits_value2:
  assumes "n \<le> 99"
  shows "10 * (n div 10 mod 10) + n mod 10 = (n::nat)"
proof -
  have "n div 10 mod 10 = n div 10" using assms by simp
  then show ?thesis by simp
qed

lemma digits_value4:
  assumes "n \<le> 9999"
  shows "1000 * (n div 1000 mod 10) + 100 * (n div 100 mod 10) + 10 * (n div 10 mod 10) + n mod 10 = (n::nat)"
proof -
  have a: "n = 10 * (n div 10) + n mod 10" by simp
  have b: "n div 10 = 10 * (n div 100) + n div 10 mod 10"
    using mult_div_mod_eq [of 10 "n div 10"] by (simp add: div_mult2_eq [symmetric])
  have c: "n div 100 = 10 * (n div 1000) + n div 100 mod 10"
    using mult_div_mod_eq [of 10 "n div 100"] by (simp add: div_mult2_eq [symmetric])
  have "n div 1000 mod 10 = n div 1000" using assms by simp
  with a b c show ?thesis by linarith
qed

lemma pad_shape [simp]:
  "length (pad2 n) = 2" "length (pad4 n) = 4" "list_all is_digit (pad2 n)" "list_all is_digit (pad4 n)"
  by (simp_all add: pad2_def pad4_def)

lemma get_num_pad2: "lo \<le> int n \<Longrightarrow> int n \<le> hi \<Longrightarrow> n \<le> 99 \<Longrightarrow> get_num 2 lo hi (pad2 n @ s) = Some (n, s)"
proof -
  assume a: "lo \<le> int n" "int n \<le> hi" "n \<le> 99"
  have "read_digits 0 (pad2 n) = int (10 * (n div 10 mod 10) + n mod 10)"
    by (simp add: pad2_def)
  with a digits_value2 have "read_digits 0 (pad2 n) = int n" by simp
  with a show ?thesis by (simp add: get_num_def Let_def)
qed

lemma get_num_pad4: "n \<le> 9999 \<Longrightarrow> get_num 4 0 9999 (pad4 n @ s) = Some (n, s)"
proof -
  assume a: "n \<le> 9999"
  have "read_digits 0 (pad4 n) = int (1000 * (n div 1000 mod 10) + 100 * (n div 100 mod 10)
      + 10 * (n div 10 mod 10) + n mod 10)"
    by (simp add: pad4_def)
  with digits_value4 [OF a] have "read_digits 0 (pad4 n) = int n" by (simp only:)
  with a show ?thesis by (simp add: get_num_def Let_def)
qed

lemma dropWhile_space_pad2: "dropWhile is_space ('' '' @ pad2 n @ s) = pad2 n @ s"
proof -
  have "\<not> is_space (digit_char (n div 10 mod 10))" using digit_not_special is_digit_digit_char by simp
  moreover have "is_space CHR '' ''" by (simp add: is_space_def)
  ultimately show ?thesis by (simp add: pad2_def)
qed

text \<open>Reading a printed time stamp gives back the calendar value: \<open>get_time\<close> accepts every
  string \<open>getCurTime\<close> can produce and the round trip is exact.\<close>

theorem get_time_strftime:
  assumes "tm_ok t"
  shows "get_time (strftime_dt t) = Some t"
proof -
  from assms have r: "tm_year t \<le> 9999" "1 \<le> tm_mon t" "tm_mon t \<le> 12" "1 \<le> tm_mday t" "tm_mday t \<le> 31"
    "tm_hour t \<le> 23" "tm_min t \<le> 59" "tm_sec t \<le> 60"
    by (simp_all add: tm_ok_def)
  have sec: "get_num 2 0 60 (pad2 (tm_sec t)) = Some (tm_sec t, [])"
    using get_num_pad2 [of 0 "tm_sec t" 60 "[]"] r by simp
  show ?thesis
    unfolding get_time_def strftime_dt_def
    using r by (simp add: get_num_pad4 get_num_pad2 sec dropWhile_space_pad2 [simplified])
qed

theorem get_time_strftime_witness:
  "get_time ''2026-09-02 12:00:00'' =
     Some \<lparr>tm_year = 2026, tm_mon = 9, tm_mday = 2, tm_hour = 12, tm_min = 0, tm_sec = 0\<rparr>"
proof -
  let ?t = "\<lparr>tm_year = 2026, tm_mon = 9, tm_mday = 2, tm_hour = 12, tm_min = 0, tm_sec = 0\<rparr>"
  have "strftime_dt ?t = ''2026-09-02 12:00:00''"
    by code_simp
  with get_time_strftime [of ?t] show ?thesis by (simp add: tm_ok_def)
qed

end
