(* ===== verification/External.thy ===== *)
theory External
  imports NodeShm DateTime
begin

text \<open>
  The tables of \<open>scripts/init_db.sql\<close> and everything the code calls that is not under \<open>src/\<close>:
  the MySQL server, OpenSSL, the clocks, the random generator, the file system and the time-zone
  data base. Each is a field of the record \<open>env\<close>, an argument of every definition that uses it;
  nothing about these fields is fixed. Calls that can fail or differ from one use to the next take
  the number of the call (\<open>nat\<close>), so that every pattern of failures and of clock readings is an
  instance.
\<close>

section \<open>Rows of the four tables\<close>

record key_row =
  kr_client :: string
  kr_server :: string
  kr_keyid :: int
  kr_create :: int
  kr_expire :: int
  kr_invalid :: "int option"
  kr_state :: int
  kr_seckey :: string
  kr_rotated_from :: "int option"

record MessageLogRecord =
  ml_msgId :: string
  ml_senderId :: string
  ml_receiverId :: string
  ml_senderKeyId :: int
  ml_receiverKeyId :: int
  ml_msgType :: string
  ml_senderCiphertext :: string
  ml_senderNonce :: string
  ml_senderTag :: string
  ml_receiverCiphertext :: string
  ml_receiverNonce :: string
  ml_receiverTag :: string
  ml_algorithm :: string
  ml_sendTime :: string
  ml_status :: int

text \<open>\<open>node_id\<close> of \<open>audit_log\<close> may be \<open>NULL\<close>.\<close>

record audit_row =
  ar_logId :: string
  ar_nodeId :: "string option"
  ar_action :: string
  ar_targetId :: string
  ar_result :: int
  ar_detail :: string
  ar_createTime :: string

record tables =
  t_keysn :: "int list"
  t_keys :: "key_row list"
  t_messages :: "MessageLogRecord list"
  t_audit :: "audit_row list"

section \<open>The environment\<close>

text \<open>The fate of one statement sent to the database: executed and answered; refused, with no
  effect; or executed with the answer lost, so that the client sees an error.\<close>

datatype sql_fate = Answered | Refused | Lost

datatype HashType = T_MD5 | T_SHA1 | T_SHA224 | T_SHA256 | T_SHA384 | T_SHA512

record env =
  \<comment> \<open>MySQL: fate of statement \<open>k\<close>, whether result set \<open>k\<close> can be stored, \<open>now()\<close> at statement
      \<open>k\<close>, the sort key of the column collation, and the order of \<open>order by send_time desc\<close>\<close>
  e_sql :: "nat \<Rightarrow> sql_fate"
  e_store :: "nat \<Rightarrow> bool"
  e_dbnow :: "nat \<Rightarrow> int"
  e_coll :: "string \<Rightarrow> string"
  e_datetime :: "string \<Rightarrow> int"
  e_order :: "MessageLogRecord list \<Rightarrow> MessageLogRecord list"
  \<comment> \<open>the clocks of the process, and the time-zone data base\<close>
  e_time :: "nat \<Rightarrow> int"
  e_micros :: "nat \<Rightarrow> nat"
  e_localtime :: "int \<Rightarrow> tm"
  e_mktime :: "tm \<Rightarrow> int"
  \<comment> \<open>OpenSSL: \<open>RAND_bytes\<close> (answer and bytes), whether fallible call \<open>k\<close> returns 1, AES-GCM,
      base 64 BIOs (\<open>BIO_read\<close> gives its return value and the buffer), digests, RSA\<close>
  e_rand :: "nat \<Rightarrow> nat \<Rightarrow> int \<times> string"
  e_ssl :: "nat \<Rightarrow> bool"
  e_gcm_enc :: "string \<Rightarrow> string \<Rightarrow> string \<Rightarrow> string \<times> string"
  e_gcm_dec :: "string \<Rightarrow> string \<Rightarrow> string \<Rightarrow> string \<Rightarrow> string option"
  e_b64_enc :: "string \<Rightarrow> string"
  e_b64_read :: "string \<Rightarrow> int \<times> string"
  e_digest :: "HashType \<Rightarrow> string \<Rightarrow> string"
  \<comment> \<open>RSA: reading a PEM file (contents, or none; \<^const>\<open>None\<close>: the call does not return), the key object
      is none where nothing was read into it; verification, encryption, signature, decryption\<close>
  e_pem_public :: "string option \<Rightarrow> string option option"
  e_pem_private :: "string option \<Rightarrow> string option option"
  e_rsa_verify :: "string option \<Rightarrow> string \<Rightarrow> string \<Rightarrow> bool option"
  e_rsa_encrypt :: "nat \<Rightarrow> string option \<Rightarrow> string \<Rightarrow> string option option"
  e_rsa_sign :: "nat \<Rightarrow> string option \<Rightarrow> string \<Rightarrow> string option option"
  e_rsa_decrypt :: "nat \<Rightarrow> string option \<Rightarrow> string \<Rightarrow> string option option"
  \<comment> \<open>what a file holds after text was written to it, and a freshly generated key pair with its PEM texts\<close>
  e_fwrite :: "nat \<Rightarrow> string option \<Rightarrow> string \<Rightarrow> string option"
  e_pem_text :: "string \<Rightarrow> string"
  e_keygen :: "nat \<Rightarrow> string \<times> string"

section \<open>What is known of the environment where a property needs it\<close>

text \<open>Base 64 decoding undoes encoding, and encoded text has no \<open>NUL\<close>.\<close>

definition base64_ok :: "env \<Rightarrow> bool" where
  "base64_ok env \<longleftrightarrow> (\<forall>x. x \<noteq> [] \<longrightarrow> e_b64_read env (e_b64_enc env x) = (int (length x), x)) \<and>
     (\<forall>x. NUL \<notin> set (e_b64_enc env x))"

text \<open>AES-GCM: decryption with the key, nonce and tag of an encryption gives the plaintext back.\<close>

definition gcm_ok :: "env \<Rightarrow> bool" where
  "gcm_ok env \<longleftrightarrow> (\<forall>k n p. e_gcm_dec env k n (fst (e_gcm_enc env k n p)) (snd (e_gcm_enc env k n p)) = Some p)"

text \<open>\<open>RAND_bytes\<close> fills the whole buffer.\<close>

definition rand_ok :: "env \<Rightarrow> bool" where
  "rand_ok env \<longleftrightarrow> (\<forall>k n. length (snd (e_rand env k n)) = n)"

text \<open>The documented meaning of \<open>order by send_time desc\<close>: a permutation of the rows in which
  later time stamps come first; rows of one time stamp are in an order the engine chooses.
  \<open>DATETIME\<close> texts of one length are compared as the engine compares the dates.\<close>

fun text_le :: "string \<Rightarrow> string \<Rightarrow> bool" where
  "text_le [] ys = True"
| "text_le (x # xs) [] = False"
| "text_le (x # xs) (y # ys) =
     ((of_char x :: nat) < of_char y \<or> x = y \<and> text_le xs ys)"

definition order_ok :: "env \<Rightarrow> bool" where
  "order_ok env \<longleftrightarrow> (\<forall>xs. set (e_order env xs) = set xs \<and> length (e_order env xs) = length xs \<and>
     (distinct xs \<longrightarrow> distinct (e_order env xs)) \<and>
     sorted_wrt (\<lambda>a b. text_le (ml_sendTime b) (ml_sendTime a)) (e_order env xs))"

end
