(* ===== verification/Database.thy ===== *)
theory Database
  imports External
begin

text \<open>
  The database as \<open>mysqlOP\<close> uses it: the statements it sends (one constructor per SQL text of
  \<open>mysqlOP.cpp\<close>, with the values it puts into the text), their effect on the tables, and one
  connection with its transaction. The values of a statement are the literals after MySQL has read
  them; escaping (\<open>escapeSqlString\<close>, that is \<open>mysql_real_escape_string\<close>) and the parsing of the
  text are the client library's and the server's. Text columns are compared through the sort key
  of their collation, a parameter.
\<close>

section \<open>Key states\<close>

datatype KeyLifecycleState = Active | Revoked | Expired | Rotated

fun state_code :: "KeyLifecycleState \<Rightarrow> int" where
  "state_code Active = 1"
| "state_code Revoked = 2"
| "state_code Expired = 3"
| "state_code Rotated = 4"

definition KEY_DEFAULT_VALIDITY_HOURS :: int where
  "KEY_DEFAULT_VALIDITY_HOURS = 24"

text \<open>The order in which a key may change state: only away from \<open>Active\<close>.\<close>

instantiation KeyLifecycleState :: order
begin

definition less_eq_KeyLifecycleState :: "KeyLifecycleState \<Rightarrow> KeyLifecycleState \<Rightarrow> bool" where
  "less_eq_KeyLifecycleState a b \<longleftrightarrow> a = b \<or> a = Active"

definition less_KeyLifecycleState :: "KeyLifecycleState \<Rightarrow> KeyLifecycleState \<Rightarrow> bool" where
  "less_KeyLifecycleState a b \<longleftrightarrow> a = Active \<and> b \<noteq> Active"

instance
  by standard (auto simp: less_eq_KeyLifecycleState_def less_KeyLifecycleState_def)

end

lemma Active_le [simp]: "Active \<le> s"
  by (simp add: less_eq_KeyLifecycleState_def)

lemma state_code_inject [simp]: "state_code a = state_code b \<longleftrightarrow> a = b"
  by (cases a; cases b) auto

section \<open>Statements\<close>

datatype sql =
    StartTransaction
  | Rollback
  | Commit
  | SelectKeysn
  | BumpKeysn
  | SelectActiveKeys string string
  | RotateActiveKeys string string
  | InsertKeyAt string string int string string
  | InsertKey string string int string "int option"
  | ExpireKey string string int
  | SelectKeyState string string int
  | RevokeKey string string int
  | InsertMessage MessageLogRecord
  | InsertAudit audit_row
  | SelectMessageById string
  | SelectRecentBySender string int

text \<open>A result set is a list of rows of columns as C strings, \<^const>\<open>None\<close> for \<open>NULL\<close>.\<close>

type_synonym sql_rows = "string option list list"

definition same_text :: "env \<Rightarrow> string \<Rightarrow> string \<Rightarrow> bool" where
  "same_text env a b \<longleftrightarrow> e_coll env a = e_coll env b"

definition key_pair_is :: "env \<Rightarrow> string \<Rightarrow> string \<Rightarrow> key_row \<Rightarrow> bool" where
  "key_pair_is env c v r \<longleftrightarrow> same_text env (kr_client r) c \<and> same_text env (kr_server r) v"

definition key_is :: "env \<Rightarrow> string \<Rightarrow> string \<Rightarrow> int \<Rightarrow> key_row \<Rightarrow> bool" where
  "key_is env c v k r \<longleftrightarrow> key_pair_is env c v r \<and> kr_keyid r = k"

definition is_active :: "key_row \<Rightarrow> bool" where
  "is_active r \<longleftrightarrow> kr_state r = state_code Active"

definition retire :: "KeyLifecycleState \<Rightarrow> int \<Rightarrow> key_row \<Rightarrow> key_row" where
  "retire st now r = r\<lparr>kr_state := state_code st, kr_invalid := Some now\<rparr>"

definition update_where :: "('a \<Rightarrow> bool) \<Rightarrow> ('a \<Rightarrow> 'a) \<Rightarrow> 'a list \<Rightarrow> 'a list" where
  "update_where p f xs = map (\<lambda>x. if p x then f x else x) xs"

definition key_order :: "key_row list \<Rightarrow> key_row list" where
  "key_order rs = rev (sort_key kr_keyid rs)"

definition message_columns :: "MessageLogRecord \<Rightarrow> string option list" where
  "message_columns r = map Some [ml_senderId r, ml_receiverId r, show_int (ml_senderKeyId r), ml_msgType r,
     ml_senderCiphertext r, ml_senderNonce r, ml_senderTag r, ml_sendTime r, show_int (ml_status r)]"

definition summary_columns :: "MessageLogRecord \<Rightarrow> string option list" where
  "summary_columns r = map Some [ml_msgId r, ml_senderId r, ml_receiverId r, show_int (ml_senderKeyId r),
     ml_msgType r, ml_sendTime r, show_int (ml_status r)]"

text \<open>
  The effect of a statement on the tables, its result set and its number of affected rows;
  \<^const>\<open>None\<close> where the engine rejects it: a duplicate of the unique key
  (clientid, serverid, keyid), or \<open>ikeysn + 1\<close> out of the range of \<open>INT\<close>. \<open>now\<close> is \<open>now()\<close>.
\<close>

fun sql_exec :: "env \<Rightarrow> int \<Rightarrow> sql \<Rightarrow> tables \<Rightarrow> (tables \<times> sql_rows \<times> nat) option" where
  "sql_exec env now StartTransaction t = Some (t, [], 0)"
| "sql_exec env now Rollback t = Some (t, [], 0)"
| "sql_exec env now Commit t = Some (t, [], 0)"
| "sql_exec env now SelectKeysn t = Some (t, map (\<lambda>k. [Some (show_int k)]) (t_keysn t), 0)"
| "sql_exec env now BumpKeysn t =
     (if list_all (\<lambda>k. k < 2147483647) (t_keysn t)
      then Some (t\<lparr>t_keysn := map (\<lambda>k. k + 1) (t_keysn t)\<rparr>, [], length (t_keysn t)) else None)"
| "sql_exec env now (SelectActiveKeys c v) t =
     Some (t, map (\<lambda>r. [Some (show_int (kr_keyid r))])
       (key_order (filter (\<lambda>r. key_pair_is env c v r \<and> is_active r) (t_keys t))), 0)"
| "sql_exec env now (RotateActiveKeys c v) t =
     (let p = (\<lambda>r. key_pair_is env c v r \<and> is_active r) in
      Some (t\<lparr>t_keys := update_where p (retire Rotated now) (t_keys t)\<rparr>, [], length (filter p (t_keys t))))"
| "sql_exec env now (InsertKeyAt c v k created sk) t =
     (if list_all (\<lambda>r. \<not> key_is env c v k r) (t_keys t)
      then Some (t\<lparr>t_keys := t_keys t @ [\<lparr>kr_client = c, kr_server = v, kr_keyid = k,
          kr_create = e_datetime env created,
          kr_expire = now + 3600 * KEY_DEFAULT_VALIDITY_HOURS, kr_invalid = None,
          kr_state = state_code Active, kr_seckey = sk, kr_rotated_from = None\<rparr>]\<rparr>, [], 1)
      else None)"
| "sql_exec env now (InsertKey c v k sk rot) t =
     (if list_all (\<lambda>r. \<not> key_is env c v k r) (t_keys t)
      then Some (t\<lparr>t_keys := t_keys t @ [\<lparr>kr_client = c, kr_server = v, kr_keyid = k, kr_create = now,
          kr_expire = now + 3600 * KEY_DEFAULT_VALIDITY_HOURS, kr_invalid = None,
          kr_state = state_code Active, kr_seckey = sk, kr_rotated_from = rot\<rparr>]\<rparr>, [], 1)
      else None)"
| "sql_exec env now (ExpireKey c v k) t =
     (let p = (\<lambda>r. key_is env c v k r \<and> is_active r \<and> kr_expire r \<le> now) in
      Some (t\<lparr>t_keys := update_where p (retire Expired now) (t_keys t)\<rparr>, [], length (filter p (t_keys t))))"
| "sql_exec env now (SelectKeyState c v k) t =
     Some (t, map (\<lambda>r. [Some (show_int (kr_keyid r)), Some (show_int (kr_state r))])
       (filter (key_is env c v k) (t_keys t)), 0)"
| "sql_exec env now (RevokeKey c v k) t =
     (let p = (\<lambda>r. key_is env c v k r \<and> is_active r) in
      Some (t\<lparr>t_keys := update_where p (retire Revoked now) (t_keys t)\<rparr>, [], length (filter p (t_keys t))))"
| "sql_exec env now (InsertMessage r) t = Some (t\<lparr>t_messages := t_messages t @ [r]\<rparr>, [], 1)"
| "sql_exec env now (InsertAudit r) t = Some (t\<lparr>t_audit := t_audit t @ [r]\<rparr>, [], 1)"
| "sql_exec env now (SelectMessageById i) t =
     Some (t, map message_columns (filter (\<lambda>r. same_text env (ml_msgId r) i) (t_messages t)), 0)"
| "sql_exec env now (SelectRecentBySender s n) t =
     Some (t, map summary_columns (take (nat n)
       (e_order env (filter (\<lambda>r. same_text env (ml_senderId r) s) (t_messages t)))), 0)"

section \<open>A connection\<close>

text \<open>\<open>m_conn\<close> says whether the handle is non-null; \<open>snap\<close> is what a rollback restores while a
  transaction is open. \<open>m_res\<close> and \<open>m_aff\<close> belong to the last statement, \<open>m_tick\<close> counts the calls
  that reach the server.\<close>

record mysql =
  m_conn :: bool
  tbl :: tables
  snap :: "tables option"
  m_tick :: nat
  m_res :: sql_rows
  m_aff :: nat

definition fresh_conn :: "tables \<Rightarrow> mysql" where
  "fresh_conn t = \<lparr>m_conn = True, tbl = t, snap = None, m_tick = 0, m_res = [], m_aff = 0\<rparr>"

lemma fresh_conn_simps [simp]:
  "m_conn (fresh_conn t)" "tbl (fresh_conn t) = t" "snap (fresh_conn t) = None" "m_tick (fresh_conn t) = 0"
  by (simp_all add: fresh_conn_def)

definition sql_run :: "env \<Rightarrow> int \<Rightarrow> sql \<Rightarrow> mysql \<Rightarrow> bool \<times> mysql" where
  "sql_run env now q m =
     (case q of
        StartTransaction \<Rightarrow> (True, m\<lparr>snap := Some (tbl m)\<rparr>)
      | Commit \<Rightarrow> (True, m\<lparr>snap := None\<rparr>)
      | Rollback \<Rightarrow> (True, m\<lparr>tbl := (case snap m of Some t \<Rightarrow> t | None \<Rightarrow> tbl m), snap := None\<rparr>)
      | _ \<Rightarrow> (case sql_exec env now q (tbl m) of
                None \<Rightarrow> (False, m)
              | Some (t, rows, n) \<Rightarrow> (True, m\<lparr>tbl := t, m_res := rows, m_aff := n\<rparr>)))"

text \<open>\<open>mysql_query(m_conn, text)\<close>: true when it returns 0. A null handle is undefined behaviour.\<close>

definition mysql_query :: "env \<Rightarrow> sql \<Rightarrow> mysql \<Rightarrow> (bool \<times> mysql) option" where
  "mysql_query env q m =
     (if \<not> m_conn m then None
      else let k = m_tick m; m1 = m\<lparr>m_tick := Suc k, m_res := [], m_aff := 0\<rparr> in
        Some (case e_sql env k of
                Refused \<Rightarrow> (False, m1)
              | Lost \<Rightarrow> (False, snd (sql_run env (e_dbnow env k) q m1))
              | Answered \<Rightarrow> sql_run env (e_dbnow env k) q m1))"

definition mysql_store_result :: "env \<Rightarrow> mysql \<Rightarrow> sql_rows option \<times> mysql" where
  "mysql_store_result env m =
     (let k = m_tick m in (if e_store env k then Some (m_res m) else None, m\<lparr>m_tick := Suc k\<rparr>))"

text \<open>What is durable: the tables, or the snapshot while a transaction is open.\<close>

definition committed :: "mysql \<Rightarrow> tables" where
  "committed m = (case snap m of Some t \<Rightarrow> t | None \<Rightarrow> tbl m)"

fun is_tx :: "sql \<Rightarrow> bool" where
  "is_tx StartTransaction = True"
| "is_tx Commit = True"
| "is_tx Rollback = True"
| "is_tx _ = False"

lemma sql_run_plain:
  "\<not> is_tx q \<Longrightarrow> sql_run env now q m =
     (case sql_exec env now q (tbl m) of
        None \<Rightarrow> (False, m) | Some (t, rows, n) \<Rightarrow> (True, m\<lparr>tbl := t, m_res := rows, m_aff := n\<rparr>))"
  by (cases q) (auto simp: sql_run_def)

lemma mysql_query_total: "m_conn m \<Longrightarrow> \<exists>ok m'. mysql_query env q m = Some (ok, m')"
  by (simp add: mysql_query_def Let_def split: prod.split)

lemma sql_run_frame [simp]:
  "m_conn (snd (sql_run env now q m)) = m_conn m" "m_tick (snd (sql_run env now q m)) = m_tick m"
  by (cases q; auto simp: sql_run_def Let_def split: option.splits prod.splits)+

lemma mysql_query_frame [frame_simps]:
  assumes "mysql_query env q m = Some (ok, m')"
  shows "m_conn m \<and> m_conn m' \<and> m_tick m' = Suc (m_tick m)"
proof -
  let ?m1 = "m\<lparr>m_tick := Suc (m_tick m), m_res := [], m_aff := 0\<rparr>"
  from assms have "m_conn m" by (auto simp: mysql_query_def split: if_splits)
  moreover from this assms have "m' = ?m1 \<or> m' = snd (sql_run env (e_dbnow env (m_tick m)) q ?m1)"
    by (auto simp: mysql_query_def Let_def split: sql_fate.splits)
  ultimately show ?thesis by auto
qed

lemma mysql_query_plain_snap [frame_simps]:
  "mysql_query env q m = Some (ok, m') \<Longrightarrow> \<not> is_tx q \<Longrightarrow> snap m' = snap m"
  unfolding mysql_query_def Let_def
  by (cases "e_sql env (m_tick m)") (auto simp: sql_run_plain split: if_splits option.splits prod.splits)

lemma mysql_query_plain:
  "mysql_query env q m = Some (ok, m') \<Longrightarrow> \<not> is_tx q \<Longrightarrow>
   snap m' = snap m \<and> m_conn m \<and> m_conn m' \<and> m_tick m' = Suc (m_tick m)"
  using mysql_query_plain_snap mysql_query_frame by blast

text \<open>A plain statement: what it does when it is answered, and what is possible when it is not.\<close>

lemma mysql_query_ok:
  assumes "mysql_query env q m = Some (True, m')" and "\<not> is_tx q"
  shows "\<exists>t rows n. sql_exec env (e_dbnow env (m_tick m)) q (tbl m) = Some (t, rows, n) \<and>
     tbl m' = t \<and> m_res m' = rows \<and> m_aff m' = n \<and> e_sql env (m_tick m) = Answered"
  using assms unfolding mysql_query_def Let_def
  by (cases "e_sql env (m_tick m)") (auto simp: sql_run_plain split: if_splits option.splits prod.splits)

lemma mysql_query_err:
  assumes "mysql_query env q m = Some (False, m')" and "\<not> is_tx q"
  shows "tbl m' = tbl m \<or> e_sql env (m_tick m) = Lost \<and>
     (\<exists>t rows n. sql_exec env (e_dbnow env (m_tick m)) q (tbl m) = Some (t, rows, n) \<and> tbl m' = t)"
  using assms unfolding mysql_query_def Let_def
  by (cases "e_sql env (m_tick m)") (auto simp: sql_run_plain split: if_splits option.splits prod.splits)

lemma mysql_query_answered:
  assumes "m_conn m" and "e_sql env (m_tick m) = Answered" and "\<not> is_tx q"
    and "sql_exec env (e_dbnow env (m_tick m)) q (tbl m) = Some (t, rows, n)"
  shows "mysql_query env q m = Some (True, m\<lparr>m_tick := Suc (m_tick m), tbl := t, m_res := rows, m_aff := n\<rparr>)"
  using assms by (simp add: mysql_query_def Let_def sql_run_plain)

lemma mysql_query_start:
  assumes "mysql_query env StartTransaction m = Some (ok, m')"
  shows "tbl m' = tbl m \<and> (ok \<longrightarrow> snap m' = Some (tbl m)) \<and> (\<not> ok \<longrightarrow> snap m' = snap m \<or> snap m' = Some (tbl m))"
  using assms unfolding mysql_query_def Let_def
  by (cases "e_sql env (m_tick m)") (auto simp: sql_run_def split: if_splits)

lemma mysql_query_rollback:
  assumes "mysql_query env Rollback m = Some (ok, m')"
  shows "committed m' = committed m \<and> (ok \<longrightarrow> tbl m' = committed m \<and> snap m' = None) \<and>
     (snap m' = None \<or> snap m' = snap m \<and> tbl m' = tbl m)"
  using assms unfolding mysql_query_def Let_def
  by (cases "e_sql env (m_tick m)")
     (auto simp: sql_run_def committed_def split: if_splits option.splits)

lemma mysql_query_commit:
  assumes "mysql_query env Commit m = Some (ok, m')"
  shows "tbl m' = tbl m \<and> (ok \<longrightarrow> snap m' = None) \<and>
     (\<not> ok \<longrightarrow> snap m' = snap m \<or> snap m' = None \<and> e_sql env (m_tick m) = Lost)"
  using assms unfolding mysql_query_def Let_def
  by (cases "e_sql env (m_tick m)") (auto simp: sql_run_def split: if_splits)

lemma mysql_store_result_frame:
  assumes "mysql_store_result env m = (r, m')"
  shows "m_conn m' = m_conn m" "tbl m' = tbl m" "snap m' = snap m" "m_aff m' = m_aff m" "m_tick m' = Suc (m_tick m)"
    "committed m' = committed m"
  using assms unfolding mysql_store_result_def Let_def committed_def by (auto split: option.split)

lemma mysql_store_result_Some:
  "mysql_store_result env m = (Some rows, m') \<Longrightarrow> rows = m_res m"
  by (auto simp: mysql_store_result_def Let_def split: if_splits)

lemma update_where_Nil [simp]: "update_where p f [] = []"
  by (simp add: update_where_def)

lemma length_update_where [simp]: "length (update_where p f xs) = length xs"
  by (simp add: update_where_def)

lemma in_update_where: "y \<in> set (update_where p f xs) \<longleftrightarrow> (\<exists>x \<in> set xs. y = (if p x then f x else x))"
  by (auto simp: update_where_def image_iff)

text \<open>Statements that only read.\<close>

fun is_select :: "sql \<Rightarrow> bool" where
  "is_select SelectKeysn = True"
| "is_select (SelectActiveKeys c v) = True"
| "is_select (SelectKeyState c v k) = True"
| "is_select (SelectMessageById i) = True"
| "is_select (SelectRecentBySender s n) = True"
| "is_select _ = False"

lemma is_select_plain: "is_select q \<Longrightarrow> \<not> is_tx q"
  by (cases q) auto

lemma sql_exec_select: "is_select q \<Longrightarrow> sql_exec env now q t = Some (t', rows, n) \<Longrightarrow> t' = t"
  by (cases q) auto

lemma mysql_query_select:
  assumes "mysql_query env q m = Some (ok, m')" and "is_select q"
  shows "m_conn m'" "tbl m' = tbl m" "snap m' = snap m" "m_tick m' = Suc (m_tick m)"
    "ok \<Longrightarrow> \<exists>n. sql_exec env (e_dbnow env (m_tick m)) q (tbl m) = Some (tbl m, m_res m', n)"
proof -
  note plain = is_select_plain [OF assms(2)]
  from mysql_query_frame [OF assms(1)] show "m_conn m'" "m_tick m' = Suc (m_tick m)" by simp_all
  from mysql_query_plain_snap [OF assms(1) plain] show "snap m' = snap m" .
  show "tbl m' = tbl m"
    using assms plain by (cases ok) (auto dest!: mysql_query_ok mysql_query_err dest: sql_exec_select [OF assms(2)])
  then show "\<exists>n. sql_exec env (e_dbnow env (m_tick m)) q (tbl m) = Some (tbl m, m_res m', n)" if ok
    using mysql_query_ok [of env q m m'] assms(1) plain that by auto
qed

lemma filter_update_where_other:
  assumes "\<And>x. p x \<Longrightarrow> \<not> q x" and "\<And>x. p x \<Longrightarrow> \<not> q (f x)"
  shows "filter q (update_where p f xs) = filter q xs"
  by (induction xs) (auto simp: update_where_def assms)

lemma map_update_where: "(\<And>x. g (f x) = g x) \<Longrightarrow> map g (update_where p f xs) = map g xs"
  by (auto simp: update_where_def)

lemma state_code_eq_1 [simp]: "state_code st = 1 \<longleftrightarrow> st = Active"
  by (cases st) auto

lemma retire_simps [simp]:
  "kr_client (retire st now r) = kr_client r" "kr_server (retire st now r) = kr_server r"
  "kr_keyid (retire st now r) = kr_keyid r" "kr_state (retire st now r) = state_code st"
  "kr_expire (retire st now r) = kr_expire r" "kr_seckey (retire st now r) = kr_seckey r"
  "kr_invalid (retire st now r) = Some now"
  "key_pair_is env c v (retire st now r) = key_pair_is env c v r"
  "is_active (retire st now r) \<longleftrightarrow> st = Active"
  by (simp_all add: retire_def key_pair_is_def is_active_def)

lemma key_pair_is_unique:
  "key_pair_is env c v r \<Longrightarrow> key_pair_is env c' v' r \<Longrightarrow> key_pair_is env c v = key_pair_is env c' v'"
  by (auto simp: key_pair_is_def same_text_def)

end
