(* ===== verification/KeyStore.thy ===== *)
theory KeyStore
  imports Database
begin

text \<open>
  The key half of \<open>mysqlOP.cpp\<close>: allocation of key numbers, rotation of a pair's key in one
  transaction, the validity check that expires keys on the way, and logout. The values that reach
  a statement are those \<open>escapeSqlString\<close> was given; log output has no effect and is left out.
\<close>

section \<open>The operations\<close>

text \<open>\<open>connectDb\<close>: \<open>up\<close> says whether \<open>mysql_init\<close> and \<open>mysql_real_connect\<close> both worked; on
  failure the handle is null.\<close>

definition connectDb :: "bool \<Rightarrow> mysql \<Rightarrow> bool \<times> mysql" where
  "connectDb up m = (up, m\<lparr>m_conn := up, snap := None\<rparr>)"

text \<open>\<open>strftime\<close> of \<open>localtime\<close> of \<open>time(0)\<close>; \<open>k\<close> numbers the reading of the clock.\<close>

definition getCurTime :: "env \<Rightarrow> nat \<Rightarrow> string" where
  "getCurTime env k = strftime_dt (e_localtime env (e_time env k))"

definition writeSecKey :: "env \<Rightarrow> nat \<Rightarrow> NodeSHMInfo option \<Rightarrow> mysql \<Rightarrow> (bool \<times> mysql) option" where
  "writeSecKey env k pNode m =
     (case pNode of
        None \<Rightarrow> Some (False, m)
      | Some p \<Rightarrow> mysql_query env (InsertKeyAt (c_str (n_clientID p)) (c_str (n_serverID p))
          (n_seckeyID p) (getCurTime env k) (c_str (n_seckey p))) m)"

text \<open>\<open>mysql_fetch_row\<close> of a result set: the first row. A null result set is not a valid argument.\<close>

definition first_column :: "sql_rows \<Rightarrow> string option" where
  "first_column rows = (case rows of (Some x # _) # _ \<Rightarrow> Some x | _ \<Rightarrow> None)"

definition getKeyId :: "env \<Rightarrow> mysql \<Rightarrow> (int \<times> mysql) option" where
  "getKeyId env m = do {
     (ok, m) \<leftarrow> mysql_query env SelectKeysn m;
     if \<not> ok then Some (- 1, m)
     else (case mysql_store_result env m of
         (None, m) \<Rightarrow> None
       | (Some [], m) \<Rightarrow> Some (- 1, m)
       | (Some (row # _), m) \<Rightarrow> (case first_column [row] of None \<Rightarrow> None | Some x \<Rightarrow> Some (atoi x, m)))
   }"

definition rollback :: "env \<Rightarrow> 'r \<Rightarrow> mysql \<Rightarrow> ('r \<times> mysql) option" where
  "rollback env r m = do { (_, m) \<leftarrow> mysql_query env Rollback m; Some (r, m) }"

text \<open>The parameter of \<open>updateKeyId\<close> is overwritten before it is used.\<close>

definition updateKeyId :: "env \<Rightarrow> mysql \<Rightarrow> (bool \<times> mysql) option" where
  "updateKeyId env m = do {
     (_, m) \<leftarrow> mysql_query env StartTransaction m;
     (ok, m) \<leftarrow> mysql_query env SelectKeysn m;
     if \<not> ok then rollback env False m
     else (case mysql_store_result env m of
         (None, m) \<Rightarrow> None
       | (Some [], m) \<Rightarrow> rollback env False m
       | (Some (row # _), m) \<Rightarrow>
           (case first_column [row] of
              None \<Rightarrow> None
            | Some _ \<Rightarrow> do {
                (ok, m) \<leftarrow> mysql_query env BumpKeysn m;
                if \<not> ok then rollback env False m
                else do { (_, m) \<leftarrow> mysql_query env Commit m; Some (True, m) }
              }))
   }"

text \<open>Rotation, in the order of the code: lock and read the key number; lock the active keys of
  the pair and read the newest; retire them; insert the new key; advance the number; commit.
  Every failure between start and commit is followed by the same rollback and \<open>return false\<close>,
  so the steps report it and \<open>writeSecKeyWithTrans\<close> does the rollback.\<close>

definition lock_keysn :: "env \<Rightarrow> mysql \<Rightarrow> (int option \<times> mysql) option" where
  "lock_keysn env m = do {
     (ok, m) \<leftarrow> mysql_query env SelectKeysn m;
     if \<not> ok then Some (None, m)
     else (case mysql_store_result env m of
         (None, m) \<Rightarrow> Some (None, m)
       | (Some rows, m) \<Rightarrow>
           (case first_column rows of
              None \<Rightarrow> Some (None, m)
            | Some x \<Rightarrow> if atoi x \<le> 0 then Some (None, m) else Some (Some (atoi x), m)))
   }"

definition lock_active :: "env \<Rightarrow> string \<Rightarrow> string \<Rightarrow> mysql \<Rightarrow> (int option \<times> mysql) option" where
  "lock_active env c v m = do {
     (ok, m) \<leftarrow> mysql_query env (SelectActiveKeys c v) m;
     if \<not> ok then Some (None, m)
     else (case mysql_store_result env m of
         (None, m) \<Rightarrow> Some (None, m)
       | (Some rows, m) \<Rightarrow>
           (case first_column rows of None \<Rightarrow> Some (Some 0, m) | Some x \<Rightarrow> Some (Some (atoi x), m)))
   }"

definition rotate_and_insert ::
    "env \<Rightarrow> string \<Rightarrow> string \<Rightarrow> string \<Rightarrow> int \<Rightarrow> int \<Rightarrow> mysql \<Rightarrow> (bool \<times> mysql) option" where
  "rotate_and_insert env c v sk keyID rotatedFrom m = do {
     (ok, m) \<leftarrow> mysql_query env (RotateActiveKeys c v) m;
     if \<not> ok then Some (False, m)
     else do {
       (ok, m) \<leftarrow> mysql_query env (InsertKey c v keyID sk
                    (if rotatedFrom > 0 then Some rotatedFrom else None)) m;
       if \<not> ok then Some (False, m) else mysql_query env BumpKeysn m
     }
   }"

text \<open>The body of the transaction: the allotted number, or \<^const>\<open>None\<close> at the first step that
  fails.\<close>

definition rotation_body :: "env \<Rightarrow> NodeSHMInfo \<Rightarrow> mysql \<Rightarrow> (int option \<times> mysql) option" where
  "rotation_body env p m = do {
     let c = c_str (n_clientID p); let v = c_str (n_serverID p);
     (key, m) \<leftarrow> lock_keysn env m;
     case key of
       None \<Rightarrow> Some (None, m)
     | Some keyID \<Rightarrow> do {
         (old, m) \<leftarrow> lock_active env c v m;
         case old of
           None \<Rightarrow> Some (None, m)
         | Some rotatedFrom \<Rightarrow> do {
             (ok, m) \<leftarrow> rotate_and_insert env c v (c_str (n_seckey p)) keyID rotatedFrom m;
             Some (if ok then Some keyID else None, m)
           }
       }
   }"

definition writeSecKeyWithTrans ::
    "env \<Rightarrow> NodeSHMInfo \<Rightarrow> mysql \<Rightarrow> ((bool \<times> NodeSHMInfo) \<times> mysql) option" where
  "writeSecKeyWithTrans env p m =
     (if \<not> m_conn m then Some ((False, p), m)
      else do {
        (ok, m) \<leftarrow> mysql_query env StartTransaction m;
        if \<not> ok then Some ((False, p), m)
        else do {
          (key, m) \<leftarrow> rotation_body env p m;
          case key of
            None \<Rightarrow> rollback env (False, p) m
          | Some keyID \<Rightarrow> do {
              (ok, m) \<leftarrow> mysql_query env Commit m;
              if \<not> ok then rollback env (False, p) m
              else Some ((True, p\<lparr>n_seckeyID := keyID, n_status := state_code Active\<rparr>), m)
            }
        }
      })"

text \<open>\<open>atoi(row[0])\<close> and \<open>atoi(row[1])\<close> of the first row, if there is one; the schema declares both
  columns not null, and \<open>atoi\<close> of a null pointer is undefined.\<close>

fun state_row :: "sql_rows \<Rightarrow> (int \<times> int) option option" where
  "state_row [] = Some None"
| "state_row ((Some k # Some st # _) # _) = Some (Some (atoi k, atoi st))"
| "state_row (_ # _) = None"

definition checkSecKey :: "env \<Rightarrow> string \<Rightarrow> string \<Rightarrow> int \<Rightarrow> mysql \<Rightarrow> (bool \<times> mysql) option" where
  "checkSecKey env clientID serverID keyID m = do {
     (ok, m) \<leftarrow> mysql_query env (ExpireKey clientID serverID keyID) m;
     if \<not> ok then Some (False, m)
     else do {
       (ok, m) \<leftarrow> mysql_query env (SelectKeyState clientID serverID keyID) m;
       if \<not> ok then Some (False, m)
       else (case mysql_store_result env m of
           (None, m) \<Rightarrow> Some (False, m)
         | (Some rows, m) \<Rightarrow> do {
             row \<leftarrow> state_row rows;
             case row of
               None \<Rightarrow> Some (False, m)
             | Some (dbKeyID, state) \<Rightarrow> Some (dbKeyID = keyID \<and> state = state_code Active, m)
           })
     }
   }"

definition logoutSecKey :: "env \<Rightarrow> string \<Rightarrow> string \<Rightarrow> int \<Rightarrow> mysql \<Rightarrow> (bool \<times> mysql) option" where
  "logoutSecKey env clientID serverID keyID m = do {
     (ok, m) \<leftarrow> mysql_query env (RevokeKey clientID serverID keyID) m;
     if \<not> ok then Some (False, m) else Some (m_aff m \<noteq> 0, m)
   }"

section \<open>What the stages do\<close>

lemma rollback_effect:
  assumes "rollback env r m = Some (r', m')"
  shows "r' = r" "committed m' = committed m" "m_conn m'"
  using assms mysql_query_rollback mysql_query_frame
  by (fastforce simp: rollback_def bind_eq_Some_conv)+

lemma first_column_keysn:
  "first_column (map (\<lambda>k. [Some (show_int k)]) ks) = (case ks of [] \<Rightarrow> None | k # _ \<Rightarrow> Some (show_int k))"
  by (simp add: first_column_def split: list.split)

lemma lock_keysn_effect:
  assumes "lock_keysn env m = Some (r, m')"
  shows "tbl m' = tbl m" "snap m' = snap m" "m_conn m'"
    "r = Some k \<Longrightarrow> 0 < k \<and> (\<exists>ks. t_keysn (tbl m) = k # ks)"
proof -
  from assms obtain ok m1 where q: "mysql_query env SelectKeysn m = Some (ok, m1)"
    and rest: "(if \<not> ok then Some (None, m1)
       else (case mysql_store_result env m1 of
           (None, m) \<Rightarrow> Some (None, m)
         | (Some rows, m) \<Rightarrow>
             (case first_column rows of
                None \<Rightarrow> Some (None, m)
              | Some x \<Rightarrow> if atoi x \<le> 0 then Some (None, m) else Some (Some (atoi x), m)))) = Some (r, m')"
    by (auto simp: lock_keysn_def bind_eq_Some_conv)
  obtain res m2 where st: "mysql_store_result env m1 = (res, m2)" by (cases "mysql_store_result env m1")
  from rest st have m': "m' = m1 \<or> m' = m2"
    by (auto split: if_splits option.splits)
  note sel = mysql_query_select [OF q, simplified]
  show "tbl m' = tbl m" "snap m' = snap m" "m_conn m'"
    using m' sel mysql_store_result_frame [OF st] by auto
  have col: "first_column (m_res m1) = (case t_keysn (tbl m) of [] \<Rightarrow> None | k # _ \<Rightarrow> Some (show_int k))" if ok
    using sel(5) [OF that] first_column_keysn [of "t_keysn (tbl m)"] by (metis fst_conv snd_conv)
  show "0 < k \<and> (\<exists>ks. t_keysn (tbl m) = k # ks)" if "r = Some k"
    using rest st col that
    by (cases "t_keysn (tbl m)") (auto split: if_splits option.splits dest!: mysql_store_result_Some)
qed

lemma first_column_keyids:
  "first_column (map (\<lambda>r. [Some (show_int (kr_keyid r))]) rs) = (case rs of [] \<Rightarrow> None | r # _ \<Rightarrow> Some (show_int (kr_keyid r)))"
  by (simp add: first_column_def split: list.split)

text \<open>The key a rotation replaces: the newest active key of the pair.\<close>

definition newest_active :: "env \<Rightarrow> string \<Rightarrow> string \<Rightarrow> key_row list \<Rightarrow> int" where
  "newest_active env c v rs =
     (case key_order (filter (\<lambda>r. key_pair_is env c v r \<and> is_active r) rs) of [] \<Rightarrow> 0 | r # _ \<Rightarrow> kr_keyid r)"

lemma lock_active_effect:
  assumes "lock_active env c v m = Some (r, m')"
  shows "tbl m' = tbl m" "snap m' = snap m" "m_conn m'"
    "r = Some k \<Longrightarrow> k = newest_active env c v (t_keys (tbl m))"
proof -
  from assms obtain ok m1 where q: "mysql_query env (SelectActiveKeys c v) m = Some (ok, m1)"
    and rest: "(if \<not> ok then Some (None, m1)
       else (case mysql_store_result env m1 of
           (None, m) \<Rightarrow> Some (None, m)
         | (Some rows, m) \<Rightarrow>
             (case first_column rows of None \<Rightarrow> Some (Some 0, m) | Some x \<Rightarrow> Some (Some (atoi x), m))))
       = Some (r, m')"
    by (auto simp: lock_active_def bind_eq_Some_conv)
  obtain res m2 where st: "mysql_store_result env m1 = (res, m2)" by (cases "mysql_store_result env m1")
  from rest st have m': "m' = m1 \<or> m' = m2"
    by (auto split: if_splits option.splits)
  note sel = mysql_query_select [OF q, simplified]
  show "tbl m' = tbl m" "snap m' = snap m" "m_conn m'"
    using m' sel mysql_store_result_frame [OF st] by auto
  let ?rs = "key_order (filter (\<lambda>r. key_pair_is env c v r \<and> is_active r) (t_keys (tbl m)))"
  have col: "first_column (m_res m1) = (case ?rs of [] \<Rightarrow> None | r # _ \<Rightarrow> Some (show_int (kr_keyid r)))" if ok
    using sel(5) [OF that] by (auto simp: first_column_keyids dest: sym [of _ "m_res m1"])
  show "k = newest_active env c v (t_keys (tbl m))" if "r = Some k"
    using rest st col that
    by (cases ?rs) (auto split: if_splits option.splits dest!: mysql_store_result_Some simp: newest_active_def)
qed

section \<open>Rotation as one abstract step\<close>

text \<open>What a rotation should do to the tables, in one step: the pair's active keys become
  \<open>Rotated\<close>, the new key is the only active one, carries the key number and the number of the key
  it replaces, and the number advances. \<open>now1\<close> and \<open>now2\<close> are the database clock at the update
  and at the insertion.\<close>

definition new_key_row :: "int \<Rightarrow> string \<Rightarrow> string \<Rightarrow> int \<Rightarrow> string \<Rightarrow> int option \<Rightarrow> key_row" where
  "new_key_row now c v k sk rot = \<lparr>kr_client = c, kr_server = v, kr_keyid = k, kr_create = now,
     kr_expire = now + 3600 * KEY_DEFAULT_VALIDITY_HOURS, kr_invalid = None,
     kr_state = state_code Active, kr_seckey = sk, kr_rotated_from = rot\<rparr>"

definition retire_pair :: "env \<Rightarrow> int \<Rightarrow> string \<Rightarrow> string \<Rightarrow> key_row list \<Rightarrow> key_row list" where
  "retire_pair env now c v = update_where (\<lambda>r. key_pair_is env c v r \<and> is_active r) (retire Rotated now)"

definition rotate_spec ::
    "env \<Rightarrow> int \<Rightarrow> int \<Rightarrow> string \<Rightarrow> string \<Rightarrow> int \<Rightarrow> string \<Rightarrow> tables \<Rightarrow> tables" where
  "rotate_spec env now1 now2 c v k sk t =
     (let old = newest_active env c v (t_keys t) in
      t\<lparr>t_keysn := map (\<lambda>k. k + 1) (t_keysn t),
        t_keys := retire_pair env now1 c v (t_keys t) @
          [new_key_row now2 c v k sk (if 0 < old then Some old else None)]\<rparr>)"

text \<open>A rotation is possible when the number row is there and positive and the number is fresh.\<close>

definition rotate_ready :: "env \<Rightarrow> string \<Rightarrow> string \<Rightarrow> int \<Rightarrow> tables \<Rightarrow> bool" where
  "rotate_ready env c v k t \<longleftrightarrow> 0 < k \<and> (\<exists>ks. t_keysn t = k # ks) \<and> list_all (\<lambda>k. k < 2147483647) (t_keysn t) \<and>
     list_all (\<lambda>r. \<not> key_is env c v k r) (t_keys t)"

lemma key_is_retire [simp]: "key_is env c v k (retire st now r) = key_is env c v k r"
  by (simp add: key_is_def)

lemma key_is_retire_pair:
  "list_all (\<lambda>r. \<not> key_is env c' v' k r) (retire_pair env now c v rs) = list_all (\<lambda>r. \<not> key_is env c' v' k r) rs"
  by (induction rs) (simp_all add: retire_pair_def update_where_def)

lemma rotate_statements:
  assumes "sql_exec env now1 (RotateActiveKeys c v) t = Some (t1, r1, n1)"
    and "sql_exec env now2 (InsertKey c v k sk rot) t1 = Some (t2, r2, n2)"
    and "sql_exec env now3 BumpKeysn t2 = Some (t3, r3, n3)"
    and "rot = (if 0 < newest_active env c v (t_keys t) then Some (newest_active env c v (t_keys t)) else None)"
    and "0 < k" and "\<exists>ks. t_keysn t = k # ks"
  shows "t3 = rotate_spec env now1 now2 c v k sk t \<and> rotate_ready env c v k t"
  using assms
  by (auto simp: rotate_spec_def rotate_ready_def Let_def new_key_row_def retire_pair_def [symmetric]
      key_is_retire_pair split: if_splits)

definition rotates :: "env \<Rightarrow> NodeSHMInfo \<Rightarrow> int \<Rightarrow> tables \<Rightarrow> tables \<Rightarrow> bool" where
  "rotates env p k t t' \<longleftrightarrow> rotate_ready env (c_str (n_clientID p)) (c_str (n_serverID p)) k t \<and>
     (\<exists>i j. t' = rotate_spec env (e_dbnow env i) (e_dbnow env j) (c_str (n_clientID p)) (c_str (n_serverID p)) k
        (c_str (n_seckey p)) t)"

lemma rotate_and_insert_effect:
  assumes "rotate_and_insert env c v sk k old m = Some (ok, m')"
  shows "snap m' = snap m" "m_conn m'"
    "ok \<Longrightarrow> \<exists>i1 i2 i3 t1 r1 n1 t2 r2 n2 r3 n3.
       sql_exec env (e_dbnow env i1) (RotateActiveKeys c v) (tbl m) = Some (t1, r1, n1) \<and>
       sql_exec env (e_dbnow env i2) (InsertKey c v k sk (if 0 < old then Some old else None)) t1 = Some (t2, r2, n2) \<and>
       sql_exec env (e_dbnow env i3) BumpKeysn t2 = Some (tbl m', r3, n3)"
proof -
  from assms obtain b1 m1 where q1: "mysql_query env (RotateActiveKeys c v) m = Some (b1, m1)"
    and r1: "(if \<not> b1 then Some (False, m1) else
       mysql_query env (InsertKey c v k sk (if old > 0 then Some old else None)) m1 \<bind>
         (\<lambda>(ok, m). if \<not> ok then Some (False, m) else mysql_query env BumpKeysn m)) = Some (ok, m')"
    by (auto simp: rotate_and_insert_def bind_eq_Some_conv)
  have "snap m' = snap m \<and> m_conn m'"
    using r1 mysql_query_plain [OF q1]
    by (auto split: if_splits simp: bind_eq_Some_conv dest!: mysql_query_plain)
  then show "snap m' = snap m" "m_conn m'" by simp_all
  assume ok
  with r1 obtain m2 where b1: b1
    and q2: "mysql_query env (InsertKey c v k sk (if old > 0 then Some old else None)) m1 = Some (True, m2)"
    and q3: "mysql_query env BumpKeysn m2 = Some (True, m')"
    by (auto split: if_splits simp: bind_eq_Some_conv)
  from mysql_query_ok [OF q1 [unfolded b1 [THEN eq_True [THEN iffD2]]]] mysql_query_ok [OF q2] mysql_query_ok [OF q3]
  show "\<exists>i1 i2 i3 t1 r1 n1 t2 r2 n2 r3 n3.
       sql_exec env (e_dbnow env i1) (RotateActiveKeys c v) (tbl m) = Some (t1, r1, n1) \<and>
       sql_exec env (e_dbnow env i2) (InsertKey c v k sk (if 0 < old then Some old else None)) t1 = Some (t2, r2, n2) \<and>
       sql_exec env (e_dbnow env i3) BumpKeysn t2 = Some (tbl m', r3, n3)"
    by (metis is_tx.simps)
qed

lemma rotation_body_effect:
  assumes "rotation_body env p m = Some (r, m')"
  shows "snap m' = snap m \<and> m_conn m' \<and> (\<forall>k. r = Some k \<longrightarrow> rotates env p k (tbl m) (tbl m'))"
proof -
  let ?c = "c_str (n_clientID p)" and ?v = "c_str (n_serverID p)" and ?sk = "c_str (n_seckey p)"
  from assms obtain key m1 where l: "lock_keysn env m = Some (key, m1)"
    by (auto simp: rotation_body_def Let_def bind_eq_Some_conv)
  note s1 = lock_keysn_effect [OF l]
  show ?thesis
  proof (cases key)
    case None
    with assms l s1 show ?thesis by (auto simp: rotation_body_def Let_def)
  next
    case (Some k)
    with assms l obtain old m2 where la: "lock_active env ?c ?v m1 = Some (old, m2)"
      by (auto simp: rotation_body_def Let_def bind_eq_Some_conv)
    note s2 = lock_active_effect [OF la]
    show ?thesis
    proof (cases old)
      case None
      with assms l la Some s1 s2 show ?thesis by (auto simp: rotation_body_def Let_def)
    next
      case old: (Some rk)
      with assms l la Some obtain ok where w: "rotate_and_insert env ?c ?v ?sk k rk m2 = Some (ok, m')"
        and r: "r = (if ok then Some k else None)"
        by (auto simp: rotation_body_def Let_def bind_eq_Some_conv)
      have "rotates env p k (tbl m) (tbl m')" if ok
        using rotate_and_insert_effect(3) [OF w that] s1(1) s1(4) [OF Some] s2(1) s2(4) [OF old]
        by (auto simp only: rotates_def intro!: exI dest!: rotate_statements)
      with r w s1 s2 rotate_and_insert_effect [OF w] show ?thesis by auto
    qed
  qed
qed

lemma writeSecKeyWithTrans_cases:
  assumes run: "writeSecKeyWithTrans env p m = Some ((ok, p'), m')" and snap: "snap m = None"
  shows "(ok \<longrightarrow> snap m' = None \<and> (\<exists>k. rotates env p k (tbl m) (tbl m') \<and>
            p' = p\<lparr>n_seckeyID := k, n_status := state_code Active\<rparr>)) \<and>
         (\<not> ok \<longrightarrow> p' = p \<and> (committed m' = tbl m \<or>
            (\<exists>j. e_sql env j = Lost) \<and> (\<exists>k. rotates env p k (tbl m) (committed m'))))"
proof (cases "m_conn m")
  case False
  with run snap show ?thesis by (auto simp: writeSecKeyWithTrans_def committed_def)
next
  case True
  with run obtain b1 m1 where q1: "mysql_query env StartTransaction m = Some (b1, m1)"
    by (auto simp: writeSecKeyWithTrans_def bind_eq_Some_conv)
  note s1 = mysql_query_start [OF q1]
  show ?thesis
  proof (cases b1)
    case False
    with run True q1 s1 snap show ?thesis
      by (auto simp: writeSecKeyWithTrans_def committed_def split: option.splits)
  next
    case b1: True
    with run True q1 obtain key m2 where body: "rotation_body env p m1 = Some (key, m2)"
      by (auto simp: writeSecKeyWithTrans_def bind_eq_Some_conv)
    note s2 = rotation_body_effect [OF body]
    with s1 b1 have snap2: "snap m2 = Some (tbl m)" "tbl m1 = tbl m" by auto
    show ?thesis
    proof (cases key)
      case None
      with run True q1 b1 body have "rollback env (False, p) m2 = Some ((ok, p'), m')"
        by (simp add: writeSecKeyWithTrans_def)
      from rollback_effect [OF this] snap2 show ?thesis by (auto simp: committed_def)
    next
      case (Some k)
      with run True q1 b1 body obtain b3 m3 where q3: "mysql_query env Commit m2 = Some (b3, m3)"
        and rest: "(if \<not> b3 then rollback env (False, p) m3
          else Some ((True, p\<lparr>n_seckeyID := k, n_status := state_code Active\<rparr>), m3)) = Some ((ok, p'), m')"
        by (auto simp: writeSecKeyWithTrans_def bind_eq_Some_conv)
      from s2 Some snap2 have rot: "rotates env p k (tbl m) (tbl m2)" by auto
      note s3 = mysql_query_commit [OF q3]
      show ?thesis
      proof (cases b3)
        case True
        with rest s3 rot show ?thesis by auto
      next
        case False
        with rest have "rollback env (False, p) m3 = Some ((ok, p'), m')" by simp
        from rollback_effect [OF this] s3 snap2 False rot show ?thesis
          by (auto simp: committed_def)
      qed
    qed
  qed
qed

end
