(* ===== verification/Sample.thy ===== *)
theory Sample
  imports External
begin

text \<open>
  One concrete environment, used to show that the hypotheses of the properties can hold: a database
  that answers every statement, clocks that advance by one, a reversible text encoding, and a cipher
  that is its own inverse. It is an example of an environment, not part of the model.
\<close>

definition ESC :: char where
  "ESC = CHR 0x5C"

fun esc_enc :: "string \<Rightarrow> string" where
  "esc_enc [] = []"
| "esc_enc (c # cs) =
     (if c = NUL then ESC # CHR ''0'' # esc_enc cs else if c = ESC then ESC # ESC # esc_enc cs else c # esc_enc cs)"

fun esc_dec :: "string \<Rightarrow> string" where
  "esc_dec [] = []"
| "esc_dec [c] = [c]"
| "esc_dec (c # d # cs) =
     (if c = ESC then (if d = ESC then ESC else NUL) # esc_dec cs else c # esc_dec (d # cs))"

fun insert_latest :: "MessageLogRecord \<Rightarrow> MessageLogRecord list \<Rightarrow> MessageLogRecord list" where
  "insert_latest r [] = [r]"
| "insert_latest r (x # xs) =
     (if text_le (ml_sendTime x) (ml_sendTime r) then r # x # xs else x # insert_latest r xs)"

definition calm_env :: env where
  "calm_env = \<lparr>
     e_sql = (\<lambda>k. Answered), e_store = (\<lambda>k. True), e_dbnow = (\<lambda>k. int k), e_coll = (\<lambda>s. s),
     e_datetime = (\<lambda>s. int (length s)), e_order = (\<lambda>rs. foldr insert_latest rs []),
     e_time = (\<lambda>k. int k), e_micros = (\<lambda>k. k),
     e_localtime = (\<lambda>n. \<lparr>tm_year = 1, tm_mon = 1, tm_mday = 1, tm_hour = 0, tm_min = 0, tm_sec = 1\<rparr>),
     e_mktime = (\<lambda>t. int (tm_sec t)),
     e_rand = (\<lambda>k n. (1, replicate n CHR ''r'')), e_ssl = (\<lambda>k. True),
     e_gcm_enc = (\<lambda>k n p. (rev p, replicate 16 CHR ''t'')),
     e_gcm_dec = (\<lambda>k n c t. if t = replicate 16 CHR ''t'' then Some (rev c) else None),
     e_b64_enc = esc_enc, e_b64_read = (\<lambda>s. (int (length (esc_dec s)), esc_dec s)),
     e_digest = (\<lambda>h s. replicate 16 CHR ''d''),
     e_pem_public = Some, e_pem_private = Some,
     e_rsa_verify = (\<lambda>pem m s. Some (s = rev m)), e_rsa_encrypt = (\<lambda>k pem m. Some (Some (rev m))),
     e_rsa_sign = (\<lambda>k pem m. Some (Some (rev m))), e_rsa_decrypt = (\<lambda>k pem c. Some (Some (rev c))),
     e_fwrite = (\<lambda>k old new. Some new), e_pem_text = (\<lambda>k. k), e_keygen = (\<lambda>k. (''pub'', ''pri''))\<rparr>"

lemma calm_env_simps [simp]:
  "e_sql calm_env k = Answered" "e_store calm_env k" "e_dbnow calm_env k = int k" "e_coll calm_env s = s"
  "e_order calm_env rs = foldr insert_latest rs []" "e_time calm_env k = int k" "e_micros calm_env k = k"
  "e_rand calm_env k n = (1, replicate n CHR ''r'')" "e_ssl calm_env k"
  "e_gcm_enc calm_env ky no p = (rev p, replicate 16 CHR ''t'')"
  "e_gcm_dec calm_env ky no c tg = (if tg = replicate 16 CHR ''t'' then Some (rev c) else None)"
  "e_b64_enc calm_env = esc_enc" "e_b64_read calm_env s = (int (length (esc_dec s)), esc_dec s)"
  "e_digest calm_env h s = replicate 16 CHR ''d''"
  "e_pem_public calm_env f = Some f" "e_pem_private calm_env f = Some f"
  "e_rsa_verify calm_env pm mg sg = Some (sg = rev mg)" "e_rsa_encrypt calm_env k pm mg = Some (Some (rev mg))"
  "e_rsa_sign calm_env k pm mg = Some (Some (rev mg))" "e_rsa_decrypt calm_env k pm mg = Some (Some (rev mg))"
  "e_fwrite calm_env k old new = Some new" "e_pem_text calm_env ky = ky" "e_keygen calm_env k = (''pub'', ''pri'')"
  by (simp_all add: calm_env_def)

lemma esc_dec_plain: "c \<noteq> ESC \<Longrightarrow> esc_dec (c # cs) = c # esc_dec cs"
  by (cases cs) auto

lemma esc_dec_enc [simp]: "esc_dec (esc_enc s) = s"
  by (induction s) (auto simp: esc_dec_plain, simp_all add: ESC_def)

lemma NUL_notin_esc [simp]: "NUL \<notin> set (esc_enc s)"
  by (induction s) (auto simp: ESC_def)

lemma calm_base64 [simp]: "base64_ok calm_env"
  by (simp add: base64_ok_def)

lemma calm_gcm [simp]: "gcm_ok calm_env"
  by (simp add: gcm_ok_def)

lemma calm_rand [simp]: "rand_ok calm_env"
  by (simp add: rand_ok_def)

lemma text_le_total: "text_le a b \<or> text_le b a"
  by (induction a b rule: text_le.induct) auto

lemma text_le_trans: "text_le a b \<Longrightarrow> text_le b c \<Longrightarrow> text_le a c"
proof (induction a b arbitrary: c rule: text_le.induct)
  case (3 x xs y ys)
  then show ?case by (cases c) auto
qed (auto elim: text_le.elims)

lemma insert_latest_set: "set (insert_latest r rs) = insert r (set rs)"
  by (induction rs) auto

lemma insert_latest_length: "length (insert_latest r rs) = Suc (length rs)"
  by (induction rs) auto

lemma insert_latest_distinct: "distinct (insert_latest r rs) \<longleftrightarrow> r \<notin> set rs \<and> distinct rs"
  by (induction rs) (auto simp: insert_latest_set)

lemma insert_latest_sorted:
  "sorted_wrt (\<lambda>a b. text_le (ml_sendTime b) (ml_sendTime a)) rs \<Longrightarrow>
   sorted_wrt (\<lambda>a b. text_le (ml_sendTime b) (ml_sendTime a)) (insert_latest r rs)"
  by (induction rs) (use text_le_total in \<open>auto simp: insert_latest_set dest: text_le_trans\<close>)

lemma calm_order [simp]: "order_ok calm_env"
proof -
  have "set (foldr insert_latest xs []) = set xs \<and> length (foldr insert_latest xs []) = length xs \<and>
     (distinct xs \<longrightarrow> distinct (foldr insert_latest xs [])) \<and>
     sorted_wrt (\<lambda>a b. text_le (ml_sendTime b) (ml_sendTime a)) (foldr insert_latest xs [])" for xs
    by (induction xs) (auto simp: insert_latest_set insert_latest_length insert_latest_distinct insert_latest_sorted)
  then show ?thesis by (simp add: order_ok_def)
qed

section \<open>A small database\<close>

definition demo_row :: key_row where
  "demo_row = \<lparr>kr_client = ''alice'', kr_server = ''srv'', kr_keyid = 6, kr_create = 0, kr_expire = 1000,
     kr_invalid = None, kr_state = 1, kr_seckey = ''0123456789abcdef'', kr_rotated_from = None\<rparr>"

definition demo_tables :: tables where
  "demo_tables = \<lparr>t_keysn = [7], t_keys = [demo_row, demo_row\<lparr>kr_client := ''bob'', kr_keyid := 5\<rparr>],
     t_messages = [], t_audit = []\<rparr>"

definition demo_node :: NodeSHMInfo where
  "demo_node = \<lparr>n_status = 1, n_seckeyID = 0, n_clientID = ''alice'' @ replicate 7 NUL,
     n_serverID = ''srv'' @ replicate 9 NUL, n_seckey = ''0123456789abcdeF'' @ replicate 112 NUL\<rparr>"

end
