(* ===== verification/Crypto.thy ===== *)
theory Crypto
  imports Sample
begin

text \<open>
  The wrappers around OpenSSL: \<open>Base64Util.cpp\<close>, \<open>AesGcmCrypto.cpp\<close>, \<open>Hash.cpp\<close> and
  \<open>RsaCrypto.cpp\<close>. The primitives are the environment's; what is modelled is what the wrappers
  make of their answers: every error branch with its text, the size checks, the choice of the cipher
  by key length, the treatment of negative lengths. Results are \<^typ>\<open>'a + 'b\<close> with the error text
  on the left.
\<close>

section \<open>Calls that may fail\<close>

text \<open>Counters of the process: readings of the two clocks, uses of the random generator, fallible
  OpenSSL calls, file writes.\<close>

record proc =
  pr_time :: nat
  pr_micros :: nat
  pr_rand :: nat
  pr_ssl :: nat
  pr_file :: nat

definition proc_start :: proc where
  "proc_start = \<lparr>pr_time = 0, pr_micros = 0, pr_rand = 0, pr_ssl = 0, pr_file = 0\<rparr>"

text \<open>A sequence of calls each of which must return 1, with the text reported at the first that does
  not; the rest is skipped (the \<open>do .. while (false)\<close> with its \<open>break\<close>s).\<close>

fun ssl_calls :: "env \<Rightarrow> string list \<Rightarrow> proc \<Rightarrow> string option \<times> proc" where
  "ssl_calls env [] w = (None, w)"
| "ssl_calls env (e # es) w =
     (let w' = w\<lparr>pr_ssl := Suc (pr_ssl w)\<rparr> in
      if e_ssl env (pr_ssl w) then ssl_calls env es w' else (Some e, w'))"

definition rand_bytes :: "env \<Rightarrow> nat \<Rightarrow> proc \<Rightarrow> (int \<times> string) \<times> proc" where
  "rand_bytes env n w = (e_rand env (pr_rand w) n, w\<lparr>pr_rand := Suc (pr_rand w)\<rparr>)"

lemma ssl_calls_ok: "(\<And>k. e_ssl env k) \<Longrightarrow> fst (ssl_calls env es w) = None"
  by (induction es arbitrary: w) (simp_all add: Let_def)

lemma ssl_calls_error: "ssl_calls env es w = (Some e, w') \<Longrightarrow> e \<in> set es"
  by (induction es arbitrary: w) (auto simp: Let_def split: if_splits)

section \<open>Base 64\<close>

text \<open>\<open>std::string::resize(n)\<close>.\<close>

definition resize_str :: "nat \<Rightarrow> string \<Rightarrow> string" where
  "resize_str n s = take n s @ replicate (n - length s) NUL"

definition b64_encode :: "env \<Rightarrow> string \<Rightarrow> string" where
  "b64_encode env input = e_b64_enc env input"

text \<open>The buffer has the size of the input; a length that is not positive clears it.\<close>

definition b64_decode :: "env \<Rightarrow> string \<Rightarrow> string" where
  "b64_decode env input =
     (let (len, output) = e_b64_read env input in if len > 0 then resize_str (nat len) output else [])"

lemma resize_str_self [simp]: "resize_str (length s) s = s"
  by (simp add: resize_str_def)

lemma b64_roundtrip [simp]: "base64_ok env \<Longrightarrow> x \<noteq> [] \<Longrightarrow> b64_decode env (b64_encode env x) = x"
  by (simp add: b64_decode_def b64_encode_def base64_ok_def)

lemma b64_no_NUL: "base64_ok env \<Longrightarrow> NUL \<notin> set (b64_encode env x)"
  by (simp add: b64_encode_def base64_ok_def)

lemma b64_c_str [simp]: "base64_ok env \<Longrightarrow> c_str (b64_encode env x) = b64_encode env x"
  by (simp add: c_str_no_NUL b64_no_NUL)

section \<open>AES-GCM\<close>

definition GCM_NONCE_SIZE :: nat where "GCM_NONCE_SIZE = 12"
definition GCM_TAG_SIZE :: nat where "GCM_TAG_SIZE = 16"

datatype EVP_CIPHER = Aes128Gcm | Aes192Gcm | Aes256Gcm

definition getCipherByKeyLen :: "string \<Rightarrow> EVP_CIPHER option" where
  "getCipherByKeyLen key =
     (if length key = 16 then Some Aes128Gcm
      else if length key = 24 then Some Aes192Gcm
      else if length key = 32 then Some Aes256Gcm
      else None)"

text \<open>The answer on success is ciphertext, nonce and tag.\<close>

definition gcm_encrypt :: "env \<Rightarrow> string \<Rightarrow> string \<Rightarrow> proc \<Rightarrow> (string + string \<times> string \<times> string) \<times> proc" where
  "gcm_encrypt env key plaintext w =
     (if getCipherByKeyLen key = None then (Inl ''unsupported AES key length'', w)
      else
        let ((ret, nonce), w) = rand_bytes env GCM_NONCE_SIZE w in
        if ret \<noteq> 1 then (Inl ''generate nonce failed'', w)
        else
          let (err, w) = ssl_calls env [''create EVP_CIPHER_CTX failed'', ''EVP_EncryptInit_ex failed'',
                ''EVP_CTRL_GCM_SET_IVLEN failed'', ''EVP_EncryptInit_ex set key/nonce failed'',
                ''EVP_EncryptUpdate failed'', ''EVP_EncryptFinal_ex failed'', ''get GCM tag failed''] w in
          case err of
            Some e \<Rightarrow> (Inl e, w)
          | None \<Rightarrow>
              let (ciphertext, tag) = e_gcm_enc env key nonce plaintext in
              (Inr (ciphertext, nonce, tag), w))"

definition gcm_decrypt :: "env \<Rightarrow> string \<Rightarrow> string \<Rightarrow> string \<Rightarrow> string \<Rightarrow> proc \<Rightarrow> (string + string) \<times> proc" where
  "gcm_decrypt env key nonce ciphertext tag w =
     (if getCipherByKeyLen key = None then (Inl ''unsupported AES key length'', w)
      else if length nonce \<noteq> GCM_NONCE_SIZE then (Inl ''invalid nonce size'', w)
      else if length tag \<noteq> GCM_TAG_SIZE then (Inl ''invalid tag size'', w)
      else
        let (err, w) = ssl_calls env [''create EVP_CIPHER_CTX failed'', ''EVP_DecryptInit_ex failed'',
              ''set GCM IV len failed'', ''set key and nonce failed'', ''EVP_DecryptUpdate failed'',
              ''set GCM tag failed'', ''GCM authentication failed''] w in
        case err of
          Some e \<Rightarrow> (Inl e, w)
        | None \<Rightarrow>
            (case e_gcm_dec env key nonce ciphertext tag of
               None \<Rightarrow> (Inl ''GCM authentication failed'', w)
             | Some p \<Rightarrow> (Inr p, w)))"

text \<open>GCM tags have the size the wrapper asks for.\<close>

definition gcm_tag_ok :: "env \<Rightarrow> bool" where
  "gcm_tag_ok env \<longleftrightarrow> (\<forall>k n p. length (snd (e_gcm_enc env k n p)) = GCM_TAG_SIZE)"

lemma calm_gcm_tag [simp]: "gcm_tag_ok calm_env"
  by (simp add: gcm_tag_ok_def GCM_TAG_SIZE_def)

lemma gcm_encrypt_Inr:
  assumes "gcm_encrypt env key p w = (Inr (c, n, t), w')"
  shows "getCipherByKeyLen key \<noteq> None" "(c, t) = e_gcm_enc env key n p"
    "n = snd (e_rand env (pr_rand w) GCM_NONCE_SIZE)"
proof -
  obtain ret nonce where r: "e_rand env (pr_rand w) GCM_NONCE_SIZE = (ret, nonce)"
    by (cases "e_rand env (pr_rand w) GCM_NONCE_SIZE")
  show "getCipherByKeyLen key \<noteq> None"
  proof
    assume "getCipherByKeyLen key = None"
    with assms show False by (simp add: gcm_encrypt_def)
  qed
  show "(c, t) = e_gcm_enc env key n p" "n = snd (e_rand env (pr_rand w) GCM_NONCE_SIZE)"
    using assms r
    by (auto simp: gcm_encrypt_def rand_bytes_def Let_def split: if_splits prod.splits option.splits)
qed

lemma gcm_decrypt_encrypted:
  assumes enc: "gcm_encrypt env key p w = (Inr (c, n, t), w')"
    and "gcm_ok env" and "rand_ok env" and "gcm_tag_ok env" and "\<And>k. e_ssl env k"
  shows "\<exists>v'. gcm_decrypt env key n c t v = (Inr p, v')"
proof -
  note E = gcm_encrypt_Inr [OF enc]
  from E(3) assms(3) have n: "length n = GCM_NONCE_SIZE" by (simp add: rand_ok_def)
  from E(2) have ct: "c = fst (e_gcm_enc env key n p)" "t = snd (e_gcm_enc env key n p)"
    by (metis fst_conv snd_conv)+
  with assms(4) have t: "length t = GCM_TAG_SIZE" by (simp add: gcm_tag_ok_def)
  from ct assms(2) have dec: "e_gcm_dec env key n c t = Some p" by (simp add: gcm_ok_def)
  show ?thesis
    using E(1) n t dec assms(5) by (simp add: gcm_decrypt_def Let_def)
qed

section \<open>Digests\<close>

definition hex_digit :: "nat \<Rightarrow> char" where
  "hex_digit d = char_of (if d < 10 then 48 + d else 87 + d)"

text \<open>\<open>sprintf(res + i * 2, "%02x", digest[i])\<close>.\<close>

definition hex2 :: "char \<Rightarrow> string" where
  "hex2 c = [hex_digit (of_char c div 16), hex_digit (of_char c mod 16)]"

fun digest_size :: "HashType \<Rightarrow> nat" where
  "digest_size T_MD5 = 16"
| "digest_size T_SHA1 = 20"
| "digest_size T_SHA224 = 28"
| "digest_size T_SHA256 = 32"
| "digest_size T_SHA384 = 48"
| "digest_size T_SHA512 = 64"

text \<open>The digest context is the data fed to it so far.\<close>

record Hash =
  hs_type :: HashType
  hs_data :: string

definition Hash_new :: "HashType \<Rightarrow> Hash" where
  "Hash_new t = \<lparr>hs_type = t, hs_data = []\<rparr>"

definition addData :: "string \<Rightarrow> Hash \<Rightarrow> Hash" where
  "addData data h = h\<lparr>hs_data := hs_data h @ data\<rparr>"

text \<open>The loop runs over the bytes of the digest buffer of the chosen type.\<close>

definition hash_result :: "env \<Rightarrow> Hash \<Rightarrow> string" where
  "hash_result env h =
     concat (map hex2 (take (digest_size (hs_type h)) (e_digest env (hs_type h) (hs_data h))))"

section \<open>RSA\<close>

text \<open>A key object: what was read from a PEM file, or none.\<close>

record RsaCrypto =
  rsa_pub :: "string option"
  rsa_pri :: "string option"

definition RsaCrypto_empty :: RsaCrypto where
  "RsaCrypto_empty = \<lparr>rsa_pub = None, rsa_pri = None\<rparr>"

definition initPublicKey :: "env \<Rightarrow> string option \<Rightarrow> RsaCrypto \<Rightarrow> (bool \<times> RsaCrypto) option" where
  "initPublicKey env file r =
     (case e_pem_public env file of
        None \<Rightarrow> None
      | Some None \<Rightarrow> Some (False, r)
      | Some (Some k) \<Rightarrow> Some (True, r\<lparr>rsa_pub := Some k\<rparr>))"

definition initPrivateKey :: "env \<Rightarrow> string option \<Rightarrow> RsaCrypto \<Rightarrow> (bool \<times> RsaCrypto) option" where
  "initPrivateKey env file r =
     (case e_pem_private env file of
        None \<Rightarrow> None
      | Some None \<Rightarrow> Some (False, r)
      | Some (Some k) \<Rightarrow> Some (True, r\<lparr>rsa_pri := Some k\<rparr>))"

definition RsaCrypto_new :: "env \<Rightarrow> string option \<Rightarrow> bool \<Rightarrow> RsaCrypto option" where
  "RsaCrypto_new env file isPrivate =
     map_option snd ((if isPrivate then initPrivateKey else initPublicKey) env file RsaCrypto_empty)"

definition loadKey :: "env \<Rightarrow> string option \<Rightarrow> string option \<Rightarrow> RsaCrypto \<Rightarrow> (bool \<times> RsaCrypto) option" where
  "loadKey env pubfile prifile r = do {
     (ret1, r) \<leftarrow> initPublicKey env pubfile r;
     (ret2, r) \<leftarrow> initPrivateKey env prifile r;
     Some (ret1 \<and> ret2, r)
   }"

text \<open>\<open>buffer.resize(len)\<close> with the \<open>int\<close> that \<open>BIO_read\<close> returned: a negative length becomes a
  huge one and the resize throws.\<close>

definition fromBase64 :: "env \<Rightarrow> string \<Rightarrow> string option" where
  "fromBase64 env s =
     (let (len, buffer) = e_b64_read env s in if len < 0 then None else Some (resize_str (nat len) buffer))"

definition rsaPublicEncrypt :: "env \<Rightarrow> nat \<Rightarrow> RsaCrypto \<Rightarrow> string \<Rightarrow> string option" where
  "rsaPublicEncrypt env k r data = do {
     res \<leftarrow> e_rsa_encrypt env k (rsa_pub r) data;
     Some (case res of None \<Rightarrow> [] | Some c \<Rightarrow> e_b64_enc env c)
   }"

definition rsaPrivateDecrypt :: "env \<Rightarrow> nat \<Rightarrow> RsaCrypto \<Rightarrow> string \<Rightarrow> string option" where
  "rsaPrivateDecrypt env k r data = do {
     text \<leftarrow> fromBase64 env data;
     res \<leftarrow> e_rsa_decrypt env k (rsa_pri r) text;
     Some (case res of None \<Rightarrow> [] | Some p \<Rightarrow> p)
   }"

definition rsaSign :: "env \<Rightarrow> nat \<Rightarrow> RsaCrypto \<Rightarrow> string \<Rightarrow> string option" where
  "rsaSign env k r data = do {
     res \<leftarrow> e_rsa_sign env k (rsa_pri r) data;
     Some (case res of None \<Rightarrow> [] | Some s \<Rightarrow> e_b64_enc env s)
   }"

definition rsaVerify :: "env \<Rightarrow> RsaCrypto \<Rightarrow> string \<Rightarrow> string \<Rightarrow> bool option" where
  "rsaVerify env r data signData = do {
     sign \<leftarrow> fromBase64 env signData;
     e_rsa_verify env (rsa_pub r) data sign
   }"

lemma char_div_16 [simp]: "(of_char c :: nat) div 16 < 16"
proof -
  have "(of_char c :: nat) < 16 * 16" by simp
  then show ?thesis by (rule less_mult_imp_div_less)
qed

lemma of_char_hex_digit: "d < 16 \<Longrightarrow> (of_char (hex_digit d) :: nat) = (if d < 10 then 48 + d else 87 + d)"
  by (simp add: hex_digit_def)

lemma hex_digit_ascii:
  assumes "d < 16"
  shows "is_digit (hex_digit d) \<or> hex_digit d \<in> set ''abcdef''"
proof (cases "d < 10")
  case True
  then show ?thesis using assms by (simp add: is_digit_def of_char_hex_digit)
next
  case False
  with assms consider "d = 10" | "d = 11" | "d = 12" | "d = 13" | "d = 14" | "d = 15" by linarith
  then show ?thesis by cases (hypsubst, code_simp)+
qed

lemma hex_digit_inject:
  assumes "a < 16" and "b < 16"
  shows "hex_digit a = hex_digit b \<longleftrightarrow> a = b"
proof
  assume "hex_digit a = hex_digit b"
  then have "(of_char (hex_digit a) :: nat) = of_char (hex_digit b)" by simp
  with assms show "a = b" by (simp add: of_char_hex_digit split: if_splits)
qed simp

lemma hex2_inject: "hex2 a = hex2 b \<longleftrightarrow> a = b"
proof
  assume "hex2 a = hex2 b"
  then have "(of_char a :: nat) div 16 = of_char b div 16" "(of_char a :: nat) mod 16 = of_char b mod 16"
    by (simp_all add: hex2_def hex_digit_inject)
  then have "(of_char a :: nat) = of_char b" by (metis div_mult_mod_eq)
  then show "a = b" by simp
qed simp

lemma length_concat_hex2: "length (concat (map hex2 cs)) = 2 * length cs"
  by (induction cs) (simp_all add: hex2_def)

lemma concat_hex2_inject: "concat (map hex2 a) = concat (map hex2 b) \<longleftrightarrow> a = b"
proof (induction a arbitrary: b)
  case Nil
  show ?case by (cases b) (simp_all add: hex2_def)
next
  case (Cons x a)
  show ?case
  proof (cases b)
    case Nil
    then show ?thesis by (simp add: hex2_def)
  next
    case (Cons y ys)
    then have "(concat (map hex2 (x # a)) = concat (map hex2 b)) =
        (hex2 x = hex2 y \<and> concat (map hex2 a) = concat (map hex2 ys))"
      by (simp add: hex2_def)
    with Cons.IH Cons show ?thesis by (simp add: hex2_inject)
  qed
qed

section \<open>Properties\<close>

text \<open>A digest text has twice the digest's size in lower-case hexadecimal digits, and two
  digest objects of one type give the same text only if their digests are the same: nothing is lost
  in the conversion.\<close>

theorem hash_result_faithful:
  assumes "\<And>d. length (e_digest env t d) = digest_size t"
  shows "length (hash_result env (addData d (Hash_new t))) = 2 * digest_size t \<and>
    (\<forall>c \<in> set (hash_result env (addData d (Hash_new t))). is_digit c \<or> c \<in> set ''abcdef'') \<and>
    (hash_result env (addData d (Hash_new t)) = hash_result env (addData d' (Hash_new t)) \<longleftrightarrow>
       e_digest env t d = e_digest env t d')"
proof -
  have "hash_result env (addData x (Hash_new t)) = concat (map hex2 (e_digest env t x))" for x
    using assms [of x] by (simp add: hash_result_def addData_def Hash_new_def)
  moreover have "\<forall>c \<in> set (hex2 x). is_digit c \<or> c \<in> set ''abcdef''" for x
    unfolding hex2_def using hex_digit_ascii char_div_16 [of x] by (auto simp del: of_char_of)
  ultimately show ?thesis
    using assms by (auto simp: length_concat_hex2 concat_hex2_inject)
qed

theorem hash_result_faithful_witness:
  "length (hash_result calm_env (addData ''m'' (Hash_new T_MD5))) = 32"
  using hash_result_faithful [of calm_env T_MD5 "''m''"] by simp

text \<open>AES-GCM with the wrapper: what \<open>encrypt\<close> produced, \<open>decrypt\<close> with the same key turns back
  into the plaintext: the sizes it checks are those \<open>encrypt\<close> uses.\<close>

theorem gcm_roundtrip:
  assumes "gcm_encrypt env key p w = (Inr (c, n, t), w')"
    and "gcm_ok env" and "rand_ok env" and "gcm_tag_ok env" and "\<And>k. e_ssl env k"
  shows "fst (gcm_decrypt env key n c t v) = Inr p"
  using gcm_decrypt_encrypted [OF assms, of v] by auto

theorem gcm_roundtrip_witness:
  "case gcm_encrypt calm_env ''0123456789abcdef'' ''hello'' proc_start of
     (Inr (c, n, t), w) \<Rightarrow> fst (gcm_decrypt calm_env ''0123456789abcdef'' n c t w) = Inr ''hello''
   | _ \<Rightarrow> False"
proof -
  have "case gcm_encrypt calm_env ''0123456789abcdef'' ''hello'' proc_start of (Inr (c, n, t), w) \<Rightarrow> True | _ \<Rightarrow> False"
    by code_simp
  then obtain c n t w where enc:
    "gcm_encrypt calm_env ''0123456789abcdef'' ''hello'' proc_start = (Inr (c, n, t), w)"
    by (auto split: prod.splits sum.splits)
  from gcm_roundtrip [OF enc, of w] show ?thesis by (simp add: enc)
qed

text \<open>Every failure of the wrapper is a value with a text, and a wrong size of nonce or tag or a
  key of another length is refused before the cipher is touched: no OpenSSL call is made.\<close>

theorem gcm_decrypt_guards:
  "(length key \<notin> {16, 24, 32} \<longrightarrow> gcm_decrypt env key n c t w = (Inl ''unsupported AES key length'', w)) \<and>
   (length key \<in> {16, 24, 32} \<and> length n \<noteq> 12 \<longrightarrow> gcm_decrypt env key n c t w = (Inl ''invalid nonce size'', w)) \<and>
   (length key \<in> {16, 24, 32} \<and> length n = 12 \<and> length t \<noteq> 16 \<longrightarrow>
      gcm_decrypt env key n c t w = (Inl ''invalid tag size'', w)) \<and>
   (e_gcm_dec env key n c t = None \<longrightarrow> isl (fst (gcm_decrypt env key n c t w)))"
  by (auto simp: gcm_decrypt_def getCipherByKeyLen_def GCM_NONCE_SIZE_def GCM_TAG_SIZE_def Let_def
      split: option.split)

theorem gcm_decrypt_guards_witness:
  "fst (gcm_decrypt calm_env ''0123456789abcdef'' ''short'' ''c'' ''t'' proc_start) = Inl ''invalid nonce size''"
  using gcm_decrypt_guards [of "''0123456789abcdef''" calm_env "''short''" "''c''" "''t''" proc_start] by simp

end
