(* ===== verification/MsgStore.thy ===== *)
theory MsgStore
  imports KeyStore Crypto
begin

text \<open>
  The message half of \<open>mysqlOP.cpp\<close> and its two clients, \<open>MessageRepository.cpp\<close> and
  \<open>AuditService.cpp\<close>. A repository or audit object holds a pointer to the database object, which may
  be null; a row comes back from MySQL as C strings, so text is cut at the first \<open>NUL\<close>.
\<close>

section \<open>Data\<close>

record MessageQueryResult =
  mq_found :: bool
  mq_msgId :: string
  mq_senderId :: string
  mq_receiverId :: string
  mq_keyId :: int
  mq_msgType :: string
  mq_ciphertext :: string
  mq_nonce :: string
  mq_tag :: string
  mq_sendTime :: string
  mq_status :: int
  mq_errorMsg :: string

record MessageSummaryInfo =
  mi_msgId :: string
  mi_senderId :: string
  mi_receiverId :: string
  mi_keyId :: int
  mi_msgType :: string
  mi_sendTime :: string
  mi_status :: int

record AuditLogRecord =
  al_logId :: string
  al_nodeId :: string
  al_action :: string
  al_targetId :: string
  al_result :: int
  al_detail :: string
  al_createTime :: string

section \<open>mysqlOP\<close>

definition insertMessageLog :: "env \<Rightarrow> MessageLogRecord \<Rightarrow> mysql \<Rightarrow> (bool \<times> mysql) option" where
  "insertMessageLog env r m = mysql_query env (InsertMessage r) m"

definition audit_row_of :: "AuditLogRecord \<Rightarrow> audit_row" where
  "audit_row_of a = \<lparr>ar_logId = al_logId a, ar_nodeId = (if al_nodeId a = [] then None else Some (al_nodeId a)),
     ar_action = al_action a, ar_targetId = al_targetId a, ar_result = al_result a, ar_detail = al_detail a,
     ar_createTime = al_createTime a\<rparr>"

definition insertAuditLog :: "env \<Rightarrow> AuditLogRecord \<Rightarrow> mysql \<Rightarrow> (bool \<times> mysql) option" where
  "insertAuditLog env a m = mysql_query env (InsertAudit (audit_row_of a)) m"

text \<open>\<open>row[i] ? row[i] : ""\<close>\<close>

definition col :: "string option list \<Rightarrow> nat \<Rightarrow> string" where
  "col row i = (case row ! i of Some s \<Rightarrow> c_str s | None \<Rightarrow> [])"

definition col_int :: "string option list \<Rightarrow> nat \<Rightarrow> int" where
  "col_int row i = (case row ! i of Some s \<Rightarrow> atoi s | None \<Rightarrow> 0)"

text \<open>The out-parameters are written only when a row was fetched.\<close>

definition queryMessageLogById ::
    "env \<Rightarrow> string \<Rightarrow> MessageQueryResult \<Rightarrow> mysql \<Rightarrow> ((bool \<times> MessageQueryResult) \<times> mysql) option" where
  "queryMessageLogById env msgId out m = do {
     (ok, m) \<leftarrow> mysql_query env (SelectMessageById msgId) m;
     if \<not> ok then Some ((False, out), m)
     else (case mysql_store_result env m of
         (None, m) \<Rightarrow> Some ((False, out), m)
       | (Some [], m) \<Rightarrow> Some ((False, out), m)
       | (Some (row # _), m) \<Rightarrow> Some ((True, out\<lparr>mq_senderId := col row 0, mq_receiverId := col row 1,
           mq_keyId := col_int row 2, mq_msgType := col row 3, mq_ciphertext := col row 4, mq_nonce := col row 5,
           mq_tag := col row 6, mq_sendTime := col row 7, mq_status := col_int row 8\<rparr>), m))
   }"

definition queryRecentRows ::
    "env \<Rightarrow> string \<Rightarrow> int \<Rightarrow> mysql \<Rightarrow> ((bool \<times> string list list) \<times> mysql) option" where
  "queryRecentRows env senderId limit m =
     (if limit \<le> 0 then Some ((False, []), m)
      else do {
        (ok, m) \<leftarrow> mysql_query env (SelectRecentBySender senderId limit) m;
        if \<not> ok then Some ((False, []), m)
        else (case mysql_store_result env m of
            (None, m) \<Rightarrow> Some ((False, []), m)
          | (Some rows, m) \<Rightarrow> Some ((True, map (\<lambda>row. map (col row) [0..<7]) rows), m))
      })"

section \<open>MessageRepository\<close>

definition insertMessage :: "env \<Rightarrow> MessageLogRecord \<Rightarrow> mysql option \<Rightarrow> (bool \<times> mysql option) option" where
  "insertMessage env r db =
     (case db of
        None \<Rightarrow> Some (False, None)
      | Some m \<Rightarrow> do { (ok, m) \<leftarrow> insertMessageLog env r m; Some (ok, Some m) })"

definition cleared_result :: "string \<Rightarrow> MessageQueryResult" where
  "cleared_result msgId = \<lparr>mq_found = False, mq_msgId = msgId, mq_senderId = [], mq_receiverId = [], mq_keyId = 0,
     mq_msgType = [], mq_ciphertext = [], mq_nonce = [], mq_tag = [], mq_sendTime = [], mq_status = 0,
     mq_errorMsg = []\<rparr>"

definition queryMessageById ::
    "env \<Rightarrow> string \<Rightarrow> mysql option \<Rightarrow> ((bool \<times> MessageQueryResult) \<times> mysql option) option" where
  "queryMessageById env msgId db =
     (let result = cleared_result msgId in
      case db of
        None \<Rightarrow> Some ((False, result\<lparr>mq_errorMsg := ''m_db is nullptr''\<rparr>), None)
      | Some m \<Rightarrow> do {
          ((ret, result), m) \<leftarrow> queryMessageLogById env msgId result m;
          if \<not> ret then Some ((False, result\<lparr>mq_found := False, mq_errorMsg := ''message not found''\<rparr>), Some m)
          else Some ((True, result\<lparr>mq_found := True\<rparr>), Some m)
        })"

definition int_or_zero :: "string \<Rightarrow> int" where
  "int_or_zero s = (if s = [] then 0 else atoi s)"

fun summaries_of_rows :: "string list list \<Rightarrow> MessageSummaryInfo list" where
  "summaries_of_rows [] = []"
| "summaries_of_rows (row # rows) =
     (if length row \<noteq> 7 then summaries_of_rows rows
      else \<lparr>mi_msgId = row ! 0, mi_senderId = row ! 1, mi_receiverId = row ! 2, mi_keyId = int_or_zero (row ! 3),
        mi_msgType = row ! 4, mi_sendTime = row ! 5, mi_status = int_or_zero (row ! 6)\<rparr> # summaries_of_rows rows)"

definition queryRecentMessagesBySender ::
    "env \<Rightarrow> string \<Rightarrow> int \<Rightarrow> mysql option \<Rightarrow> ((bool \<times> MessageSummaryInfo list) \<times> mysql option) option" where
  "queryRecentMessagesBySender env senderId limit db =
     (case db of
        None \<Rightarrow> Some ((False, []), None)
      | Some m \<Rightarrow> do {
          ((ret, rows), m) \<leftarrow> queryRecentRows env senderId limit m;
          if \<not> ret then Some ((False, []), Some m) else Some ((True, summaries_of_rows rows), Some m)
        })"

section \<open>AuditService\<close>

definition logRecord :: "env \<Rightarrow> AuditLogRecord \<Rightarrow> mysql option \<Rightarrow> (bool \<times> mysql option) option" where
  "logRecord env a db =
     (case db of
        None \<Rightarrow> Some (False, None)
      | Some m \<Rightarrow> do { (ok, m) \<leftarrow> insertAuditLog env a m; Some (ok, Some m) })"

definition logAction_at ::
    "env \<Rightarrow> string \<Rightarrow> string \<Rightarrow> string \<Rightarrow> string \<Rightarrow> int \<Rightarrow> string \<Rightarrow> string \<Rightarrow> mysql option \<Rightarrow>
     (bool \<times> mysql option) option" where
  "logAction_at env logId nodeId action targetId res detail createTime db =
     logRecord env \<lparr>al_logId = logId, al_nodeId = nodeId, al_action = action, al_targetId = targetId,
       al_result = res, al_detail = detail, al_createTime = createTime\<rparr> db"

text \<open>\<open>time(nullptr)\<close> and \<open>getCurTime\<close> on the clock of the process.\<close>

definition time_now :: "env \<Rightarrow> proc \<Rightarrow> int \<times> proc" where
  "time_now env w = (e_time env (pr_time w), w\<lparr>pr_time := Suc (pr_time w)\<rparr>)"

definition cur_time_text :: "env \<Rightarrow> proc \<Rightarrow> string \<times> proc" where
  "cur_time_text env w = (getCurTime env (pr_time w), w\<lparr>pr_time := Suc (pr_time w)\<rparr>)"

text \<open>The overload of the audit interface that takes the time from the database object.\<close>

definition logAction ::
    "env \<Rightarrow> string \<Rightarrow> string \<Rightarrow> string \<Rightarrow> string \<Rightarrow> int \<Rightarrow> string \<Rightarrow> mysql option \<Rightarrow> proc \<Rightarrow>
     (bool \<times> mysql option \<times> proc) option" where
  "logAction env logId nodeId action targetId res detail db w =
     (case db of
        None \<Rightarrow> Some (False, None, w)
      | Some m \<Rightarrow> do {
          let (t, w) = cur_time_text env w;
          (ok, db) \<leftarrow> logAction_at env logId nodeId action targetId res detail t (Some m);
          Some (ok, db, w)
        })"

section \<open>What a repository object shows of the tables\<close>

definition messages_of :: "mysql option \<Rightarrow> MessageLogRecord list" where
  "messages_of db = (case db of None \<Rightarrow> [] | Some m \<Rightarrow> t_messages (tbl m))"

definition audits_of :: "mysql option \<Rightarrow> audit_row list" where
  "audits_of db = (case db of None \<Rightarrow> [] | Some m \<Rightarrow> t_audit (tbl m))"

definition result_of :: "string \<Rightarrow> MessageLogRecord \<Rightarrow> MessageQueryResult" where
  "result_of i r = \<lparr>mq_found = True, mq_msgId = i, mq_senderId = c_str (ml_senderId r),
     mq_receiverId = c_str (ml_receiverId r), mq_keyId = ml_senderKeyId r, mq_msgType = c_str (ml_msgType r),
     mq_ciphertext = c_str (ml_senderCiphertext r), mq_nonce = c_str (ml_senderNonce r),
     mq_tag = c_str (ml_senderTag r), mq_sendTime = c_str (ml_sendTime r), mq_status = ml_status r, mq_errorMsg = []\<rparr>"

definition summary_of :: "MessageLogRecord \<Rightarrow> MessageSummaryInfo" where
  "summary_of r = \<lparr>mi_msgId = c_str (ml_msgId r), mi_senderId = c_str (ml_senderId r),
     mi_receiverId = c_str (ml_receiverId r), mi_keyId = ml_senderKeyId r, mi_msgType = c_str (ml_msgType r),
     mi_sendTime = c_str (ml_sendTime r), mi_status = ml_status r\<rparr>"

lemma messages_of_simps [simp]: "messages_of None = []" "messages_of (Some m) = t_messages (tbl m)"
  "audits_of None = []" "audits_of (Some m) = t_audit (tbl m)"
  by (simp_all add: messages_of_def audits_of_def)

lemma col_message_columns [simp]:
  "col (message_columns r) 0 = c_str (ml_senderId r)" "col (message_columns r) (Suc 0) = c_str (ml_receiverId r)"
  "col_int (message_columns r) 2 = ml_senderKeyId r" "col (message_columns r) 3 = c_str (ml_msgType r)"
  "col (message_columns r) 4 = c_str (ml_senderCiphertext r)" "col (message_columns r) 5 = c_str (ml_senderNonce r)"
  "col (message_columns r) 6 = c_str (ml_senderTag r)" "col (message_columns r) 7 = c_str (ml_sendTime r)"
  "col_int (message_columns r) 8 = ml_status r"
  by (simp_all add: col_def col_int_def message_columns_def numeral_eq_Suc)

lemma show_int_nonempty [simp]: "show_int i \<noteq> []"
  by (simp add: show_int_def)

lemma summaries_of_columns:
  "summaries_of_rows (map (\<lambda>row. map (col row) [0..<7]) (map summary_columns rs)) = map summary_of rs"
  by (induction rs)
     (simp_all add: summary_of_def summary_columns_def col_def upt_rec int_or_zero_def)

lemma queryMessageLogById_effect:
  assumes "queryMessageLogById env i out m = Some ((ok, res), m')"
  shows "tbl m' = tbl m \<and> snap m' = snap m \<and> m_conn m' \<and> (\<not> ok \<longrightarrow> res = out) \<and>
    (ok \<longrightarrow> (\<exists>r \<in> set (t_messages (tbl m)). same_text env (ml_msgId r) i \<and>
       res = out\<lparr>mq_senderId := c_str (ml_senderId r), mq_receiverId := c_str (ml_receiverId r),
         mq_keyId := ml_senderKeyId r, mq_msgType := c_str (ml_msgType r),
         mq_ciphertext := c_str (ml_senderCiphertext r), mq_nonce := c_str (ml_senderNonce r),
         mq_tag := c_str (ml_senderTag r), mq_sendTime := c_str (ml_sendTime r), mq_status := ml_status r\<rparr>))"
proof -
  from assms obtain b m1 where q: "mysql_query env (SelectMessageById i) m = Some (b, m1)"
    by (auto simp: queryMessageLogById_def bind_eq_Some_conv)
  note sel = mysql_query_select [OF q, simplified]
  obtain x m2 where st: "mysql_store_result env m1 = (x, m2)" by (cases "mysql_store_result env m1")
  note fr = mysql_store_result_frame [OF st]
  let ?fs = "filter (\<lambda>r. same_text env (ml_msgId r) i) (t_messages (tbl m))"
  consider "\<not> b \<or> x = None \<or> x = Some []" | r rows where b "x = Some (r # rows)"
    by (cases b; cases x) (auto, metis neq_Nil_conv)
  then show ?thesis
  proof cases
    case 1
    with assms q st sel fr show ?thesis
      by (cases b; cases x) (auto simp: queryMessageLogById_def)
  next
    case 2
    with sel(5) mysql_store_result_Some [of env m1 _ m2] st obtain f fs where
      "?fs = f # fs" "r = message_columns f"
      by (auto simp: map_eq_Cons_conv)
    moreover from this(1) have "f \<in> set (t_messages (tbl m)) \<and> same_text env (ml_msgId f) i"
      by (metis filter_eq_ConsD in_set_conv_decomp)
    ultimately show ?thesis
      using assms q st sel fr 2 by (auto simp: queryMessageLogById_def intro!: bexI [of _ f])
  qed
qed

lemma queryMessageById_effect:
  assumes "queryMessageById env i db = Some ((ok, res), db')"
  shows "messages_of db' = messages_of db \<and> audits_of db' = audits_of db \<and>
    mq_found res = ok \<and> mq_msgId res = i \<and>
    (ok \<longrightarrow> (\<exists>r \<in> set (messages_of db). same_text env (ml_msgId r) i \<and> res = result_of i r))"
proof (cases db)
  case None
  with assms show ?thesis by (auto simp: queryMessageById_def cleared_result_def)
next
  case (Some m)
  with assms obtain ret r m' where q: "queryMessageLogById env i (cleared_result i) m = Some ((ret, r), m')"
    and rest: "db' = Some m'" "ok = ret"
      "res = (if ret then r\<lparr>mq_found := True\<rparr> else r\<lparr>mq_found := False, mq_errorMsg := ''message not found''\<rparr>)"
    by (auto simp: queryMessageById_def bind_eq_Some_conv split: if_splits)
  from queryMessageLogById_effect [OF q] rest Some show ?thesis
    by (auto simp: cleared_result_def result_of_def)
qed

lemma queryRecentMessagesBySender_effect:
  assumes "queryRecentMessagesBySender env who n db = Some ((ok, res), db')"
  shows "messages_of db' = messages_of db \<and> audits_of db' = audits_of db \<and> (\<not> ok \<longrightarrow> res = []) \<and>
    (ok \<longrightarrow> 0 < n \<and> res = map summary_of (take (nat n)
       (e_order env (filter (\<lambda>r. same_text env (ml_senderId r) who) (messages_of db)))))"
proof (cases db)
  case None
  with assms show ?thesis by (auto simp: queryRecentMessagesBySender_def)
next
  case (Some m)
  show ?thesis
  proof (cases "n \<le> 0")
    case True
    with assms Some show ?thesis by (auto simp: queryRecentMessagesBySender_def queryRecentRows_def)
  next
    case False
    with assms Some obtain b m1 where q: "mysql_query env (SelectRecentBySender who n) m = Some (b, m1)"
      by (auto simp: queryRecentMessagesBySender_def queryRecentRows_def bind_eq_Some_conv)
    note sel = mysql_query_select [OF q, simplified]
    obtain x m2 where st: "mysql_store_result env m1 = (x, m2)" by (cases "mysql_store_result env m1")
    note fr = mysql_store_result_frame [OF st]
    show ?thesis
    proof (cases "b \<and> x \<noteq> None")
      case True
      then obtain rows where rows: b "x = Some rows" by auto
      let ?rs = "take (nat n) (e_order env (filter (\<lambda>r. same_text env (ml_senderId r) who) (t_messages (tbl m))))"
      from rows sel(5) mysql_store_result_Some [of env m1 _ m2] st
      have "rows = map summary_columns ?rs" by auto
      then have "summaries_of_rows (map (\<lambda>row. map (col row) [0..<7]) rows) = map summary_of ?rs"
        by (simp only: summaries_of_columns)
      with assms Some False q st sel(2) fr(2) rows show ?thesis
        by (auto simp: queryRecentMessagesBySender_def queryRecentRows_def)
    next
      case no: False
      with assms Some False q st sel fr show ?thesis
        by (cases b; cases x) (auto simp: queryRecentMessagesBySender_def queryRecentRows_def)
    qed
  qed
qed

text \<open>Single insertions: what is added when the statement is acknowledged, and what may have been
  added when it is not.\<close>

lemma insertAuditLog_effect:
  assumes "insertAuditLog env a m = Some (ok, m')"
  shows "snap m' = snap m \<and> m_conn m' \<and> (if ok then tbl m' = (tbl m)\<lparr>t_audit := t_audit (tbl m) @ [audit_row_of a]\<rparr>
     else tbl m' = (tbl m)\<lparr>t_audit := t_audit (tbl m) @ [audit_row_of a]\<rparr> \<or> tbl m' = tbl m)"
proof -
  from assms have q: "mysql_query env (InsertAudit (audit_row_of a)) m = Some (ok, m')"
    by (simp add: insertAuditLog_def)
  show ?thesis
    using q mysql_query_plain [OF q] by (cases ok) (auto dest!: mysql_query_ok mysql_query_err)
qed

lemma insertMessageLog_effect:
  assumes "insertMessageLog env r m = Some (ok, m')"
  shows "snap m' = snap m \<and> m_conn m' \<and> (if ok then tbl m' = (tbl m)\<lparr>t_messages := t_messages (tbl m) @ [r]\<rparr>
     else (\<exists>k. e_sql env k = Lost) \<and> tbl m' = (tbl m)\<lparr>t_messages := t_messages (tbl m) @ [r]\<rparr> \<or> tbl m' = tbl m)"
proof -
  from assms have q: "mysql_query env (InsertMessage r) m = Some (ok, m')"
    by (simp add: insertMessageLog_def)
  show ?thesis
    using q mysql_query_plain [OF q] by (cases ok) (auto dest!: mysql_query_ok mysql_query_err)
qed

lemma logAction_at_effect:
  assumes "logAction_at env l nd a tg r d time db = Some (ok, db')"
  shows "messages_of db' = messages_of db \<and>
    (let appended = (audits_of db' = audits_of db @ [audit_row_of \<lparr>al_logId = l, al_nodeId = nd, al_action = a,
       al_targetId = tg, al_result = r, al_detail = d, al_createTime = time\<rparr>]) in
     if ok then appended else appended \<or> audits_of db' = audits_of db) \<and>
    (db' = None \<longleftrightarrow> db = None) \<and>
    (\<forall>m m'. db = Some m \<longrightarrow> db' = Some m' \<longrightarrow> snap m' = snap m \<and> t_keys (tbl m') = t_keys (tbl m) \<and>
       t_keysn (tbl m') = t_keysn (tbl m))"
  using assms insertAuditLog_effect
  by (cases db) (fastforce simp: logAction_at_def logRecord_def bind_eq_Some_conv Let_def split: if_splits)+

lemma logAction_effect:
  assumes "logAction env l nd a tg r d db w = Some (ok, db', w')"
  shows "messages_of db' = messages_of db \<and>
    (let appended = (\<exists>time. audits_of db' = audits_of db @ [audit_row_of \<lparr>al_logId = l, al_nodeId = nd, al_action = a,
       al_targetId = tg, al_result = r, al_detail = d, al_createTime = time\<rparr>]) in
     if ok then appended else appended \<or> audits_of db' = audits_of db)"
proof (cases db)
  case None
  with assms show ?thesis by (auto simp: logAction_def)
next
  case (Some m)
  obtain t w1 where "cur_time_text env w = (t, w1)" by (cases "cur_time_text env w")
  with assms Some have "logAction_at env l nd a tg r d t db = Some (ok, db')"
    by (auto simp: logAction_def bind_eq_Some_conv)
  from logAction_at_effect [OF this] show ?thesis by (auto simp: Let_def split: if_splits)
qed

end
