(* ===== verification/Packets.thy ===== *)
theory Packets
  imports Prelude
begin

text \<open>
  The messages of \<open>MessageV2.proto\<close> as \<open>MessageV2.pb.h\<close> holds them in memory, the structures the
  business code uses (\<open>V2RequestCodec.h\<close>, \<open>V2RespondCodec.h\<close>), and the field mapping of the
  two codecs. A sub-message that may be absent is an option; the \<open>oneof\<close> of a packet is a
  datatype with one constructor per case. Reading an absent sub-message gives the default
  instance. The bytes on the wire are the subject of \<open>Protobuf\<close>.
\<close>

section \<open>Constants of the protocol\<close>

abbreviation (input) CMD_UNKNOWN :: int where "CMD_UNKNOWN \<equiv> 0"
abbreviation (input) CMD_SEND_MSG_REQ :: int where "CMD_SEND_MSG_REQ \<equiv> 1"
abbreviation (input) CMD_SEND_MSG_RESP :: int where "CMD_SEND_MSG_RESP \<equiv> 2"
abbreviation (input) CMD_QUERY_MSG_REQ :: int where "CMD_QUERY_MSG_REQ \<equiv> 3"
abbreviation (input) CMD_QUERY_MSG_RESP :: int where "CMD_QUERY_MSG_RESP \<equiv> 4"
abbreviation (input) CMD_QUERY_MSG_LIST_REQ :: int where "CMD_QUERY_MSG_LIST_REQ \<equiv> 5"
abbreviation (input) CMD_QUERY_MSG_LIST_RESP :: int where "CMD_QUERY_MSG_LIST_RESP \<equiv> 6"
abbreviation (input) CMD_KEY_AGREE_REQ :: int where "CMD_KEY_AGREE_REQ \<equiv> 7"
abbreviation (input) CMD_KEY_AGREE_RESP :: int where "CMD_KEY_AGREE_RESP \<equiv> 8"
abbreviation (input) CMD_KEY_CHECK_REQ :: int where "CMD_KEY_CHECK_REQ \<equiv> 9"
abbreviation (input) CMD_KEY_CHECK_RESP :: int where "CMD_KEY_CHECK_RESP \<equiv> 10"
abbreviation (input) CMD_KEY_LOGOUT_REQ :: int where "CMD_KEY_LOGOUT_REQ \<equiv> 11"
abbreviation (input) CMD_KEY_LOGOUT_RESP :: int where "CMD_KEY_LOGOUT_RESP \<equiv> 12"

abbreviation (input) RESULT_UNKNOWN :: int where "RESULT_UNKNOWN \<equiv> 0"
abbreviation (input) RESULT_SUCCESS :: int where "RESULT_SUCCESS \<equiv> 1"
abbreviation (input) RESULT_FAILED :: int where "RESULT_FAILED \<equiv> 2"
abbreviation (input) RESULT_KEY_NOT_FOUND :: int where "RESULT_KEY_NOT_FOUND \<equiv> 3"
abbreviation (input) RESULT_KEY_INVALID :: int where "RESULT_KEY_INVALID \<equiv> 4"
abbreviation (input) RESULT_DECRYPT_FAILED :: int where "RESULT_DECRYPT_FAILED \<equiv> 5"
abbreviation (input) RESULT_INVALID_REQUEST :: int where "RESULT_INVALID_REQUEST \<equiv> 6"
abbreviation (input) RESULT_MSG_NOT_FOUND :: int where "RESULT_MSG_NOT_FOUND \<equiv> 7"
abbreviation (input) RESULT_KEY_AGREE_FAILED :: int where "RESULT_KEY_AGREE_FAILED \<equiv> 8"
abbreviation (input) RESULT_KEY_CHECK_FAILED :: int where "RESULT_KEY_CHECK_FAILED \<equiv> 9"
abbreviation (input) RESULT_KEY_LOGOUT_FAILED :: int where "RESULT_KEY_LOGOUT_FAILED \<equiv> 10"

abbreviation (input) MSG_TYPE_TEXT :: int where "MSG_TYPE_TEXT \<equiv> 1"
abbreviation (input) DELIVERY_ACCEPTED :: int where "DELIVERY_ACCEPTED \<equiv> 1"
abbreviation (input) DELIVERY_REJECTED :: int where "DELIVERY_REJECTED \<equiv> 2"

section \<open>Protobuf messages\<close>

record Header =
  h_message_id :: string
  h_command :: int
  h_sender_id :: string
  h_receiver_id :: string
  h_timestamp :: int

record EncryptedMessage =
  em_key_id :: int
  em_msg_type :: int
  em_ciphertext :: string
  em_nonce :: string
  em_tag :: string
  em_algorithm :: string

record SendMessageRequest =
  smr_message :: "EncryptedMessage option"

record QueryMessageRequest =
  qmr_server_message_id :: string

record QueryMessageListRequest =
  qml_sender_id :: string
  qml_limit :: int

record KeyAgreementRequest =
  kar_public_key :: string
  kar_sign :: string

record KeyCheckRequest =
  kcr_key_id :: int

record KeyLogoutRequest =
  klr_key_id :: int

datatype RequestBody =
    NoRequest
  | SendMsgReq SendMessageRequest
  | QueryMsgReq QueryMessageRequest
  | QueryMsgListReq QueryMessageListRequest
  | KeyAgreeReq KeyAgreementRequest
  | KeyCheckReq KeyCheckRequest
  | KeyLogoutReq KeyLogoutRequest

record RequestPacket =
  rq_header :: "Header option"
  rq_body :: RequestBody

record SendMessageResponse =
  sr_code :: int
  sr_message :: string
  sr_server_message_id :: string
  sr_server_time :: int
  sr_delivery_status :: int

record QueryMessageResponse =
  qr_code :: int
  qr_message :: string
  qr_server_message_id :: string
  qr_sender_id :: string
  qr_receiver_id :: string
  qr_key_id :: int
  qr_msg_type :: string
  qr_send_time :: int
  qr_status :: int

record MessageSummary =
  ms_server_message_id :: string
  ms_sender_id :: string
  ms_receiver_id :: string
  ms_key_id :: int
  ms_msg_type :: string
  ms_send_time :: int
  ms_status :: int

record QueryMessageListResponse =
  lr_code :: int
  lr_message :: string
  lr_messages :: "MessageSummary list"

record KeyOperationResponse =
  ko_code :: int
  ko_message :: string
  ko_key_id :: int
  ko_data :: string

datatype ResponseBody =
    NoResponse
  | SendMsgResp SendMessageResponse
  | QueryMsgResp QueryMessageResponse
  | QueryMsgListResp QueryMessageListResponse
  | KeyOpResp KeyOperationResponse

record ResponsePacket =
  rs_header :: "Header option"
  rs_body :: ResponseBody

section \<open>Default instances and accessors\<close>

definition Header_default :: Header where
  "Header_default = \<lparr>h_message_id = [], h_command = 0, h_sender_id = [], h_receiver_id = [], h_timestamp = 0\<rparr>"

definition EncryptedMessage_default :: EncryptedMessage where
  "EncryptedMessage_default = \<lparr>em_key_id = 0, em_msg_type = 0, em_ciphertext = [], em_nonce = [], em_tag = [],
     em_algorithm = []\<rparr>"

definition SendMessageRequest_default :: SendMessageRequest where
  "SendMessageRequest_default = \<lparr>smr_message = None\<rparr>"

definition QueryMessageRequest_default :: QueryMessageRequest where
  "QueryMessageRequest_default = \<lparr>qmr_server_message_id = []\<rparr>"

definition QueryMessageListRequest_default :: QueryMessageListRequest where
  "QueryMessageListRequest_default = \<lparr>qml_sender_id = [], qml_limit = 0\<rparr>"

definition KeyAgreementRequest_default :: KeyAgreementRequest where
  "KeyAgreementRequest_default = \<lparr>kar_public_key = [], kar_sign = []\<rparr>"

definition KeyCheckRequest_default :: KeyCheckRequest where
  "KeyCheckRequest_default = \<lparr>kcr_key_id = 0\<rparr>"

definition KeyLogoutRequest_default :: KeyLogoutRequest where
  "KeyLogoutRequest_default = \<lparr>klr_key_id = 0\<rparr>"

definition RequestPacket_default :: RequestPacket where
  "RequestPacket_default = \<lparr>rq_header = None, rq_body = NoRequest\<rparr>"

definition SendMessageResponse_default :: SendMessageResponse where
  "SendMessageResponse_default = \<lparr>sr_code = 0, sr_message = [], sr_server_message_id = [], sr_server_time = 0,
     sr_delivery_status = 0\<rparr>"

definition QueryMessageResponse_default :: QueryMessageResponse where
  "QueryMessageResponse_default = \<lparr>qr_code = 0, qr_message = [], qr_server_message_id = [], qr_sender_id = [],
     qr_receiver_id = [], qr_key_id = 0, qr_msg_type = [], qr_send_time = 0, qr_status = 0\<rparr>"

definition MessageSummary_default :: MessageSummary where
  "MessageSummary_default = \<lparr>ms_server_message_id = [], ms_sender_id = [], ms_receiver_id = [], ms_key_id = 0,
     ms_msg_type = [], ms_send_time = 0, ms_status = 0\<rparr>"

definition QueryMessageListResponse_default :: QueryMessageListResponse where
  "QueryMessageListResponse_default = \<lparr>lr_code = 0, lr_message = [], lr_messages = []\<rparr>"

definition KeyOperationResponse_default :: KeyOperationResponse where
  "KeyOperationResponse_default = \<lparr>ko_code = 0, ko_message = [], ko_key_id = 0, ko_data = []\<rparr>"

definition ResponsePacket_default :: ResponsePacket where
  "ResponsePacket_default = \<lparr>rs_header = None, rs_body = NoResponse\<rparr>"

definition get_header :: "Header option \<Rightarrow> Header" where
  "get_header h = (case h of None \<Rightarrow> Header_default | Some x \<Rightarrow> x)"

definition smr_get_message :: "SendMessageRequest \<Rightarrow> EncryptedMessage" where
  "smr_get_message r = (case smr_message r of None \<Rightarrow> EncryptedMessage_default | Some m \<Rightarrow> m)"

fun send_msg_req :: "RequestBody \<Rightarrow> SendMessageRequest option" where
  "send_msg_req (SendMsgReq r) = Some r" | "send_msg_req _ = None"

fun query_msg_req :: "RequestBody \<Rightarrow> QueryMessageRequest option" where
  "query_msg_req (QueryMsgReq r) = Some r" | "query_msg_req _ = None"

fun query_msg_list_req :: "RequestBody \<Rightarrow> QueryMessageListRequest option" where
  "query_msg_list_req (QueryMsgListReq r) = Some r" | "query_msg_list_req _ = None"

fun key_agree_req :: "RequestBody \<Rightarrow> KeyAgreementRequest option" where
  "key_agree_req (KeyAgreeReq r) = Some r" | "key_agree_req _ = None"

fun key_check_req :: "RequestBody \<Rightarrow> KeyCheckRequest option" where
  "key_check_req (KeyCheckReq r) = Some r" | "key_check_req _ = None"

fun key_logout_req :: "RequestBody \<Rightarrow> KeyLogoutRequest option" where
  "key_logout_req (KeyLogoutReq r) = Some r" | "key_logout_req _ = None"

fun send_msg_resp :: "ResponseBody \<Rightarrow> SendMessageResponse option" where
  "send_msg_resp (SendMsgResp r) = Some r" | "send_msg_resp _ = None"

fun query_msg_resp :: "ResponseBody \<Rightarrow> QueryMessageResponse option" where
  "query_msg_resp (QueryMsgResp r) = Some r" | "query_msg_resp _ = None"

fun query_msg_list_resp :: "ResponseBody \<Rightarrow> QueryMessageListResponse option" where
  "query_msg_list_resp (QueryMsgListResp r) = Some r" | "query_msg_list_resp _ = None"

fun key_op_resp :: "ResponseBody \<Rightarrow> KeyOperationResponse option" where
  "key_op_resp (KeyOpResp r) = Some r" | "key_op_resp _ = None"

end
