(* ===== verification/Codecs.thy ===== *)
theory Codecs
  imports Packets
begin

text \<open>
  The structures of \<open>V2RequestCodec.h\<close> and \<open>V2RespondCodec.h\<close> and the mapping of
  \<open>V2RequestCodec::initMessage\<close> and \<open>V2RespondCodec::initMessage\<close> from them to packets. Each
  \<open>initMessage\<close> works on the packet the codec holds: sub-messages are created or reused by
  \<open>mutable_..\<close>, setting one case of the \<open>oneof\<close> drops the others, and list elements are appended.
\<close>

section \<open>Structures of the business code\<close>

record V2HeaderInfo =
  vh_messageId :: string
  vh_command :: int
  vh_senderId :: string
  vh_receiverId :: string
  vh_timestamp :: int

record V2EncryptedMessageInfo =
  ve_keyId :: int
  ve_msgType :: int
  ve_ciphertext :: string
  ve_nonce :: string
  ve_tag :: string
  ve_algorithm :: string

record V2SendMessageRequestInfo =
  vsr_header :: V2HeaderInfo
  vsr_message :: V2EncryptedMessageInfo

record V2QueryMessageRequestInfo =
  vqr_header :: V2HeaderInfo
  vqr_serverMessageId :: string

record V2QueryMessageListRequestInfo =
  vlr_header :: V2HeaderInfo
  vlr_senderId :: string
  vlr_limit :: int

record V2KeyAgreementRequestInfo =
  vka_header :: V2HeaderInfo
  vka_publicKey :: string
  vka_sign :: string

record V2KeyCheckRequestInfo =
  vkc_header :: V2HeaderInfo
  vkc_keyId :: int

record V2KeyLogoutRequestInfo =
  vkl_header :: V2HeaderInfo
  vkl_keyId :: int

record V2SendMessageResponseInfo =
  vsp_header :: V2HeaderInfo
  vsp_code :: int
  vsp_message :: string
  vsp_serverMessageId :: string
  vsp_serverTime :: int
  vsp_deliveryStatus :: int

record V2QueryMessageResponseInfo =
  vqp_header :: V2HeaderInfo
  vqp_code :: int
  vqp_message :: string
  vqp_serverMessageId :: string
  vqp_senderId :: string
  vqp_receiverId :: string
  vqp_keyId :: int
  vqp_msgType :: string
  vqp_sendTime :: int
  vqp_status :: int

record V2MessageSummaryInfo =
  vms_serverMessageId :: string
  vms_senderId :: string
  vms_receiverId :: string
  vms_keyId :: int
  vms_msgType :: string
  vms_sendTime :: int
  vms_status :: int

record V2QueryMessageListResponseInfo =
  vlp_header :: V2HeaderInfo
  vlp_code :: int
  vlp_message :: string
  vlp_messages :: "V2MessageSummaryInfo list"

record V2KeyOperationResponseInfo =
  vko_header :: V2HeaderInfo
  vko_code :: int
  vko_message :: string
  vko_keyId :: int
  vko_data :: string

section \<open>Requests\<close>

text \<open>The five setters of the common header.\<close>

definition pb_header :: "V2HeaderInfo \<Rightarrow> Header" where
  "pb_header h = \<lparr>h_message_id = vh_messageId h, h_command = vh_command h, h_sender_id = vh_senderId h,
     h_receiver_id = vh_receiverId h, h_timestamp = vh_timestamp h\<rparr>"

definition init_send_req :: "V2SendMessageRequestInfo \<Rightarrow> RequestPacket \<Rightarrow> RequestPacket" where
  "init_send_req info m = m\<lparr>rq_header := Some (pb_header (vsr_header info)),
     rq_body := SendMsgReq \<lparr>smr_message = Some \<lparr>em_key_id = ve_keyId (vsr_message info),
       em_msg_type = ve_msgType (vsr_message info), em_ciphertext = ve_ciphertext (vsr_message info),
       em_nonce = ve_nonce (vsr_message info), em_tag = ve_tag (vsr_message info),
       em_algorithm = ve_algorithm (vsr_message info)\<rparr>\<rparr>\<rparr>"

definition init_query_req :: "V2QueryMessageRequestInfo \<Rightarrow> RequestPacket \<Rightarrow> RequestPacket" where
  "init_query_req info m = m\<lparr>rq_header := Some (pb_header (vqr_header info)),
     rq_body := QueryMsgReq \<lparr>qmr_server_message_id = vqr_serverMessageId info\<rparr>\<rparr>"

definition init_list_req :: "V2QueryMessageListRequestInfo \<Rightarrow> RequestPacket \<Rightarrow> RequestPacket" where
  "init_list_req info m = m\<lparr>rq_header := Some (pb_header (vlr_header info)),
     rq_body := QueryMsgListReq \<lparr>qml_sender_id = vlr_senderId info, qml_limit = vlr_limit info\<rparr>\<rparr>"

definition init_agree_req :: "V2KeyAgreementRequestInfo \<Rightarrow> RequestPacket \<Rightarrow> RequestPacket" where
  "init_agree_req info m = m\<lparr>rq_header := Some (pb_header (vka_header info)),
     rq_body := KeyAgreeReq \<lparr>kar_public_key = vka_publicKey info, kar_sign = vka_sign info\<rparr>\<rparr>"

definition init_check_req :: "V2KeyCheckRequestInfo \<Rightarrow> RequestPacket \<Rightarrow> RequestPacket" where
  "init_check_req info m = m\<lparr>rq_header := Some (pb_header (vkc_header info)),
     rq_body := KeyCheckReq \<lparr>kcr_key_id = vkc_keyId info\<rparr>\<rparr>"

definition init_logout_req :: "V2KeyLogoutRequestInfo \<Rightarrow> RequestPacket \<Rightarrow> RequestPacket" where
  "init_logout_req info m = m\<lparr>rq_header := Some (pb_header (vkl_header info)),
     rq_body := KeyLogoutReq \<lparr>klr_key_id = vkl_keyId info\<rparr>\<rparr>"

section \<open>Responses\<close>

definition init_send_resp :: "V2SendMessageResponseInfo \<Rightarrow> ResponsePacket \<Rightarrow> ResponsePacket" where
  "init_send_resp info m = m\<lparr>rs_header := Some (pb_header (vsp_header info)),
     rs_body := SendMsgResp \<lparr>sr_code = vsp_code info, sr_message = vsp_message info,
       sr_server_message_id = vsp_serverMessageId info, sr_server_time = vsp_serverTime info,
       sr_delivery_status = vsp_deliveryStatus info\<rparr>\<rparr>"

definition init_query_resp :: "V2QueryMessageResponseInfo \<Rightarrow> ResponsePacket \<Rightarrow> ResponsePacket" where
  "init_query_resp info m = m\<lparr>rs_header := Some (pb_header (vqp_header info)),
     rs_body := QueryMsgResp \<lparr>qr_code = vqp_code info, qr_message = vqp_message info,
       qr_server_message_id = vqp_serverMessageId info, qr_sender_id = vqp_senderId info,
       qr_receiver_id = vqp_receiverId info, qr_key_id = vqp_keyId info, qr_msg_type = vqp_msgType info,
       qr_send_time = vqp_sendTime info, qr_status = vqp_status info\<rparr>\<rparr>"

definition pb_summary :: "V2MessageSummaryInfo \<Rightarrow> MessageSummary" where
  "pb_summary s = \<lparr>ms_server_message_id = vms_serverMessageId s, ms_sender_id = vms_senderId s,
     ms_receiver_id = vms_receiverId s, ms_key_id = vms_keyId s, ms_msg_type = vms_msgType s,
     ms_send_time = vms_sendTime s, ms_status = vms_status s\<rparr>"

definition init_list_resp :: "V2QueryMessageListResponseInfo \<Rightarrow> ResponsePacket \<Rightarrow> ResponsePacket" where
  "init_list_resp info m =
     (let old = (case query_msg_list_resp (rs_body m) of Some r \<Rightarrow> lr_messages r | None \<Rightarrow> []) in
      m\<lparr>rs_header := Some (pb_header (vlp_header info)),
        rs_body := QueryMsgListResp \<lparr>lr_code = vlp_code info, lr_message = vlp_message info,
          lr_messages = old @ map pb_summary (vlp_messages info)\<rparr>\<rparr>)"

definition init_key_resp :: "V2KeyOperationResponseInfo \<Rightarrow> ResponsePacket \<Rightarrow> ResponsePacket" where
  "init_key_resp info m = m\<lparr>rs_header := Some (pb_header (vko_header info)),
     rs_body := KeyOpResp \<lparr>ko_code = vko_code info, ko_message = vko_message info, ko_key_id = vko_keyId info,
       ko_data = vko_data info\<rparr>\<rparr>"

lemma get_header_Some [simp]: "get_header (Some h) = h"
  by (simp add: get_header_def)

lemma pb_header_simps [simp]:
  "h_message_id (pb_header h) = vh_messageId h" "h_command (pb_header h) = vh_command h"
  "h_sender_id (pb_header h) = vh_senderId h" "h_receiver_id (pb_header h) = vh_receiverId h"
  "h_timestamp (pb_header h) = vh_timestamp h"
  by (simp_all add: pb_header_def)

end
