(* ===== verification/QuerySvc.thy ===== *)
theory QuerySvc
  imports MsgStore Codecs
begin

text \<open>
  \<open>MessageQueryService.cpp\<close>: looking up one message and listing a sender's latest messages, with
  their permission checks and audit records. The class works on the interfaces
  \<open>IMessageRepository\<close> and \<open>IMessageAudit\<close>; so do the definitions, which take the interface's
  operations as arguments. What the service relies on is stated as locales, which the MySQL
  implementation of \<open>MsgStore\<close> meets.
\<close>

section \<open>Identifiers and times\<close>

definition micros_now :: "env \<Rightarrow> proc \<Rightarrow> nat \<times> proc" where
  "micros_now env w = (e_micros env (pr_micros w), w\<lparr>pr_micros := Suc (pr_micros w)\<rparr>)"

text \<open>\<open>++sequence\<close> of the function's own static counter, 64 bits wide.\<close>

definition generateQueryAuditId :: "env \<Rightarrow> string \<Rightarrow> 64 word \<Rightarrow> proc \<Rightarrow> string \<times> 64 word \<times> proc" where
  "generateQueryAuditId env serverId seq w =
     (let (micros, w) = micros_now env w; seq = seq + 1 in
      (serverId @ ''_audit_'' @ show_nat micros @ ''_'' @ show_u64 seq, seq, w))"

definition parseDateTimeToTimestamp :: "env \<Rightarrow> string \<Rightarrow> int" where
  "parseDateTimeToTimestamp env s =
     (if s = [] then 0
      else (case get_time s of
          None \<Rightarrow> 0
        | Some t \<Rightarrow> (let timestamp = e_mktime env t in if timestamp = - 1 then 0 else timestamp)))"

section \<open>Validation\<close>

text \<open>\<^const>\<open>None\<close>: the request is valid; otherwise the error text.\<close>

definition validateQueryRequest :: "RequestPacket \<Rightarrow> string option" where
  "validateQueryRequest p =
     (if rq_header p = None then Some ''header is empty''
      else if h_sender_id (get_header (rq_header p)) = [] then Some ''header sender_id is empty''
      else case query_msg_req (rq_body p) of
          None \<Rightarrow> Some ''query_msg_req is empty''
        | Some r \<Rightarrow> if qmr_server_message_id r = [] then Some ''server_message_id is empty'' else None)"

definition validateQueryListRequest :: "RequestPacket \<Rightarrow> string option" where
  "validateQueryListRequest p =
     (if rq_header p = None then Some ''header is empty''
      else case query_msg_list_req (rq_body p) of
          None \<Rightarrow> Some ''query_msg_list_req is empty''
        | Some r \<Rightarrow>
            if h_sender_id (get_header (rq_header p)) = [] then Some ''header sender_id is empty''
            else if qml_sender_id r = [] then Some ''query sender_id is empty''
            else if qml_limit r \<le> 0 then Some ''limit must be greater than 0''
            else if qml_limit r > 100 then Some ''limit must not exceed 100''
            else None)"

section \<open>Handlers\<close>

record 's query_state =
  qs_store :: 's
  qs_proc :: proc
  qs_seq :: "64 word"

definition empty_header :: V2HeaderInfo where
  "empty_header = \<lparr>vh_messageId = [], vh_command = 0, vh_senderId = [], vh_receiverId = [], vh_timestamp = 0\<rparr>"

definition query_response_header ::
    "env \<Rightarrow> string \<Rightarrow> RequestPacket \<Rightarrow> int \<Rightarrow> 's query_state \<Rightarrow> V2HeaderInfo \<times> 's query_state" where
  "query_response_header env serverId p command s =
     (let (t, w) = time_now env (qs_proc s);
          h = empty_header\<lparr>vh_command := command, vh_senderId := serverId, vh_timestamp := t\<rparr> in
      (case rq_header p of
         None \<Rightarrow> h
       | Some rh \<Rightarrow> h\<lparr>vh_messageId := h_message_id rh, vh_receiverId := h_sender_id rh\<rparr>,
       s\<lparr>qs_proc := w\<rparr>))"

type_synonym 's audit_op = "string \<Rightarrow> string \<Rightarrow> string \<Rightarrow> string \<Rightarrow> int \<Rightarrow> string \<Rightarrow> 's \<Rightarrow> proc \<Rightarrow> (bool \<times> 's \<times> proc) option"
type_synonym 's by_id_op = "string \<Rightarrow> 's \<Rightarrow> ((bool \<times> MessageQueryResult) \<times> 's) option"
type_synonym 's recent_op = "string \<Rightarrow> int \<Rightarrow> 's \<Rightarrow> ((bool \<times> MessageSummaryInfo list) \<times> 's) option"

text \<open>\<open>m_audit->logAction(generateAuditLogId(), ..)\<close>; its result is not looked at.\<close>

definition query_audit ::
    "env \<Rightarrow> string \<Rightarrow> 's audit_op \<Rightarrow> string \<Rightarrow> string \<Rightarrow> string \<Rightarrow> int \<Rightarrow> string \<Rightarrow> 's query_state \<Rightarrow>
     's query_state option" where
  "query_audit env serverId audit nodeId action targetId res detail s = do {
     let (logId, seq, w) = generateQueryAuditId env serverId (qs_seq s) (qs_proc s);
     (_, st, w) \<leftarrow> audit logId nodeId action targetId res detail (qs_store s) w;
     Some (s\<lparr>qs_store := st, qs_proc := w, qs_seq := seq\<rparr>)
   }"

definition query_response_new :: "V2HeaderInfo \<Rightarrow> V2QueryMessageResponseInfo" where
  "query_response_new h = \<lparr>vqp_header = h, vqp_code = RESULT_FAILED, vqp_message = ''query message failed'',
     vqp_serverMessageId = [], vqp_senderId = [], vqp_receiverId = [], vqp_keyId = 0, vqp_msgType = [],
     vqp_sendTime = 0, vqp_status = 0\<rparr>"

definition handleQueryMessage ::
    "env \<Rightarrow> string \<Rightarrow> 's by_id_op \<Rightarrow> 's audit_op \<Rightarrow> RequestPacket \<Rightarrow> 's query_state \<Rightarrow>
     (V2QueryMessageResponseInfo \<times> 's query_state) option" where
  "handleQueryMessage env serverId by_id audit p s = (
     let (h, s) = query_response_header env serverId p CMD_QUERY_MSG_RESP s;
         response = query_response_new h;
         log = query_audit env serverId audit in
     case validateQueryRequest p of
       Some err \<Rightarrow> do {
         s \<leftarrow> log (if rq_header p \<noteq> None then h_sender_id (get_header (rq_header p)) else [])
                ''MSG_QUERY'' [] 0 (''invalid query request: '' @ err) s;
         Some (response\<lparr>vqp_code := RESULT_INVALID_REQUEST, vqp_message := err\<rparr>, s)
       }
     | None \<Rightarrow> do {
         let me = h_sender_id (get_header (rq_header p));
         let target = (case query_msg_req (rq_body p) of Some r \<Rightarrow> qmr_server_message_id r | None \<Rightarrow> []);
         ((ok, r), st) \<leftarrow> by_id target (qs_store s);
         let s = s\<lparr>qs_store := st\<rparr>;
         if \<not> ok \<or> \<not> mq_found r then do {
           s \<leftarrow> log me ''MSG_QUERY'' target 0 ''message not found'' s;
           Some (response\<lparr>vqp_code := RESULT_MSG_NOT_FOUND, vqp_message := ''message not found'',
             vqp_serverMessageId := target\<rparr>, s)
         }
         else if me \<noteq> mq_senderId r \<and> me \<noteq> mq_receiverId r then do {
           s \<leftarrow> log me ''MSG_QUERY'' target 0 ''permission denied'' s;
           Some (response\<lparr>vqp_code := RESULT_INVALID_REQUEST, vqp_message := ''permission denied'',
             vqp_serverMessageId := target\<rparr>, s)
         }
         else do {
           s \<leftarrow> log me ''MSG_QUERY'' target 1 ''query message success'' s;
           Some (response\<lparr>vqp_code := RESULT_SUCCESS, vqp_message := ''query message success'',
             vqp_serverMessageId := mq_msgId r, vqp_senderId := mq_senderId r, vqp_receiverId := mq_receiverId r,
             vqp_keyId := mq_keyId r, vqp_msgType := mq_msgType r,
             vqp_sendTime := parseDateTimeToTimestamp env (mq_sendTime r), vqp_status := mq_status r\<rparr>, s)
         }
       })"

definition summary_info :: "env \<Rightarrow> MessageSummaryInfo \<Rightarrow> V2MessageSummaryInfo" where
  "summary_info env item = \<lparr>vms_serverMessageId = mi_msgId item, vms_senderId = mi_senderId item,
     vms_receiverId = mi_receiverId item, vms_keyId = mi_keyId item, vms_msgType = mi_msgType item,
     vms_sendTime = parseDateTimeToTimestamp env (mi_sendTime item), vms_status = mi_status item\<rparr>"

definition handleQueryMessageList ::
    "env \<Rightarrow> string \<Rightarrow> 's recent_op \<Rightarrow> 's audit_op \<Rightarrow> RequestPacket \<Rightarrow> 's query_state \<Rightarrow>
     (V2QueryMessageListResponseInfo \<times> 's query_state) option" where
  "handleQueryMessageList env serverId recent audit p s = (
     let (h, s) = query_response_header env serverId p CMD_QUERY_MSG_LIST_RESP s;
         response = \<lparr>vlp_header = h, vlp_code = RESULT_FAILED, vlp_message = ''query message list failed'',
           vlp_messages = []\<rparr>;
         log = query_audit env serverId audit in
     case validateQueryListRequest p of
       Some err \<Rightarrow> do {
         s \<leftarrow> log (if rq_header p \<noteq> None then h_sender_id (get_header (rq_header p)) else [])
                ''MSG_LIST_QUERY'' [] 0 (''invalid query list request: '' @ err) s;
         Some (response\<lparr>vlp_code := RESULT_INVALID_REQUEST, vlp_message := err\<rparr>, s)
       }
     | None \<Rightarrow> do {
         let me = h_sender_id (get_header (rq_header p));
         let (who, limit) = (case query_msg_list_req (rq_body p) of
             Some r \<Rightarrow> (qml_sender_id r, qml_limit r) | None \<Rightarrow> ([], 0));
         if who \<noteq> me then do {
           s \<leftarrow> log me ''MSG_LIST_QUERY'' who 0 ''permission denied'' s;
           Some (response\<lparr>vlp_code := RESULT_INVALID_REQUEST, vlp_message := ''permission denied''\<rparr>, s)
         }
         else do {
           ((ok, stored), st) \<leftarrow> recent who limit (qs_store s);
           let s = s\<lparr>qs_store := st\<rparr>;
           if \<not> ok then do {
             s \<leftarrow> log me ''MSG_LIST_QUERY'' who 0 ''query recent messages failed'' s;
             Some (response\<lparr>vlp_code := RESULT_FAILED, vlp_message := ''query recent messages failed''\<rparr>, s)
           }
           else do {
             let messages = map (summary_info env) stored;
             s \<leftarrow> log me ''MSG_LIST_QUERY'' who 1
                    (''query message list success, count = '' @ show_nat (length messages)) s;
             Some (response\<lparr>vlp_messages := messages, vlp_code := RESULT_SUCCESS,
               vlp_message := ''query message list success''\<rparr>, s)
           }
         }
       })"

section \<open>The interfaces and what the service promises on them\<close>

text \<open>One audit record, about the requester, or none where writing it failed; no message changes.\<close>

definition audited ::
    "('s \<Rightarrow> MessageLogRecord list) \<Rightarrow> ('s \<Rightarrow> audit_row list) \<Rightarrow> string \<Rightarrow> string \<Rightarrow> string \<Rightarrow> int \<Rightarrow>
     's \<Rightarrow> 's \<Rightarrow> bool" where
  "audited messages trail me action target code st st' \<longleftrightarrow> messages st' = messages st \<and>
     (trail st' = trail st \<or> (\<exists>row. trail st' = trail st @ [row] \<and>
        ar_nodeId row = (if me = [] then None else Some me) \<and> ar_action row = action \<and>
        ar_targetId row = target \<and> ar_result row = code))"

locale message_repository =
  fixes by_id :: "'s by_id_op"
    and recent :: "'s recent_op"
    and messages :: "'s \<Rightarrow> MessageLogRecord list"
    and trail :: "'s \<Rightarrow> audit_row list"
    and same_key :: "string \<Rightarrow> string \<Rightarrow> bool"
    and latest :: "MessageLogRecord list \<Rightarrow> MessageLogRecord list"
  assumes by_id_result: "by_id i st = Some ((ok, res), st') \<Longrightarrow>
      messages st' = messages st \<and> trail st' = trail st \<and> mq_found res = ok \<and>
      (ok \<longrightarrow> (\<exists>r \<in> set (messages st). same_key (ml_msgId r) i \<and> res = result_of i r))"
    and recent_result: "recent who n st = Some ((ok, rs), st') \<Longrightarrow>
      messages st' = messages st \<and> trail st' = trail st \<and>
      (ok \<longrightarrow> 0 < n \<and>
         rs = map summary_of (take (nat n) (latest (filter (\<lambda>r. same_key (ml_senderId r) who) (messages st)))))"

locale message_audit =
  fixes audit :: "'s audit_op"
    and messages :: "'s \<Rightarrow> MessageLogRecord list"
    and trail :: "'s \<Rightarrow> audit_row list"
  assumes audit_result: "audit l nd a tg r d st w = Some (ok, st', w') \<Longrightarrow>
      messages st' = messages st \<and>
      (let appended = (\<exists>time. trail st' = trail st @ [audit_row_of \<lparr>al_logId = l, al_nodeId = nd, al_action = a,
            al_targetId = tg, al_result = r, al_detail = d, al_createTime = time\<rparr>]) in
       if ok then appended else appended \<or> trail st' = trail st)"

locale query_service =
  message_repository by_id recent messages trail same_key latest +
  message_audit audit messages trail
  for by_id :: "'s by_id_op" and recent :: "'s recent_op" and messages :: "'s \<Rightarrow> MessageLogRecord list"
    and trail :: "'s \<Rightarrow> audit_row list" and same_key :: "string \<Rightarrow> string \<Rightarrow> bool"
    and latest :: "MessageLogRecord list \<Rightarrow> MessageLogRecord list" and audit :: "'s audit_op"
begin

lemma query_audit_effect:
  assumes "query_audit env serverId audit me action target code detail s = Some s'"
  shows "audited messages trail me action target code (qs_store s) (qs_store s')"
proof -
  obtain l seq w where g: "generateQueryAuditId env serverId (qs_seq s) (qs_proc s) = (l, seq, w)"
    by (cases "generateQueryAuditId env serverId (qs_seq s) (qs_proc s)")
  with assms obtain ok st w' where a: "audit l me action target code detail (qs_store s) w = Some (ok, st, w')"
    and s': "s' = s\<lparr>qs_store := st, qs_proc := w', qs_seq := seq\<rparr>"
    by (auto simp: query_audit_def bind_eq_Some_conv)
  from audit_result [OF a] s' show ?thesis
    unfolding audited_def Let_def by (auto simp: audit_row_of_def split: if_splits)
qed

lemma requester:
  "(if rq_header p \<noteq> None then h_sender_id (get_header (rq_header p)) else []) = h_sender_id (get_header (rq_header p))"
  by (simp add: get_header_def Header_default_def)

lemma query_response_header_store:
  "query_response_header env serverId p c s = (h, s0) \<Longrightarrow> qs_store s0 = qs_store s"
  by (auto simp: query_response_header_def Let_def split: prod.splits)

lemma query_cases:
  assumes run: "handleQueryMessage env serverId by_id audit p s = Some (resp, s')"
  defines "me \<equiv> h_sender_id (get_header (rq_header p))"
  shows "(vqp_code resp = RESULT_SUCCESS \<and> me \<noteq> [] \<and>
      (\<exists>target r. query_msg_req (rq_body p) = Some \<lparr>qmr_server_message_id = target\<rparr> \<and> target \<noteq> [] \<and>
         r \<in> set (messages (qs_store s)) \<and> same_key (ml_msgId r) target \<and>
         (me = c_str (ml_senderId r) \<or> me = c_str (ml_receiverId r)) \<and>
         vqp_serverMessageId resp = target \<and> vqp_senderId resp = c_str (ml_senderId r) \<and>
         vqp_receiverId resp = c_str (ml_receiverId r) \<and> vqp_keyId resp = ml_senderKeyId r \<and>
         vqp_status resp = ml_status r \<and> audited messages trail me ''MSG_QUERY'' target 1 (qs_store s) (qs_store s')))
    \<or> (vqp_code resp \<in> {RESULT_INVALID_REQUEST, RESULT_MSG_NOT_FOUND} \<and> vqp_senderId resp = [] \<and>
       vqp_receiverId resp = [] \<and> vqp_keyId resp = 0 \<and> vqp_msgType resp = [] \<and> vqp_sendTime resp = 0 \<and>
       vqp_status resp = 0 \<and>
       (\<exists>target. audited messages trail me ''MSG_QUERY'' target 0 (qs_store s) (qs_store s')))"
proof -
  obtain h s0 where hd: "query_response_header env serverId p CMD_QUERY_MSG_RESP s = (h, s0)"
    by (cases "query_response_header env serverId p CMD_QUERY_MSG_RESP s")
  note st0 = query_response_header_store [OF hd]
  show ?thesis
  proof (cases "validateQueryRequest p")
    case (Some err)
    with run hd st0 show ?thesis
      by (auto simp: handleQueryMessage_def Let_def bind_eq_Some_conv query_response_new_def me_def requester
          dest!: query_audit_effect simp del: not_None_eq)
  next
    case None
    then obtain rq where req: "query_msg_req (rq_body p) = Some rq" "qmr_server_message_id rq \<noteq> []"
      and hdr: "rq_header p \<noteq> None" "me \<noteq> []"
      by (auto simp: validateQueryRequest_def me_def split: if_splits option.splits)
    let ?t = "qmr_server_message_id rq"
    from None run hd req obtain ok r st where q: "by_id ?t (qs_store s0) = Some ((ok, r), st)"
      by (auto simp: handleQueryMessage_def Let_def bind_eq_Some_conv)
    note R = by_id_result [OF q]
    consider "\<not> ok" | ok "me \<noteq> mq_senderId r \<and> me \<noteq> mq_receiverId r" | ok "me = mq_senderId r \<or> me = mq_receiverId r"
      by blast
    then show ?thesis
    proof cases
      case 1
      with None run hd req q R st0 hdr show ?thesis
        by (auto simp: handleQueryMessage_def Let_def bind_eq_Some_conv query_response_new_def me_def audited_def
            dest!: query_audit_effect)
    next
      case 2
      with None run hd req q R st0 hdr show ?thesis
        by (auto simp: handleQueryMessage_def Let_def bind_eq_Some_conv query_response_new_def me_def audited_def
            dest!: query_audit_effect)
    next
      case 3
      with R have found: "mq_found r" by simp
      have resp: "vqp_code resp = RESULT_SUCCESS" "vqp_serverMessageId resp = mq_msgId r"
        "vqp_senderId resp = mq_senderId r" "vqp_receiverId resp = mq_receiverId r" "vqp_keyId resp = mq_keyId r"
        "vqp_status resp = mq_status r" "audited messages trail me ''MSG_QUERY'' ?t 1 (qs_store s) (qs_store s')"
        using 3 found None run hd req q R st0
        by (auto simp: handleQueryMessage_def Let_def bind_eq_Some_conv query_response_new_def me_def audited_def
            dest!: query_audit_effect)
      from 3 R st0 obtain m where m: "m \<in> set (messages (qs_store s))" "same_key (ml_msgId m) ?t"
        "r = result_of ?t m" by auto
      have "rq = \<lparr>qmr_server_message_id = ?t\<rparr>" by simp
      with m resp 3(2) hdr(2) req show ?thesis
        by - (rule disjI1, intro conjI exI [of _ ?t] exI [of _ m], simp_all add: result_of_def)
    qed
  qed
qed

lemma list_cases:
  assumes run: "handleQueryMessageList env serverId recent audit p s = Some (resp, s')"
  defines "me \<equiv> h_sender_id (get_header (rq_header p))"
  shows "(vlp_code resp = RESULT_SUCCESS \<and> me \<noteq> [] \<and>
      (\<exists>n. query_msg_list_req (rq_body p) = Some \<lparr>qml_sender_id = me, qml_limit = n\<rparr> \<and> 0 < n \<and> n \<le> 100 \<and>
         vlp_messages resp = map (summary_info env \<circ> summary_of) (take (nat n)
           (latest (filter (\<lambda>r. same_key (ml_senderId r) me) (messages (qs_store s))))) \<and>
         audited messages trail me ''MSG_LIST_QUERY'' me 1 (qs_store s) (qs_store s')))
    \<or> (vlp_code resp \<in> {RESULT_INVALID_REQUEST, RESULT_FAILED} \<and> vlp_messages resp = [] \<and>
       (\<exists>target. audited messages trail me ''MSG_LIST_QUERY'' target 0 (qs_store s) (qs_store s')))"
proof -
  obtain h s0 where hd: "query_response_header env serverId p CMD_QUERY_MSG_LIST_RESP s = (h, s0)"
    by (cases "query_response_header env serverId p CMD_QUERY_MSG_LIST_RESP s")
  note st0 = query_response_header_store [OF hd]
  show ?thesis
  proof (cases "validateQueryListRequest p")
    case (Some err)
    with run hd st0 show ?thesis
      by (auto simp: handleQueryMessageList_def Let_def bind_eq_Some_conv me_def requester
          dest!: query_audit_effect simp del: not_None_eq)
  next
    case None
    then obtain rq where req: "query_msg_list_req (rq_body p) = Some rq" "0 < qml_limit rq" "qml_limit rq \<le> 100"
      and hdr: "me \<noteq> []"
      by (auto simp: validateQueryListRequest_def me_def split: if_splits option.splits)
    let ?who = "qml_sender_id rq" and ?n = "qml_limit rq"
    show ?thesis
    proof (cases "?who = me")
      case False
      with None run hd req st0 show ?thesis
        by (auto simp: handleQueryMessageList_def Let_def bind_eq_Some_conv me_def dest!: query_audit_effect)
    next
      case who: True
      with None run hd req obtain ok rs st where q: "recent me ?n (qs_store s0) = Some ((ok, rs), st)"
        by (auto simp: handleQueryMessageList_def Let_def bind_eq_Some_conv me_def)
      note R = recent_result [OF q]
      show ?thesis
      proof (cases ok)
        case False
        with None run hd req q R st0 who show ?thesis
          by (auto simp: handleQueryMessageList_def Let_def bind_eq_Some_conv me_def audited_def
              dest!: query_audit_effect)
      next
        case True
        have resp: "vlp_code resp = RESULT_SUCCESS" "vlp_messages resp = map (summary_info env) rs"
          "audited messages trail me ''MSG_LIST_QUERY'' me 1 (qs_store s) (qs_store s')"
          using True None run hd req q R st0 who
          by (auto simp: handleQueryMessageList_def Let_def bind_eq_Some_conv me_def audited_def
              dest!: query_audit_effect)
        from who have "rq = \<lparr>qml_sender_id = me, qml_limit = ?n\<rparr>" by simp
        with R True st0 req resp hdr show ?thesis
          by - (rule disjI1, intro conjI exI [of _ ?n], simp_all)
      qed
    qed
  qed
qed

end

interpretation mysql_query: query_service "queryMessageById env" "queryRecentMessagesBySender env" messages_of audits_of
  "same_text env" "e_order env" "logAction env" for env
proof (unfold_locales, goal_cases)
  case (1 i st ok res st')
  then show ?case using queryMessageById_effect [of env i st ok res st'] by auto
next
  case (2 who n st ok rs st')
  then show ?case using queryRecentMessagesBySender_effect [of env who n st ok rs st'] by auto
next
  case (3 l nd a tg r d st w ok st' w')
  then show ?case by (rule logAction_effect)
qed

section \<open>Properties\<close>

text \<open>C21. Permission to query a message: a successful answer is given only to the sender or the
  receiver of a stored message with the requested identifier, and its fields are that message's; every
  other answer carries an error code and none of a message's data. Either way the messages are unchanged
  and at most one audit record about the requester is added, whose result tells success from failure.\<close>

theorem query_permission:
  assumes "handleQueryMessage env serverId (queryMessageById env) (logAction env) p s = Some (resp, s')"
    and "me = h_sender_id (get_header (rq_header p))"
  shows "(vqp_code resp = RESULT_SUCCESS \<and> me \<noteq> [] \<and>
      (\<exists>target r. query_msg_req (rq_body p) = Some \<lparr>qmr_server_message_id = target\<rparr> \<and> target \<noteq> [] \<and>
         r \<in> set (messages_of (qs_store s)) \<and> same_text env (ml_msgId r) target \<and>
         (me = c_str (ml_senderId r) \<or> me = c_str (ml_receiverId r)) \<and>
         vqp_serverMessageId resp = target \<and> vqp_senderId resp = c_str (ml_senderId r) \<and>
         vqp_receiverId resp = c_str (ml_receiverId r) \<and> vqp_keyId resp = ml_senderKeyId r \<and>
         vqp_status resp = ml_status r \<and>
         audited messages_of audits_of me ''MSG_QUERY'' target 1 (qs_store s) (qs_store s')))
    \<or> (vqp_code resp \<in> {RESULT_INVALID_REQUEST, RESULT_MSG_NOT_FOUND} \<and> vqp_senderId resp = [] \<and>
       vqp_receiverId resp = [] \<and> vqp_keyId resp = 0 \<and> vqp_msgType resp = [] \<and> vqp_sendTime resp = 0 \<and>
       vqp_status resp = 0 \<and>
       (\<exists>target. audited messages_of audits_of me ''MSG_QUERY'' target 0 (qs_store s) (qs_store s')))"
  using mysql_query.query_cases [OF assms(1)] unfolding assms(2) .

definition demo_message :: MessageLogRecord where
  "demo_message = \<lparr>ml_msgId = ''srv_msg_1_1'', ml_senderId = ''alice'', ml_receiverId = ''bob'', ml_senderKeyId = 6,
     ml_receiverKeyId = 5, ml_msgType = ''text'', ml_senderCiphertext = ''c1'', ml_senderNonce = ''n1'',
     ml_senderTag = ''t1'', ml_receiverCiphertext = ''c2'', ml_receiverNonce = ''n2'', ml_receiverTag = ''t2'',
     ml_algorithm = ''AES-128-GCM'', ml_sendTime = ''0001-01-01 00:00:01'', ml_status = 1\<rparr>"

definition demo_query_state :: "mysql option query_state" where
  "demo_query_state = \<lparr>qs_store = Some (fresh_conn (demo_tables\<lparr>t_messages := [demo_message]\<rparr>)),
     qs_proc = proc_start, qs_seq = 0\<rparr>"

definition demo_header :: "string \<Rightarrow> Header" where
  "demo_header who = \<lparr>h_message_id = ''m1'', h_command = 3, h_sender_id = who, h_receiver_id = ''srv'', h_timestamp = 0\<rparr>"

definition demo_query :: "string \<Rightarrow> RequestPacket" where
  "demo_query who = \<lparr>rq_header = Some (demo_header who),
     rq_body = QueryMsgReq \<lparr>qmr_server_message_id = ''srv_msg_1_1''\<rparr>\<rparr>"

theorem query_permission_witness:
  "(case handleQueryMessage calm_env ''srv'' (queryMessageById calm_env) (logAction calm_env) (demo_query ''mallory'')
      demo_query_state of
     None \<Rightarrow> False
   | Some (resp, s') \<Rightarrow> vqp_code resp = RESULT_INVALID_REQUEST \<and> vqp_senderId resp = [])"
proof -
  let ?run = "handleQueryMessage calm_env ''srv'' (queryMessageById calm_env) (logAction calm_env)
      (demo_query ''mallory'') demo_query_state"
  have "case ?run of None \<Rightarrow> False | Some (resp, s') \<Rightarrow> vqp_code resp = RESULT_INVALID_REQUEST"
    by code_simp
  then obtain resp s' where run: "?run = Some (resp, s')" and code: "vqp_code resp = RESULT_INVALID_REQUEST"
    by (auto split: option.splits)
  from query_permission [OF run refl] code show ?thesis by (simp add: run)
qed


definition demo_list :: "string \<Rightarrow> int \<Rightarrow> RequestPacket" where
  "demo_list who n = \<lparr>rq_header = Some (demo_header who),
     rq_body = QueryMsgListReq \<lparr>qml_sender_id = who, qml_limit = n\<rparr>\<rparr>"


text \<open>Requests are checked before the repository is used: when validation fails, or when a client
  asks for another client's list, the answer and the resulting state do not depend on the repository at
  all, whatever operation is put in its place.\<close>

theorem query_checked_first:
  "(validateQueryRequest p \<noteq> None \<longrightarrow>
      handleQueryMessage env serverId by_id audit p s = handleQueryMessage env serverId by_id' audit p s) \<and>
   (validateQueryListRequest p \<noteq> None \<or>
      map_option qml_sender_id (query_msg_list_req (rq_body p)) \<noteq> Some (h_sender_id (get_header (rq_header p))) \<longrightarrow>
      handleQueryMessageList env serverId recent audit p s = handleQueryMessageList env serverId recent' audit p s)"
proof -
  have "handleQueryMessage env serverId by_id audit p s = handleQueryMessage env serverId by_id' audit p s"
    if "validateQueryRequest p \<noteq> None"
    using that by (auto simp: handleQueryMessage_def Let_def)
  moreover have "handleQueryMessageList env serverId recent audit p s = handleQueryMessageList env serverId recent' audit p s"
    if "validateQueryListRequest p = Some e" for e
    using that by (auto simp: handleQueryMessageList_def Let_def)
  moreover have "handleQueryMessageList env serverId recent audit p s = handleQueryMessageList env serverId recent' audit p s"
    if "validateQueryListRequest p = None"
      "map_option qml_sender_id (query_msg_list_req (rq_body p)) \<noteq> Some (h_sender_id (get_header (rq_header p)))"
    using that
    by (auto simp: handleQueryMessageList_def Let_def validateQueryListRequest_def split: if_splits option.splits)
  ultimately show ?thesis by (cases "validateQueryListRequest p") blast+
qed

theorem query_checked_first_witness:
  "handleQueryMessageList calm_env ''srv'' (\<lambda>w n st. None) (logAction calm_env) (demo_list ''alice'' 101) demo_query_state =
   handleQueryMessageList calm_env ''srv'' (queryRecentMessagesBySender calm_env) (logAction calm_env)
     (demo_list ''alice'' 101) demo_query_state"
proof -
  have "validateQueryListRequest (demo_list ''alice'' 101) \<noteq> None" by code_simp
  then show ?thesis using query_checked_first [of "demo_list ''alice'' 101"] by blast
qed

end
