(* ===== verification/KeyLife.thy ===== *)
theory KeyLife
  imports KeyStore Sample
begin

text \<open>
  What the key operations of \<open>KeyStore\<close> guarantee about the key table: the invariant of key
  numbers and of one active key per pair, the irreversible lifecycle of a key, and the meaning of
  a positive validity check and of a logout, under every pattern of statement failures.
\<close>

section \<open>The invariant of the key tables\<close>

definition same_pair :: "env \<Rightarrow> key_row \<Rightarrow> key_row \<Rightarrow> bool" where
  "same_pair env r s = key_pair_is env (kr_client s) (kr_server s) r"

definition one_active :: "env \<Rightarrow> key_row list \<Rightarrow> bool" where
  "one_active env = sorted_wrt (\<lambda>r s. \<not> (is_active r \<and> is_active s \<and> same_pair env r s))"

definition fresh_number :: "tables \<Rightarrow> bool" where
  "fresh_number t = (case t_keysn t of [k] \<Rightarrow> 0 < k \<and> list_all (\<lambda>r. kr_keyid r < k) (t_keys t) | _ \<Rightarrow> False)"

definition key_inv :: "env \<Rightarrow> tables \<Rightarrow> bool" where
  "key_inv env t \<longleftrightarrow> fresh_number t \<and> distinct (map kr_keyid (t_keys t)) \<and> one_active env (t_keys t)"

lemma map_keyid_retire_pair [simp]: "map kr_keyid (retire_pair env now c v rs) = map kr_keyid rs"
  by (simp add: retire_pair_def map_update_where)

lemma one_active_update_where:
  assumes "one_active env rs" and "\<And>x. \<not> is_active (f x)"
  shows "one_active env (update_where p f rs)"
  using assms unfolding one_active_def update_where_def sorted_wrt_map
  by (auto elim!: sorted_wrt_mono_rel [rotated] split: if_splits)

lemma retire_pair_inactive:
  assumes "r \<in> set (retire_pair env now c v rs)" and "key_pair_is env c v r"
  shows "\<not> is_active r"
proof -
  have "list_all (\<lambda>r. \<not> (key_pair_is env c v r \<and> is_active r)) (retire_pair env now c v rs)"
    by (induction rs) (auto simp: retire_pair_def update_where_def)
  with assms show ?thesis by (auto simp: list_all_iff)
qed

lemma new_key_row_simps [simp]:
  "kr_client (new_key_row now c v k sk rot) = c" "kr_server (new_key_row now c v k sk rot) = v"
  "kr_keyid (new_key_row now c v k sk rot) = k" "is_active (new_key_row now c v k sk rot)"
  by (simp_all add: new_key_row_def is_active_def)

lemma one_active_rotate:
  assumes "one_active env rs"
  shows "one_active env (retire_pair env now1 c v rs @ [new_key_row now2 c v k sk rot])"
proof -
  have "one_active env (retire_pair env now1 c v rs)"
    unfolding retire_pair_def by (rule one_active_update_where [OF assms]) simp
  then show ?thesis
    unfolding one_active_def sorted_wrt_append
    by (auto simp: same_pair_def dest: retire_pair_inactive)
qed

lemma list_all_keyid_retire_pair:
  "list_all (\<lambda>r. P (kr_keyid r)) (retire_pair env now c v rs) = list_all (\<lambda>r. P (kr_keyid r)) rs"
  by (induction rs) (auto simp: retire_pair_def update_where_def)

lemma key_inv_rotates [wf_intros]:
  assumes "key_inv env t" and "rotates env p k t t'"
  shows "key_inv env t'"
proof -
  from assms have k: "t_keysn t = [k]" "0 < k" "list_all (\<lambda>r. kr_keyid r < k) (t_keys t)"
    by (auto simp: key_inv_def fresh_number_def rotates_def rotate_ready_def split: list.splits)
  then have "list_all (\<lambda>r. kr_keyid r < k + 1) (t_keys t)" "k \<notin> kr_keyid ` set (t_keys t)"
    by (auto simp: list_all_iff)
  with k assms show ?thesis
    unfolding rotates_def rotate_spec_def Let_def key_inv_def
    by (auto simp: fresh_number_def list_all_keyid_retire_pair [of "\<lambda>x. x \<le> k"] one_active_rotate simp flip: set_map)
qed

section \<open>The lifecycle\<close>

definition row_evolves :: "key_row \<Rightarrow> key_row \<Rightarrow> bool" where
  "row_evolves r r' \<longleftrightarrow> r' = r \<or> is_active r \<and> (\<exists>st now. Active < st \<and> r' = retire st now r)"

definition keys_evolve :: "key_row list \<Rightarrow> key_row list \<Rightarrow> bool" where
  "keys_evolve rs rs' \<longleftrightarrow> (\<exists>us new. rs' = us @ new \<and> list_all2 row_evolves rs us)"

lemma Active_less [simp]: "Active < st \<longleftrightarrow> st \<noteq> Active"
  by (simp add: less_KeyLifecycleState_def)

lemma row_evolves_refl [simp]: "row_evolves r r"
  by (simp add: row_evolves_def)

lemma row_evolves_trans: "row_evolves a b \<Longrightarrow> row_evolves b c \<Longrightarrow> row_evolves a c"
  by (auto simp: row_evolves_def)

lemma keys_evolve_refl [simp]: "keys_evolve rs rs"
  unfolding keys_evolve_def by (intro exI [of _ rs] exI [of _ "[]"]) (simp add: list.rel_refl)

lemma keys_evolve_append [simp]: "keys_evolve rs (rs @ new)"
  unfolding keys_evolve_def by (blast intro: list.rel_refl row_evolves_refl)

lemma keys_evolve_trans:
  assumes "keys_evolve a b" and "keys_evolve b c"
  shows "keys_evolve a c"
proof -
  from assms obtain us n vs n' where b: "b = us @ n" "list_all2 row_evolves a us"
    and c: "c = vs @ n'" "list_all2 row_evolves b vs" by (auto simp: keys_evolve_def)
  from b c obtain vs1 vs2 where "vs = vs1 @ vs2" "list_all2 row_evolves us vs1"
    by (auto simp: list_all2_append1)
  with b c show ?thesis unfolding keys_evolve_def
    using list_all2_trans [of row_evolves row_evolves row_evolves a us vs1] row_evolves_trans
    by (metis append.assoc)
qed

lemma keys_evolve_update_where:
  assumes "\<And>x. p x \<Longrightarrow> is_active x" and "st \<noteq> Active"
  shows "keys_evolve rs (update_where p (retire st now) rs)"
proof -
  have "list_all2 row_evolves rs (update_where p (retire st now) rs)"
    using assms by (auto simp: update_where_def list_all2_conv_all_nth row_evolves_def)
  then show ?thesis unfolding keys_evolve_def by (metis append_Nil2)
qed

lemma sql_exec_keys_evolve:
  "sql_exec env now q t = Some (t', rows, n) \<Longrightarrow> keys_evolve (t_keys t) (t_keys t')"
  by (cases q) (auto simp: Let_def split: if_splits intro!: keys_evolve_update_where)

text \<open>Any sequence of calls on the connection, by whichever operation and with whatever fate.\<close>

inductive db_reach :: "env \<Rightarrow> mysql \<Rightarrow> mysql \<Rightarrow> bool" for env where
  reach_refl: "db_reach env m m"
| reach_query: "db_reach env m m1 \<Longrightarrow> mysql_query env q m1 = Some (ok, m2) \<Longrightarrow> db_reach env m m2"
| reach_store: "db_reach env m m1 \<Longrightarrow> mysql_store_result env m1 = (r, m2) \<Longrightarrow> db_reach env m m2"

text \<open>A property of tables that every statement keeps, and that holds of the visible and of the
  durable tables, goes on holding.\<close>

lemma mysql_query_keeps:
  assumes keep: "\<And>now t t' rows n. P t \<Longrightarrow> sql_exec env now q t = Some (t', rows, n) \<Longrightarrow> P t'"
    and "mysql_query env q m = Some (ok, m')" and "P (tbl m)" and "P (committed m)"
  shows "P (tbl m') \<and> P (committed m')"
proof (cases "is_tx q")
  case True
  then show ?thesis
    using assms(2-) mysql_query_start [of env m ok m'] mysql_query_rollback [of env m ok m']
      mysql_query_commit [of env m ok m']
    by (cases q; cases ok) (auto simp: committed_def split: option.splits)
next
  case False
  have "P (tbl m')"
    using False assms(2,3) by (cases ok) (auto dest!: mysql_query_ok mysql_query_err dest: keep)
  with False assms(2,4) show ?thesis
    by (auto simp: committed_def dest!: mysql_query_plain split: option.splits)
qed

lemma db_reach_keeps:
  assumes keep: "\<And>now q t t' rows n. P t \<Longrightarrow> sql_exec env now q t = Some (t', rows, n) \<Longrightarrow> P t'"
    and "db_reach env m m'" and "P (tbl m)" and "P (committed m)"
  shows "P (tbl m') \<and> P (committed m')"
  using assms(2-)
proof (induction rule: db_reach.induct)
  case (reach_refl m)
  then show ?case by simp
next
  case (reach_query m m1 q ok m2)
  then have "P (tbl m1)" "P (committed m1)" by simp_all
  with reach_query.hyps(2) show ?case
    by (intro mysql_query_keeps [of P env q m1 ok m2]) (assumption | rule keep)+
next
  case (reach_store m m1 r m2)
  then show ?case using mysql_store_result_frame [of env m1 r m2] by auto
qed

text \<open>A key that exists and is not active stays so: no statement of the program revives it.\<close>

definition key_dead :: "env \<Rightarrow> string \<Rightarrow> string \<Rightarrow> int \<Rightarrow> key_row list \<Rightarrow> bool" where
  "key_dead env c v k rs \<longleftrightarrow> list_ex (key_is env c v k) rs \<and>
     list_all (\<lambda>r. key_is env c v k r \<longrightarrow> \<not> is_active r) rs"

lemma key_dead_update_where:
  assumes "key_dead env c v k rs" and "st \<noteq> Active"
  shows "key_dead env c v k (update_where p (retire st now) rs)"
proof -
  have "list_ex (key_is env c v k) (update_where p (retire st now) rs) = list_ex (key_is env c v k) rs"
    by (induction rs) (auto simp: update_where_def)
  moreover have "list_all (\<lambda>r. key_is env c v k r \<longrightarrow> \<not> is_active r) (update_where p (retire st now) rs)"
    if "list_all (\<lambda>r. key_is env c v k r \<longrightarrow> \<not> is_active r) rs"
    using that assms(2) by (induction rs) (auto simp: update_where_def)
  ultimately show ?thesis using assms(1) by (simp add: key_dead_def)
qed

lemma key_is_cong:
  assumes "key_is env c v k r" and "key_is env c v k s"
  shows "key_is env (kr_client r) (kr_server r) (kr_keyid r) s"
  using assms by (auto simp: key_is_def key_pair_is_def same_text_def)

lemma key_dead_insert:
  assumes "key_dead env c v k rs" and "list_all (\<lambda>s. \<not> key_is env (kr_client r) (kr_server r) (kr_keyid r) s) rs"
  shows "key_dead env c v k (rs @ [r])"
  using assms unfolding key_dead_def by (auto simp: list_all_iff list_ex_iff dest: key_is_cong)

lemma key_dead_sql_exec:
  assumes "key_dead env c v k (t_keys t)" and "sql_exec env now q t = Some (t', rows, n)"
  shows "key_dead env c v k (t_keys t')"
  using assms by (cases q) (auto simp: Let_def split: if_splits intro!: key_dead_update_where key_dead_insert)

section \<open>Check and logout\<close>

definition expire_rows :: "env \<Rightarrow> int \<Rightarrow> string \<Rightarrow> string \<Rightarrow> int \<Rightarrow> key_row list \<Rightarrow> key_row list" where
  "expire_rows env now c v k =
     update_where (\<lambda>r. key_is env c v k r \<and> is_active r \<and> kr_expire r \<le> now) (retire Expired now)"

lemma retire_fixpoint [simp]: "retire st now r = r \<longleftrightarrow> kr_state r = state_code st \<and> kr_invalid r = Some now"
  by (cases r) (auto simp: retire_def)

lemma expire_rows_active:
  assumes "r \<in> set (expire_rows env now c v k rs)" and "key_is env c v k r" and "is_active r"
  shows "r \<in> set rs \<and> now < kr_expire r"
proof -
  have "list_all (\<lambda>r. key_is env c v k r \<longrightarrow> is_active r \<longrightarrow> r \<in> set rs \<and> now < kr_expire r)
     (expire_rows env now c v k rs)"
    by (auto simp: expire_rows_def list_all_iff in_update_where split: if_splits)
       (metis retire_simps(9) KeyLifecycleState.distinct(3))+
  with assms show ?thesis by (auto simp: list_all_iff)
qed

lemma first_row_of_filter:
  "filter P xs = y # ys \<Longrightarrow> y \<in> set xs \<and> P y"
  by (metis filter_eq_ConsD in_set_conv_decomp)

lemma state_row_keys:
  "state_row (map (\<lambda>r. [Some (show_int (kr_keyid r)), Some (show_int (kr_state r))]) rs) =
     Some (case rs of [] \<Rightarrow> None | r # _ \<Rightarrow> Some (kr_keyid r, kr_state r))"
  by (cases rs) auto

lemma checkSecKey_steps:
  assumes run: "checkSecKey env c v k m = Some (ok, m')"
  obtains (expire) "\<not> ok" "mysql_query env (ExpireKey c v k) m = Some (False, m')"
  | (select) m1 where "\<not> ok" "mysql_query env (ExpireKey c v k) m = Some (True, m1)"
      "mysql_query env (SelectKeyState c v k) m1 = Some (False, m')"
  | (store) m1 m2 where "\<not> ok" "mysql_query env (ExpireKey c v k) m = Some (True, m1)"
      "mysql_query env (SelectKeyState c v k) m1 = Some (True, m2)" "mysql_store_result env m2 = (None, m')"
  | (row) m1 m2 row where "mysql_query env (ExpireKey c v k) m = Some (True, m1)"
      "mysql_query env (SelectKeyState c v k) m1 = Some (True, m2)"
      "mysql_store_result env m2 = (Some (m_res m2), m')" "state_row (m_res m2) = Some row"
      "ok = (case row of None \<Rightarrow> False | Some (j, st) \<Rightarrow> j = k \<and> st = state_code Active)"
proof -
  from run obtain b1 m1 where q1: "mysql_query env (ExpireKey c v k) m = Some (b1, m1)"
    by (auto simp: checkSecKey_def bind_eq_Some_conv)
  show thesis
  proof (cases b1)
    case False
    with run q1 expire show thesis by (simp add: checkSecKey_def)
  next
    case b1: True
    with run q1 obtain b2 m2 where q2: "mysql_query env (SelectKeyState c v k) m1 = Some (b2, m2)"
      by (auto simp: checkSecKey_def bind_eq_Some_conv)
    show thesis
    proof (cases b2)
      case False
      with run q1 b1 q2 select show thesis by (simp add: checkSecKey_def)
    next
      case b2: True
      obtain res m3 where st: "mysql_store_result env m2 = (res, m3)" by (cases "mysql_store_result env m2")
      show thesis
      proof (cases res)
        case None
        with run q1 b1 q2 b2 st store show thesis by (simp add: checkSecKey_def)
      next
        case (Some rows)
        with run q1 b1 q2 b2 st obtain row where "state_row rows = Some row" "m3 = m'"
          "ok = (case row of None \<Rightarrow> False | Some (j, st) \<Rightarrow> j = k \<and> st = state_code Active)"
          by (auto simp: checkSecKey_def bind_eq_Some_conv split: option.splits prod.splits)
        with q1 b1 q2 b2 st Some mysql_store_result_Some show thesis by (intro row) auto
      qed
    qed
  qed
qed

lemma db_reach_query: "mysql_query env q m = Some (ok, m') \<Longrightarrow> db_reach env m m'"
  by (blast intro: db_reach.intros)

lemma checkSecKey_frame [frame_simps]:
  assumes "checkSecKey env c v k m = Some (ok, m')"
  shows "snap m' = snap m \<and> m_conn m' \<and> db_reach env m m'"
  using assms
proof (cases rule: checkSecKey_steps)
  case expire
  then show ?thesis using mysql_query_plain db_reach_query by (metis is_tx.simps)
next
  case (select m1)
  with mysql_query_plain [OF select(2)] mysql_query_plain [OF select(3)]
    reach_query [OF db_reach_query [OF select(2)] select(3)]
  show ?thesis by simp
next
  case (store m1 m2)
  with mysql_query_plain [OF store(2)] mysql_query_plain [OF store(3)] mysql_store_result_frame [OF store(4)]
    reach_store [OF reach_query [OF db_reach_query [OF store(2)] store(3)] store(4)]
  show ?thesis by simp
next
  case (row m1 m2 row)
  with mysql_query_plain [OF row(1)] mysql_query_plain [OF row(2)] mysql_store_result_frame [OF row(3)]
    reach_store [OF reach_query [OF db_reach_query [OF row(1)] row(2)] row(3)]
  show ?thesis by simp
qed

text \<open>The key statements leave the other tables alone.\<close>

definition same_logs :: "tables \<Rightarrow> tables \<Rightarrow> bool" where
  "same_logs t t' \<longleftrightarrow> t_messages t' = t_messages t \<and> t_audit t' = t_audit t"

lemma same_logs_refl [simp]: "same_logs t t"
  by (simp add: same_logs_def)

lemma same_logs_trans: "same_logs a b \<Longrightarrow> same_logs b c \<Longrightarrow> same_logs a c"
  by (simp add: same_logs_def)

lemma same_logs_query:
  assumes "mysql_query env q m = Some (ok, m')" and "\<not> is_tx q"
    and "\<And>now t' rows n. sql_exec env now q (tbl m) = Some (t', rows, n) \<Longrightarrow> same_logs (tbl m) t'"
  shows "same_logs (tbl m) (tbl m')"
  using assms by (cases ok) (auto dest!: mysql_query_ok mysql_query_err)

lemma checkSecKey_logs [frame_simps]:
  assumes "checkSecKey env c v k m = Some (ok, m')"
  shows "same_logs (tbl m) (tbl m')"
proof -
  have e: "same_logs (tbl m) (tbl m1)" if "mysql_query env (ExpireKey c v k) m = Some (b, m1)" for b m1
    using that by (rule same_logs_query) (auto simp: same_logs_def Let_def)
  from assms show ?thesis
  proof (cases rule: checkSecKey_steps)
    case expire
    then show ?thesis using e by blast
  next
    case (select m1)
    then show ?thesis using e mysql_query_select(2) [OF select(3)] by simp
  next
    case (store m1 m2)
    then show ?thesis using e mysql_query_select(2) [OF store(3)] mysql_store_result_frame(2) [OF store(4)] by simp
  next
    case (row m1 m2 row)
    then show ?thesis using e mysql_query_select(2) [OF row(2)] mysql_store_result_frame(2) [OF row(3)] by simp
  qed
qed

lemma expire_statement:
  assumes "mysql_query env (ExpireKey c v k) m = Some (True, m1)"
  shows "tbl m1 = (tbl m)\<lparr>t_keys := expire_rows env (e_dbnow env (m_tick m)) c v k (t_keys (tbl m))\<rparr>"
  using mysql_query_ok [OF assms] by (auto simp: Let_def expire_rows_def)

text \<open>The answer of a check, when both statements and the result set are there.\<close>

lemma checkSecKey_row:
  assumes q1: "mysql_query env (ExpireKey c v k) m = Some (True, m1)"
    and q2: "mysql_query env (SelectKeyState c v k) m1 = Some (True, m2)"
    and st: "mysql_store_result env m2 = (Some (m_res m2), m')"
    and row: "state_row (m_res m2) = Some row"
  defines "rs \<equiv> filter (key_is env c v k) (expire_rows env (e_dbnow env (m_tick m)) c v k (t_keys (tbl m)))"
  shows "tbl m' = (tbl m)\<lparr>t_keys := expire_rows env (e_dbnow env (m_tick m)) c v k (t_keys (tbl m))\<rparr>"
    "(case row of None \<Rightarrow> False | Some (j, st) \<Rightarrow> j = k \<and> st = state_code Active) \<longleftrightarrow>
     (case rs of [] \<Rightarrow> False | r # _ \<Rightarrow> is_active r)"
proof -
  note t1 = expire_statement [OF q1]
  note s2 = mysql_query_select [OF q2, simplified]
  show "tbl m' = (tbl m)\<lparr>t_keys := expire_rows env (e_dbnow env (m_tick m)) c v k (t_keys (tbl m))\<rparr>"
    using t1 s2 mysql_store_result_frame [OF st] by simp
  have "m_res m2 = map (\<lambda>r. [Some (show_int (kr_keyid r)), Some (show_int (kr_state r))]) rs"
    using s2(5) t1 by (auto simp: rs_def)
  with row have "row = (case rs of [] \<Rightarrow> None | r # _ \<Rightarrow> Some (kr_keyid r, kr_state r))"
    by (simp add: state_row_keys)
  moreover have "key_is env c v k r" if "rs = r # rest" for r rest
    using first_row_of_filter that unfolding rs_def by metis
  ultimately show "(case row of None \<Rightarrow> False | Some (j, st) \<Rightarrow> j = k \<and> st = state_code Active) \<longleftrightarrow>
     (case rs of [] \<Rightarrow> False | r # _ \<Rightarrow> is_active r)"
    by (auto simp: key_is_def is_active_def split: list.split)
qed

lemma checkSecKey_True:
  assumes run: "checkSecKey env c v k m = Some (True, m')"
  shows "\<exists>r. r \<in> set (t_keys (tbl m)) \<and> r \<in> set (t_keys (tbl m')) \<and> key_is env c v k r \<and> is_active r \<and>
     e_dbnow env (m_tick m) < kr_expire r"
  using run
proof (cases rule: checkSecKey_steps)
  case (row m1 m2 row)
  let ?es = "expire_rows env (e_dbnow env (m_tick m)) c v k (t_keys (tbl m))"
  note R = checkSecKey_row [OF row(1-4)]
  from row(5) R(2) obtain r rest where "filter (key_is env c v k) ?es = r # rest" "is_active r"
    by (auto split: list.splits)
  with first_row_of_filter [OF this(1)] R(1) expire_rows_active [of r env _ c v k] show ?thesis
    by auto
qed simp_all

lemma logoutSecKey_frame [frame_simps]:
  "logoutSecKey env c v k m = Some (ok, m') \<Longrightarrow> snap m' = snap m \<and> m_conn m' \<and> db_reach env m m'"
  unfolding logoutSecKey_def
  by (auto simp: bind_eq_Some_conv split: if_splits
      dest: mysql_query_plain intro: db_reach_query)

lemma logoutSecKey_effect:
  assumes "logoutSecKey env c v k m = Some (True, m')"
  shows "\<exists>now. tbl m' = (tbl m)\<lparr>t_keys :=
       update_where (\<lambda>r. key_is env c v k r \<and> is_active r) (retire Revoked now) (t_keys (tbl m))\<rparr>"
    "\<exists>r \<in> set (t_keys (tbl m)). key_is env c v k r \<and> is_active r"
proof -
  from assms have q: "mysql_query env (RevokeKey c v k) m = Some (True, m')" and aff: "m_aff m' \<noteq> 0"
    by (auto simp: logoutSecKey_def bind_eq_Some_conv split: if_splits)
  from mysql_query_ok [OF q] aff
  have n: "filter (\<lambda>r. key_is env c v k r \<and> is_active r) (t_keys (tbl m)) \<noteq> []"
    and t: "\<exists>now. tbl m' = (tbl m)\<lparr>t_keys :=
       update_where (\<lambda>r. key_is env c v k r \<and> is_active r) (retire Revoked now) (t_keys (tbl m))\<rparr>"
    by (auto simp: Let_def)
  from t show "\<exists>now. tbl m' = (tbl m)\<lparr>t_keys :=
       update_where (\<lambda>r. key_is env c v k r \<and> is_active r) (retire Revoked now) (t_keys (tbl m))\<rparr>" .
  from n show "\<exists>r \<in> set (t_keys (tbl m)). key_is env c v k r \<and> is_active r"
    by (auto simp: filter_empty_conv)
qed

lemma logoutSecKey_dead:
  assumes "logoutSecKey env c v k m = Some (True, m')"
  shows "key_dead env c v k (t_keys (tbl m'))"
proof -
  let ?p = "\<lambda>r. key_is env c v k r \<and> is_active r"
  have "list_all (\<lambda>r. key_is env c v k r \<longrightarrow> \<not> is_active r) (update_where ?p (retire Revoked now) rs)" for now rs
    by (induction rs) (auto simp: update_where_def)
  moreover have "list_ex (key_is env c v k) (update_where ?p (retire Revoked now) rs) = list_ex (key_is env c v k) rs"
    for now rs by (induction rs) (auto simp: update_where_def)
  ultimately show ?thesis
    using logoutSecKey_effect [OF assms] by (auto simp: key_dead_def list_ex_iff)
qed

lemma key_dead_check:
  assumes "key_dead env c v k (t_keys (tbl m))" and "checkSecKey env c v k m = Some (ok, m')"
  shows "\<not> ok"
  using assms checkSecKey_True [of env c v k m m'] by (cases ok) (auto simp: key_dead_def list_all_iff)

lemma key_dead_reach:
  assumes "key_dead env c v k (t_keys (tbl m))" and "snap m = None" and "db_reach env m m'"
  shows "key_dead env c v k (t_keys (tbl m'))"
  using db_reach_keeps [of "\<lambda>t. key_dead env c v k (t_keys t)" env m m'] assms key_dead_sql_exec
  by (auto simp: committed_def)

lemma one_active_subset:
  assumes "one_active env rs"
  shows "one_active env (update_where p (retire st now) rs) \<or> st = Active"
  using one_active_update_where [OF assms, of "retire st now" p] by auto

lemma key_inv_retire_where:
  assumes "key_inv env t" and "st \<noteq> Active"
  shows "key_inv env (t\<lparr>t_keys := update_where p (retire st now) (t_keys t)\<rparr>)"
proof -
  have "list_all (\<lambda>r. kr_keyid r < k) (update_where p (retire st now) rs) = list_all (\<lambda>r. kr_keyid r < k) rs" for k rs
    by (induction rs) (auto simp: update_where_def)
  then show ?thesis
    using assms one_active_subset [of env "t_keys t" p st now]
    by (auto simp: key_inv_def fresh_number_def map_update_where split: list.splits)
qed

text \<open>The statements that only a rotation may use.\<close>

fun allots_key :: "sql \<Rightarrow> bool" where
  "allots_key (InsertKey c v k sk rot) = True"
| "allots_key (InsertKeyAt c v k d sk) = True"
| "allots_key BumpKeysn = True"
| "allots_key _ = False"

lemma key_inv_others [simp]:
  "key_inv env (t\<lparr>t_messages := x\<rparr>) = key_inv env t" "key_inv env (t\<lparr>t_audit := y\<rparr>) = key_inv env t"
  by (auto simp: key_inv_def fresh_number_def split: list.split)

lemma key_inv_sql:
  assumes "key_inv env t" and "sql_exec env now q t = Some (t', rows, n)" and "\<not> allots_key q"
  shows "key_inv env t'"
  using assms
  by (cases q) (auto simp: Let_def key_inv_retire_where)

lemma key_inv_query [wf_intros]:
  assumes "key_inv env (tbl m)" and "mysql_query env q m = Some (ok, m')" and "\<not> allots_key q" and "\<not> is_tx q"
  shows "key_inv env (tbl m')"
  using assms by (cases ok) (auto dest!: mysql_query_ok mysql_query_err dest: key_inv_sql)

lemma key_inv_check [wf_intros]:
  assumes "key_inv env (tbl m)" and "checkSecKey env c v k m = Some (ok, m')"
  shows "key_inv env (tbl m')"
  using assms(2)
proof (cases rule: checkSecKey_steps)
  case expire
  then show ?thesis using assms(1) by (auto intro: key_inv_query)
next
  case (select m1)
  then show ?thesis using assms(1) mysql_query_select(2) [OF select(3)] by (auto intro: key_inv_query)
next
  case (store m1 m2)
  then show ?thesis
    using assms(1) mysql_query_select(2) [OF store(3)] mysql_store_result_frame [OF store(4)]
    by (auto intro: key_inv_query)
next
  case (row m1 m2 row)
  then show ?thesis
    using assms(1) mysql_query_select(2) [OF row(2)] mysql_store_result_frame [OF row(3)]
    by (auto intro: key_inv_query)
qed

lemma key_inv_logout [wf_intros]:
  assumes "key_inv env (tbl m)" and "logoutSecKey env c v k m = Some (ok, m')"
  shows "key_inv env (tbl m')"
proof -
  from assms(2) obtain b where "mysql_query env (RevokeKey c v k) m = Some (b, m')"
    by (auto simp: logoutSecKey_def bind_eq_Some_conv split: if_splits)
  with assms(1) show ?thesis by (auto intro: key_inv_query)
qed

section \<open>Properties\<close>

text \<open>C9. Rotation is atomic: \<open>writeSecKeyWithTrans\<close> either does the whole abstract rotation,
  durably, and publishes the allotted number and the active status in the node, or it returns false,
  leaves the node alone and changes nothing durable; the one exception is a commit that was executed
  but whose answer was lost, where the whole rotation is durable although false is returned. No
  other combination of refused or lost statements, failed result sets and failed rollbacks leads to a
  partly rotated key.\<close>

theorem writeSecKeyWithTrans_atomic:
  assumes "writeSecKeyWithTrans env p m = Some ((ok, p'), m')" and "snap m = None"
  shows "(ok \<longrightarrow> snap m' = None \<and> (\<exists>k. rotates env p k (tbl m) (tbl m') \<and>
            p' = p\<lparr>n_seckeyID := k, n_status := state_code Active\<rparr>)) \<and>
         (\<not> ok \<longrightarrow> p' = p \<and> (committed m' = tbl m \<or>
            (\<exists>j. e_sql env j = Lost) \<and> (\<exists>k. rotates env p k (tbl m) (committed m'))))"
  by (rule writeSecKeyWithTrans_cases [OF assms])

theorem writeSecKeyWithTrans_atomic_witness:
  "case writeSecKeyWithTrans calm_env demo_node (fresh_conn demo_tables) of
     None \<Rightarrow> False
   | Some ((ok, p'), m') \<Rightarrow> ok \<and> snap m' = None \<and>
       (\<exists>k. rotates calm_env demo_node k demo_tables (tbl m') \<and> p' = demo_node\<lparr>n_seckeyID := k, n_status := 1\<rparr>)"
proof -
  have "case writeSecKeyWithTrans calm_env demo_node (fresh_conn demo_tables) of
     None \<Rightarrow> False | Some ((ok, p'), m') \<Rightarrow> ok"
    by code_simp
  then obtain p' m' where run:
    "writeSecKeyWithTrans calm_env demo_node (fresh_conn demo_tables) = Some ((True, p'), m')"
    by (auto split: option.splits)
  from writeSecKeyWithTrans_atomic [OF run] show ?thesis
    by (simp add: run)
qed

text \<open>The invariant of the key tables: one number row above every number in use, no number
  twice, and never two active keys of one (client, server) pair. It holds of what is durable after a
  rotation, whatever fails, and after every check and logout.\<close>

theorem key_inv_operations:
  assumes "key_inv env (tbl m)" and "snap m = None"
  shows "(writeSecKeyWithTrans env p m = Some ((ok, p'), m1) \<longrightarrow> key_inv env (committed m1)) \<and>
     (checkSecKey env c v k m = Some (b, m2) \<longrightarrow> key_inv env (tbl m2)) \<and>
     (logoutSecKey env c v k m = Some (b, m3) \<longrightarrow> key_inv env (tbl m3))"
proof (intro conjI impI)
  assume "writeSecKeyWithTrans env p m = Some ((ok, p'), m1)"
  from writeSecKeyWithTrans_cases [OF this assms(2)] show "key_inv env (committed m1)"
    using assms(1) key_inv_rotates by (cases ok) (auto simp: committed_def)
qed (use assms(1) in \<open>auto intro: wf_intros\<close>)

theorem key_inv_operations_witness:
  "case writeSecKeyWithTrans calm_env demo_node (fresh_conn demo_tables) of
     None \<Rightarrow> False | Some ((ok, p'), m1) \<Rightarrow> key_inv calm_env (committed m1)"
proof -
  have "case writeSecKeyWithTrans calm_env demo_node (fresh_conn demo_tables) of
     None \<Rightarrow> False | Some ((ok, p'), m') \<Rightarrow> ok"
    by code_simp
  moreover have "key_inv calm_env (tbl (fresh_conn demo_tables))" by code_simp
  ultimately show ?thesis
    using key_inv_operations [of calm_env "fresh_conn demo_tables"]
    by (auto split: option.splits)
qed

text \<open>C8. The lifecycle is irreversible: whatever statements the program sends after a point at
  which no transaction is open, and whatever becomes of them, no key row disappears, and a row
  changes at most by leaving \<open>Active\<close> for another state, with the time of that change; new rows only
  come behind the old ones.\<close>

theorem key_lifecycle:
  assumes "db_reach env m m'" and "snap m = None"
  shows "keys_evolve (t_keys (tbl m)) (t_keys (committed m')) \<and> keys_evolve (t_keys (tbl m)) (t_keys (tbl m'))"
proof -
  let ?P = "\<lambda>t. keys_evolve (t_keys (tbl m)) (t_keys t)"
  have "?P (tbl m') \<and> ?P (committed m')"
  proof (rule db_reach_keeps [of ?P, OF _ assms(1)])
    show "?P t'" if "?P t" and "sql_exec env now q t = Some (t', rows, n)" for now q t t' rows n
      using keys_evolve_trans [OF that(1) sql_exec_keys_evolve [OF that(2)]] .
  qed (simp_all add: committed_def assms(2))
  then show ?thesis by simp
qed

theorem key_lifecycle_witness:
  "case logoutSecKey calm_env ''alice'' ''srv'' 6 (fresh_conn demo_tables) of
     None \<Rightarrow> False | Some (ok, m') \<Rightarrow> ok \<and> keys_evolve (t_keys demo_tables) (t_keys (committed m'))"
proof -
  have "case logoutSecKey calm_env ''alice'' ''srv'' 6 (fresh_conn demo_tables) of
     None \<Rightarrow> False | Some (ok, m') \<Rightarrow> ok"
    by code_simp
  then obtain m' where run: "logoutSecKey calm_env ''alice'' ''srv'' 6 (fresh_conn demo_tables) = Some (True, m')"
    by (auto split: option.splits)
  then have "db_reach calm_env (fresh_conn demo_tables) m'" by (blast dest: logoutSecKey_frame)
  from key_lifecycle [OF this] show ?thesis by (simp add: run)
qed

text \<open>A positive check means a usable key: when \<open>checkSecKey\<close> answers true, a row of that
  client, server and number is there, is active, stays so, and expires after the database clock of
  the expiry statement.\<close>

theorem checkSecKey_sound:
  assumes "checkSecKey env c v k m = Some (True, m')"
  shows "\<exists>r \<in> set (t_keys (tbl m)). r \<in> set (t_keys (tbl m')) \<and> key_is env c v k r \<and> is_active r \<and>
     e_dbnow env (m_tick m) < kr_expire r"
  using checkSecKey_True [OF assms] by blast

theorem checkSecKey_sound_witness:
  "\<exists>r \<in> set (t_keys demo_tables). key_is calm_env ''alice'' ''srv'' 6 r \<and> is_active r \<and> 0 < kr_expire r"
proof -
  have "case checkSecKey calm_env ''alice'' ''srv'' 6 (fresh_conn demo_tables) of
     None \<Rightarrow> False | Some (ok, m') \<Rightarrow> ok"
    by code_simp
  then obtain m' where "checkSecKey calm_env ''alice'' ''srv'' 6 (fresh_conn demo_tables) = Some (True, m')"
    by (auto split: option.splits)
  from checkSecKey_sound [OF this] show ?thesis by auto
qed

text \<open>Logout is final: after a logout that reported success, no check of that key ever answers
  true again, whatever statements are sent in between.\<close>

theorem logout_final:
  assumes "logoutSecKey env c v k m = Some (True, m1)" and "snap m = None"
    and "db_reach env m1 m2" and "checkSecKey env c v k m2 = Some (ok, m3)"
  shows "\<not> ok"
  using assms logoutSecKey_frame [OF assms(1)]
  by (auto dest: key_dead_check [OF key_dead_reach [OF logoutSecKey_dead]])

theorem logout_final_witness:
  "case logoutSecKey calm_env ''alice'' ''srv'' 6 (fresh_conn demo_tables) of
     None \<Rightarrow> False
   | Some (done, m1) \<Rightarrow> done \<and>
       (case checkSecKey calm_env ''alice'' ''srv'' 6 m1 of None \<Rightarrow> False | Some (ok, m3) \<Rightarrow> \<not> ok)"
proof -
  have "case logoutSecKey calm_env ''alice'' ''srv'' 6 (fresh_conn demo_tables) of
     None \<Rightarrow> False
   | Some (done, m1) \<Rightarrow> done \<and> checkSecKey calm_env ''alice'' ''srv'' 6 m1 \<noteq> None"
    by code_simp
  then obtain m1 ok m3 where
    lo: "logoutSecKey calm_env ''alice'' ''srv'' 6 (fresh_conn demo_tables) = Some (True, m1)"
    and ck: "checkSecKey calm_env ''alice'' ''srv'' 6 m1 = Some (ok, m3)"
    by (auto split: option.splits)
  from logout_final [OF lo _ reach_refl ck] show ?thesis by (simp add: lo ck)
qed

end
