(* ===== verification/MessageSvc.thy ===== *)
theory MessageSvc
  imports QuerySvc KeyLife
begin

text \<open>
  \<open>MessageService.cpp\<close>: the state of the server process that its handlers share, the search for an
  active key, decryption and re-encryption, and the handler of a send request with its eleven steps.
  The handler is composed as the code composes it: validation and the sender's key
  (\<open>handleSendMessage\<close>), the receiver's key and the new ciphertext (\<open>send_deliver\<close>), and the
  message record (\<open>send_store\<close>).
\<close>

section \<open>The server process\<close>

text \<open>\<open>sv_db\<close> is none where \<open>ServerOP\<close> never created its database object (its configuration could
  not be loaded); the shared memory object is missing then, too. The two counters are the static
  \<open>sequence\<close> variables of \<open>generateScopedId\<close> and \<open>generateQueryAuditId\<close>.\<close>

record service =
  sv_id :: string
  sv_db :: "mysql option"
  sv_shm :: SecKeyShm
  sv_proc :: proc
  sv_seq_msg :: "64 word"
  sv_seq_qry :: "64 word"
  sv_files :: "string \<Rightarrow> string option"

definition service_time :: "env \<Rightarrow> service \<Rightarrow> int \<times> service" where
  "service_time env s = (let (t, w) = time_now env (sv_proc s) in (t, s\<lparr>sv_proc := w\<rparr>))"

definition generateScopedId :: "env \<Rightarrow> string \<Rightarrow> service \<Rightarrow> string \<times> service" where
  "generateScopedId env prefix s =
     (let (micros, w) = micros_now env (sv_proc s); seq = sv_seq_msg s + 1 in
      (prefix @ ''_'' @ show_nat micros @ ''_'' @ show_u64 seq, s\<lparr>sv_proc := w, sv_seq_msg := seq\<rparr>))"

definition generateServerMessageId :: "env \<Rightarrow> service \<Rightarrow> string \<times> service" where
  "generateServerMessageId env s = generateScopedId env (sv_id s @ ''_msg'') s"

definition generateAuditLogId :: "env \<Rightarrow> service \<Rightarrow> string \<times> service" where
  "generateAuditLogId env s = generateScopedId env (sv_id s @ ''_audit'') s"

text \<open>\<open>auditSvc.logAction(generateAuditLogId(), .., m_db->getCurTime())\<close>; the result is not used.\<close>

definition send_audit ::
    "env \<Rightarrow> string \<Rightarrow> string \<Rightarrow> string \<Rightarrow> int \<Rightarrow> string \<Rightarrow> service \<Rightarrow> service option" where
  "send_audit env nodeId action targetId res detail s =
     (if sv_db s = None then None
      else do {
        let (logId, s) = generateAuditLogId env s;
        let (t, w) = cur_time_text env (sv_proc s);
        (_, db) \<leftarrow> logAction_at env logId nodeId action targetId res detail t (sv_db s);
        Some (s\<lparr>sv_db := db, sv_proc := w\<rparr>)
      })"

section \<open>Validation\<close>

definition validateRequest :: "RequestPacket \<Rightarrow> string option" where
  "validateRequest p =
     (if rq_header p = None then Some ''header is empty''
      else case send_msg_req (rq_body p) of
          None \<Rightarrow> Some ''send_msg_req is empty''
        | Some req \<Rightarrow>
            if smr_message req = None then Some ''message is empty''
            else
              let header = get_header (rq_header p); msg = smr_get_message req in
              if h_sender_id header = [] then Some ''sender_id is empty''
              else if h_receiver_id header = [] then Some ''receiver_id is empty''
              else if em_key_id msg \<le> 0 then Some ''invalid key_id''
              else if em_ciphertext msg = [] then Some ''ciphertext is empty''
              else if em_algorithm msg = [] then Some ''algorithm is empty''
              else None)"

section \<open>The active key\<close>

record ActiveKeyResult =
  ak_found :: bool
  ak_valid :: bool
  ak_base64Key :: string
  ak_keyId :: int
  ak_errorMsg :: string

definition check_key :: "env \<Rightarrow> string \<Rightarrow> string \<Rightarrow> int \<Rightarrow> service \<Rightarrow> (bool \<times> service) option" where
  "check_key env c v k s =
     (case sv_db s of
        None \<Rightarrow> None
      | Some m \<Rightarrow> do { (ok, m) \<leftarrow> checkSecKey env c v k m; Some (ok, s\<lparr>sv_db := Some m\<rparr>) })"

definition cache_set_status :: "string \<Rightarrow> string \<Rightarrow> int \<Rightarrow> service \<Rightarrow> int \<times> service" where
  "cache_set_status c v st s = (let (r, shm) = shmUpdateStatus c v st (sv_shm s) in (r, s\<lparr>sv_shm := shm\<rparr>))"

definition getActiveKey ::
    "env \<Rightarrow> string \<Rightarrow> string \<Rightarrow> int \<Rightarrow> service \<Rightarrow> (ActiveKeyResult \<times> service) option" where
  "getActiveKey env senderId receiverId keyId s =
     (let result = \<lparr>ak_found = False, ak_valid = False, ak_base64Key = [], ak_keyId = keyId, ak_errorMsg = []\<rparr>;
          node = shmRead senderId receiverId (sv_shm s) in
      if sv_db s = None then None
      else if strlen (n_clientID node) \<noteq> 0 \<and> strlen (n_serverID node) \<noteq> 0 \<and> n_seckeyID node = keyId then
        (if n_status node = 1 then do {
           (ok, s) \<leftarrow> check_key env senderId receiverId keyId s;
           if \<not> ok then
             Some (result\<lparr>ak_found := True, ak_errorMsg := ''key expired, revoked or rotated''\<rparr>,
               snd (cache_set_status senderId receiverId 0 s))
           else Some (result\<lparr>ak_found := True, ak_valid := True, ak_base64Key := c_str (n_seckey node)\<rparr>, s)
         }
         else Some (result\<lparr>ak_found := True, ak_errorMsg := ''key exists in shm but status is invalid''\<rparr>, s))
      else do {
        (ok, s) \<leftarrow> check_key env senderId receiverId keyId s;
        if \<not> ok then Some (result\<lparr>ak_errorMsg := ''key not found or invalid in db''\<rparr>, s)
        else Some (result\<lparr>ak_found := True, ak_errorMsg := ''key valid in db but missing in shm, cannot decrypt''\<rparr>, s)
      })"

section \<open>Decryption and re-encryption\<close>

definition decryptMessage ::
    "env \<Rightarrow> string \<Rightarrow> string \<Rightarrow> string \<Rightarrow> string \<Rightarrow> string \<Rightarrow> proc \<Rightarrow> (string + string) \<times> proc" where
  "decryptMessage env base64Key base64Ciphertext base64Nonce base64Tag algorithm w =
     (if algorithm \<noteq> ''AES-128-GCM'' then (Inl (''unsupported algorithm: '' @ algorithm), w)
      else
        let rawKey = b64_decode env base64Key in
        if rawKey = [] then (Inl ''failed to decode base64 key'', w)
        else
          let cipherBin = b64_decode env base64Ciphertext in
          if cipherBin = [] then (Inl ''failed to decode base64 ciphertext'', w)
          else
            let nonceBin = b64_decode env base64Nonce in
            if nonceBin = [] then (Inl ''failed to decode base64 nonce'', w)
            else
              let tagBin = b64_decode env base64Tag in
              if tagBin = [] then (Inl ''base64 tag decode failed'', w)
              else gcm_decrypt env rawKey nonceBin cipherBin tagBin w)"

record EncryptMessageResult =
  er_ciphertext :: string
  er_nonce :: string
  er_tag :: string
  er_algorithm :: string

definition encryptMessage ::
    "env \<Rightarrow> string \<Rightarrow> string \<Rightarrow> proc \<Rightarrow> (string + EncryptMessageResult) \<times> proc" where
  "encryptMessage env base64Key plaintext w =
     (if plaintext = [] then (Inl ''plaintext is empty'', w)
      else
        let rawKey = b64_decode env base64Key in
        if rawKey = [] then (Inl ''failed to decode receiver base64 key'', w)
        else
          (case gcm_encrypt env rawKey plaintext w of
             (Inl e, w) \<Rightarrow> (Inl e, w)
           | (Inr (ciphertext, nonce, tag), w) \<Rightarrow>
               (Inr \<lparr>er_ciphertext = b64_encode env ciphertext, er_nonce = b64_encode env nonce,
                  er_tag = b64_encode env tag, er_algorithm = ''AES-128-GCM''\<rparr>, w)))"

section \<open>Send requests\<close>

definition send_response_header ::
    "env \<Rightarrow> RequestPacket \<Rightarrow> int \<Rightarrow> service \<Rightarrow> V2HeaderInfo \<times> service" where
  "send_response_header env p command s =
     (case rq_header p of
        Some rh \<Rightarrow>
          let (t, s) = service_time env s in
          (\<lparr>vh_messageId = h_message_id rh, vh_command = command, vh_senderId = sv_id s,
            vh_receiverId = h_sender_id rh, vh_timestamp = t\<rparr>, s)
      | None \<Rightarrow>
          let (i, s) = generateServerMessageId env s; (t, s) = service_time env s in
          (\<lparr>vh_messageId = i, vh_command = command, vh_senderId = sv_id s, vh_receiverId = [], vh_timestamp = t\<rparr>, s))"

text \<open>The UTF-8 texts for \<open>unknown error\<close> and \<open>message sent\<close>.\<close>

definition text_unknown_error :: string where
  "text_unknown_error = [CHR 0xE6, CHR 0x9C, CHR 0xAA, CHR 0xE7, CHR 0x9F, CHR 0xA5, CHR 0xE9, CHR 0x94, CHR 0x99,
     CHR 0xE8, CHR 0xAF, CHR 0xAF]"

definition text_send_success :: string where
  "text_send_success = [CHR 0xE6, CHR 0xB6, CHR 0x88, CHR 0xE6, CHR 0x81, CHR 0xAF, CHR 0xE5, CHR 0x8F, CHR 0x91,
     CHR 0xE9, CHR 0x80, CHR 0x81, CHR 0xE6, CHR 0x88, CHR 0x90, CHR 0xE5, CHR 0x8A, CHR 0x9F]"

text \<open>An early return: the code and the text of the answer, and an audit record of the failure.\<close>

definition send_reject ::
    "env \<Rightarrow> V2SendMessageResponseInfo \<Rightarrow> int \<Rightarrow> string \<Rightarrow> string \<Rightarrow> string \<Rightarrow> string \<Rightarrow> string \<Rightarrow> service \<Rightarrow>
     (V2SendMessageResponseInfo \<times> service) option" where
  "send_reject env resp code message node action target detail s = do {
     s \<leftarrow> send_audit env node action target 0 detail s;
     Some (resp\<lparr>vsp_code := code, vsp_message := message\<rparr>, s)
   }"

definition insert_message :: "env \<Rightarrow> MessageLogRecord \<Rightarrow> service \<Rightarrow> (bool \<times> service) option" where
  "insert_message env r s = do { (ok, db) \<leftarrow> insertMessage env r (sv_db s); Some (ok, s\<lparr>sv_db := db\<rparr>) }"

text \<open>Step 8: the record for \<open>message_log\<close>.\<close>

definition message_record ::
    "Header \<Rightarrow> EncryptedMessage \<Rightarrow> int \<Rightarrow> EncryptMessageResult \<Rightarrow> string \<Rightarrow> string \<Rightarrow> MessageLogRecord" where
  "message_record header encMsg receiverKeyId enc serverMsgId t =
     \<lparr>ml_msgId = serverMsgId, ml_senderId = h_sender_id header, ml_receiverId = h_receiver_id header,
      ml_senderKeyId = em_key_id encMsg, ml_receiverKeyId = receiverKeyId, ml_msgType = ''text'',
      ml_senderCiphertext = em_ciphertext encMsg, ml_senderNonce = em_nonce encMsg, ml_senderTag = em_tag encMsg,
      ml_receiverCiphertext = er_ciphertext enc, ml_receiverNonce = er_nonce enc, ml_receiverTag = er_tag enc,
      ml_algorithm = er_algorithm enc, ml_sendTime = t, ml_status = 1\<rparr>"

text \<open>Steps 7 to 11.\<close>

definition send_store ::
    "env \<Rightarrow> V2SendMessageResponseInfo \<Rightarrow> Header \<Rightarrow> EncryptedMessage \<Rightarrow> int \<Rightarrow> EncryptMessageResult \<Rightarrow> service \<Rightarrow>
     (V2SendMessageResponseInfo \<times> service) option" where
  "send_store env resp header encMsg receiverKeyId enc s = do {
     let (serverMsgId, s) = generateServerMessageId env s;
     let (t, w) = cur_time_text env (sv_proc s);
     let s = s\<lparr>sv_proc := w\<rparr>;
     let msgRecord = message_record header encMsg receiverKeyId enc serverMsgId t;
     (ok, s) \<leftarrow> insert_message env msgRecord s;
     if \<not> ok then
       send_reject env resp RESULT_FAILED ''insert message_log failed'' (h_sender_id header) ''MSG_STORE'' serverMsgId
         ''insert message_log failed'' s
     else do {
       s \<leftarrow> send_audit env (h_sender_id header) ''MSG_SEND'' serverMsgId 1
              ''message send success and re-encrypted for receiver'' s;
       let (t2, s) = service_time env s;
       Some (resp\<lparr>vsp_code := RESULT_SUCCESS, vsp_message := text_send_success, vsp_serverMessageId := serverMsgId,
         vsp_serverTime := t2, vsp_deliveryStatus := DELIVERY_ACCEPTED\<rparr>, s)
     }
   }"

text \<open>Steps 5 and 6.\<close>

definition send_deliver ::
    "env \<Rightarrow> V2SendMessageResponseInfo \<Rightarrow> Header \<Rightarrow> EncryptedMessage \<Rightarrow> string \<Rightarrow> service \<Rightarrow>
     (V2SendMessageResponseInfo \<times> service) option" where
  "send_deliver env resp header encMsg plaintext s = (
     let receiverNode = shmRead (h_receiver_id header) (sv_id s) (sv_shm s) in
     if strlen (n_clientID receiverNode) = 0 \<or> strlen (n_serverID receiverNode) = 0 then
       send_reject env resp RESULT_KEY_NOT_FOUND ''receiver key not found, receiver must do key agreement first''
         (h_sender_id header) ''MSG_DELIVER'' (h_receiver_id header) ''receiver key not found'' s
     else do {
       (rk, s) \<leftarrow> getActiveKey env (h_receiver_id header) (sv_id s) (n_seckeyID receiverNode) s;
       if \<not> ak_found rk \<or> \<not> ak_valid rk then
         send_reject env resp (if ak_found rk then RESULT_KEY_INVALID else RESULT_KEY_NOT_FOUND)
           (''receiver key unavailable: '' @ ak_errorMsg rk) (h_sender_id header) ''MSG_DELIVER''
           (h_receiver_id header) (''receiver key unavailable: '' @ ak_errorMsg rk) s
       else
         (case encryptMessage env (ak_base64Key rk) plaintext (sv_proc s) of
            (Inl e, w) \<Rightarrow>
              send_reject env resp RESULT_FAILED (''encrypt message for receiver failed: '' @ e) (h_sender_id header)
                ''MSG_DELIVER'' (h_receiver_id header) (''encrypt for receiver failed: '' @ e) (s\<lparr>sv_proc := w\<rparr>)
          | (Inr enc, w) \<Rightarrow> send_store env resp header encMsg (ak_keyId rk) enc (s\<lparr>sv_proc := w\<rparr>))
     })"

text \<open>Steps 1 to 4.\<close>

definition handleSendMessage ::
    "env \<Rightarrow> RequestPacket \<Rightarrow> service \<Rightarrow> (V2SendMessageResponseInfo \<times> service) option" where
  "handleSendMessage env p s = (
     let (h, s) = send_response_header env p CMD_SEND_MSG_RESP s;
         (t0, s) = service_time env s;
         resp = \<lparr>vsp_header = h, vsp_code = RESULT_FAILED, vsp_message = text_unknown_error, vsp_serverMessageId = [],
           vsp_serverTime = t0, vsp_deliveryStatus = DELIVERY_REJECTED\<rparr> in
     case validateRequest p of
       Some err \<Rightarrow>
         send_reject env resp RESULT_INVALID_REQUEST err
           (if rq_header p \<noteq> None then h_sender_id (get_header (rq_header p)) else [])
           ''MSG_SEND'' [] (''invalid request: '' @ err) s
     | None \<Rightarrow> do {
         let header = get_header (rq_header p);
         let encMsg = (case send_msg_req (rq_body p) of Some r \<Rightarrow> smr_get_message r | None \<Rightarrow> EncryptedMessage_default);
         (sk, s) \<leftarrow> getActiveKey env (h_sender_id header) (sv_id s) (em_key_id encMsg) s;
         if \<not> ak_found sk then
           send_reject env resp RESULT_KEY_NOT_FOUND (ak_errorMsg sk) (h_sender_id header) ''MSG_SEND''
             (show_int (em_key_id encMsg)) (''key not found: '' @ ak_errorMsg sk) s
         else if \<not> ak_valid sk then
           send_reject env resp RESULT_KEY_INVALID (ak_errorMsg sk) (h_sender_id header) ''MSG_SEND''
             (show_int (em_key_id encMsg)) (''key invalid: '' @ ak_errorMsg sk) s
         else
           (case decryptMessage env (ak_base64Key sk) (em_ciphertext encMsg) (em_nonce encMsg) (em_tag encMsg)
                   (em_algorithm encMsg) (sv_proc s) of
              (Inl e, w) \<Rightarrow>
                send_reject env resp RESULT_DECRYPT_FAILED e (h_sender_id header) ''MSG_DECRYPT''
                  (h_message_id header) (''decrypt failed: '' @ e) (s\<lparr>sv_proc := w\<rparr>)
            | (Inr plaintext, w) \<Rightarrow> send_deliver env resp header encMsg plaintext (s\<lparr>sv_proc := w\<rparr>))
       })"

section \<open>What the steps do\<close>

lemma send_audit_effect:
  assumes "send_audit env nd a tg r d s = Some s'"
  shows "messages_of (sv_db s') = messages_of (sv_db s)" "sv_shm s' = sv_shm s" "sv_id s' = sv_id s"
    "\<exists>l time. audits_of (sv_db s') = audits_of (sv_db s) \<or>
       audits_of (sv_db s') = audits_of (sv_db s) @ [audit_row_of \<lparr>al_logId = l, al_nodeId = nd, al_action = a,
         al_targetId = tg, al_result = r, al_detail = d, al_createTime = time\<rparr>]"
proof -
  obtain l s1 where i: "generateAuditLogId env s = (l, s1)" by (cases "generateAuditLogId env s")
  obtain t w where t: "cur_time_text env (sv_proc s1) = (t, w)" by (cases "cur_time_text env (sv_proc s1)")
  from i have s1: "sv_db s1 = sv_db s" "sv_shm s1 = sv_shm s" "sv_id s1 = sv_id s"
    by (auto simp: generateAuditLogId_def generateScopedId_def Let_def split: prod.splits)
  from assms i t obtain ok db where a: "logAction_at env l nd a tg r d t (sv_db s1) = Some (ok, db)"
    and s': "s' = s1\<lparr>sv_db := db, sv_proc := w\<rparr>"
    by (auto simp: send_audit_def bind_eq_Some_conv split: if_splits)
  from logAction_at_effect [OF a] s' s1
  show "messages_of (sv_db s') = messages_of (sv_db s)" "sv_shm s' = sv_shm s" "sv_id s' = sv_id s"
    "\<exists>l time. audits_of (sv_db s') = audits_of (sv_db s) \<or>
       audits_of (sv_db s') = audits_of (sv_db s) @ [audit_row_of \<lparr>al_logId = l, al_nodeId = nd, al_action = a,
         al_targetId = tg, al_result = r, al_detail = d, al_createTime = time\<rparr>]"
    by (auto simp: Let_def split: if_splits)
qed

lemma check_key_effect:
  assumes "check_key env c v k s = Some (ok, s')"
  shows "\<exists>m m'. sv_db s = Some m \<and> checkSecKey env c v k m = Some (ok, m') \<and> s' = s\<lparr>sv_db := Some m'\<rparr>"
    "messages_of (sv_db s') = messages_of (sv_db s)" "audits_of (sv_db s') = audits_of (sv_db s)"
proof -
  from assms show e: "\<exists>m m'. sv_db s = Some m \<and> checkSecKey env c v k m = Some (ok, m') \<and> s' = s\<lparr>sv_db := Some m'\<rparr>"
    by (auto simp: check_key_def bind_eq_Some_conv split: option.splits)
  then show "messages_of (sv_db s') = messages_of (sv_db s)" "audits_of (sv_db s') = audits_of (sv_db s)"
    by (auto simp: same_logs_def dest: checkSecKey_logs)
qed

text \<open>The key handed out is the cached one, is marked usable, and was confirmed by the database.\<close>

definition key_confirmed :: "env \<Rightarrow> string \<Rightarrow> string \<Rightarrow> int \<Rightarrow> string \<Rightarrow> service \<Rightarrow> service \<Rightarrow> bool" where
  "key_confirmed env c v k key s s' \<longleftrightarrow>
     (let node = shmRead c v (sv_shm s) in
      node_hit node \<and> n_seckeyID node = k \<and> n_status node = 1 \<and> key = c_str (n_seckey node)) \<and>
     sv_shm s' = sv_shm s \<and>
     (\<exists>m m'. sv_db s = Some m \<and> sv_db s' = Some m' \<and> checkSecKey env c v k m = Some (True, m'))"

lemma getActiveKey_effect:
  assumes "getActiveKey env c v k s = Some (r, s')"
  shows "messages_of (sv_db s') = messages_of (sv_db s)" "audits_of (sv_db s') = audits_of (sv_db s)"
    "sv_id s' = sv_id s" "ak_keyId r = k"
    "ak_valid r \<Longrightarrow> ak_found r \<and> key_confirmed env c v k (ak_base64Key r) s s'"
    "\<not> ak_valid r \<Longrightarrow> ak_base64Key r = []"
proof -
  let ?node = "shmRead c v (sv_shm s)"
  have "messages_of (sv_db s') = messages_of (sv_db s) \<and> audits_of (sv_db s') = audits_of (sv_db s) \<and>
    sv_id s' = sv_id s \<and> ak_keyId r = k \<and>
    (ak_valid r \<longrightarrow> ak_found r \<and> key_confirmed env c v k (ak_base64Key r) s s') \<and> (\<not> ak_valid r \<longrightarrow> ak_base64Key r = [])"
  proof (cases "node_hit ?node \<and> n_seckeyID ?node = k \<and> n_status ?node \<noteq> 1")
    case True
    with assms show ?thesis
      by (auto simp: getActiveKey_def Let_def node_hit_def split: if_splits)
  next
    case False
    with assms obtain ok s1 where ck: "check_key env c v k s = Some (ok, s1)"
      by (auto simp: getActiveKey_def Let_def node_hit_def bind_eq_Some_conv split: if_splits)
    note E = check_key_effect [OF ck]
    from E(1) have s1: "sv_shm s1 = sv_shm s" "sv_id s1 = sv_id s" by auto
    obtain r2 s2 where st: "cache_set_status c v 0 s1 = (r2, s2)" by (cases "cache_set_status c v 0 s1")
    then have s2: "sv_db s2 = sv_db s1" "sv_id s2 = sv_id s1"
      by (auto simp: cache_set_status_def split: prod.splits)
    show ?thesis
    proof (cases "node_hit ?node \<and> n_seckeyID ?node = k")
      case True
      with False assms ck E s1 s2 st show ?thesis
        by (cases ok) (auto simp: getActiveKey_def Let_def node_hit_def key_confirmed_def)
    next
      case no: False
      with assms ck E s1 show ?thesis
        by (cases ok) (auto simp: getActiveKey_def Let_def node_hit_def split: if_splits)
    qed
  qed
  then show "messages_of (sv_db s') = messages_of (sv_db s)" "audits_of (sv_db s') = audits_of (sv_db s)"
    "sv_id s' = sv_id s" "ak_keyId r = k"
    "ak_valid r \<Longrightarrow> ak_found r \<and> key_confirmed env c v k (ak_base64Key r) s s'"
    "\<not> ak_valid r \<Longrightarrow> ak_base64Key r = []" by auto
qed

text \<open>An answer without a message.\<close>

definition rejected :: "V2SendMessageResponseInfo \<Rightarrow> bool" where
  "rejected resp \<longleftrightarrow> vsp_code resp \<noteq> RESULT_SUCCESS \<and> vsp_serverMessageId resp = [] \<and>
     vsp_deliveryStatus resp = DELIVERY_REJECTED"

lemma send_reject_effect:
  assumes "send_reject env resp code msg nd a tg d s = Some (resp', s')" and "rejected resp" and "code \<noteq> RESULT_SUCCESS"
  shows "rejected resp' \<and> messages_of (sv_db s') = messages_of (sv_db s)"
  using assms by (auto simp: send_reject_def bind_eq_Some_conv rejected_def dest: send_audit_effect(1))

lemma generateServerMessageId_frame:
  "generateServerMessageId env s = (i, s') \<Longrightarrow> sv_db s' = sv_db s \<and> sv_shm s' = sv_shm s \<and> sv_id s' = sv_id s"
  by (auto simp: generateServerMessageId_def generateScopedId_def Let_def split: prod.splits)

lemma service_time_frame:
  "service_time env s = (t, s') \<Longrightarrow> sv_db s' = sv_db s \<and> sv_shm s' = sv_shm s \<and> sv_id s' = sv_id s"
  by (auto simp: service_time_def split: prod.splits)

lemma insert_message_effect:
  assumes "insert_message env r s = Some (ok, s')"
  shows "if ok then messages_of (sv_db s') = messages_of (sv_db s) @ [r]
    else messages_of (sv_db s') = messages_of (sv_db s) \<or>
      (\<exists>j. e_sql env j = Lost) \<and> messages_of (sv_db s') = messages_of (sv_db s) @ [r]"
  using assms insertMessageLog_effect
  by (cases "sv_db s") (fastforce simp: insert_message_def insertMessage_def bind_eq_Some_conv split: if_splits)+

text \<open>What a handler of a send request has done: nothing but audit, or stored exactly one record; in
  between only where the acknowledgement of the insertion was lost.\<close>

definition send_result ::
    "env \<Rightarrow> (MessageLogRecord \<Rightarrow> bool) \<Rightarrow> V2SendMessageResponseInfo \<Rightarrow> service \<Rightarrow> service \<Rightarrow> bool" where
  "send_result env ok_record resp s s' \<longleftrightarrow>
     rejected resp \<and> (messages_of (sv_db s') = messages_of (sv_db s) \<or>
       (\<exists>j. e_sql env j = Lost) \<and> (\<exists>r. ok_record r \<and> messages_of (sv_db s') = messages_of (sv_db s) @ [r])) \<or>
     vsp_code resp = RESULT_SUCCESS \<and> vsp_deliveryStatus resp = DELIVERY_ACCEPTED \<and>
       (\<exists>r. ok_record r \<and> ml_msgId r = vsp_serverMessageId resp \<and>
          messages_of (sv_db s') = messages_of (sv_db s) @ [r])"

lemma send_result_reject:
  "send_reject env resp code msg nd a tg d s = Some (resp', s') \<Longrightarrow> rejected resp \<Longrightarrow> code \<noteq> RESULT_SUCCESS \<Longrightarrow>
   messages_of (sv_db s) = messages_of (sv_db s0) \<Longrightarrow> send_result env P resp' s0 s'"
  by (auto simp: send_result_def dest: send_reject_effect)

lemma send_store_effect:
  assumes run: "send_store env resp header em rk enc s = Some (resp', s')" and rej: "rejected resp"
  shows "send_result env (\<lambda>r. \<exists>i t. r = message_record header em rk enc i t) resp' s s'"
proof -
  obtain i s1 where i: "generateServerMessageId env s = (i, s1)" by (cases "generateServerMessageId env s")
  obtain t w where t: "cur_time_text env (sv_proc s1) = (t, w)" by (cases "cur_time_text env (sv_proc s1)")
  let ?r = "message_record header em rk enc i t"
  from run i t obtain ok s2 where ins: "insert_message env ?r (s1\<lparr>sv_proc := w\<rparr>) = Some (ok, s2)"
    by (auto simp: send_store_def bind_eq_Some_conv)
  note I = insert_message_effect [OF ins]
  have s1: "messages_of (sv_db s1) = messages_of (sv_db s)" using generateServerMessageId_frame [OF i] by simp
  show ?thesis
  proof (cases ok)
    case False
    with run i t ins have rj: "send_reject env resp RESULT_FAILED ''insert message_log failed'' (h_sender_id header)
        ''MSG_STORE'' i ''insert message_log failed'' s2 = Some (resp', s')"
      by (simp add: send_store_def)
    from send_reject_effect [OF rj rej] I False s1 show ?thesis
      by (auto simp: send_result_def)
  next
    case True
    with run i t ins obtain s3 where au: "send_audit env (h_sender_id header) ''MSG_SEND'' i 1
        ''message send success and re-encrypted for receiver'' s2 = Some s3"
      and fin: "(let (t2, s) = service_time env s3 in
       Some (resp\<lparr>vsp_code := RESULT_SUCCESS, vsp_message := text_send_success, vsp_serverMessageId := i,
         vsp_serverTime := t2, vsp_deliveryStatus := DELIVERY_ACCEPTED\<rparr>, s)) = Some (resp', s')"
      by (auto simp: send_store_def bind_eq_Some_conv)
    obtain t2 s4 where st: "service_time env s3 = (t2, s4)" by (cases "service_time env s3")
    from fin st send_audit_effect(1) [OF au] I True s1 service_time_frame [OF st] show ?thesis
      by (auto simp: send_result_def message_record_def)
  qed
qed

definition delivered ::
    "env \<Rightarrow> Header \<Rightarrow> EncryptedMessage \<Rightarrow> string \<Rightarrow> service \<Rightarrow> MessageLogRecord \<Rightarrow> bool" where
  "delivered env header em plaintext s r \<longleftrightarrow>
     (\<exists>k key s1 w enc w' i t. key_confirmed env (h_receiver_id header) (sv_id s) k key s s1 \<and>
        encryptMessage env key plaintext w = (Inr enc, w') \<and> r = message_record header em k enc i t)"

lemma send_deliver_effect:
  assumes run: "send_deliver env resp header em plaintext s = Some (resp', s')" and rej: "rejected resp"
  shows "send_result env (delivered env header em plaintext s) resp' s s'"
proof (cases "node_hit (shmRead (h_receiver_id header) (sv_id s) (sv_shm s))")
  case False
  with run rej show ?thesis
    by (auto simp: send_deliver_def node_hit_def Let_def intro: send_result_reject)
next
  case hit: True
  let ?k = "n_seckeyID (shmRead (h_receiver_id header) (sv_id s) (sv_shm s))"
  from run hit obtain rk s1 where g: "getActiveKey env (h_receiver_id header) (sv_id s) ?k s = Some (rk, s1)"
    by (auto simp: send_deliver_def node_hit_def Let_def bind_eq_Some_conv)
  note G = getActiveKey_effect [OF g]
  show ?thesis
  proof (cases "ak_found rk \<and> ak_valid rk")
    case False
    with run hit g G(1) rej show ?thesis
      by (auto simp: send_deliver_def node_hit_def Let_def intro!: send_result_reject split: if_splits)
  next
    case True
    obtain e w where enc: "encryptMessage env (ak_base64Key rk) plaintext (sv_proc s1) = (e, w)"
      by (cases "encryptMessage env (ak_base64Key rk) plaintext (sv_proc s1)")
    show ?thesis
    proof (cases e)
      case (Inl err)
      with run hit g G(1) True enc rej show ?thesis
        by (auto simp: send_deliver_def node_hit_def Let_def intro: send_result_reject)
    next
      case (Inr er)
      with run hit g True enc have st: "send_store env resp header em (ak_keyId rk) er (s1\<lparr>sv_proc := w\<rparr>) = Some (resp', s')"
        by (auto simp: send_deliver_def node_hit_def Let_def)
      have "delivered env header em plaintext s (message_record header em (ak_keyId rk) er i t)" for i t
      proof -
        from G(4,5) True have "key_confirmed env (h_receiver_id header) (sv_id s) (ak_keyId rk) (ak_base64Key rk) s s1"
          by simp
        with enc [unfolded Inr] show ?thesis unfolding delivered_def by blast
      qed
      with send_store_effect [OF st rej] G(1) show ?thesis
        by (auto simp: send_result_def)
    qed
  qed
qed

text \<open>The whole chain: the sender's key was confirmed and opened the message, and what it held was
  encrypted anew under the receiver's confirmed key.\<close>

definition relayed :: "env \<Rightarrow> RequestPacket \<Rightarrow> service \<Rightarrow> MessageLogRecord \<Rightarrow> bool" where
  "relayed env p s r \<longleftrightarrow>
     (\<exists>header em key s0 s1 s2 plaintext w w'. rq_header p = Some header \<and>
        rq_body p = SendMsgReq \<lparr>smr_message = Some em\<rparr> \<and> sv_db s0 = sv_db s \<and> sv_shm s0 = sv_shm s \<and>
        key_confirmed env (h_sender_id header) (sv_id s) (em_key_id em) key s0 s1 \<and>
        decryptMessage env key (em_ciphertext em) (em_nonce em) (em_tag em) (em_algorithm em) w = (Inr plaintext, w') \<and>
        s2 = s1\<lparr>sv_proc := w'\<rparr> \<and> sv_id s2 = sv_id s \<and> delivered env header em plaintext s2 r)"

lemma validateRequest_None:
  assumes "validateRequest p = None"
  shows "\<exists>header em. rq_header p = Some header \<and> rq_body p = SendMsgReq \<lparr>smr_message = Some em\<rparr> \<and>
    h_sender_id header \<noteq> [] \<and> h_receiver_id header \<noteq> [] \<and> 0 < em_key_id em"
proof -
  from assms obtain req header where b: "send_msg_req (rq_body p) = Some req" "rq_header p = Some header"
    by (auto simp: validateRequest_def split: if_splits option.splits)
  then have body: "rq_body p = SendMsgReq req" by (cases "rq_body p") auto
  obtain em where em: "smr_message req = Some em"
    using assms b by (auto simp: validateRequest_def split: if_splits)
  then have "req = \<lparr>smr_message = Some em\<rparr>" by simp
  with assms b body em show ?thesis
    by (auto simp: validateRequest_def Let_def smr_get_message_def split: if_splits)
qed

lemma handleSendMessage_effect:
  assumes run: "handleSendMessage env p s = Some (resp, s')"
  shows "send_result env (relayed env p s) resp s s'"
proof -
  obtain h sa where h: "send_response_header env p CMD_SEND_MSG_RESP s = (h, sa)"
    by (cases "send_response_header env p CMD_SEND_MSG_RESP s")
  obtain t0 s0 where t0: "service_time env sa = (t0, s0)" by (cases "service_time env sa")
  have "sv_db sa = sv_db s \<and> sv_shm sa = sv_shm s \<and> sv_id sa = sv_id s"
    using h by (auto simp: send_response_header_def Let_def split: option.splits prod.splits
        dest!: service_time_frame generateServerMessageId_frame)
  with service_time_frame [OF t0] have s0: "sv_db s0 = sv_db s" "sv_shm s0 = sv_shm s" "sv_id s0 = sv_id s"
    by auto
  let ?resp = "\<lparr>vsp_header = h, vsp_code = RESULT_FAILED, vsp_message = text_unknown_error, vsp_serverMessageId = [],
     vsp_serverTime = t0, vsp_deliveryStatus = DELIVERY_REJECTED\<rparr>"
  have rej: "rejected ?resp" by (simp add: rejected_def)
  show ?thesis
  proof (cases "validateRequest p")
    case (Some err)
    with run h t0 rej s0 show ?thesis
      by (auto simp: handleSendMessage_def intro: send_result_reject)
  next
    case None
    from validateRequest_None [OF None] obtain header em where pk: "rq_header p = Some header"
      "rq_body p = SendMsgReq \<lparr>smr_message = Some em\<rparr>" by blast
    note red = handleSendMessage_def Let_def smr_get_message_def
    from run None h t0 pk obtain sk s1 where g:
      "getActiveKey env (h_sender_id header) (sv_id s0) (em_key_id em) s0 = Some (sk, s1)"
      by (auto simp: red bind_eq_Some_conv)
    note G = getActiveKey_effect [OF g]
    show ?thesis
    proof (cases "ak_found sk \<and> ak_valid sk")
      case False
      with run None h t0 pk g G(1) rej s0 show ?thesis
        by (auto simp: red intro: send_result_reject split: if_splits)
    next
      case True
      obtain d w where dec: "decryptMessage env (ak_base64Key sk) (em_ciphertext em) (em_nonce em) (em_tag em)
          (em_algorithm em) (sv_proc s1) = (d, w)"
        by (cases "decryptMessage env (ak_base64Key sk) (em_ciphertext em) (em_nonce em) (em_tag em)
          (em_algorithm em) (sv_proc s1)")
      show ?thesis
      proof (cases d)
        case (Inl err)
        with run None h t0 pk g G(1) True dec rej s0 show ?thesis
          by (auto simp: red intro: send_result_reject)
      next
        case (Inr plaintext)
        with run None h t0 pk g True dec
        have dl: "send_deliver env ?resp header em plaintext (s1\<lparr>sv_proc := w\<rparr>) = Some (resp, s')"
          by (auto simp: red)
        have "relayed env p s r" if "delivered env header em plaintext (s1\<lparr>sv_proc := w\<rparr>) r" for r
          unfolding relayed_def using that pk s0 G(3,5) True dec Inr by fastforce
        with send_deliver_effect [OF dl rej] G(1) s0 show ?thesis
          by (auto simp: send_result_def)
      qed
    qed
  qed
qed

end
