(* ===== verification/MessageProps.thy ===== *)
theory MessageProps
  imports MessageSvc
begin

text \<open>
  Properties of \<open>MessageService\<close>: what a send request stores and when, that the receiver can open
  what was stored, what becomes of the key cache, and the identifiers the service generates.
\<close>

section \<open>Decryption and re-encryption fit together\<close>

lemma decryptMessage_Inr:
  assumes "decryptMessage env key ct nonce tag alg w = (Inr p, w')"
  shows "alg = ''AES-128-GCM''"
    "gcm_decrypt env (b64_decode env key) (b64_decode env nonce) (b64_decode env ct) (b64_decode env tag) w = (Inr p, w')"
  using assms by (auto simp: decryptMessage_def Let_def split: if_splits)

lemma gcm_decrypt_Inr:
  assumes "gcm_decrypt env key n c t w = (Inr p, w')"
  shows "e_gcm_dec env key n c t = Some p" "length key \<in> {16, 24, 32}"
  using assms
  by (auto simp: gcm_decrypt_def Let_def getCipherByKeyLen_def split: if_splits prod.splits option.splits)

text \<open>GCM keeps lengths, and the plaintext is not empty, so no field of the result is empty.\<close>

definition gcm_len_ok :: "env \<Rightarrow> bool" where
  "gcm_len_ok env \<longleftrightarrow> (\<forall>k n p. length (fst (e_gcm_enc env k n p)) = length p)"

lemma calm_gcm_len [simp]: "gcm_len_ok calm_env"
  by (simp add: gcm_len_ok_def)

lemma encryptMessage_opens:
  assumes enc: "encryptMessage env key p w = (Inr er, w')"
    and "base64_ok env" "gcm_ok env" "gcm_len_ok env" "rand_ok env" "gcm_tag_ok env" "\<And>k. e_ssl env k"
  shows "fst (decryptMessage env key (er_ciphertext er) (er_nonce er) (er_tag er) (er_algorithm er) v) = Inr p"
proof -
  let ?k = "b64_decode env key"
  obtain e w1 where g: "gcm_encrypt env ?k p w = (e, w1)" by (cases "gcm_encrypt env ?k p w")
  with enc obtain c n t where e: "e = Inr (c, n, t)" and p: "p \<noteq> []" and k: "?k \<noteq> []"
    and er: "er_ciphertext er = b64_encode env c" "er_nonce er = b64_encode env n" "er_tag er = b64_encode env t"
      "er_algorithm er = ''AES-128-GCM''"
    by (auto simp: encryptMessage_def Let_def split: if_splits sum.splits prod.splits)
  note G = gcm_encrypt_Inr [OF g [unfolded e]]
  have "length c = length p" "length n = 12" "length t = 16"
    using G assms(4-6)
    by (auto simp: gcm_len_ok_def rand_ok_def gcm_tag_ok_def GCM_NONCE_SIZE_def GCM_TAG_SIZE_def
        dest: arg_cong [of _ _ fst] arg_cong [of _ _ snd])
  with p have "c \<noteq> []" "n \<noteq> []" "t \<noteq> []" by auto
  with gcm_decrypt_encrypted [OF g [unfolded e] assms(3,5,6,7), of v] k er assms(2)
  show ?thesis
    by (auto simp: decryptMessage_def Let_def)
qed

lemma decryptMessage_again:
  assumes "decryptMessage env key ct nonce tag alg w = (Inr p, w')" and "\<And>k. e_ssl env k"
  shows "fst (decryptMessage env key ct nonce tag ''AES-128-GCM'' v) = Inr p"
proof -
  note D = decryptMessage_Inr [OF assms(1)]
  have "fst (gcm_decrypt env (b64_decode env key) (b64_decode env nonce) (b64_decode env ct) (b64_decode env tag) v) = Inr p"
    using D(2) gcm_decrypt_Inr(1) [OF D(2)] assms(2)
    by (auto simp: gcm_decrypt_def Let_def split: if_splits)
  with assms(1) show ?thesis by (auto simp: decryptMessage_def Let_def split: if_splits)
qed

section \<open>Identifiers\<close>

lemma split_at_underscore:
  assumes "show_nat a @ CHR ''_'' # xs = show_nat b @ CHR ''_'' # ys"
  shows "show_nat a = show_nat b \<and> xs = ys"
proof -
  have tw: "takeWhile (\<lambda>c. c \<noteq> CHR ''_'') (show_nat n @ CHR ''_'' # zs) = show_nat n" for n zs
    using underscore_notin_show_nat [of n] by (auto simp: takeWhile_append)
  from arg_cong [OF assms, of "takeWhile (\<lambda>c. c \<noteq> CHR ''_'')"] have "show_nat a = show_nat b"
    by (simp only: tw)
  with assms show ?thesis by simp
qed

lemma show_u64_inject [simp]: "show_u64 a = show_u64 b \<longleftrightarrow> a = b"
  by (simp add: show_u64_def word_unat_eq_iff)

lemma scoped_id_inject:
  "prefix @ ''_'' @ show_nat a @ ''_'' @ show_u64 q = prefix @ ''_'' @ show_nat b @ ''_'' @ show_u64 r \<longleftrightarrow> a = b \<and> q = r"
proof
  assume "prefix @ ''_'' @ show_nat a @ ''_'' @ show_u64 q = prefix @ ''_'' @ show_nat b @ ''_'' @ show_u64 r"
  then have "show_nat a @ CHR ''_'' # show_u64 q = show_nat b @ CHR ''_'' # show_u64 r" by simp
  from split_at_underscore [OF this] show "a = b \<and> q = r" by simp
qed simp

text \<open>A run of the generator, with anything else happening to the process in between that does not
  touch its counter.\<close>

fun scoped_ids :: "env \<Rightarrow> string \<Rightarrow> (nat \<Rightarrow> service \<Rightarrow> service) \<Rightarrow> nat \<Rightarrow> service \<Rightarrow> string list" where
  "scoped_ids env prefix other 0 s = []"
| "scoped_ids env prefix other (Suc n) s =
     (let (i, s) = generateScopedId env prefix s in i # scoped_ids env prefix other n (other n s))"

lemma scoped_ids_form:
  assumes "\<And>k s. sv_seq_msg (other k s) = sv_seq_msg s"
  shows "i < n \<Longrightarrow> \<exists>a. scoped_ids env prefix other n s ! i =
    prefix @ ''_'' @ show_nat a @ ''_'' @ show_u64 (sv_seq_msg s + of_nat (Suc i))"
proof (induction n arbitrary: s i)
  case (Suc n)
  obtain x s1 where g: "generateScopedId env prefix s = (x, s1)" by (cases "generateScopedId env prefix s")
  then have s1: "sv_seq_msg s1 = sv_seq_msg s + 1"
    and x: "\<exists>a. x = prefix @ ''_'' @ show_nat a @ ''_'' @ show_u64 (sv_seq_msg s + 1)"
    by (auto simp: generateScopedId_def Let_def micros_now_def)
  show ?case
  proof (cases i)
    case 0
    with g x show ?thesis by simp
  next
    case (Suc j)
    with Suc.prems have "j < n" by simp
    from Suc.IH [OF this, of "other n s1"] Suc g show ?thesis
      by (simp add: assms s1 algebra_simps)
  qed
qed simp

lemma length_scoped_ids [simp]: "length (scoped_ids env prefix other n s) = n"
  by (induction n arbitrary: s) (auto split: prod.split)

lemma scoped_ids_distinct:
  assumes "\<And>k s. sv_seq_msg (other k s) = sv_seq_msg s" and "n \<le> 2 ^ 64"
  shows "distinct (scoped_ids env prefix other n s)"
proof -
  have "scoped_ids env prefix other n s ! i \<noteq> scoped_ids env prefix other n s ! j" if ij: "i < j" "j < n" for i j
  proof
    assume eq: "scoped_ids env prefix other n s ! i = scoped_ids env prefix other n s ! j"
    from ij have "i < n" by simp
    obtain a where a: "scoped_ids env prefix other n s ! i =
        prefix @ ''_'' @ show_nat a @ ''_'' @ show_u64 (sv_seq_msg s + of_nat (Suc i))"
      using scoped_ids_form [of other i n env prefix s] assms(1) \<open>i < n\<close> by blast
    obtain b where b: "scoped_ids env prefix other n s ! j =
        prefix @ ''_'' @ show_nat b @ ''_'' @ show_u64 (sv_seq_msg s + of_nat (Suc j))"
      using scoped_ids_form [of other j n env prefix s] assms(1) ij(2) by blast
    from eq have "(of_nat (Suc i) :: 64 word) = of_nat (Suc j)"
      unfolding a b scoped_id_inject by (simp only: add_left_cancel)
    then have "(of_nat i :: 64 word) = of_nat j" by simp
    then have "i mod 2 ^ 64 = j mod 2 ^ 64" by (simp add: word_of_nat_eq_iff take_bit_eq_mod)
    with ij assms(2) show False by simp
  qed
  then show ?thesis
    by (auto simp: distinct_conv_nth) (metis nat_neq_iff)
qed

section \<open>Calls return\<close>

lemma state_row_returns: "\<exists>r. state_row (map (\<lambda>r. [Some (show_int (kr_keyid r)), Some (show_int (kr_state r))]) rs) = Some r"
  by (simp add: state_row_keys)

lemma checkSecKey_returns:
  assumes "m_conn m"
  shows "\<exists>ok m'. checkSecKey env c v k m = Some (ok, m')"
proof -
  obtain b1 m1 where q1: "mysql_query env (ExpireKey c v k) m = Some (b1, m1)"
    using mysql_query_total [OF assms] by blast
  from mysql_query_frame [OF q1] have "m_conn m1" by simp
  then obtain b2 m2 where q2: "mysql_query env (SelectKeyState c v k) m1 = Some (b2, m2)"
    using mysql_query_total by blast
  obtain x m3 where st: "mysql_store_result env m2 = (x, m3)" by (cases "mysql_store_result env m2")
  have "\<exists>r. state_row rows = Some r" if "b2" "x = Some rows" for rows
  proof -
    from mysql_query_select(5) [OF q2] that(1)
    have "m_res m2 = map (\<lambda>r. [Some (show_int (kr_keyid r)), Some (show_int (kr_state r))])
        (filter (key_is env c v k) (t_keys (tbl m1)))" by auto
    moreover from st that(2) have "rows = m_res m2" by (auto dest: mysql_store_result_Some)
    ultimately show ?thesis by (simp add: state_row_keys)
  qed
  with q1 q2 st show ?thesis
    by (cases b1; cases b2; cases x) (auto simp: checkSecKey_def split: option.splits)
qed

text \<open>The database object is there and connected.\<close>

definition db_up :: "service \<Rightarrow> bool" where
  "db_up s \<longleftrightarrow> (case sv_db s of None \<Rightarrow> False | Some m \<Rightarrow> m_conn m)"

lemma db_up_Some: "db_up s \<longleftrightarrow> (\<exists>m. sv_db s = Some m \<and> m_conn m)"
  by (auto simp: db_up_def split: option.splits)

lemma check_key_returns:
  assumes "db_up s"
  shows "\<exists>ok s'. check_key env c v k s = Some (ok, s') \<and> db_up s'"
proof -
  from assms obtain m where m: "sv_db s = Some m" "m_conn m" by (auto simp: db_up_Some)
  from checkSecKey_returns [OF m(2)] obtain ok m' where ck: "checkSecKey env c v k m = Some (ok, m')" by blast
  with checkSecKey_frame [OF ck] m show ?thesis by (auto simp: check_key_def db_up_Some)
qed

lemma getActiveKey_returns:
  assumes "db_up s"
  shows "\<exists>r s'. getActiveKey env c v k s = Some (r, s') \<and> db_up s'"
proof -
  from check_key_returns [OF assms] obtain ok s1 where ck: "check_key env c v k s = Some (ok, s1)" "db_up s1"
    by blast
  have st: "db_up (snd (cache_set_status c v 0 s1))"
    using ck(2) by (auto simp: cache_set_status_def db_up_def split: prod.splits)
  from assms have "sv_db s \<noteq> None" by (auto simp: db_up_def split: option.splits)
  with ck st assms show ?thesis
    by (cases ok) (auto simp: getActiveKey_def Let_def)
qed

lemma insertAuditLog_returns: "m_conn m \<Longrightarrow> \<exists>ok m'. insertAuditLog env a m = Some (ok, m') \<and> m_conn m'"
  using mysql_query_total mysql_query_frame unfolding insertAuditLog_def by blast

lemma logAction_at_returns:
  assumes "m_conn m"
  shows "\<exists>ok m'. logAction_at env l n a tg r d t (Some m) = Some (ok, Some m') \<and> m_conn m'"
proof -
  let ?a = "\<lparr>al_logId = l, al_nodeId = n, al_action = a, al_targetId = tg, al_result = r, al_detail = d, al_createTime = t\<rparr>"
  from insertAuditLog_returns [OF assms, of env ?a] show ?thesis
    by (auto simp: logAction_at_def logRecord_def)
qed

lemma send_audit_returns:
  assumes "db_up s"
  shows "\<exists>s'. send_audit env nd a tg r d s = Some s' \<and> db_up s'"
proof -
  obtain l s1 where i: "generateAuditLogId env s = (l, s1)" by (cases "generateAuditLogId env s")
  obtain t w where t: "cur_time_text env (sv_proc s1) = (t, w)" by (cases "cur_time_text env (sv_proc s1)")
  from i have s1: "sv_db s1 = sv_db s"
    by (auto simp: generateAuditLogId_def generateScopedId_def Let_def split: prod.splits)
  from assms obtain m where m: "sv_db s = Some m" "m_conn m" by (auto simp: db_up_Some)
  from logAction_at_returns [OF m(2), of env l nd a tg r d t] i t s1 m show ?thesis
    by (auto simp: send_audit_def db_up_Some)
qed

lemma send_reject_returns:
  "db_up s \<Longrightarrow> \<exists>resp' s'. send_reject env resp code msg nd a tg d s = Some (resp', s') \<and> db_up s'"
  using send_audit_returns [of s env nd a tg 0 d] by (auto simp: send_reject_def)

lemma send_store_returns:
  assumes "db_up s"
  shows "\<exists>resp' s'. send_store env resp header em rk enc s = Some (resp', s') \<and> db_up s'"
proof -
  obtain i s1 where i: "generateServerMessageId env s = (i, s1)" by (cases "generateServerMessageId env s")
  obtain t w where t: "cur_time_text env (sv_proc s1) = (t, w)" by (cases "cur_time_text env (sv_proc s1)")
  let ?r = "message_record header em rk enc i t"
  from assms generateServerMessageId_frame [OF i] obtain m where m: "sv_db s1 = Some m" "m_conn m"
    by (auto simp: db_up_Some)
  obtain ok m' where ins: "mysql_query env (InsertMessage ?r) m = Some (ok, m')"
    using mysql_query_total [OF m(2)] by blast
  from mysql_query_frame [OF ins] have m': "m_conn m'" by simp
  let ?s = "s1\<lparr>sv_proc := w, sv_db := Some m'\<rparr>"
  have up: "db_up ?s" using m' by (simp add: db_up_Some)
  have im: "insert_message env ?r (s1\<lparr>sv_proc := w\<rparr>) = Some (ok, ?s)"
    using ins m by (simp add: insert_message_def insertMessage_def insertMessageLog_def)
  show ?thesis
  proof (cases ok)
    case False
    with i t im send_reject_returns [OF up] show ?thesis by (simp add: send_store_def)
  next
    case True
    from send_audit_returns [OF up] obtain s3 where s3: "send_audit env (h_sender_id header) ''MSG_SEND'' i 1
        ''message send success and re-encrypted for receiver'' ?s = Some s3" "db_up s3" by blast
    obtain t2 s4 where st: "service_time env s3 = (t2, s4)" by (cases "service_time env s3")
    with s3 service_time_frame [OF st] have "db_up s4" by (auto simp: db_up_Some)
    with True i t im s3 st show ?thesis by (simp add: send_store_def)
  qed
qed

lemma send_deliver_returns:
  assumes "db_up s"
  shows "\<exists>resp' s'. send_deliver env resp header em plaintext s = Some (resp', s') \<and> db_up s'"
proof -
  let ?k = "n_seckeyID (shmRead (h_receiver_id header) (sv_id s) (sv_shm s))"
  from getActiveKey_returns [OF assms] obtain rk s1 where
    g: "getActiveKey env (h_receiver_id header) (sv_id s) ?k s = Some (rk, s1)" "db_up s1" by blast
  obtain e w where enc: "encryptMessage env (ak_base64Key rk) plaintext (sv_proc s1) = (e, w)"
    by (cases "encryptMessage env (ak_base64Key rk) plaintext (sv_proc s1)")
  have up: "db_up (s1\<lparr>sv_proc := w\<rparr>)" using g(2) by (simp add: db_up_def)
  show ?thesis
    using g enc send_reject_returns [OF assms] send_reject_returns [OF g(2)] send_reject_returns [OF up]
      send_store_returns [OF up]
    by (cases e) (auto simp: send_deliver_def Let_def)
qed

lemma handleSendMessage_returns:
  assumes "db_up s"
  shows "\<exists>resp s'. handleSendMessage env p s = Some (resp, s') \<and> db_up s'"
proof -
  obtain h sa where h: "send_response_header env p CMD_SEND_MSG_RESP s = (h, sa)"
    by (cases "send_response_header env p CMD_SEND_MSG_RESP s")
  obtain t0 s0 where t0: "service_time env sa = (t0, s0)" by (cases "service_time env sa")
  have "sv_db sa = sv_db s"
    using h by (auto simp: send_response_header_def Let_def split: option.splits prod.splits
        dest!: service_time_frame generateServerMessageId_frame)
  with assms service_time_frame [OF t0] have up0: "db_up s0" by (auto simp: db_up_def)
  show ?thesis
  proof (cases "validateRequest p")
    case (Some err)
    with h t0 send_reject_returns [OF up0] show ?thesis by (simp add: handleSendMessage_def)
  next
    case None
    from validateRequest_None [OF None] obtain header em where pk: "rq_header p = Some header"
      "rq_body p = SendMsgReq \<lparr>smr_message = Some em\<rparr>" by blast
    from getActiveKey_returns [OF up0] obtain sk s1 where
      g: "getActiveKey env (h_sender_id header) (sv_id s0) (em_key_id em) s0 = Some (sk, s1)" "db_up s1" by blast
    obtain d w where dec: "decryptMessage env (ak_base64Key sk) (em_ciphertext em) (em_nonce em) (em_tag em)
        (em_algorithm em) (sv_proc s1) = (d, w)"
      by (cases "decryptMessage env (ak_base64Key sk) (em_ciphertext em) (em_nonce em) (em_tag em)
        (em_algorithm em) (sv_proc s1)")
    have up: "db_up (s1\<lparr>sv_proc := w\<rparr>)" using g(2) by (simp add: db_up_def)
    show ?thesis
      using None h t0 pk g dec send_reject_returns [OF g(2)] send_reject_returns [OF up] send_deliver_returns [OF up]
      by (cases d) (auto simp: handleSendMessage_def Let_def smr_get_message_def)
  qed
qed

section \<open>Confirmed keys are in the database\<close>

lemma expire_rows_subset:
  assumes "r \<in> set (expire_rows env now c v k rs)" and "is_active r"
  shows "r \<in> set rs"
proof -
  have "list_all (\<lambda>r. is_active r \<longrightarrow> r \<in> set rs) (expire_rows env now c v k rs)"
    by (auto simp: expire_rows_def list_all_iff in_update_where split: if_splits)
  with assms show ?thesis by (auto simp: list_all_iff)
qed

lemma checkSecKey_True_subset:
  assumes "checkSecKey env c v k m = Some (True, m')" and "r \<in> set (t_keys (tbl m'))" and "is_active r"
  shows "r \<in> set (t_keys (tbl m))"
  using assms(1)
proof (cases rule: checkSecKey_steps)
  case (row m1 m2 row)
  from checkSecKey_row(1) [OF row(1-4)] assms(2,3) show ?thesis by (auto dest: expire_rows_subset)
qed simp_all

text \<open>A usable row: active, of this pair and number, and not expired at a reading of the database clock.\<close>

definition usable_row :: "env \<Rightarrow> string \<Rightarrow> string \<Rightarrow> int \<Rightarrow> service \<Rightarrow> bool" where
  "usable_row env c v k s \<longleftrightarrow> (\<exists>m r j. sv_db s = Some m \<and> r \<in> set (t_keys (tbl m)) \<and> key_is env c v k r \<and>
     is_active r \<and> e_dbnow env j < kr_expire r)"

lemma key_confirmed_usable: "key_confirmed env c v k key s s' \<Longrightarrow> usable_row env c v k s"
  by (auto simp: key_confirmed_def usable_row_def dest!: checkSecKey_True)

lemma usable_row_after:
  assumes "usable_row env c v k s'" and "key_confirmed env d u j key s s'"
  shows "usable_row env c v k s"
proof -
  from assms(2) obtain m m' where m: "sv_db s = Some m" "sv_db s' = Some m'"
    and ck: "checkSecKey env d u j m = Some (True, m')" by (auto simp: key_confirmed_def)
  from assms(1) m(2) obtain r i where "r \<in> set (t_keys (tbl m'))" "key_is env c v k r" "is_active r"
    "e_dbnow env i < kr_expire r" by (auto simp: usable_row_def)
  with m(1) checkSecKey_True_subset [OF ck] show ?thesis unfolding usable_row_def by blast
qed

lemma getActiveKey_usable_hit:
  assumes run: "getActiveKey env c v k s = Some (r, s')"
    and hit: "node_hit (shmRead c v (sv_shm s))" "n_seckeyID (shmRead c v (sv_shm s)) = k"
      "n_status (shmRead c v (sv_shm s)) = 1"
  shows "\<exists>ok s1. check_key env c v k s = Some (ok, s1) \<and> ak_valid r = ok \<and>
    s' = (if ok then s1 else snd (cache_set_status c v 0 s1))"
proof -
  from hit have "strlen (n_clientID (shmRead c v (sv_shm s))) \<noteq> 0 \<and> strlen (n_serverID (shmRead c v (sv_shm s))) \<noteq> 0 \<and>
      n_seckeyID (shmRead c v (sv_shm s)) = k" by (simp only: node_hit_def simp_thms)
  with run hit(3) show ?thesis
    unfolding getActiveKey_def Let_def
    by (cases "sv_db s = None") (auto simp: bind_eq_Some_conv split: if_splits)
qed

section \<open>Properties\<close>


definition demo_key :: string where
  "demo_key = ''0123456789abcdef''"

definition demo_cache :: SecKeyShm where
  "demo_cache = \<lparr>shm_ok = True, shm_nodes = [
     \<lparr>n_status = 1, n_seckeyID = 6, n_clientID = ''alice'', n_serverID = ''srv'', n_seckey = demo_key\<rparr>,
     \<lparr>n_status = 1, n_seckeyID = 5, n_clientID = ''bob'', n_serverID = ''srv'', n_seckey = demo_key\<rparr>]\<rparr>"

definition demo_service :: service where
  "demo_service = \<lparr>sv_id = ''srv'', sv_db = Some (fresh_conn demo_tables), sv_shm = demo_cache, sv_proc = proc_start,
     sv_seq_msg = 0, sv_seq_qry = 0, sv_files = (\<lambda>f. None)\<rparr>"

lemma demo_service_simps [simp]:
  "sv_id demo_service = ''srv''" "sv_db demo_service = Some (fresh_conn demo_tables)"
  "sv_shm demo_service = demo_cache"
  by (simp_all add: demo_service_def)

definition demo_send :: RequestPacket where
  "demo_send = \<lparr>rq_header = Some \<lparr>h_message_id = ''m1'', h_command = 1, h_sender_id = ''alice'',
       h_receiver_id = ''bob'', h_timestamp = 0\<rparr>,
     rq_body = SendMsgReq \<lparr>smr_message =
       (case encryptMessage calm_env demo_key ''hi'' proc_start of
          (Inr er, w) \<Rightarrow> Some \<lparr>em_key_id = 6, em_msg_type = 1, em_ciphertext = er_ciphertext er,
             em_nonce = er_nonce er, em_tag = er_tag er, em_algorithm = er_algorithm er\<rparr>
        | _ \<Rightarrow> None)\<rparr>\<rparr>"

lemma demo_send_run:
  "\<exists>resp s'. handleSendMessage calm_env demo_send demo_service = Some (resp, s') \<and> vsp_code resp = RESULT_SUCCESS"
proof -
  have "case handleSendMessage calm_env demo_send demo_service of
      None \<Rightarrow> False | Some (resp, s') \<Rightarrow> vsp_code resp = RESULT_SUCCESS"
    by code_simp
  then show ?thesis by (auto split: option.splits)
qed




text \<open>C20. The receiver can read what was sent: after a successful send, the ciphertext, nonce and tag
  stored for the receiver open, under the receiver's cached session key, to exactly the plaintext that the
  sender's ciphertext opens to under the sender's cached session key.\<close>

theorem send_receiver_opens:
  assumes "handleSendMessage env p s = Some (resp, s')" and "vsp_code resp = RESULT_SUCCESS"
    and "base64_ok env" "gcm_ok env" "gcm_len_ok env" "rand_ok env" "gcm_tag_ok env" "\<And>k. e_ssl env k"
  shows "\<exists>r plaintext. messages_of (sv_db s') = messages_of (sv_db s) @ [r] \<and>
     fst (decryptMessage env (c_str (n_seckey (shmRead (ml_senderId r) (sv_id s) (sv_shm s))))
       (ml_senderCiphertext r) (ml_senderNonce r) (ml_senderTag r) ''AES-128-GCM'' v) = Inr plaintext \<and>
     fst (decryptMessage env (c_str (n_seckey (shmRead (ml_receiverId r) (sv_id s) (sv_shm s))))
       (ml_receiverCiphertext r) (ml_receiverNonce r) (ml_receiverTag r) (ml_algorithm r) v) = Inr plaintext"
proof -
  from handleSendMessage_effect [OF assms(1)] assms(2) obtain r where
    r: "relayed env p s r" "messages_of (sv_db s') = messages_of (sv_db s) @ [r]"
    by (auto simp: send_result_def rejected_def)
  from r(1) obtain header em key s0 s1 s2 plaintext w0 w1 k rkey s3 w enc w' i t where
    s0: "sv_shm s0 = sv_shm s" and ks: "key_confirmed env (h_sender_id header) (sv_id s) (em_key_id em) key s0 s1"
    and dec: "decryptMessage env key (em_ciphertext em) (em_nonce em) (em_tag em) (em_algorithm em) w0 = (Inr plaintext, w1)"
    and s2: "s2 = s1\<lparr>sv_proc := w1\<rparr>" "sv_id s2 = sv_id s"
    and kr: "key_confirmed env (h_receiver_id header) (sv_id s2) k rkey s2 s3"
    and enc: "encryptMessage env rkey plaintext w = (Inr enc, w')"
    and rec: "r = message_record header em k enc i t"
    unfolding relayed_def delivered_def by auto
  from ks s0 have key: "key = c_str (n_seckey (shmRead (h_sender_id header) (sv_id s) (sv_shm s)))"
    and s1: "sv_shm s1 = sv_shm s" by (auto simp: key_confirmed_def Let_def)
  from kr s2 s1 have rkey: "rkey = c_str (n_seckey (shmRead (h_receiver_id header) (sv_id s) (sv_shm s)))"
    by (auto simp: key_confirmed_def Let_def)
  note D = decryptMessage_Inr [OF dec]
  have "fst (decryptMessage env key (em_ciphertext em) (em_nonce em) (em_tag em) ''AES-128-GCM'' v) = Inr plaintext"
    by (rule decryptMessage_again [OF dec assms(8)])
  moreover have "fst (decryptMessage env rkey (er_ciphertext enc) (er_nonce enc) (er_tag enc) (er_algorithm enc) v) = Inr plaintext"
    by (rule encryptMessage_opens [OF enc assms(3-8)])
  ultimately show ?thesis
    using r(2) rec key rkey by (intro exI [of _ r] exI [of _ plaintext]) (simp add: message_record_def)
qed

theorem send_receiver_opens_witness:
  "\<exists>resp s' r plaintext. handleSendMessage calm_env demo_send demo_service = Some (resp, s') \<and>
     messages_of (sv_db s') = [r] \<and>
     fst (decryptMessage calm_env (c_str (n_seckey (shmRead (ml_receiverId r) ''srv'' demo_cache)))
       (ml_receiverCiphertext r) (ml_receiverNonce r) (ml_receiverTag r) (ml_algorithm r) proc_start) = Inr plaintext"
proof -
  from demo_send_run obtain resp s' where run: "handleSendMessage calm_env demo_send demo_service = Some (resp, s')"
    and code: "vsp_code resp = RESULT_SUCCESS" by blast
  from send_receiver_opens [OF run code calm_base64 calm_gcm calm_gcm_len calm_rand calm_gcm_tag, of proc_start] run
  show ?thesis by (auto simp: demo_tables_def)
qed

text \<open>The cache follows the database: a key that \<open>getActiveKey\<close> hands out was cached as usable and has
  an active, unexpired row; when the database denies a cached key of that number, the cached key is no
  longer usable afterwards; and no call makes any cached key usable.\<close>

theorem getActiveKey_cache:
  assumes "getActiveKey env c v k s = Some (r, s')"
  shows "(ak_valid r \<longrightarrow> usable_row env c v k s \<and> n_status (shmRead c v (sv_shm s)) = 1 \<and>
        n_seckeyID (shmRead c v (sv_shm s)) = k \<and> ak_base64Key r = c_str (n_seckey (shmRead c v (sv_shm s)))) \<and>
     (\<not> ak_valid r \<and> node_hit (shmRead c v (sv_shm s)) \<and> n_seckeyID (shmRead c v (sv_shm s)) = k \<longrightarrow>
        n_status (shmRead c v (sv_shm s')) \<noteq> 1) \<and>
     (n_status (shmRead d w (sv_shm s')) = 1 \<longrightarrow> n_status (shmRead d w (sv_shm s)) = 1)"
proof (intro conjI impI)
  note G = getActiveKey_effect [OF assms]
  let ?n = "shmRead c v (sv_shm s)"
  show "usable_row env c v k s" "n_status ?n = 1" "n_seckeyID ?n = k" "ak_base64Key r = c_str (n_seckey ?n)"
    if "ak_valid r"
    using G(5) [OF that] key_confirmed_usable by (auto simp: key_confirmed_def Let_def)
  have shm: "sv_shm s' = sv_shm s \<or> sv_shm s' = snd (shmUpdateStatus c v 0 (sv_shm s))"
  proof (cases "node_hit ?n \<and> n_seckeyID ?n = k \<and> n_status ?n \<noteq> 1")
    case True
    with assms show ?thesis by (auto simp: getActiveKey_def Let_def node_hit_def split: if_splits)
  next
    case False
    with assms obtain ok s1 where ck: "check_key env c v k s = Some (ok, s1)"
      by (auto simp: getActiveKey_def Let_def node_hit_def bind_eq_Some_conv split: if_splits)
    from check_key_effect(1) [OF ck] have "sv_shm s1 = sv_shm s" by auto
    with assms ck show ?thesis
      by (cases ok) (auto simp: getActiveKey_def Let_def cache_set_status_def split: if_splits prod.splits)
  qed
  show "n_status (shmRead c v (sv_shm s')) \<noteq> 1"
    if a: "\<not> ak_valid r \<and> node_hit ?n \<and> n_seckeyID ?n = k"
  proof (cases "n_status ?n = 1")
    case False
    with a assms show ?thesis by (auto simp: getActiveKey_def Let_def node_hit_def split: if_splits)
  next
    case True
    with a have hit: "node_hit ?n" "n_seckeyID ?n = k" "n_status ?n = 1" by simp_all
    from getActiveKey_usable_hit [OF assms hit] a obtain s1 where
      ck: "check_key env c v k s = Some (False, s1)" and s': "s' = snd (cache_set_status c v 0 s1)"
      by auto
    obtain x sh where u: "shmUpdateStatus c v 0 (sv_shm s) = (x, sh)" by (cases "shmUpdateStatus c v 0 (sv_shm s)")
    from check_key_effect(1) [OF ck] have "sv_shm s1 = sv_shm s" by auto
    with s' u have "sv_shm s' = sh" by (simp add: cache_set_status_def)
    with shm.invalidate_hit [OF _ u] a show ?thesis by simp
  qed
  show "n_status (shmRead d w (sv_shm s)) = 1" if "n_status (shmRead d w (sv_shm s')) = 1"
  proof -
    obtain x sh where u: "shmUpdateStatus c v 0 (sv_shm s) = (x, sh)" by (cases "shmUpdateStatus c v 0 (sv_shm s)")
    from shm that u shm.invalidate_never_activates [OF u, of d w] show ?thesis by auto
  qed
qed

theorem getActiveKey_cache_witness:
  "case getActiveKey calm_env ''alice'' ''srv'' 6 demo_service of
     None \<Rightarrow> False
   | Some (r, s') \<Rightarrow> ak_valid r \<and> usable_row calm_env ''alice'' ''srv'' 6 demo_service"
proof -
  have "case getActiveKey calm_env ''alice'' ''srv'' 6 demo_service of None \<Rightarrow> False | Some (r, s') \<Rightarrow> ak_valid r"
    by code_simp
  then obtain r s' where run: "getActiveKey calm_env ''alice'' ''srv'' 6 demo_service = Some (r, s')" and v: "ak_valid r"
    by (auto split: option.splits)
  from getActiveKey_cache [OF run] v show ?thesis by (simp add: run)
qed

text \<open>Identifiers of one scope do not repeat: whatever the clock shows and whatever happens in between,
  up to 2^64 identifiers that the process generates for one prefix are pairwise different.\<close>

theorem scoped_ids_unique:
  assumes "\<And>k s. sv_seq_msg (other k s) = sv_seq_msg s" and "n \<le> 2 ^ 64"
  shows "distinct (scoped_ids env prefix other n s)"
  by (rule scoped_ids_distinct [OF assms])

theorem scoped_ids_unique_witness:
  "distinct (scoped_ids calm_env ''srv_msg'' (\<lambda>k s. s) 3 demo_service)"
  by (rule scoped_ids_unique) simp_all

text \<open>Across the two generators this is not so: the audit identifiers of the message service and of the
  query service have the same prefix and separate counters, and are equal exactly when clock and counter
  happen to agree.\<close>

theorem audit_id_collision:
  "fst (generateAuditLogId env s) = fst (generateQueryAuditId env (sv_id s) q w) \<longleftrightarrow>
     e_micros env (pr_micros (sv_proc s)) = e_micros env (pr_micros w) \<and> sv_seq_msg s = q"
proof -
  have "fst (generateAuditLogId env s) = (sv_id s @ ''_audit'') @ ''_'' @
      show_nat (e_micros env (pr_micros (sv_proc s))) @ ''_'' @ show_u64 (sv_seq_msg s + 1)"
    by (simp add: generateAuditLogId_def generateScopedId_def micros_now_def Let_def)
  moreover have "fst (generateQueryAuditId env (sv_id s) q w) = (sv_id s @ ''_audit'') @ ''_'' @
      show_nat (e_micros env (pr_micros w)) @ ''_'' @ show_u64 (q + 1)"
    by (simp add: generateQueryAuditId_def micros_now_def Let_def)
  ultimately show ?thesis by (simp only: scoped_id_inject) simp
qed

text \<open>A send request is always answered: with a connected database the handler returns a response and
  leaves the connection up, whatever the request holds and whatever fails on the way.\<close>

theorem send_answers:
  assumes "db_up s"
  shows "\<exists>resp s'. handleSendMessage env p s = Some (resp, s') \<and> db_up s'"
  by (rule handleSendMessage_returns [OF assms])

theorem send_answers_witness:
  "\<exists>resp s'. handleSendMessage calm_env demo_send demo_service = Some (resp, s') \<and> db_up s'"
  by (rule send_answers) (simp add: db_up_Some)

end
