(* ===== verification/ServerOp.thy ===== *)
theory ServerOp
  imports MessageProps
begin

text \<open>
  \<open>ServerOP.cpp\<close>, the request side: the three key handlers (agreement, check, logout), the two
  query handlers that \<open>MessageService.cpp\<close> delegates, and the dispatcher of \<open>processV2Request\<close> between
  decoding and encoding. The socket side of \<open>ServerOP\<close> is in the theory of the event loop.
\<close>

section \<open>Responses of the key handlers\<close>

definition buildKeyResponseHeader ::
    "env \<Rightarrow> RequestPacket \<Rightarrow> string \<Rightarrow> int \<Rightarrow> service \<Rightarrow> V2HeaderInfo \<times> service" where
  "buildKeyResponseHeader env p serverId command s =
     (let (t, s) = service_time env s;
          h = empty_header\<lparr>vh_command := command, vh_senderId := serverId, vh_timestamp := t\<rparr> in
      (case rq_header p of
         None \<Rightarrow> h
       | Some rh \<Rightarrow> h\<lparr>vh_messageId := h_message_id rh, vh_receiverId := h_sender_id rh\<rparr>, s))"

definition makeKeyResponse ::
    "env \<Rightarrow> RequestPacket \<Rightarrow> int \<Rightarrow> int \<Rightarrow> string \<Rightarrow> int \<Rightarrow> string \<Rightarrow> service \<Rightarrow>
     V2KeyOperationResponseInfo \<times> service" where
  "makeKeyResponse env p command code message keyId data s =
     (let (h, s) = buildKeyResponseHeader env p (sv_id s) command s in
      (\<lparr>vko_header = h, vko_code = code, vko_message = message, vko_keyId = keyId, vko_data = data\<rparr>, s))"

section \<open>Key agreement\<close>

definition Len16 :: nat where
  "Len16 = 16"

text \<open>The answer of \<open>RAND_bytes\<close> is not looked at.\<close>

definition getRandKey :: "env \<Rightarrow> nat \<Rightarrow> service \<Rightarrow> string \<times> service" where
  "getRandKey env len s =
     (let ((_, bytes), w) = rand_bytes env len (sv_proc s) in (resize_str len bytes, s\<lparr>sv_proc := w\<rparr>))"

text \<open>\<open>std::ofstream ofs(name); ofs << text\<close>: the name is read as a C string, the file may not open.\<close>

definition write_file :: "env \<Rightarrow> string \<Rightarrow> string \<Rightarrow> service \<Rightarrow> service" where
  "write_file env name content s =
     (let f = c_str name; w = sv_proc s in
      s\<lparr>sv_files := (sv_files s)(f := e_fwrite env (pr_file w) (sv_files s f) content),
        sv_proc := w\<lparr>pr_file := Suc (pr_file w)\<rparr>\<rparr>)"

text \<open>The node for the new key; \<^const>\<open>None\<close> where an identifier or the key text does not fit.\<close>

definition agreed_node :: "env \<Rightarrow> string \<Rightarrow> string \<Rightarrow> string \<Rightarrow> NodeSHMInfo option" where
  "agreed_node env senderId receiverId aesKey = do {
     cid \<leftarrow> c_strcpy (n_clientID node_new) senderId;
     sid \<leftarrow> c_strcpy (n_serverID node_new) receiverId;
     key \<leftarrow> c_strcpy (n_seckey node_new) (b64_encode env aesKey);
     Some (node_new\<lparr>n_clientID := cid, n_serverID := sid, n_seckey := key, n_status := 1\<rparr>)
   }"

definition cache_write :: "NodeSHMInfo \<Rightarrow> service \<Rightarrow> int \<times> service" where
  "cache_write node s = (let (r, shm) = shmWrite node (sv_shm s) in (r, s\<lparr>sv_shm := shm\<rparr>))"

definition store_key :: "env \<Rightarrow> NodeSHMInfo \<Rightarrow> service \<Rightarrow> ((bool \<times> NodeSHMInfo) \<times> service) option" where
  "store_key env node s =
     (case sv_db s of
        None \<Rightarrow> None
      | Some m \<Rightarrow> do { (r, m) \<leftarrow> writeSecKeyWithTrans env node m; Some (r, s\<lparr>sv_db := Some m\<rparr>) })"

text \<open>The signature of the request is checked with the public key of the request.\<close>

definition verify_agreement ::
    "env \<Rightarrow> Header \<Rightarrow> KeyAgreementRequest \<Rightarrow> service \<Rightarrow> ((bool \<times> RsaCrypto) \<times> service) option" where
  "verify_agreement env header req s = do {
     let pubFile = h_sender_id header @ ''_pub.pem'';
     let s = write_file env pubFile (kar_public_key req) s;
     rsa \<leftarrow> RsaCrypto_new env (sv_files s (c_str pubFile)) False;
     flage \<leftarrow> rsaVerify env rsa (hash_result env (addData (kar_public_key req) (Hash_new T_SHA256))) (kar_sign req);
     Some ((flage, rsa), s)
   }"

definition seckeyAgree ::
    "env \<Rightarrow> RequestPacket \<Rightarrow> service \<Rightarrow> (V2KeyOperationResponseInfo \<times> service) option" where
  "seckeyAgree env p s =
     (case (rq_header p, key_agree_req (rq_body p)) of
        (Some header, Some req) \<Rightarrow> do {
          ((flage, rsa), s) \<leftarrow> verify_agreement env header req s;
          if \<not> flage then
            Some (makeKeyResponse env p CMD_KEY_AGREE_RESP RESULT_KEY_AGREE_FAILED ''verify sign failed'' 0 [] s)
          else do {
            let (aesKey, s) = getRandKey env Len16 s;
            secKey \<leftarrow> rsaPublicEncrypt env (pr_ssl (sv_proc s)) rsa aesKey;
            let s = s\<lparr>sv_proc := (sv_proc s)\<lparr>pr_ssl := Suc (pr_ssl (sv_proc s))\<rparr>\<rparr>;
            node \<leftarrow> agreed_node env (h_sender_id header) (h_receiver_id header) aesKey;
            ((bl, node), s) \<leftarrow> store_key env node s;
            if \<not> bl then
              Some (makeKeyResponse env p CMD_KEY_AGREE_RESP RESULT_KEY_AGREE_FAILED ''write db failed'' 0 [] s)
            else do {
              let (_, s) = cache_write node s;
              Some (makeKeyResponse env p CMD_KEY_AGREE_RESP RESULT_SUCCESS ''key agreement success''
                (n_seckeyID node) secKey s)
            }
          }
        }
      | _ \<Rightarrow> Some (makeKeyResponse env p CMD_KEY_AGREE_RESP RESULT_INVALID_REQUEST
          ''invalid key agreement request'' 0 [] s))"

section \<open>Key check and logout\<close>

definition secKeyCheck ::
    "env \<Rightarrow> RequestPacket \<Rightarrow> service \<Rightarrow> (V2KeyOperationResponseInfo \<times> service) option" where
  "secKeyCheck env p s =
     (case (rq_header p, key_check_req (rq_body p)) of
        (Some header, Some req) \<Rightarrow> do {
          let reqKeyID = kcr_key_id req;
          let node = shmRead (h_sender_id header) (h_receiver_id header) (sv_shm s);
          (dbRet, s) \<leftarrow> check_key env (h_sender_id header) (h_receiver_id header) reqKeyID s;
          if \<not> dbRet then do {
            let s = (if n_seckeyID node = reqKeyID
                     then snd (cache_set_status (h_sender_id header) (h_receiver_id header) 0 s) else s);
            Some (makeKeyResponse env p CMD_KEY_CHECK_RESP RESULT_KEY_INVALID
              ''key expired, revoked, rotated or not found'' reqKeyID [] s)
          }
          else if streq (n_clientID node) (h_sender_id header) \<and> streq (n_serverID node) (h_receiver_id header) \<and>
                  n_seckeyID node = reqKeyID \<and> n_status node = 1 then
            Some (makeKeyResponse env p CMD_KEY_CHECK_RESP RESULT_SUCCESS ''key active'' reqKeyID [] s)
          else
            Some (makeKeyResponse env p CMD_KEY_CHECK_RESP RESULT_SUCCESS
              ''key active in db, local cache missing'' reqKeyID [] s)
        }
      | _ \<Rightarrow> Some (makeKeyResponse env p CMD_KEY_CHECK_RESP RESULT_INVALID_REQUEST
          ''invalid key check request'' 0 [] s))"

definition revoke_key ::
    "env \<Rightarrow> string \<Rightarrow> string \<Rightarrow> int \<Rightarrow> service \<Rightarrow> (bool \<times> service) option" where
  "revoke_key env c v k s =
     (case sv_db s of
        None \<Rightarrow> None
      | Some m \<Rightarrow> do { (ok, m) \<leftarrow> logoutSecKey env c v k m; Some (ok, s\<lparr>sv_db := Some m\<rparr>) })"

definition SeckeyLogout ::
    "env \<Rightarrow> RequestPacket \<Rightarrow> service \<Rightarrow> (V2KeyOperationResponseInfo \<times> service) option" where
  "SeckeyLogout env p s =
     (case (rq_header p, key_logout_req (rq_body p)) of
        (Some header, Some req) \<Rightarrow> do {
          let reqKeyID = klr_key_id req;
          (dbRet, s) \<leftarrow> revoke_key env (h_sender_id header) (h_receiver_id header) reqKeyID s;
          if \<not> dbRet then
            Some (makeKeyResponse env p CMD_KEY_LOGOUT_RESP RESULT_KEY_LOGOUT_FAILED
              ''logout failed in db'' reqKeyID [] s)
          else do {
            let (shmRet, s) = cache_set_status (h_sender_id header) (h_receiver_id header) 0 s;
            if shmRet = 0 then
              Some (makeKeyResponse env p CMD_KEY_LOGOUT_RESP RESULT_SUCCESS ''logout success'' reqKeyID [] s)
            else
              Some (makeKeyResponse env p CMD_KEY_LOGOUT_RESP RESULT_SUCCESS
                ''db logout success, shm update failed'' reqKeyID [] s)
          }
        }
      | _ \<Rightarrow> Some (makeKeyResponse env p CMD_KEY_LOGOUT_RESP RESULT_INVALID_REQUEST
          ''invalid key logout request'' 0 [] s))"

section \<open>The query handlers of the message service\<close>

definition query_view :: "service \<Rightarrow> mysql option query_state" where
  "query_view s = \<lparr>qs_store = sv_db s, qs_proc = sv_proc s, qs_seq = sv_seq_qry s\<rparr>"

definition query_back :: "mysql option query_state \<Rightarrow> service \<Rightarrow> service" where
  "query_back q s = s\<lparr>sv_db := qs_store q, sv_proc := qs_proc q, sv_seq_qry := qs_seq q\<rparr>"

definition service_query ::
    "env \<Rightarrow> RequestPacket \<Rightarrow> service \<Rightarrow> (V2QueryMessageResponseInfo \<times> service) option" where
  "service_query env p s = do {
     (resp, q) \<leftarrow> handleQueryMessage env (sv_id s) (queryMessageById env) (logAction env) p (query_view s);
     Some (resp, query_back q s)
   }"

definition service_query_list ::
    "env \<Rightarrow> RequestPacket \<Rightarrow> service \<Rightarrow> (V2QueryMessageListResponseInfo \<times> service) option" where
  "service_query_list env p s = do {
     (resp, q) \<leftarrow> handleQueryMessageList env (sv_id s) (queryRecentMessagesBySender env) (logAction env) p (query_view s);
     Some (resp, query_back q s)
   }"

section \<open>The dispatcher\<close>

definition unsupported_response ::
    "env \<Rightarrow> RequestPacket \<Rightarrow> service \<Rightarrow> V2SendMessageResponseInfo \<times> service" where
  "unsupported_response env p s =
     (let h = (case rq_header p of
                 None \<Rightarrow> empty_header
               | Some rh \<Rightarrow> empty_header\<lparr>vh_messageId := h_message_id rh, vh_receiverId := h_sender_id rh\<rparr>);
          (t, s) = service_time env s;
          h = h\<lparr>vh_command := CMD_SEND_MSG_RESP, vh_senderId := sv_id s, vh_timestamp := t\<rparr>;
          (t2, s) = service_time env s in
      (\<lparr>vsp_header = h, vsp_code = RESULT_INVALID_REQUEST, vsp_message = ''unsupported v2 request type'',
        vsp_serverMessageId = [], vsp_serverTime = t2, vsp_deliveryStatus = DELIVERY_REJECTED\<rparr>, s))"

abbreviation (input) respond :: "('i \<Rightarrow> ResponsePacket \<Rightarrow> ResponsePacket) \<Rightarrow> ('i \<times> service) option \<Rightarrow>
    (ResponsePacket \<times> service) option" where
  "respond init r \<equiv> map_option (\<lambda>(info, s). (init info ResponsePacket_default, s)) r"

definition dispatch :: "env \<Rightarrow> RequestPacket \<Rightarrow> service \<Rightarrow> (ResponsePacket \<times> service) option" where
  "dispatch env p s =
     (case rq_body p of
        SendMsgReq _ \<Rightarrow> respond init_send_resp (handleSendMessage env p s)
      | QueryMsgReq _ \<Rightarrow> respond init_query_resp (service_query env p s)
      | QueryMsgListReq _ \<Rightarrow> respond init_list_resp (service_query_list env p s)
      | KeyAgreeReq _ \<Rightarrow> respond init_key_resp (seckeyAgree env p s)
      | KeyCheckReq _ \<Rightarrow> respond init_key_resp (secKeyCheck env p s)
      | KeyLogoutReq _ \<Rightarrow> respond init_key_resp (SeckeyLogout env p s)
      | NoRequest \<Rightarrow> Some (let (info, s) = unsupported_response env p s in
          (init_send_resp info ResponsePacket_default, s)))"

end
