(* ===== verification/ServerLife.thy ===== *)
theory ServerLife
  imports ServerOp
begin

text \<open>
  What every request handler of the server does to the shared state: the connection moves only by
  statements, the server keeps its identity, and the key cache is only weakened (entries are
  invalidated), except by a key agreement, which publishes one new entry. From this the invariant of
  database and cache is proved for any sequence of requests.
\<close>

section \<open>Operations along a preorder\<close>

text \<open>An operation follows a relation when every state it returns is related to the one it got. The
  laws are those of a reflexive and transitive relation; the proofs of the handlers follow the text
  of the handlers by these rules.\<close>

definition follows :: "('s \<Rightarrow> 's \<Rightarrow> bool) \<Rightarrow> 's \<Rightarrow> ('r \<times> 's) option \<Rightarrow> bool" where
  "follows R s m \<longleftrightarrow> (\<forall>x s'. m = Some (x, s') \<longrightarrow> R s s')"

lemma followsD: "follows R s m \<Longrightarrow> m = Some (x, s') \<Longrightarrow> R s s'"
  by (simp add: follows_def)

locale step_preorder =
  fixes R :: "'s \<Rightarrow> 's \<Rightarrow> bool"
  assumes refl_step: "R s s"
    and trans_step: "R s s1 \<Longrightarrow> R s1 s2 \<Longrightarrow> R s s2"
begin

lemma step_None: "follows R s None"
  by (simp add: follows_def)

lemma step_Some: "R s s' \<Longrightarrow> follows R s (Some (x, s'))"
  by (simp add: follows_def)

lemma step_result: "R s (snd r) \<Longrightarrow> follows R s (Some r)"
  by (cases r) (simp add: follows_def)

lemma step_from: "R s s1 \<Longrightarrow> follows R s1 m \<Longrightarrow> follows R s m"
  by (auto simp: follows_def intro: trans_step)

lemma step_bind:
  assumes "follows R s m" and "\<And>x s1. m = Some (x, s1) \<Longrightarrow> follows R s1 (f (x, s1))"
  shows "follows R s (m \<bind> f)"
  using assms by (auto simp: follows_def bind_eq_Some_conv intro: trans_step)

lemma step_call:
  assumes "\<And>s1. m = Some s1 \<Longrightarrow> R s s1" and "\<And>s1. m = Some s1 \<Longrightarrow> follows R s1 (f s1)"
  shows "follows R s (m \<bind> f)"
  using assms by (auto simp: follows_def bind_eq_Some_conv intro: trans_step)

lemma step_let:
  assumes "R s (snd e)" and "\<And>x s1. e = (x, s1) \<Longrightarrow> follows R s1 (f x s1)"
  shows "follows R s (case e of (x, s1) \<Rightarrow> f x s1)"
  using assms by (cases e) (auto simp: follows_def intro: trans_step)

lemma step_if: "(b \<Longrightarrow> follows R s x) \<Longrightarrow> (\<not> b \<Longrightarrow> follows R s y) \<Longrightarrow> follows R s (if b then x else y)"
  by simp

lemma step_map: "follows R s (map_option (\<lambda>(x, s'). (g x, s')) m) = follows R s m"
  by (cases m) (auto simp: follows_def)

end

section \<open>The relation of the server\<close>

text \<open>Entries of the cache may be invalidated, nothing else.\<close>

definition weakened :: "NodeSHMInfo \<Rightarrow> NodeSHMInfo \<Rightarrow> bool" where
  "weakened n n' \<longleftrightarrow> n' = n \<or> n' = n\<lparr>n_status := 0\<rparr>"

definition cache_weakened :: "SecKeyShm \<Rightarrow> SecKeyShm \<Rightarrow> bool" where
  "cache_weakened c c' \<longleftrightarrow> shm_ok c' = shm_ok c \<and> list_all2 weakened (shm_nodes c) (shm_nodes c')"

text \<open>Calls on the connection whose statements allot no key number and insert no key.\<close>

inductive db_quiet :: "env \<Rightarrow> mysql \<Rightarrow> mysql \<Rightarrow> bool" for env where
  quiet_stay: "db_quiet env m m"
| quiet_query: "db_quiet env m m1 \<Longrightarrow> mysql_query env q m1 = Some (ok, m2) \<Longrightarrow> \<not> allots_key q \<Longrightarrow> db_quiet env m m2"
| quiet_store: "db_quiet env m m1 \<Longrightarrow> mysql_store_result env m1 = (r, m2) \<Longrightarrow> db_quiet env m m2"

definition db_moves :: "env \<Rightarrow> mysql option \<Rightarrow> mysql option \<Rightarrow> bool" where
  "db_moves env d d' \<longleftrightarrow> (case d of None \<Rightarrow> d' = None | Some m \<Rightarrow> \<exists>m'. d' = Some m' \<and> db_quiet env m m')"

definition quiet_step :: "env \<Rightarrow> service \<Rightarrow> service \<Rightarrow> bool" where
  "quiet_step env s s' \<longleftrightarrow> sv_id s' = sv_id s \<and> db_moves env (sv_db s) (sv_db s') \<and>
     cache_weakened (sv_shm s) (sv_shm s')"

lemma weakened_refl [simp]: "weakened n n"
  by (simp add: weakened_def)

lemma weakened_trans: "weakened a b \<Longrightarrow> weakened b c \<Longrightarrow> weakened a c"
  by (auto simp: weakened_def)

lemma cache_weakened_refl [simp]: "cache_weakened c c"
  by (simp add: cache_weakened_def list.rel_refl)

lemma cache_weakened_trans: "cache_weakened a b \<Longrightarrow> cache_weakened b c \<Longrightarrow> cache_weakened a c"
  unfolding cache_weakened_def by (auto intro: list_all2_trans [OF weakened_trans])

lemma db_reach_trans:
  assumes "db_reach env m m1" and "db_reach env m1 m2"
  shows "db_reach env m m2"
  using assms(2,1) by (induction rule: db_reach.induct) (auto intro: db_reach.intros)

lemma db_quiet_reach: "db_quiet env m m' \<Longrightarrow> db_reach env m m'"
  by (induction rule: db_quiet.induct) (auto intro: db_reach.intros)

lemma db_quiet_trans:
  assumes "db_quiet env m m1" and "db_quiet env m1 m2"
  shows "db_quiet env m m2"
  using assms(2,1) by (induction rule: db_quiet.induct) (auto intro: db_quiet.intros)

interpretation dbr: step_preorder "db_reach env" for env
  by unfold_locales (blast intro: reach_refl db_reach_trans)+

interpretation dbq: step_preorder "db_quiet env" for env
  by unfold_locales (blast intro: quiet_stay db_quiet_trans)+

lemma dbr_query: "follows (db_reach env) m (mysql_query env q m)"
  by (auto simp: follows_def intro: db_reach_query)

lemma dbr_store: "db_reach env m (snd (mysql_store_result env m))"
  by (metis db_reach.intros prod.collapse)

lemma dbq_query: "\<not> allots_key q \<Longrightarrow> follows (db_quiet env) m (mysql_query env q m)"
  by (auto simp: follows_def intro: db_quiet.intros)

lemma dbq_store: "db_quiet env m (snd (mysql_store_result env m))"
  by (metis db_quiet.intros prod.collapse)

lemma db_moves_refl [simp]: "db_moves env d d"
  by (cases d) (auto simp: db_moves_def intro: quiet_stay)

lemma db_moves_trans: "db_moves env a b \<Longrightarrow> db_moves env b c \<Longrightarrow> db_moves env a c"
  by (auto simp: db_moves_def intro: db_quiet_trans split: option.splits)

lemma db_moves_Some [intro]: "db_quiet env m m' \<Longrightarrow> db_moves env (Some m) (Some m')"
  by (simp add: db_moves_def)

lemma quiet_refl [simp]: "quiet_step env s s"
  by (simp add: quiet_step_def)

interpretation quiet: step_preorder "quiet_step env" for env
proof (unfold_locales, goal_cases)
  case (1 s)
  then show ?case by simp
next
  case (2 s s1 s2)
  then show ?case by (auto simp: quiet_step_def intro: db_moves_trans cache_weakened_trans)
qed

lemma quiet_fields [simp]:
  "quiet_step env s (s\<lparr>sv_proc := w\<rparr>)" "quiet_step env s (s\<lparr>sv_seq_msg := i\<rparr>)"
  "quiet_step env s (s\<lparr>sv_files := fs\<rparr>)" "quiet_step env s (s\<lparr>sv_files := fs, sv_proc := w\<rparr>)"
  "quiet_step env s (s\<lparr>sv_proc := w, sv_seq_msg := i\<rparr>)"
  by (simp_all add: quiet_step_def)

lemma quiet_db: "db_moves env (sv_db s) d \<Longrightarrow> quiet_step env s (s\<lparr>sv_db := d\<rparr>)"
  by (simp add: quiet_step_def)

lemma quiet_db_proc: "db_moves env (sv_db s) d \<Longrightarrow> quiet_step env s (s\<lparr>sv_db := d, sv_proc := w\<rparr>)"
  by (simp add: quiet_step_def)

section \<open>The operations\<close>

named_theorems quiet_steps "operations of the server that keep to the quiet relation"

lemma quiet_service_time [quiet_steps]: "quiet_step env s (snd (service_time env s))"
  by (simp add: service_time_def split: prod.split)

lemma quiet_scoped_id [quiet_steps]:
  "quiet_step env s (snd (generateServerMessageId env s))" "quiet_step env s (snd (generateAuditLogId env s))"
  by (simp_all add: generateServerMessageId_def generateAuditLogId_def generateScopedId_def Let_def split: prod.split)

lemma quiet_send_header [quiet_steps]: "quiet_step env s (snd (send_response_header env p c s))"
  using quiet_service_time [of env s] quiet_scoped_id(1) [of env s]
    quiet_service_time [of env "snd (generateServerMessageId env s)"]
  by (auto simp: send_response_header_def Let_def split: option.split prod.splits intro: quiet.trans_step)

lemma quiet_key_response [quiet_steps]:
  "quiet_step env s s1 \<Longrightarrow> quiet_step env s (snd (makeKeyResponse env p c code msg k d s1))"
  using quiet_service_time [of env s1]
  by (auto simp: makeKeyResponse_def buildKeyResponseHeader_def Let_def split: prod.split intro: quiet.trans_step)

lemma update_first_weakened:
  "update_first q (\<lambda>n. n\<lparr>n_status := 0\<rparr>) ns = Some ns' \<Longrightarrow> list_all2 weakened ns ns'"
  by (induction ns arbitrary: ns') (auto simp: weakened_def list.rel_refl split: if_splits option.splits)

lemma cache_weakened_update: "cache_weakened c (snd (shmUpdateStatus cl v 0 c))"
  by (auto simp: shmUpdateStatus_def mapShm_def cache_weakened_def list.rel_refl update_first_weakened
      split: option.split)

lemma quiet_cache_set_status [quiet_steps]: "quiet_step env s (snd (cache_set_status c v 0 s))"
  using cache_weakened_update [of "sv_shm s" c v]
  by (cases "shmUpdateStatus c v 0 (sv_shm s)") (simp add: cache_set_status_def quiet_step_def)

lemma dbq_row: "(\<And>r. follows (db_quiet env) m (f r)) \<Longrightarrow> follows (db_quiet env) m (state_row rows \<bind> f)"
  by (cases "state_row rows") (auto simp: follows_def)

lemma dbq_checkSecKey: "follows (db_quiet env) m (checkSecKey env c v k m)"
  unfolding checkSecKey_def
  by (auto split: option.split
      intro!: dbq.step_bind dbq_query dbq.step_if dbq.step_let dbq_store dbq.step_Some dbq.refl_step dbq_row)

lemma dbq_logoutSecKey: "follows (db_quiet env) m (logoutSecKey env c v k m)"
  unfolding logoutSecKey_def
  by (auto intro!: dbq.step_bind dbq_query dbq.step_if dbq.step_Some dbq.refl_step)

lemma quiet_on_db:
  assumes "sv_db s = Some m" and "follows (db_quiet env) m f"
  shows "follows (quiet_step env) s (f \<bind> (\<lambda>(x, m). Some (x, s\<lparr>sv_db := Some m\<rparr>)))"
  using assms by (auto simp: follows_def bind_eq_Some_conv quiet_step_def)

lemma quiet_check_key [quiet_steps]: "follows (quiet_step env) s (check_key env c v k s)"
  unfolding check_key_def
  by (auto split: option.split intro: quiet.step_None quiet_on_db dbq_checkSecKey)

lemma quiet_revoke_key [quiet_steps]: "follows (quiet_step env) s (revoke_key env c v k s)"
  unfolding revoke_key_def
  by (auto split: option.split intro: quiet.step_None quiet_on_db dbq_logoutSecKey)

lemma db_moves_insert:
  "insertMessage env r d = Some (ok, d') \<Longrightarrow> db_moves env d d'"
  "logRecord env a d = Some (ok, d') \<Longrightarrow> db_moves env d d'"
  by (auto simp: insertMessage_def insertMessageLog_def logRecord_def insertAuditLog_def bind_eq_Some_conv
      split: option.splits dest!: dbq_query [unfolded follows_def, rule_format, rotated])

lemma quiet_send_audit:
  assumes "send_audit env nd a tg r d s = Some s'"
  shows "quiet_step env s s'"
proof -
  obtain l s1 where i: "generateAuditLogId env s = (l, s1)" by (cases "generateAuditLogId env s")
  with quiet_scoped_id(2) [of env s] have s1: "quiet_step env s s1" by simp
  obtain t w where t: "cur_time_text env (sv_proc s1) = (t, w)" by (cases "cur_time_text env (sv_proc s1)")
  from assms i t obtain ok db where "logAction_at env l nd a tg r d t (sv_db s1) = Some (ok, db)"
    and s': "s' = s1\<lparr>sv_db := db, sv_proc := w\<rparr>"
    by (auto simp: send_audit_def bind_eq_Some_conv split: if_splits)
  then have "db_moves env (sv_db s1) db" unfolding logAction_at_def by (blast intro: db_moves_insert)
  then have "quiet_step env s1 s'" unfolding s' by (rule quiet_db_proc)
  with s1 show ?thesis by (rule quiet.trans_step)
qed

lemma quiet_reject [quiet_steps]: "follows (quiet_step env) s (send_reject env resp c m nd a tg d s)"
  unfolding send_reject_def by (rule quiet.step_call) (auto intro: quiet_send_audit quiet.step_Some)

lemma quiet_insert_message [quiet_steps]: "follows (quiet_step env) s (insert_message env r s)"
  by (auto simp: insert_message_def follows_def bind_eq_Some_conv intro: quiet_db db_moves_insert)

lemma quiet_getActiveKey [quiet_steps]: "follows (quiet_step env) s (getActiveKey env c v k s)"
  unfolding getActiveKey_def Let_def
  by (auto intro!: quiet.step_if quiet.step_bind quiet.step_None quiet.step_Some quiet_check_key
      quiet_cache_set_status)

lemma quiet_from_proc: "follows (quiet_step env) (s\<lparr>sv_proc := w\<rparr>) m \<Longrightarrow> follows (quiet_step env) s m"
  by (rule quiet.step_from [of _ s "s\<lparr>sv_proc := w\<rparr>"]) simp

lemma quiet_send_store [quiet_steps]: "follows (quiet_step env) s (send_store env resp h em k enc s)"
proof -
  obtain i s1 where i: "generateServerMessageId env s = (i, s1)" by (cases "generateServerMessageId env s")
  obtain t w where t: "cur_time_text env (sv_proc s1) = (t, w)" by (cases "cur_time_text env (sv_proc s1)")
  from i quiet_scoped_id(1) [of env s] have q: "quiet_step env s (s1\<lparr>sv_proc := w\<rparr>)"
    by (auto intro: quiet.trans_step)
  show ?thesis
    unfolding send_store_def i t Let_def prod.case
    by (rule quiet.step_from [OF q])
       (auto intro!: quiet.step_if quiet.step_bind quiet.step_call [OF quiet_send_audit] quiet.step_let
          quiet.step_Some quiet_steps)
qed

lemma quiet_send_deliver [quiet_steps]: "follows (quiet_step env) s (send_deliver env resp h em pt s)"
proof -
  have enc: "follows (quiet_step env) s1
      (case encryptMessage env key pt (sv_proc s1) of
         (Inl e, w) \<Rightarrow> send_reject env resp c (m e) nd a tg (d e) (s1\<lparr>sv_proc := w\<rparr>)
       | (Inr enc, w) \<Rightarrow> send_store env resp h em k enc (s1\<lparr>sv_proc := w\<rparr>))" for s1 key c m nd a tg d k
    by (auto split: prod.split sum.split intro: quiet_from_proc quiet_steps)
  show ?thesis
    unfolding send_deliver_def Let_def
    by (auto intro!: quiet.step_if quiet.step_bind quiet_steps enc)
qed

lemma quiet_handleSendMessage [quiet_steps]: "follows (quiet_step env) s (handleSendMessage env p s)"
proof -
  obtain h s1 where h: "send_response_header env p CMD_SEND_MSG_RESP s = (h, s1)"
    by (cases "send_response_header env p CMD_SEND_MSG_RESP s")
  obtain t s2 where t: "service_time env s1 = (t, s2)" by (cases "service_time env s1")
  from h t quiet_send_header [of env s p CMD_SEND_MSG_RESP] quiet_service_time [of env s1]
  have q: "quiet_step env s s2" by (auto intro: quiet.trans_step)
  have dec: "follows (quiet_step env) s3
      (case decryptMessage env key c n tg a (sv_proc s3) of
         (Inl e, w) \<Rightarrow> send_reject env resp cd (m e) nd ac tgt (d e) (s3\<lparr>sv_proc := w\<rparr>)
       | (Inr pt, w) \<Rightarrow> send_deliver env resp hd em pt (s3\<lparr>sv_proc := w\<rparr>))"
    for s3 key c n tg a resp cd m nd ac tgt d hd em
    by (auto split: prod.split sum.split intro: quiet_from_proc quiet_steps)
  show ?thesis
    unfolding handleSendMessage_def h t Let_def prod.case
    by (rule quiet.step_from [OF q])
       (auto split: option.split intro!: quiet.step_if quiet.step_bind quiet_steps dec)
qed

lemma dbq_queryMessageLogById: "follows (db_quiet env) m (queryMessageLogById env i out m)"
  unfolding queryMessageLogById_def
  by (auto split: option.split list.split
      intro!: dbq.step_bind dbq_query dbq.step_if dbq.step_let dbq_store dbq.step_Some dbq.refl_step)

lemma dbq_queryRecentRows: "follows (db_quiet env) m (queryRecentRows env who n m)"
  unfolding queryRecentRows_def
  by (auto split: option.split
      intro!: dbq.step_bind dbq_query dbq.step_if dbq.step_let dbq_store dbq.step_Some dbq.refl_step)

lemma db_moves_query:
  "queryMessageById env i d = Some (r, d') \<Longrightarrow> db_moves env d d'"
  "queryRecentMessagesBySender env c n d = Some (x, d') \<Longrightarrow> db_moves env d d'"
  by (auto simp: queryMessageById_def queryRecentMessagesBySender_def Let_def bind_eq_Some_conv
      split: option.splits if_splits dest!: dbq_queryMessageLogById [unfolded follows_def, rule_format]
        dbq_queryRecentRows [unfolded follows_def, rule_format])

lemma db_moves_logAction: "logAction env l nd a tg r d db w = Some (ok, db', w') \<Longrightarrow> db_moves env db db'"
  by (auto simp: logAction_def logAction_at_def bind_eq_Some_conv split: option.splits prod.splits
      dest: db_moves_insert)

text \<open>The query handlers see the connection through their own state.\<close>

definition query_quiet :: "env \<Rightarrow> mysql option query_state \<Rightarrow> mysql option query_state \<Rightarrow> bool" where
  "query_quiet env q q' \<longleftrightarrow> db_moves env (qs_store q) (qs_store q')"

interpretation qquiet: step_preorder "query_quiet env" for env
  by unfold_locales (auto simp: query_quiet_def intro: db_moves_trans)

lemma qquiet_header: "query_quiet env q (snd (query_response_header env i p c q))"
  by (auto simp: query_response_header_def query_quiet_def Let_def split: prod.split)

lemma qquiet_audit: "query_audit env i (logAction env) me a tg c d q = Some q' \<Longrightarrow> query_quiet env q q'"
  by (auto simp: query_audit_def query_quiet_def bind_eq_Some_conv split: prod.splits dest: db_moves_logAction)

lemma qquiet_read:
  assumes "\<And>x st. m = Some (x, st) \<Longrightarrow> db_moves env (qs_store q) st"
    and "\<And>x st. m = Some (x, st) \<Longrightarrow> follows (query_quiet env) (q\<lparr>qs_store := st\<rparr>) (f (x, st))"
  shows "follows (query_quiet env) q (m \<bind> f)"
  using assms
  by (auto simp: follows_def bind_eq_Some_conv query_quiet_def intro: db_moves_trans)

lemma qquiet_query:
  "follows (query_quiet env) q (handleQueryMessage env i (queryMessageById env) (logAction env) p q)"
proof -
  obtain h q1 where h: "query_response_header env i p CMD_QUERY_MSG_RESP q = (h, q1)"
    by (cases "query_response_header env i p CMD_QUERY_MSG_RESP q")
  with qquiet_header [of env q i p CMD_QUERY_MSG_RESP] have q: "query_quiet env q q1" by simp
  show ?thesis
    unfolding handleQueryMessage_def h Let_def prod.case
    by (rule qquiet.step_from [OF q])
       (auto split: option.split intro!: qquiet.step_call [OF qquiet_audit] qquiet.step_Some qquiet.step_if
         qquiet_read [OF db_moves_query(1)] qquiet.refl_step)
qed

lemma qquiet_query_list:
  "follows (query_quiet env) q (handleQueryMessageList env i (queryRecentMessagesBySender env) (logAction env) p q)"
proof -
  obtain h q1 where h: "query_response_header env i p CMD_QUERY_MSG_LIST_RESP q = (h, q1)"
    by (cases "query_response_header env i p CMD_QUERY_MSG_LIST_RESP q")
  with qquiet_header [of env q i p CMD_QUERY_MSG_LIST_RESP] have q: "query_quiet env q q1" by simp
  obtain who limit where wl: "(case query_msg_list_req (rq_body p) of
      Some r \<Rightarrow> (qml_sender_id r, qml_limit r) | None \<Rightarrow> ([], 0)) = (who, limit)"
    by (cases "case query_msg_list_req (rq_body p) of Some r \<Rightarrow> (qml_sender_id r, qml_limit r) | None \<Rightarrow> ([], 0)")
  show ?thesis
  proof (cases "validateQueryListRequest p")
    case None
    show ?thesis
      unfolding handleQueryMessageList_def h Let_def prod.case None option.case wl
      by (rule qquiet.step_from [OF q])
         (auto intro!: qquiet.step_call [OF qquiet_audit] qquiet.step_Some qquiet.step_if
           qquiet_read [OF db_moves_query(2)] qquiet.refl_step)
  next
    case (Some err)
    show ?thesis
      unfolding handleQueryMessageList_def h Let_def prod.case Some option.case
      by (rule qquiet.step_from [OF q]) (auto intro!: qquiet.step_call [OF qquiet_audit] qquiet.step_Some qquiet.refl_step)
  qed
qed

lemma quiet_service_query [quiet_steps]: "follows (quiet_step env) s (service_query env p s)"
  using qquiet_query [of env "query_view s" "sv_id s" p]
  by (auto simp: service_query_def follows_def bind_eq_Some_conv quiet_step_def query_quiet_def query_back_def query_view_def)

lemma quiet_service_query_list [quiet_steps]: "follows (quiet_step env) s (service_query_list env p s)"
  using qquiet_query_list [of env "query_view s" "sv_id s" p]
  by (auto simp: service_query_list_def follows_def bind_eq_Some_conv quiet_step_def query_quiet_def query_back_def
      query_view_def)

lemma quiet_secKeyCheck [quiet_steps]: "follows (quiet_step env) s (secKeyCheck env p s)"
  unfolding secKeyCheck_def Let_def
  by (auto split: option.split intro!: quiet.step_if quiet.step_bind quiet.step_result quiet_steps)

lemma quiet_SeckeyLogout [quiet_steps]: "follows (quiet_step env) s (SeckeyLogout env p s)"
  unfolding SeckeyLogout_def Let_def
  by (auto split: option.split intro!: quiet.step_if quiet.step_bind quiet.step_result quiet.step_let quiet_steps)

section \<open>Key agreement\<close>

lemma follows_reach: "follows (db_quiet env) m f \<Longrightarrow> follows (db_reach env) m f"
  by (auto simp: follows_def intro: db_quiet_reach)

lemma dbq_rollback: "follows (db_quiet env) m (rollback env r m)"
  unfolding rollback_def by (auto intro!: dbq.step_bind dbq_query dbq.step_Some dbq.refl_step)

lemma dbq_lock_keysn: "follows (db_quiet env) m (lock_keysn env m)"
  unfolding lock_keysn_def
  by (auto split: option.split
      intro!: dbq.step_bind dbq_query dbq.step_if dbq.step_let dbq_store dbq.step_Some dbq.refl_step)

lemma dbq_lock_active: "follows (db_quiet env) m (lock_active env c v m)"
  unfolding lock_active_def
  by (auto split: option.split
      intro!: dbq.step_bind dbq_query dbq.step_if dbq.step_let dbq_store dbq.step_Some dbq.refl_step)

lemma dbr_rotate_and_insert: "follows (db_reach env) m (rotate_and_insert env c v sk k old m)"
  unfolding rotate_and_insert_def
  by (auto intro!: dbr.step_bind dbr_query dbr.step_if dbr.step_Some dbr.refl_step)

lemma dbr_rotation_body: "follows (db_reach env) m (rotation_body env p m)"
  unfolding rotation_body_def Let_def
  by (auto split: option.split
      intro!: dbr.step_bind follows_reach [OF dbq_lock_keysn]
        follows_reach [OF dbq_lock_active] dbr_rotate_and_insert
        dbr.step_Some dbr.refl_step)

lemma dbr_writeSecKeyWithTrans: "follows (db_reach env) m (writeSecKeyWithTrans env p m)"
  unfolding writeSecKeyWithTrans_def
  by (auto split: option.split
      intro!: dbr.step_if dbr.step_bind dbr_query dbr_rotation_body follows_reach [OF dbq_rollback] dbr.step_Some dbr.refl_step)

lemma writeSecKeyWithTrans_success:
  assumes run: "writeSecKeyWithTrans env p m = Some ((True, p'), m')"
  shows "snap m' = None \<and> m_conn m' \<and> (\<exists>k. rotates env p k (tbl m) (tbl m') \<and>
     p' = p\<lparr>n_seckeyID := k, n_status := state_code Active\<rparr>)"
proof -
  from run obtain m1 key m2 where q1: "mysql_query env StartTransaction m = Some (True, m1)"
    and body: "rotation_body env p m1 = Some (key, m2)"
    and rest: "(case key of
        None \<Rightarrow> rollback env (False, p) m2
      | Some keyID \<Rightarrow> mysql_query env Commit m2 \<bind> (\<lambda>(ok, m).
          if \<not> ok then rollback env (False, p) m
          else Some ((True, p\<lparr>n_seckeyID := keyID, n_status := state_code Active\<rparr>), m))) = Some ((True, p'), m')"
    by (auto simp: writeSecKeyWithTrans_def bind_eq_Some_conv split: if_splits)
  from rest obtain k where k: "key = Some k"
    by (cases key) (auto dest: rollback_effect)
  with rest obtain b m3 where q3: "mysql_query env Commit m2 = Some (b, m3)" and
    fin: "(if \<not> b then rollback env (False, p) m3
      else Some ((True, p\<lparr>n_seckeyID := k, n_status := state_code Active\<rparr>), m3)) = Some ((True, p'), m')"
    by (auto simp: bind_eq_Some_conv)
  then have "b" and m': "m3 = m'" "p' = p\<lparr>n_seckeyID := k, n_status := state_code Active\<rparr>"
    by (auto split: if_splits dest: rollback_effect)
  with mysql_query_start [OF q1] rotation_body_effect [OF body] mysql_query_commit [OF q3] mysql_query_frame [OF q3] k
  show ?thesis by auto
qed

text \<open>What a rotation leaves alone even when it fails in the middle and its rollback fails, too.\<close>

definition unique_keys :: "env \<Rightarrow> key_row list \<Rightarrow> bool" where
  "unique_keys env = sorted_wrt (\<lambda>r s. \<not> key_is env (kr_client s) (kr_server s) (kr_keyid s) r)"

definition pairs_ok :: "env \<Rightarrow> tables \<Rightarrow> bool" where
  "pairs_ok env t \<longleftrightarrow> one_active env (t_keys t) \<and> unique_keys env (t_keys t)"

lemma unique_keys_update:
  assumes "unique_keys env rs" and "\<And>x. kr_client (f x) = kr_client x \<and> kr_server (f x) = kr_server x \<and> kr_keyid (f x) = kr_keyid x"
  shows "unique_keys env (update_where p f rs)"
  using assms unfolding unique_keys_def update_where_def sorted_wrt_map
  by (auto elim!: sorted_wrt_mono_rel [rotated] simp: key_is_def key_pair_is_def split: if_splits)

lemma pairs_ok_retire: "pairs_ok env t \<Longrightarrow> st \<noteq> Active \<Longrightarrow> pairs_ok env (t\<lparr>t_keys := update_where p (retire st now) (t_keys t)\<rparr>)"
  by (auto simp: pairs_ok_def intro: one_active_update_where unique_keys_update)

lemma pairs_ok_others [simp]:
  "pairs_ok env (t\<lparr>t_messages := x\<rparr>) = pairs_ok env t" "pairs_ok env (t\<lparr>t_audit := y\<rparr>) = pairs_ok env t"
  "pairs_ok env (t\<lparr>t_keysn := z\<rparr>) = pairs_ok env t"
  by (simp_all add: pairs_ok_def)

lemma pairs_ok_sql:
  assumes "pairs_ok env t" and "sql_exec env now q t = Some (t', rows, n)" and "\<not> allots_key q"
  shows "pairs_ok env t'"
  using assms by (cases q) (auto simp: Let_def pairs_ok_retire)

lemma pairs_ok_insert:
  assumes "pairs_ok env t" and "sql_exec env now (InsertKey c v k sk rot) t = Some (t', rows, n)"
    and "list_all (\<lambda>r. key_pair_is env c v r \<longrightarrow> \<not> is_active r) (t_keys t)"
  shows "pairs_ok env t'"
  using assms
  by (auto simp: pairs_ok_def one_active_def unique_keys_def sorted_wrt_append list_all_iff same_pair_def
      split: if_splits)

lemma mysql_query_pairs:
  assumes "mysql_query env q m = Some (ok, m')" and "pairs_ok env (tbl m)" and "pairs_ok env (committed m)"
    and "\<not> allots_key q \<or> q = BumpKeysn"
  shows "pairs_ok env (tbl m') \<and> pairs_ok env (committed m')"
proof (rule mysql_query_keeps [OF _ assms(1)])
  show "pairs_ok env t'" if "pairs_ok env t" and "sql_exec env now q t = Some (t', rows, n)" for now t t' rows n
    using assms(4) that pairs_ok_sql [OF that] by (auto split: if_splits)
qed (use assms in simp_all)

lemma db_quiet_pairs:
  assumes "db_quiet env m m'" and "pairs_ok env (tbl m)" and "pairs_ok env (committed m)"
  shows "pairs_ok env (tbl m') \<and> pairs_ok env (committed m')"
  using assms
proof (induction rule: db_quiet.induct)
  case (quiet_query m m1 q ok m2)
  then show ?case by (auto dest: mysql_query_pairs)
next
  case (quiet_store m m1 r m2)
  then show ?case by (auto dest: mysql_store_result_frame)
qed simp

lemma plain_statement:
  assumes "mysql_query env q m = Some (ok, m')" and "\<not> is_tx q"
  shows "tbl m' = tbl m \<or> (\<exists>now rows n. sql_exec env now q (tbl m) = Some (tbl m', rows, n))"
    "ok \<Longrightarrow> \<exists>now rows n. sql_exec env now q (tbl m) = Some (tbl m', rows, n)"
    "committed m' = (if snap m = None then tbl m' else committed m)"
  using assms mysql_query_plain_snap [OF assms]
  by (cases ok; auto simp: committed_def dest!: mysql_query_ok mysql_query_err split: option.split)+

lemma rotate_and_insert_pairs:
  assumes run: "rotate_and_insert env c v sk k old m = Some (ok, m')"
    and "pairs_ok env (tbl m)" and "pairs_ok env (committed m)"
  shows "pairs_ok env (tbl m') \<and> pairs_ok env (committed m')"
proof -
  let ?ins = "InsertKey c v k sk (if old > 0 then Some old else None)"
  from run obtain b1 m1 where q1: "mysql_query env (RotateActiveKeys c v) m = Some (b1, m1)"
    and r1: "(if \<not> b1 then Some (False, m1) else mysql_query env ?ins m1 \<bind>
         (\<lambda>(ok, m). if \<not> ok then Some (False, m) else mysql_query env BumpKeysn m)) = Some (ok, m')"
    by (auto simp: rotate_and_insert_def bind_eq_Some_conv)
  from mysql_query_pairs [OF q1 assms(2,3)] have p1: "pairs_ok env (tbl m1)" "pairs_ok env (committed m1)" by auto
  show ?thesis
  proof (cases b1)
    case False
    with r1 p1 show ?thesis by simp
  next
    case True
    with r1 obtain b2 m2 where q2: "mysql_query env ?ins m1 = Some (b2, m2)"
      and r2: "(if \<not> b2 then Some (False, m2) else mysql_query env BumpKeysn m2) = Some (ok, m')"
      by (auto simp: bind_eq_Some_conv)
    from plain_statement(2) [OF q1 _ True] obtain now where "t_keys (tbl m1) = retire_pair env now c v (t_keys (tbl m))"
      by (auto simp: Let_def retire_pair_def dest!: sym [of _ "tbl m1"])
    then have "list_all (\<lambda>r. key_pair_is env c v r \<longrightarrow> \<not> is_active r) (t_keys (tbl m1))"
      by (auto simp: list_all_iff dest: retire_pair_inactive)
    with plain_statement(1) [OF q2] p1(1) have t2: "pairs_ok env (tbl m2)"
      by (auto dest: pairs_ok_insert simp del: sql_exec.simps)
    with plain_statement(3) [OF q2] p1(2) have "pairs_ok env (committed m2)" by (simp split: if_splits)
    with t2 r2 mysql_query_pairs [of env BumpKeysn m2 ok m'] show ?thesis by (cases b2) simp_all
  qed
qed

definition pairs_kept :: "env \<Rightarrow> mysql \<Rightarrow> mysql \<Rightarrow> bool" where
  "pairs_kept env m m' \<longleftrightarrow> pairs_ok env (tbl m) \<and> pairs_ok env (committed m) \<longrightarrow>
     pairs_ok env (tbl m') \<and> pairs_ok env (committed m')"

interpretation dbp: step_preorder "pairs_kept env" for env
  by unfold_locales (simp_all add: pairs_kept_def)

lemma follows_pairs: "follows (db_quiet env) m f \<Longrightarrow> follows (pairs_kept env) m f"
  unfolding follows_def pairs_kept_def by (blast dest: db_quiet_pairs)

lemma dbp_rotate_and_insert: "follows (pairs_kept env) m (rotate_and_insert env c v sk k old m)"
  unfolding follows_def pairs_kept_def by (blast dest: rotate_and_insert_pairs)

lemma dbp_rotation_body: "follows (pairs_kept env) m (rotation_body env p m)"
  unfolding rotation_body_def Let_def
  by (auto split: option.split
      intro!: dbp.step_bind follows_pairs [OF dbq_lock_keysn] follows_pairs [OF dbq_lock_active]
        dbp_rotate_and_insert dbp.step_Some dbp.refl_step)

lemma dbp_writeSecKeyWithTrans: "follows (pairs_kept env) m (writeSecKeyWithTrans env p m)"
  unfolding writeSecKeyWithTrans_def
  by (auto split: option.split
      intro!: dbp.step_if dbp.step_bind follows_pairs [OF dbq_query] dbp_rotation_body follows_pairs [OF dbq_rollback]
        dbp.step_Some dbp.refl_step)

section \<open>The invariant of database and cache\<close>

text \<open>A cached key is backed when the table has a row of its pair and number with the same key text.\<close>

definition backed :: "env \<Rightarrow> NodeSHMInfo \<Rightarrow> tables \<Rightarrow> bool" where
  "backed env n t \<longleftrightarrow> list_ex (\<lambda>r. key_is env (c_str (n_clientID n)) (c_str (n_serverID n)) (n_seckeyID n) r \<and>
     kr_seckey r = c_str (n_seckey n)) (t_keys t)"

definition server_ok :: "env \<Rightarrow> service \<Rightarrow> bool" where
  "server_ok env s \<longleftrightarrow> wf_shm (sv_shm s) \<and>
     (case sv_db s of
        None \<Rightarrow> True
      | Some m \<Rightarrow> pairs_ok env (tbl m) \<and> pairs_ok env (committed m) \<and>
          (\<forall>n \<in> set (shm_nodes (sv_shm s)). node_hit n \<longrightarrow> backed env n (tbl m) \<and> backed env n (committed m)))"

lemma backed_status [simp]: "backed env (n\<lparr>n_status := st\<rparr>) t = backed env n t"
  by (simp add: backed_def)

lemma node_hit_status [simp]: "node_hit (n\<lparr>n_status := st\<rparr>) = node_hit n"
  by (simp add: node_hit_def)

lemma backed_retire: "list_ex (\<lambda>r. key_is env c v k r \<and> kr_seckey r = sk) (update_where p (retire st now) rs) =
    list_ex (\<lambda>r. key_is env c v k r \<and> kr_seckey r = sk) rs"
  by (induction rs) (auto simp: update_where_def)

lemma backed_sql: "backed env n t \<Longrightarrow> sql_exec env now q t = Some (t', rows, k) \<Longrightarrow> backed env n t'"
  by (cases q) (auto simp: backed_def Let_def backed_retire split: if_splits)

lemma backed_reach:
  assumes "db_reach env m m'" and "backed env n (tbl m)" and "backed env n (committed m)"
  shows "backed env n (tbl m') \<and> backed env n (committed m')"
  by (rule db_reach_keeps [OF _ assms]) (rule backed_sql)

lemma server_ok_quiet:
  assumes "quiet_step env s s'" and "server_ok env s"
  shows "server_ok env s'"
proof -
  from assms(1) have cache: "list_all2 weakened (shm_nodes (sv_shm s)) (shm_nodes (sv_shm s'))"
    by (simp add: quiet_step_def cache_weakened_def)
  have old: "\<exists>n \<in> set (shm_nodes (sv_shm s)). n' = n \<or> n' = n\<lparr>n_status := 0\<rparr>"
    if "n' \<in> set (shm_nodes (sv_shm s'))" for n'
    using that cache by (auto simp: list_all2_conv_all_nth weakened_def in_set_conv_nth) (metis nth_mem)+
  have "wf_shm (sv_shm s')"
    using assms(2) old by (fastforce simp: server_ok_def wf_shm_def intro: wf_intros)
  show ?thesis
  proof (cases "sv_db s")
    case None
    with assms(1) \<open>wf_shm (sv_shm s')\<close> show ?thesis
      by (simp add: quiet_step_def db_moves_def server_ok_def)
  next
    case (Some m)
    with assms(1) obtain m' where m': "sv_db s' = Some m'" "db_quiet env m m'"
      by (auto simp: quiet_step_def db_moves_def)
    from Some assms(2) have ok: "pairs_ok env (tbl m)" "pairs_ok env (committed m)"
      by (simp_all add: server_ok_def)
    from Some assms(2) have bk: "node_hit n \<Longrightarrow> backed env n (tbl m) \<and> backed env n (committed m)" if "n \<in> set (shm_nodes (sv_shm s))" for n
      using that by (auto simp: server_ok_def)
    have "backed env n' (tbl m') \<and> backed env n' (committed m')"
      if n': "n' \<in> set (shm_nodes (sv_shm s'))" "node_hit n'" for n'
    proof -
      from old [OF n'(1)] n'(2) obtain n where n: "n \<in> set (shm_nodes (sv_shm s))" "node_hit n"
        "\<And>t. backed env n' t = backed env n t" by (metis backed_status node_hit_status)
      with bk [OF n(1,2)] backed_reach [OF db_quiet_reach [OF m'(2)]] show ?thesis by blast
    qed
    with m' ok \<open>wf_shm (sv_shm s')\<close> db_quiet_pairs [OF m'(2)] show ?thesis by (simp add: server_ok_def)
  qed
qed

section \<open>Outcomes of a key agreement\<close>

lemma quiet_write_file [quiet_steps]: "quiet_step env s (write_file env f c s)"
  by (simp add: write_file_def Let_def)

lemma quiet_verify [quiet_steps]: "follows (quiet_step env) s (verify_agreement env h req s)"
  unfolding verify_agreement_def Let_def
  by (auto simp: follows_def bind_eq_Some_conv intro: quiet_steps)

lemma store_key_step:
  assumes "store_key env node s = Some ((ok, node'), s')"
  obtains m m' where "sv_db s = Some m" "writeSecKeyWithTrans env node m = Some ((ok, node'), m')"
    "s' = s\<lparr>sv_db := Some m'\<rparr>"
  using assms by (auto simp: store_key_def bind_eq_Some_conv split: option.splits)

text \<open>A key agreement that succeeded: the signature checked with the key of the request, one rotation,
  and the new key published in the cache.\<close>

definition agreed :: "env \<Rightarrow> RequestPacket \<Rightarrow> V2KeyOperationResponseInfo \<Rightarrow> service \<Rightarrow> service \<Rightarrow> bool" where
  "agreed env p resp s s' \<longleftrightarrow> (\<exists>header req rsa aesKey node m m'.
     rq_header p = Some header \<and> rq_body p = KeyAgreeReq req \<and>
     rsaVerify env rsa (hash_result env (addData (kar_public_key req) (Hash_new T_SHA256))) (kar_sign req) = Some True \<and>
     (\<exists>j. rsaPublicEncrypt env j rsa aesKey = Some (vko_data resp)) \<and> length aesKey = Len16 \<and>
     agreed_node env (h_sender_id header) (h_receiver_id header) aesKey = Some node \<and>
     sv_db s = Some m \<and> sv_db s' = Some m' \<and> snap m' = None \<and> m_conn m' \<and>
     rotates env node (vko_keyId resp) (tbl m) (tbl m') \<and>
     sv_shm s' = snd (shmWrite (node\<lparr>n_seckeyID := vko_keyId resp, n_status := 1\<rparr>) (sv_shm s)) \<and>
     sv_id s' = sv_id s \<and> db_reach env m m' \<and> pairs_kept env m m')"

lemma agreedE:
  assumes "agreed env p resp s s'"
  obtains header req rsa aesKey j node m m' where
    "rq_header p = Some header" "rq_body p = KeyAgreeReq req"
    "rsaVerify env rsa (hash_result env (addData (kar_public_key req) (Hash_new T_SHA256))) (kar_sign req) = Some True"
    "rsaPublicEncrypt env j rsa aesKey = Some (vko_data resp)" "length aesKey = Len16"
    "agreed_node env (h_sender_id header) (h_receiver_id header) aesKey = Some node"
    "sv_db s = Some m" "sv_db s' = Some m'" "snap m' = None" "m_conn m'"
    "rotates env node (vko_keyId resp) (tbl m) (tbl m')"
    "sv_shm s' = snd (shmWrite (node\<lparr>n_seckeyID := vko_keyId resp, n_status := 1\<rparr>) (sv_shm s))"
    "sv_id s' = sv_id s" "db_reach env m m'" "pairs_kept env m m'"
  using assms unfolding agreed_def by blast

lemma length_resize_str [simp]: "length (resize_str n s) = n"
  by (simp add: resize_str_def)

lemma makeKeyResponse_fields:
  assumes "makeKeyResponse env p c code msg k d s = (resp, s')"
  shows "vko_code resp = code" "vko_message resp = msg" "vko_keyId resp = k" "vko_data resp = d"
    "sv_db s' = sv_db s" "sv_shm s' = sv_shm s" "sv_id s' = sv_id s"
  using assms
  by (auto simp: makeKeyResponse_def buildKeyResponseHeader_def service_time_def time_now_def Let_def split: prod.splits)

lemma verify_agreement_effect:
  assumes "verify_agreement env header req s = Some ((flage, rsa), s')"
  shows "sv_db s' = sv_db s" "sv_shm s' = sv_shm s" "sv_id s' = sv_id s"
    "rsaVerify env rsa (hash_result env (addData (kar_public_key req) (Hash_new T_SHA256))) (kar_sign req) = Some flage"
  using assms by (auto simp: verify_agreement_def write_file_def Let_def bind_eq_Some_conv)

lemma getRandKey_effect:
  assumes "getRandKey env len s = (key, s')"
  shows "length key = len" "sv_db s' = sv_db s" "sv_shm s' = sv_shm s" "sv_id s' = sv_id s"
  using assms by (auto simp: getRandKey_def split: prod.splits)

text \<open>After the signature was accepted: the new key, its node, and the transaction.\<close>

lemma seckeyAgree_accepted:
  assumes run: "seckeyAgree env p s = Some (resp, s')"
    and pk: "rq_header p = Some header" "rq_body p = KeyAgreeReq req"
    and ver: "verify_agreement env header req s = Some ((True, rsa), s1)"
  obtains aesKey s2 j secKey node ok node' m m' s3 where
    "getRandKey env Len16 s1 = (aesKey, s2)" "rsaPublicEncrypt env j rsa aesKey = Some secKey"
    "agreed_node env (h_sender_id header) (h_receiver_id header) aesKey = Some node"
    "sv_db s = Some m" "writeSecKeyWithTrans env node m = Some ((ok, node'), m')"
    "sv_db s3 = Some m'" "sv_id s3 = sv_id s" "sv_shm s3 = (if ok then snd (shmWrite node' (sv_shm s)) else sv_shm s)"
    "(resp, s') = (if ok then makeKeyResponse env p CMD_KEY_AGREE_RESP RESULT_SUCCESS ''key agreement success''
        (n_seckeyID node') secKey s3
      else makeKeyResponse env p CMD_KEY_AGREE_RESP RESULT_KEY_AGREE_FAILED ''write db failed'' 0 [] s3)"
proof -
  obtain aesKey s2 where rk: "getRandKey env Len16 s1 = (aesKey, s2)" by (cases "getRandKey env Len16 s1")
  let ?j = "pr_ssl (sv_proc s2)"
  let ?s = "s2\<lparr>sv_proc := (sv_proc s2)\<lparr>pr_ssl := Suc ?j\<rparr>\<rparr>"
  from run pk ver rk obtain secKey node ok node' s4 where
    enc: "rsaPublicEncrypt env ?j rsa aesKey = Some secKey"
    and nd: "agreed_node env (h_sender_id header) (h_receiver_id header) aesKey = Some node"
    and st: "store_key env node ?s = Some ((ok, node'), s4)"
    and fin: "(if \<not> ok then Some (makeKeyResponse env p CMD_KEY_AGREE_RESP RESULT_KEY_AGREE_FAILED ''write db failed'' 0 [] s4)
       else let (_, s) = cache_write node' s4 in Some (makeKeyResponse env p CMD_KEY_AGREE_RESP RESULT_SUCCESS
         ''key agreement success'' (n_seckeyID node') secKey s)) = Some (resp, s')"
    by (auto simp: seckeyAgree_def Let_def bind_eq_Some_conv)
  from st obtain m m' where m: "sv_db ?s = Some m" "writeSecKeyWithTrans env node m = Some ((ok, node'), m')"
    "s4 = ?s\<lparr>sv_db := Some m'\<rparr>" by (rule store_key_step)
  note fr = getRandKey_effect [OF rk] verify_agreement_effect [OF ver]
  obtain r s5 where cw: "cache_write node' s4 = (r, s5)" by (cases "cache_write node' s4")
  then have s5: "sv_shm s5 = snd (shmWrite node' (sv_shm s4))" "sv_db s5 = sv_db s4" "sv_id s5 = sv_id s4"
    by (auto simp: cache_write_def split: prod.splits)
  show thesis
    by (rule that [OF rk enc nd _ m(2), of "if ok then s5 else s4"])
       (use fin cw s5 m fr in \<open>auto split: if_splits\<close>)
qed

lemma seckeyAgree_cases:
  assumes run: "seckeyAgree env p s = Some (resp, s')"
  shows "(vko_code resp = RESULT_SUCCESS \<and> agreed env p resp s s') \<or>
     (vko_code resp \<in> {RESULT_INVALID_REQUEST, RESULT_KEY_AGREE_FAILED} \<and> vko_keyId resp = 0 \<and> vko_data resp = [] \<and>
      sv_shm s' = sv_shm s \<and> sv_id s' = sv_id s \<and>
      (sv_db s' = sv_db s \<or> (\<exists>node node' m m'. sv_db s = Some m \<and> sv_db s' = Some m' \<and>
         writeSecKeyWithTrans env node m = Some ((False, node'), m'))))"
proof (cases "\<exists>header req. rq_header p = Some header \<and> rq_body p = KeyAgreeReq req")
  case False
  then have "(resp, s') = makeKeyResponse env p CMD_KEY_AGREE_RESP RESULT_INVALID_REQUEST
      ''invalid key agreement request'' 0 [] s"
    using run by (cases "rq_header p"; cases "rq_body p") (auto simp: seckeyAgree_def)
  from makeKeyResponse_fields [OF this [symmetric]] show ?thesis by simp
next
  case True
  then obtain header req where pk: "rq_header p = Some header" "rq_body p = KeyAgreeReq req" by blast
  with run obtain flage rsa s1 where ver: "verify_agreement env header req s = Some ((flage, rsa), s1)"
    by (auto simp: seckeyAgree_def bind_eq_Some_conv)
  note fr = verify_agreement_effect [OF ver]
  show ?thesis
  proof (cases flage)
    case False
    with run pk ver have "(resp, s') = makeKeyResponse env p CMD_KEY_AGREE_RESP RESULT_KEY_AGREE_FAILED
        ''verify sign failed'' 0 [] s1"
      by (auto simp: seckeyAgree_def)
    from makeKeyResponse_fields [OF this [symmetric]] fr show ?thesis by simp
  next
    case True
    with ver have ver: "verify_agreement env header req s = Some ((True, rsa), s1)" by simp
    from run pk ver obtain aesKey s2 j secKey node ok node' m m' s3 where
      rk: "getRandKey env Len16 s1 = (aesKey, s2)" and enc: "rsaPublicEncrypt env j rsa aesKey = Some secKey"
      and nd: "agreed_node env (h_sender_id header) (h_receiver_id header) aesKey = Some node"
      and db: "sv_db s = Some m" and w: "writeSecKeyWithTrans env node m = Some ((ok, node'), m')"
      and s3: "sv_db s3 = Some m'" "sv_id s3 = sv_id s"
        "sv_shm s3 = (if ok then snd (shmWrite node' (sv_shm s)) else sv_shm s)"
      and fin: "(resp, s') = (if ok then makeKeyResponse env p CMD_KEY_AGREE_RESP RESULT_SUCCESS
          ''key agreement success'' (n_seckeyID node') secKey s3
        else makeKeyResponse env p CMD_KEY_AGREE_RESP RESULT_KEY_AGREE_FAILED ''write db failed'' 0 [] s3)"
      by (rule seckeyAgree_accepted)
    show ?thesis
    proof (cases ok)
      case False
      with fin have "makeKeyResponse env p CMD_KEY_AGREE_RESP RESULT_KEY_AGREE_FAILED ''write db failed'' 0 [] s3 = (resp, s')"
        by simp
      from makeKeyResponse_fields [OF this] s3 db w False show ?thesis by auto
    next
      case True
      with fin have "makeKeyResponse env p CMD_KEY_AGREE_RESP RESULT_SUCCESS ''key agreement success''
          (n_seckeyID node') secKey s3 = (resp, s')" by simp
      note f = makeKeyResponse_fields [OF this]
      from w True have w': "writeSecKeyWithTrans env node m = Some ((True, node'), m')" by simp
      from writeSecKeyWithTrans_success [OF w'] obtain k where k: "snap m' = None \<and> m_conn m'" "rotates env node k (tbl m) (tbl m')"
        "node' = node\<lparr>n_seckeyID := k, n_status := 1\<rparr>" by auto
      with f have kid: "vko_keyId resp = k" by simp
      have moves: "db_reach env m m'" "pairs_kept env m m'"
        using dbr_writeSecKeyWithTrans [of env m node] dbp_writeSecKeyWithTrans [of env m node] w'
        by (auto simp: follows_def)
      have shm: "sv_shm s' = snd (shmWrite (node\<lparr>n_seckeyID := k, n_status := 1\<rparr>) (sv_shm s))"
        using f s3 True k(3) by simp
      have "agreed env p resp s s'"
        unfolding agreed_def kid
        using pk verify_agreement_effect(4) [OF ver] enc getRandKey_effect(1) [OF rk] nd db k(1,2) moves shm f(4,5,7) s3(1,2)
        by metis
      with f show ?thesis by simp
    qed
  qed
qed

end
