(* ===== verification/ServerProps.thy ===== *)
theory ServerProps
  imports ServerLife
begin

text \<open>
  Properties of the request side of the server: the invariant of database and cache over any sequence
  of requests, what key agreement, check and logout promise, the header of every answer, and that every
  request is answered.
\<close>

section \<open>The invariant is kept\<close>

lemma agreed_node_wf:
  assumes "agreed_node env a b key = Some node"
  shows "wf_node node" "c_str (n_clientID node) = c_str a" "c_str (n_serverID node) = c_str b"
    "c_str (n_seckey node) = c_str (b64_encode env key)" "length (c_str a) < 12" "length (c_str b) < 12"
  using assms
  by (auto simp: agreed_node_def bind_eq_Some_conv c_strcpy_def Let_def wf_node_def node_new_def split: if_splits)

lemma update_first_set: "update_first q (\<lambda>_. y) xs = Some ys \<Longrightarrow> set ys \<subseteq> insert y (set xs)"
  by (induction xs arbitrary: ys) (auto split: if_splits)

lemma shmWrite_nodes: "n \<in> set (shm_nodes (snd (shmWrite p c))) \<Longrightarrow> n = p \<or> n \<in> set (shm_nodes c)"
  unfolding shm_defs by (auto split: option.splits if_splits dest!: update_first_set)

lemma rotates_backed:
  assumes "rotates env node k t t'"
  shows "backed env (node\<lparr>n_seckeyID := k, n_status := st\<rparr>) t'"
  using assms
  by (auto simp: rotates_def rotate_spec_def Let_def backed_def new_key_row_def key_is_def key_pair_is_def same_text_def)

lemma server_ok_agreed:
  assumes "agreed env p resp s s'" and "server_ok env s"
  shows "server_ok env s'"
proof -
  from assms(1) obtain a b key node m m' where nd: "agreed_node env a b key = Some node"
    and m: "sv_db s = Some m" "sv_db s' = Some m'" "snap m' = None"
    and rot: "rotates env node (vko_keyId resp) (tbl m) (tbl m')"
    and shm: "sv_shm s' = snd (shmWrite (node\<lparr>n_seckeyID := vko_keyId resp, n_status := 1\<rparr>) (sv_shm s))"
    and mv: "db_reach env m m'" "pairs_kept env m m'"
    by (auto simp: agreed_def)
  let ?n = "node\<lparr>n_seckeyID := vko_keyId resp, n_status := 1\<rparr>"
  from m(3) have com: "committed m' = tbl m'" by (simp add: committed_def)
  have "wf_node ?n" using agreed_node_wf(1) [OF nd] by (simp add: wf_node_def)
  moreover have "wf_shm (sv_shm s)" using assms(2) by (simp add: server_ok_def)
  ultimately have wf: "wf_shm (sv_shm s')"
    unfolding shm by (cases "shmWrite ?n (sv_shm s)") (simp add: wf_shm_write)
  have "backed env n (tbl m')" if n: "n \<in> set (shm_nodes (sv_shm s'))" "node_hit n" for n
  proof -
    from n(1) shm consider "n = ?n" | "n \<in> set (shm_nodes (sv_shm s))" using shmWrite_nodes by metis
    then show ?thesis
    proof cases
      case 1
      then show ?thesis using rotates_backed [OF rot] by simp
    next
      case 2
      with n(2) assms(2) m(1) have "backed env n (tbl m)" "backed env n (committed m)" by (auto simp: server_ok_def)
      from backed_reach [OF mv(1) this] show ?thesis by simp
    qed
  qed
  with wf m com mv(2) assms(2) show ?thesis by (simp add: server_ok_def pairs_kept_def)
qed

lemma server_ok_db:
  assumes "server_ok env s" and "sv_shm s' = sv_shm s" and "sv_db s = Some m" and "sv_db s' = Some m'"
    and "db_reach env m m'" and "pairs_kept env m m'"
  shows "server_ok env s'"
  using assms backed_reach [OF assms(5)] by (simp add: server_ok_def pairs_kept_def)

lemma server_ok_agree:
  assumes run: "seckeyAgree env p s = Some (resp, s')" and ok: "server_ok env s"
  shows "server_ok env s'"
  using seckeyAgree_cases [OF run]
proof (elim disjE conjE exE)
  assume "agreed env p resp s s'"
  then show ?thesis using ok by (rule server_ok_agreed)
next
  assume "sv_shm s' = sv_shm s" "sv_db s' = sv_db s"
  then show ?thesis using ok by (auto simp: server_ok_def split: option.splits)
next
  fix node node' m m'
  assume "sv_shm s' = sv_shm s" "sv_db s = Some m" "sv_db s' = Some m'"
    and "writeSecKeyWithTrans env node m = Some ((False, node'), m')"
  with followsD [OF dbr_writeSecKeyWithTrans] followsD [OF dbp_writeSecKeyWithTrans] ok show ?thesis
    by (intro server_ok_db [of env s s' m m'])
qed

lemma quiet_dispatch:
  assumes "dispatch env p s = Some (resp, s')" and "\<And>req. rq_body p \<noteq> KeyAgreeReq req"
  shows "quiet_step env s s'"
proof -
  have uns: "quiet_step env s (snd (unsupported_response env p s))"
    by (simp add: unsupported_response_def service_time_def Let_def quiet_step_def split: prod.split)
  from assms show ?thesis
    using quiet_handleSendMessage [of env s p] quiet_service_query [of env s p] quiet_service_query_list [of env s p]
      quiet_secKeyCheck [of env s p] quiet_SeckeyLogout [of env s p] uns
    by (cases "rq_body p") (auto simp: dispatch_def follows_def split: prod.splits)
qed

lemma server_ok_dispatch:
  assumes run: "dispatch env p s = Some (resp, s')" and ok: "server_ok env s"
  shows "server_ok env s'"
proof (cases "\<exists>req. rq_body p = KeyAgreeReq req")
  case True
  with run obtain info where "seckeyAgree env p s = Some (info, s')"
    by (auto simp: dispatch_def split: prod.splits)
  then show ?thesis using ok by (rule server_ok_agree)
next
  case False
  with run have "quiet_step env s s'" by (auto intro: quiet_dispatch)
  then show ?thesis using ok by (rule server_ok_quiet)
qed

text \<open>The states the server goes through while it serves requests, one after the other.\<close>

inductive serves :: "env \<Rightarrow> service \<Rightarrow> service \<Rightarrow> bool" for env where
  serves_start: "serves env s s"
| serves_request: "serves env s s1 \<Longrightarrow> dispatch env p s1 = Some (resp, s2) \<Longrightarrow> serves env s s2"

lemma dispatch_reach:
  assumes run: "dispatch env p s = Some (resp, s')" and db: "sv_db s = Some m"
  shows "\<exists>m'. sv_db s' = Some m' \<and> db_reach env m m'"
proof (cases "\<exists>req. rq_body p = KeyAgreeReq req")
  case True
  with run obtain info where "seckeyAgree env p s = Some (info, s')"
    by (auto simp: dispatch_def split: prod.splits)
  from seckeyAgree_cases [OF this] show ?thesis
  proof (elim disjE conjE exE)
    fix node node' m1 m'
    assume "sv_db s = Some m1" "sv_db s' = Some m'" "writeSecKeyWithTrans env node m1 = Some ((False, node'), m')"
    with db followsD [OF dbr_writeSecKeyWithTrans] show ?thesis by auto
  qed (use db in \<open>auto simp: agreed_def intro: reach_refl\<close>)
next
  case False
  with run have "quiet_step env s s'" by (auto intro: quiet_dispatch)
  with db show ?thesis by (auto simp: quiet_step_def db_moves_def intro: db_quiet_reach)
qed

lemma serves_reach:
  assumes "serves env s s'" and "sv_db s = Some m"
  shows "\<exists>m'. sv_db s' = Some m' \<and> db_reach env m m'"
  using assms
proof (induction rule: serves.induct)
  case (serves_request s s1 p resp s2)
  then show ?case by (metis dispatch_reach db_reach_trans)
qed (auto intro: reach_refl)

section \<open>What a check answers when the database answers\<close>

definition db_answers :: "env \<Rightarrow> bool" where
  "db_answers env \<longleftrightarrow> (\<forall>j. e_sql env j = Answered \<and> e_store env j)"

lemma unique_keys_single:
  assumes "unique_keys env rs" and "r \<in> set rs" and "key_is env c v k r"
  shows "filter (key_is env c v k) rs = [r]"
  using assms
proof (induction rs)
  case (Cons x xs)
  have other: "\<not> key_is env c v k y" if "key_is env c v k x" and "y \<in> set xs" for y
  proof
    assume "key_is env c v k y"
    with that(1) have "key_is env (kr_client y) (kr_server y) (kr_keyid y) x" by (rule key_is_cong [rotated])
    with Cons.prems(1) that(2) show False by (auto simp: unique_keys_def)
  qed
  show ?case
  proof (cases "key_is env c v k x")
    case True
    then have "filter (key_is env c v k) xs = []" using other by (auto simp: filter_empty_conv)
    with True other Cons.prems(2,3) show ?thesis by auto
  next
    case False
    with Cons.prems have "r \<in> set xs" by auto
    moreover have "unique_keys env xs" using Cons.prems(1) by (simp add: unique_keys_def)
    ultimately show ?thesis using Cons.IH Cons.prems(3) False by simp
  qed
qed simp

lemma query_answered:
  assumes "mysql_query env q m = Some (ok, m')" and "db_answers env" and "\<not> is_tx q"
    and "sql_exec env (e_dbnow env (m_tick m)) q (tbl m) \<noteq> None"
  shows ok
  using assms by (auto simp: mysql_query_def db_answers_def Let_def sql_run_plain split: if_splits option.splits)

lemma checkSecKey_exact:
  assumes run: "checkSecKey env c v k m = Some (ok, m')" and answers: "db_answers env"
    and unique: "unique_keys env (t_keys (tbl m))"
  shows "ok \<longleftrightarrow> (\<exists>r \<in> set (t_keys (tbl m)). key_is env c v k r \<and> is_active r \<and> e_dbnow env (m_tick m) < kr_expire r)"
proof
  assume ok
  with run checkSecKey_True [of env c v k m m']
  show "\<exists>r \<in> set (t_keys (tbl m)). key_is env c v k r \<and> is_active r \<and> e_dbnow env (m_tick m) < kr_expire r" by auto
next
  assume "\<exists>r \<in> set (t_keys (tbl m)). key_is env c v k r \<and> is_active r \<and> e_dbnow env (m_tick m) < kr_expire r"
  then obtain r where r: "r \<in> set (t_keys (tbl m))" "key_is env c v k r" "is_active r" "e_dbnow env (m_tick m) < kr_expire r"
    by blast
  from run show ok
  proof (cases rule: checkSecKey_steps)
    case expire
    with query_answered [OF expire(2) answers] show ?thesis by (simp add: Let_def)
  next
    case (select m1)
    with query_answered [OF select(3) answers] show ?thesis by simp
  next
    case (store m1 m2)
    with answers show ?thesis by (auto simp: mysql_store_result_def db_answers_def Let_def)
  next
    case (row m1 m2 row)
    let ?es = "expire_rows env (e_dbnow env (m_tick m)) c v k (t_keys (tbl m))"
    have "r \<in> set ?es" using r by (auto simp: expire_rows_def in_update_where intro!: bexI [of _ r])
    moreover have "unique_keys env ?es" using unique unfolding expire_rows_def by (rule unique_keys_update) simp
    ultimately have "filter (key_is env c v k) ?es = [r]" using r(2) by (intro unique_keys_single)
    with checkSecKey_row(2) [OF row(1-4)] row(5) r(3) show ?thesis by simp
  qed
qed

section \<open>Using a fresh key\<close>

lemma shmWrite_room: "shm_ok c \<Longrightarrow> node_new \<in> set (shm_nodes c) \<Longrightarrow> fst (shmWrite p c) = 0"
  unfolding shm_defs by (auto split: option.split simp: update_first_None)

text \<open>A confirmed cache entry is handed out.\<close>

lemma getActiveKey_confirmed:
  assumes "shmRead c v (sv_shm s) = node" and "node_hit node" and "n_seckeyID node = k" and "n_status node = 1"
    and "sv_db s = Some m" and "checkSecKey env c v k m = Some (True, m')"
  shows "\<exists>rk s'. getActiveKey env c v k s = Some (rk, s') \<and> ak_valid rk \<and> ak_base64Key rk = c_str (n_seckey node)"
  using assms by (auto simp: getActiveKey_def check_key_def node_hit_def Let_def)

lemma rotates_active:
  assumes "rotates env node k t t'"
  obtains r j where "r \<in> set (t_keys t')" "key_is env (c_str (n_clientID node)) (c_str (n_serverID node)) k r"
    "is_active r" "kr_expire r = e_dbnow env j + 86400"
proof -
  from assms obtain i j where t': "t' = rotate_spec env (e_dbnow env i) (e_dbnow env j) (c_str (n_clientID node))
      (c_str (n_serverID node)) k (c_str (n_seckey node)) t" by (auto simp: rotates_def)
  show thesis
    by (rule that [of "last (t_keys t')" j])
       (simp_all add: t' rotate_spec_def Let_def key_is_def key_pair_is_def same_text_def,
        simp add: new_key_row_def KEY_DEFAULT_VALIDITY_HOURS_def)
qed

lemma server_ok_serves: "serves env s s' \<Longrightarrow> server_ok env s \<Longrightarrow> server_ok env s'"
  by (induction rule: serves.induct) (auto intro: server_ok_dispatch)

section \<open>Properties\<close>

text \<open>C1. The invariant of the running server: whatever requests arrive in whatever order, and whatever
  becomes of the statements, every slot of the shared segment stays well formed, every cached key is
  backed by a row of the key table with the same pair, number and key text (both as the connection sees
  the table and as it is durable), and the table never has two active keys of a pair or one number of a
  pair twice.\<close>

theorem server_invariant:
  assumes "serves env s s'" and "server_ok env s"
  shows "server_ok env s'"
  using assms by (rule server_ok_serves)

text \<open>A small server: two keys in the table and in the segment, one slot free.\<close>

definition demo_slot :: "string \<Rightarrow> int \<Rightarrow> NodeSHMInfo" where
  "demo_slot c k = node_new\<lparr>n_status := 1, n_seckeyID := k, n_clientID := resize_str 12 c,
     n_serverID := resize_str 12 ''srv'', n_seckey := resize_str 128 demo_key\<rparr>"

definition demo_server :: service where
  "demo_server = demo_service\<lparr>sv_shm := \<lparr>shm_ok = True,
     shm_nodes = [demo_slot ''alice'' 6, demo_slot ''bob'' 5, node_new]\<rparr>\<rparr>"

lemma demo_server_ok: "server_ok calm_env demo_server"
  by code_simp

definition key_header :: "string \<Rightarrow> int \<Rightarrow> Header" where
  "key_header c cmd = \<lparr>h_message_id = ''k1'', h_command = cmd, h_sender_id = c, h_receiver_id = ''srv'', h_timestamp = 0\<rparr>"

definition demo_agree :: "string \<Rightarrow> RequestPacket" where
  "demo_agree c = \<lparr>rq_header = Some (key_header c CMD_KEY_AGREE_REQ),
     rq_body = KeyAgreeReq \<lparr>kar_public_key = ''pub'', kar_sign = concat (replicate 16 ''46'')\<rparr>\<rparr>"

definition demo_check :: "string \<Rightarrow> int \<Rightarrow> RequestPacket" where
  "demo_check c k = \<lparr>rq_header = Some (key_header c CMD_KEY_CHECK_REQ), rq_body = KeyCheckReq \<lparr>kcr_key_id = k\<rparr>\<rparr>"

definition demo_logout :: "string \<Rightarrow> int \<Rightarrow> RequestPacket" where
  "demo_logout c k = \<lparr>rq_header = Some (key_header c CMD_KEY_LOGOUT_REQ), rq_body = KeyLogoutReq \<lparr>klr_key_id = k\<rparr>\<rparr>"

lemma demo_agree_run:
  obtains resp s' where "seckeyAgree calm_env (demo_agree ''alice'') demo_server = Some (resp, s')"
    "vko_code resp = RESULT_SUCCESS" "vko_keyId resp = 7"
proof -
  have "case seckeyAgree calm_env (demo_agree ''alice'') demo_server of
      None \<Rightarrow> False | Some (resp, s') \<Rightarrow> vko_code resp = RESULT_SUCCESS \<and> vko_keyId resp = 7"
    by code_simp
  with that show thesis by (auto split: option.splits)
qed

theorem server_invariant_witness:
  "\<exists>resp s'. dispatch calm_env (demo_agree ''alice'') demo_server = Some (resp, s') \<and> server_ok calm_env s'"
proof -
  obtain info s' where run: "seckeyAgree calm_env (demo_agree ''alice'') demo_server = Some (info, s')"
    by (rule demo_agree_run)
  then have d: "dispatch calm_env (demo_agree ''alice'') demo_server =
      Some (init_key_resp info ResponsePacket_default, s')"
    by (simp add: dispatch_def demo_agree_def)
  from server_invariant [OF serves_request [OF serves_start d] demo_server_ok] d show ?thesis by blast
qed



text \<open>From agreement to use: right after a successful agreement, with a free slot in the segment and a
  database that answers, the message service hands out exactly the agreed key under the number in the
  answer, and the client's copy is that key encrypted for its public key. (The database clock may move, by
  less than the validity of a key.)\<close>

theorem agreed_key_usable:
  assumes run: "seckeyAgree env p s = Some (resp, s')" and code: "vko_code resp = RESULT_SUCCESS"
    and header: "rq_header p = Some header" "c_str (h_sender_id header) \<noteq> []" "c_str (h_receiver_id header) \<noteq> []"
    and env: "db_answers env" "base64_ok env" "\<And>i j. e_dbnow env i < e_dbnow env j + 86400"
    and ok: "server_ok env s" and room: "shm_ok (sv_shm s)" "node_new \<in> set (shm_nodes (sv_shm s))"
  shows "\<exists>rk s2 aesKey rsa j. getActiveKey env (c_str (h_sender_id header)) (c_str (h_receiver_id header)) (vko_keyId resp) s'
       = Some (rk, s2) \<and> ak_valid rk \<and> length aesKey = 16 \<and> b64_decode env (ak_base64Key rk) = aesKey \<and>
     rsaPublicEncrypt env j rsa aesKey = Some (vko_data resp)"
proof -
  let ?c = "c_str (h_sender_id header)" and ?v = "c_str (h_receiver_id header)" and ?k = "vko_keyId resp"
  from seckeyAgree_cases [OF run] code have ag: "agreed env p resp s s'" by auto
  then obtain header' rsa key j node and m m' :: mysql where "rq_header p = Some header'"
    and enc: "rsaPublicEncrypt env j rsa key = Some (vko_data resp)" and len: "length key = Len16"
    and "agreed_node env (h_sender_id header') (h_receiver_id header') key = Some node"
    and db: "sv_db s' = Some m'" and conn: "m_conn m'" and rot: "rotates env node ?k (tbl m) (tbl m')"
    and shm: "sv_shm s' = snd (shmWrite (node\<lparr>n_seckeyID := ?k, n_status := 1\<rparr>) (sv_shm s))"
    by (rule agreedE) (rule that)
  with header(1) have nd: "agreed_node env (h_sender_id header) (h_receiver_id header) key = Some node" by simp
  let ?n = "node\<lparr>n_seckeyID := ?k, n_status := 1\<rparr>"
  note node = agreed_node_wf [OF nd]
  from shm shmWrite_room [OF room, of ?n] have w: "shmWrite ?n (sv_shm s) = (0, sv_shm s')"
    by (cases "shmWrite ?n (sv_shm s)") simp
  have read: "shmRead ?c ?v (sv_shm s') = ?n"
    using shm.get_write [OF w] shm.get_cong [of ?c "n_clientID ?n" ?v "n_serverID ?n" "sv_shm s'"] node(2,3) by simp
  obtain m2 ok where ck: "checkSecKey env ?c ?v ?k m' = Some (ok, m2)"
    using checkSecKey_returns [OF conn] by blast
  have "unique_keys env (t_keys (tbl m'))"
    using server_ok_agreed [OF ag ok] db by (simp add: server_ok_def pairs_ok_def)
  moreover obtain r j where "r \<in> set (t_keys (tbl m'))" "key_is env ?c ?v ?k r" "is_active r" "kr_expire r = e_dbnow env j + 86400"
    using rotates_active [OF rot] node(2,3) by metis
  ultimately have ok using checkSecKey_exact [OF ck env(1)] env(3) by auto
  with ck have ck: "checkSecKey env ?c ?v ?k m' = Some (True, m2)" by simp
  have hit: "node_hit ?n" using node(2,3) header(2,3) by (simp add: node_hit_iff)
  obtain rk s2 where "getActiveKey env ?c ?v ?k s' = Some (rk, s2)" "ak_valid rk" "ak_base64Key rk = c_str (n_seckey ?n)"
    using getActiveKey_confirmed [OF read hit _ _ db ck] by auto
  moreover have "key \<noteq> []" using len by (auto simp: Len16_def)
  then have "b64_decode env (c_str (n_seckey ?n)) = key" using node(4) env(2) by simp
  ultimately show ?thesis using enc len by (auto simp: Len16_def)
qed

text \<open>The environment of the examples with a database clock that stands still.\<close>

definition still_env :: env where
  "still_env = calm_env\<lparr>e_dbnow := \<lambda>k. 0\<rparr>"

theorem agreed_key_usable_witness:
  "\<exists>resp s' rk s2. seckeyAgree still_env (demo_agree ''carol'') demo_server = Some (resp, s') \<and>
     getActiveKey still_env ''carol'' ''srv'' (vko_keyId resp) s' = Some (rk, s2) \<and> ak_valid rk"
proof -
  have "case seckeyAgree still_env (demo_agree ''carol'') demo_server of
      None \<Rightarrow> False | Some (resp, s') \<Rightarrow> vko_code resp = RESULT_SUCCESS"
    by code_simp
  then obtain resp s' where run: "seckeyAgree still_env (demo_agree ''carol'') demo_server = Some (resp, s')"
    and code: "vko_code resp = RESULT_SUCCESS" by (auto split: option.splits)
  have hd: "rq_header (demo_agree ''carol'') = Some (key_header ''carol'' CMD_KEY_AGREE_REQ)"
    by (simp add: demo_agree_def)
  have ids: "c_str (h_sender_id (key_header ''carol'' CMD_KEY_AGREE_REQ)) = ''carol''"
    "c_str (h_receiver_id (key_header ''carol'' CMD_KEY_AGREE_REQ)) = ''srv''"
    by code_simp+
  have "db_answers still_env" "base64_ok still_env" "e_dbnow still_env i < e_dbnow still_env j + 86400" for i j
    using calm_base64 by (simp_all add: still_env_def db_answers_def base64_ok_def)
  moreover have "server_ok still_env demo_server" by code_simp
  moreover have "shm_ok (sv_shm demo_server)" "node_new \<in> set (shm_nodes (sv_shm demo_server))"
    by (simp_all add: demo_server_def)
  ultimately show ?thesis
    using agreed_key_usable [OF run code hd] run unfolding ids by blast
qed



lemma getActiveKey_checked:
  assumes "getActiveKey env c v k s = Some (rk, s')" and "ak_valid rk" and "sv_db s = Some m"
  shows "\<exists>m'. checkSecKey env c v k m = Some (True, m')"
  using assms
  by (auto simp: getActiveKey_def check_key_def Let_def bind_eq_Some_conv split: if_splits option.splits)

lemma logout_dead:
  assumes run: "SeckeyLogout env p s = Some (resp, s1)" and code: "vko_code resp = RESULT_SUCCESS"
    and pk: "rq_header p = Some header" "rq_body p = KeyLogoutReq req" and db: "sv_db s = Some m" "snap m = None"
  obtains m1 where "sv_db s1 = Some m1" "snap m1 = None"
    "key_dead env (h_sender_id header) (h_receiver_id header) (klr_key_id req) (t_keys (tbl m1))"
proof -
  let ?c = "h_sender_id header" and ?v = "h_receiver_id header" and ?k = "klr_key_id req"
  from run pk obtain ok sa where rv: "revoke_key env ?c ?v ?k s = Some (ok, sa)"
    and rest: "(if \<not> ok then Some (makeKeyResponse env p CMD_KEY_LOGOUT_RESP RESULT_KEY_LOGOUT_FAILED
          ''logout failed in db'' ?k [] sa)
       else let (shmRet, s) = cache_set_status ?c ?v 0 sa in
         if shmRet = 0 then Some (makeKeyResponse env p CMD_KEY_LOGOUT_RESP RESULT_SUCCESS ''logout success'' ?k [] s)
         else Some (makeKeyResponse env p CMD_KEY_LOGOUT_RESP RESULT_SUCCESS
           ''db logout success, shm update failed'' ?k [] s)) = Some (resp, s1)"
    by (auto simp: SeckeyLogout_def Let_def bind_eq_Some_conv)
  from rest code have ok by (auto dest!: makeKeyResponse_fields(1) split: if_splits)
  obtain r sb where cs: "cache_set_status ?c ?v 0 sa = (r, sb)" by (cases "cache_set_status ?c ?v 0 sa")
  with rest \<open>ok\<close> have "\<exists>msg. makeKeyResponse env p CMD_KEY_LOGOUT_RESP RESULT_SUCCESS msg ?k [] sb = (resp, s1)"
    by (auto split: if_splits)
  then have "sv_db s1 = sv_db sb" using makeKeyResponse_fields(5) by blast
  with cs have db1: "sv_db s1 = sv_db sa" by (auto simp: cache_set_status_def split: prod.splits)
  from rv db obtain m1 where lo: "logoutSecKey env ?c ?v ?k m = Some (ok, m1)" and sa: "sv_db sa = Some m1"
    by (auto simp: revoke_key_def bind_eq_Some_conv)
  from lo \<open>ok\<close> have "key_dead env ?c ?v ?k (t_keys (tbl m1))" by (auto intro: logoutSecKey_dead)
  with db1 sa logoutSecKey_frame [OF lo] db(2) show thesis by (intro that) auto
qed

text \<open>A dead key is neither handed out nor confirmed, then or later.\<close>

lemma dead_key_unused:
  assumes m1: "sv_db s1 = Some m1" "snap m1 = None" "key_dead env c v k (t_keys (tbl m1))" and later: "serves env s1 s2"
  shows "getActiveKey env c v k s2 = Some (rk, s3) \<Longrightarrow> \<not> ak_valid rk"
    "secKeyCheck env p s2 = Some (answer, s4) \<Longrightarrow> rq_header p = Some header \<Longrightarrow> rq_body p = KeyCheckReq \<lparr>kcr_key_id = k\<rparr> \<Longrightarrow>
       h_sender_id header = c \<Longrightarrow> h_receiver_id header = v \<Longrightarrow> vko_code answer \<noteq> RESULT_SUCCESS"
proof -
  from serves_reach [OF later] m1(1) obtain m2 where m2: "sv_db s2 = Some m2" "db_reach env m1 m2" by auto
  have dead: "key_dead env c v k (t_keys (tbl m2))" using m1(2,3) m2(2) by (auto intro: key_dead_reach)
  show "\<not> ak_valid rk" if "getActiveKey env c v k s2 = Some (rk, s3)"
    using getActiveKey_checked [OF that _ m2(1)] key_dead_check [OF dead] by blast
  show "vko_code answer \<noteq> RESULT_SUCCESS"
    if chk: "secKeyCheck env p s2 = Some (answer, s4)" "rq_header p = Some header" "rq_body p = KeyCheckReq \<lparr>kcr_key_id = k\<rparr>"
      "h_sender_id header = c" "h_receiver_id header = v"
  proof -
    from chk m2(1) obtain b m3 where ck: "checkSecKey env c v k m2 = Some (b, m3)"
      by (auto simp: secKeyCheck_def check_key_def Let_def bind_eq_Some_conv)
    with key_dead_check [OF dead ck] chk m2(1) show ?thesis
      by (auto simp: secKeyCheck_def check_key_def Let_def dest!: makeKeyResponse_fields(1))
  qed
qed

text \<open>C2. Logout is final for the running server: after a logout that was answered with success, no
  sequence of requests, whatever their contents and whatever becomes of their statements, brings the key
  back: the message service never hands it out again, and no key check confirms it again.\<close>

theorem logout_forever:
  assumes run: "SeckeyLogout env p s = Some (resp, s1)" and code: "vko_code resp = RESULT_SUCCESS"
    and pk: "rq_header p = Some header" "rq_body p = KeyLogoutReq req"
    and db: "sv_db s = Some m" "snap m = None" and later: "serves env s1 s2"
  shows "(getActiveKey env (h_sender_id header) (h_receiver_id header) (klr_key_id req) s2 = Some (rk, s3) \<longrightarrow> \<not> ak_valid rk) \<and>
     (secKeyCheck env \<lparr>rq_header = Some header, rq_body = KeyCheckReq \<lparr>kcr_key_id = klr_key_id req\<rparr>\<rparr> s2 = Some (answer, s4) \<longrightarrow>
        vko_code answer \<noteq> RESULT_SUCCESS)"
proof -
  from logout_dead [OF run code pk db] obtain m1 where m1: "sv_db s1 = Some m1" "snap m1 = None"
    "key_dead env (h_sender_id header) (h_receiver_id header) (klr_key_id req) (t_keys (tbl m1))" .
  show ?thesis using dead_key_unused [OF m1 later] by auto
qed

theorem logout_forever_witness:
  "\<exists>resp s1. SeckeyLogout calm_env (demo_logout ''alice'' 6) demo_server = Some (resp, s1) \<and>
     vko_code resp = RESULT_SUCCESS \<and>
     (\<exists>rk s3. getActiveKey calm_env ''alice'' ''srv'' 6 s1 = Some (rk, s3) \<and> \<not> ak_valid rk)"
proof -
  have "case SeckeyLogout calm_env (demo_logout ''alice'' 6) demo_server of
      None \<Rightarrow> False
    | Some (resp, s1) \<Rightarrow> vko_code resp = RESULT_SUCCESS \<and> getActiveKey calm_env ''alice'' ''srv'' 6 s1 \<noteq> None"
    by code_simp
  then obtain resp s1 rk s3 where run: "SeckeyLogout calm_env (demo_logout ''alice'' 6) demo_server = Some (resp, s1)"
    and code: "vko_code resp = RESULT_SUCCESS" and get: "getActiveKey calm_env ''alice'' ''srv'' 6 s1 = Some (rk, s3)"
    by (auto split: option.splits)
  have pk: "rq_header (demo_logout ''alice'' 6) = Some (key_header ''alice'' CMD_KEY_LOGOUT_REQ)"
    "rq_body (demo_logout ''alice'' 6) = KeyLogoutReq \<lparr>klr_key_id = 6\<rparr>"
    and db: "sv_db demo_server = Some (fresh_conn demo_tables)" "snap (fresh_conn demo_tables) = None"
    and nm: "h_sender_id (key_header ''alice'' CMD_KEY_LOGOUT_REQ) = ''alice''"
      "h_receiver_id (key_header ''alice'' CMD_KEY_LOGOUT_REQ) = ''srv''"
    by (simp_all add: demo_logout_def demo_server_def key_header_def)
  from logout_forever [OF run code pk db serves_start] get have "\<not> ak_valid rk" by (auto simp: nm)
  with run code get show ?thesis by blast
qed

end
