(* ===== verification/ServerAnswers.thy ===== *)
theory ServerAnswers
  imports ServerProps
begin

text \<open>
  Every request is answered: with a connected database each handler returns a response and leaves the
  connection usable, except a key agreement whose identifiers do not fit the arrays of a cache entry,
  or whose signature is no Base64 text. And every response is addressed: it repeats the message
  identifier of the request, goes from the server to the requester, and has the command and the body of
  the request's kind.
\<close>

section \<open>Operations that return\<close>

definition ends :: "('s \<Rightarrow> bool) \<Rightarrow> ('r \<times> 's) option \<Rightarrow> bool" where
  "ends Q m \<longleftrightarrow> (\<exists>x s'. m = Some (x, s') \<and> Q s')"

lemma ends_Some: "Q s \<Longrightarrow> ends Q (Some (x, s))"
  by (simp add: ends_def)

lemma ends_result: "Q (snd r) \<Longrightarrow> ends Q (Some r)"
  by (cases r) (simp add: ends_def)

lemma ends_bind: "ends Q m \<Longrightarrow> (\<And>x s. m = Some (x, s) \<Longrightarrow> Q s \<Longrightarrow> ends P (f (x, s))) \<Longrightarrow> ends P (m \<bind> f)"
  by (auto simp: ends_def)

lemma ends_let: "Q (snd e) \<Longrightarrow> (\<And>x s. e = (x, s) \<Longrightarrow> Q s \<Longrightarrow> ends P (f x s)) \<Longrightarrow> ends P (case e of (x, s) \<Rightarrow> f x s)"
  by (cases e) simp

lemma ends_if: "(b \<Longrightarrow> ends Q x) \<Longrightarrow> (\<not> b \<Longrightarrow> ends Q y) \<Longrightarrow> ends Q (if b then x else y)"
  by simp

lemma ends_query: "m_conn m \<Longrightarrow> ends m_conn (mysql_query env q m)"
  using mysql_query_total mysql_query_frame unfolding ends_def by blast

lemma store_conn: "m_conn m \<Longrightarrow> m_conn (snd (mysql_store_result env m))"
  by (simp add: mysql_store_result_def Let_def)

lemma ends_store:
  "m_conn m \<Longrightarrow> (\<And>x s. m_conn s \<Longrightarrow> ends P (f x s)) \<Longrightarrow>
   ends P (case mysql_store_result env m of (x, s) \<Rightarrow> f x s)"
  using store_conn [of m env] by (auto intro: ends_let [where Q = m_conn])

lemma ends_rollback: "m_conn m \<Longrightarrow> ends m_conn (rollback env r m)"
  unfolding rollback_def by (auto intro!: ends_bind [OF ends_query] ends_Some)

lemma ends_lock_keysn: "m_conn m \<Longrightarrow> ends m_conn (lock_keysn env m)"
  unfolding lock_keysn_def
  by (auto split: option.split intro!: ends_bind [OF ends_query] ends_if ends_store ends_Some)

lemma ends_lock_active: "m_conn m \<Longrightarrow> ends m_conn (lock_active env c v m)"
  unfolding lock_active_def
  by (auto split: option.split intro!: ends_bind [OF ends_query] ends_if ends_store ends_Some)

lemma ends_rotate_and_insert: "m_conn m \<Longrightarrow> ends m_conn (rotate_and_insert env c v sk k old m)"
  unfolding rotate_and_insert_def
  by (auto intro!: ends_bind [OF ends_query] ends_if ends_Some ends_query)

lemma ends_rotation_body: "m_conn m \<Longrightarrow> ends m_conn (rotation_body env p m)"
  unfolding rotation_body_def Let_def
  by (auto split: option.split
      intro!: ends_bind [OF ends_lock_keysn] ends_bind [OF ends_lock_active] ends_bind [OF ends_rotate_and_insert] ends_Some)

lemma ends_writeSecKeyWithTrans: "m_conn m \<Longrightarrow> ends m_conn (writeSecKeyWithTrans env p m)"
  unfolding writeSecKeyWithTrans_def
  by (auto split: option.split
      intro!: ends_if ends_bind [OF ends_query] ends_bind [OF ends_rotation_body] ends_rollback ends_Some)

lemma ends_logoutSecKey: "m_conn m \<Longrightarrow> ends m_conn (logoutSecKey env c v k m)"
  unfolding logoutSecKey_def by (auto intro!: ends_bind [OF ends_query] ends_if ends_Some)

section \<open>Key handlers\<close>

lemma ends_check_key: "db_up s \<Longrightarrow> ends db_up (check_key env c v k s)"
  using check_key_returns [of s env c v k] by (auto simp: ends_def)

lemma ends_on_db:
  "ends m_conn f \<Longrightarrow> ends db_up (f \<bind> (\<lambda>(x, m). Some (x, s\<lparr>sv_db := Some m\<rparr>)))"
  by (auto simp: ends_def db_up_def)

lemma ends_revoke_key: "db_up s \<Longrightarrow> ends db_up (revoke_key env c v k s)"
  unfolding revoke_key_def by (cases "sv_db s") (auto simp: db_up_def intro!: ends_on_db ends_logoutSecKey)

lemma ends_store_key: "db_up s \<Longrightarrow> ends db_up (store_key env node s)"
  unfolding store_key_def by (cases "sv_db s") (auto simp: db_up_def intro!: ends_on_db ends_writeSecKeyWithTrans)

lemma db_up_response: "db_up s \<Longrightarrow> db_up (snd (makeKeyResponse env p c code msg k d s))"
  using makeKeyResponse_fields(5) [of env p c code msg k d s] by (simp add: db_up_def split: prod.split)
     (metis prod.collapse)

lemma db_up_cache_set [simp]: "db_up (snd (cache_set_status c v st s)) = db_up s"
  by (simp add: cache_set_status_def db_up_def split: prod.split)

lemma ends_secKeyCheck: "db_up s \<Longrightarrow> ends db_up (secKeyCheck env p s)"
  unfolding secKeyCheck_def Let_def
  by (auto split: option.split intro!: ends_bind [OF ends_check_key] ends_if ends_result db_up_response)

lemma ends_SeckeyLogout: "db_up s \<Longrightarrow> ends db_up (SeckeyLogout env p s)"
  unfolding SeckeyLogout_def Let_def
  by (auto split: option.split
      intro!: ends_bind [OF ends_revoke_key] ends_if ends_result db_up_response ends_let [where Q = db_up])

text \<open>What the answer to a key agreement needs of OpenSSL, and of the request.\<close>

definition openssl_returns :: "env \<Rightarrow> bool" where
  "openssl_returns env \<longleftrightarrow> (\<forall>f. e_pem_public env f \<noteq> None) \<and> (\<forall>k m s. e_rsa_verify env k m s \<noteq> None) \<and>
     (\<forall>j k m. e_rsa_encrypt env j k m \<noteq> None) \<and> (\<forall>x. length x = 16 \<longrightarrow> length (e_b64_enc env x) < 128)"

definition request_fits :: "env \<Rightarrow> RequestPacket \<Rightarrow> bool" where
  "request_fits env p \<longleftrightarrow>
     (case (rq_header p, key_agree_req (rq_body p)) of
        (Some h, Some req) \<Rightarrow> 0 \<le> fst (e_b64_read env (kar_sign req)) \<and>
          length (c_str (h_sender_id h)) < 12 \<and> length (c_str (h_receiver_id h)) < 12
      | _ \<Rightarrow> True)"

lemma openssl_returnsD:
  assumes "openssl_returns env"
  shows "\<exists>x. e_pem_public env f = Some x" "\<exists>b. e_rsa_verify env k d sg = Some b" "\<exists>x. e_rsa_encrypt env j k d = Some x"
    "length key = 16 \<Longrightarrow> length (b64_encode env key) < 128"
  using assms unfolding openssl_returns_def b64_encode_def by (metis option.exhaust)+

lemma ends_verify:
  assumes "openssl_returns env" and "0 \<le> fst (e_b64_read env (kar_sign req))" and "db_up s"
  shows "ends db_up (verify_agreement env header req s)"
proof -
  from assms(2) have b64: "fromBase64 env (kar_sign req) \<noteq> None"
    by (auto simp: fromBase64_def split: prod.splits)
  obtain s1 where s1: "write_file env (h_sender_id header @ ''_pub.pem'') (kar_public_key req) s = s1" and "db_up s1"
    using assms(3) by (auto simp: write_file_def Let_def db_up_def)
  moreover have "\<exists>rsa. RsaCrypto_new env f False = Some rsa" for f
    using openssl_returnsD(1) [OF assms(1), of f] by (auto simp: RsaCrypto_new_def initPublicKey_def split: option.splits)
  moreover have "\<exists>b. rsaVerify env rsa d (kar_sign req) = Some b" for rsa d
    using openssl_returnsD(2) [OF assms(1)] b64 by (auto simp: rsaVerify_def)
  ultimately show ?thesis
    unfolding verify_agreement_def ends_def Let_def by (metis (no_types, lifting) bind.bind_lunit)
qed

lemma agreed_node_fits:
  assumes "length (c_str a) < 12" and "length (c_str b) < 12" and "length (b64_encode env key) < 128"
  shows "\<exists>node. agreed_node env a b key = Some node"
proof -
  have "length (c_str x) \<le> length x" for x
    by (simp add: c_str_def length_takeWhile_le)
  from le_less_trans [OF this assms(3)] have "length (c_str (b64_encode env key)) < 128" .
  with assms(1,2) show ?thesis
    by (auto simp: agreed_node_def c_strcpy_def Let_def node_new_def)
qed

lemma ends_seckeyAgree:
  assumes ssl: "openssl_returns env" and fits: "request_fits env p" and up: "db_up s"
  shows "ends db_up (seckeyAgree env p s)"
proof (cases "\<exists>h req. rq_header p = Some h \<and> key_agree_req (rq_body p) = Some req")
  case False
  then show ?thesis
    unfolding seckeyAgree_def by (auto split: option.split intro!: ends_result db_up_response up)
next
  case True
  then obtain h req where pk: "rq_header p = Some h" "key_agree_req (rq_body p) = Some req" by blast
  with fits have f: "0 \<le> fst (e_b64_read env (kar_sign req))" "length (c_str (h_sender_id h)) < 12"
    "length (c_str (h_receiver_id h)) < 12" by (auto simp: request_fits_def)
  have rest: "ends db_up (
      let (aesKey, s) = getRandKey env Len16 s1 in
      rsaPublicEncrypt env (pr_ssl (sv_proc s)) rsa aesKey \<bind> (\<lambda>secKey.
        let s = s\<lparr>sv_proc := (sv_proc s)\<lparr>pr_ssl := Suc (pr_ssl (sv_proc s))\<rparr>\<rparr> in
        agreed_node env (h_sender_id h) (h_receiver_id h) aesKey \<bind> (\<lambda>node.
          store_key env node s \<bind> (\<lambda>((bl, node), s).
            if \<not> bl then
              Some (makeKeyResponse env p CMD_KEY_AGREE_RESP RESULT_KEY_AGREE_FAILED ''write db failed'' 0 [] s)
            else let (_, s) = cache_write node s in
              Some (makeKeyResponse env p CMD_KEY_AGREE_RESP RESULT_SUCCESS ''key agreement success''
                (n_seckeyID node) secKey s)))))"
    if up1: "db_up s1" for s1 rsa
  proof -
    obtain key s2 where k: "getRandKey env Len16 s1 = (key, s2)" by (cases "getRandKey env Len16 s1")
    note ke = getRandKey_effect [OF k]
    obtain secKey where sk: "rsaPublicEncrypt env (pr_ssl (sv_proc s2)) rsa key = Some secKey"
      using openssl_returnsD(3) [OF ssl, of "pr_ssl (sv_proc s2)" "rsa_pub rsa" key] by (auto simp: rsaPublicEncrypt_def)
    from ke(1) have "length (b64_encode env key) < 128"
      by (intro openssl_returnsD(4) [OF ssl]) (simp add: Len16_def)
    with agreed_node_fits [OF f(2,3)] obtain node where nd: "agreed_node env (h_sender_id h) (h_receiver_id h) key = Some node"
      by blast
    let ?s = "s2\<lparr>sv_proc := (sv_proc s2)\<lparr>pr_ssl := Suc (pr_ssl (sv_proc s2))\<rparr>\<rparr>"
    have "db_up ?s" using up1 ke(2) by (simp add: db_up_def)
    moreover have "db_up (snd (cache_write n x)) = db_up x" for n x
      by (simp add: cache_write_def db_up_def split: prod.split)
    ultimately show ?thesis
      unfolding k prod.case sk nd bind.bind_lunit Let_def
      by (auto intro!: ends_bind [OF ends_store_key] ends_if ends_result db_up_response ends_let [where Q = db_up])
  qed
  show ?thesis
    unfolding seckeyAgree_def pk prod.case option.case
    by (rule ends_bind [OF ends_verify [OF ssl f(1) up]])
       (auto intro!: ends_if ends_result db_up_response rest)
qed

section \<open>Query handlers\<close>

definition qs_up :: "mysql option query_state \<Rightarrow> bool" where
  "qs_up q \<longleftrightarrow> (case qs_store q of None \<Rightarrow> False | Some m \<Rightarrow> m_conn m)"

definition some_conn :: "mysql option \<Rightarrow> bool" where
  "some_conn d \<longleftrightarrow> (case d of None \<Rightarrow> False | Some m \<Rightarrow> m_conn m)"

lemma ends_queryMessageById: "some_conn d \<Longrightarrow> ends some_conn (queryMessageById env i d)"
proof -
  assume "some_conn d"
  then obtain m where m: "d = Some m" "m_conn m" by (cases d) (auto simp: some_conn_def)
  have "ends m_conn (queryMessageLogById env i out m)" for out
    unfolding queryMessageLogById_def
    by (auto split: option.split list.split intro!: ends_bind [OF ends_query] ends_if ends_store ends_Some m(2))
  from this [of "cleared_result i"] m(1) show ?thesis
    by (auto simp: queryMessageById_def ends_def some_conn_def Let_def)
qed

lemma ends_queryRecent: "some_conn d \<Longrightarrow> ends some_conn (queryRecentMessagesBySender env who n d)"
proof -
  assume "some_conn d"
  then obtain m where m: "d = Some m" "m_conn m" by (cases d) (auto simp: some_conn_def)
  have "ends m_conn (queryRecentRows env who n m)"
    unfolding queryRecentRows_def
    by (auto split: option.split intro!: ends_bind [OF ends_query] ends_if ends_store ends_Some m(2))
  with m(1) show ?thesis
    by (auto simp: queryRecentMessagesBySender_def ends_def some_conn_def)
qed

lemma qs_up_store: "qs_up q \<longleftrightarrow> some_conn (qs_store q)"
  by (simp add: qs_up_def some_conn_def)

lemma query_audit_returns:
  assumes "qs_up q"
  shows "\<exists>q'. query_audit env i (logAction env) nd a tg c d q = Some q' \<and> qs_up q'"
proof -
  obtain l seq w where g: "generateQueryAuditId env i (qs_seq q) (qs_proc q) = (l, seq, w)"
    by (cases "generateQueryAuditId env i (qs_seq q) (qs_proc q)")
  obtain t w2 where t: "cur_time_text env w = (t, w2)" by (cases "cur_time_text env w")
  from assms obtain m where m: "qs_store q = Some m" "m_conn m" by (cases "qs_store q") (auto simp: qs_up_def)
  from logAction_at_returns [OF m(2), of env l nd a tg c d t] g t m(1) show ?thesis
    by (auto simp: query_audit_def logAction_def qs_up_def)
qed

lemma ends_audit: "qs_up q \<Longrightarrow> (\<And>q'. qs_up q' \<Longrightarrow> ends P (f q')) \<Longrightarrow>
    ends P (query_audit env i (logAction env) nd a tg c d q \<bind> f)"
  using query_audit_returns [of q env i nd a tg c d] by auto

lemma ends_read:
  assumes "ends some_conn m" and "\<And>x st. some_conn st \<Longrightarrow> ends P (f (x, st))"
  shows "ends P (m \<bind> f)"
  using assms by (auto intro: ends_bind)

lemma qs_up_header: "qs_up q \<Longrightarrow> qs_up (snd (query_response_header env i p c q))"
  by (auto simp: query_response_header_def qs_up_def Let_def split: prod.split)

lemma ends_handleQueryMessage:
  assumes "qs_up q"
  shows "ends qs_up (handleQueryMessage env i (queryMessageById env) (logAction env) p q)"
proof -
  obtain h q1 where h: "query_response_header env i p CMD_QUERY_MSG_RESP q = (h, q1)"
    by (cases "query_response_header env i p CMD_QUERY_MSG_RESP q")
  with qs_up_header [OF assms, of env i p CMD_QUERY_MSG_RESP] have q1: "qs_up q1" by simp
  then have st: "some_conn (qs_store q1)" by (simp add: qs_up_store)
  show ?thesis
    unfolding handleQueryMessage_def h Let_def prod.case
    by (auto split: option.split simp: qs_up_store
        intro!: ends_audit ends_Some ends_if ends_read [OF ends_queryMessageById] q1 st)
qed

lemma ends_handleQueryMessageList:
  assumes "qs_up q"
  shows "ends qs_up (handleQueryMessageList env i (queryRecentMessagesBySender env) (logAction env) p q)"
proof -
  obtain h q1 where h: "query_response_header env i p CMD_QUERY_MSG_LIST_RESP q = (h, q1)"
    by (cases "query_response_header env i p CMD_QUERY_MSG_LIST_RESP q")
  with qs_up_header [OF assms, of env i p CMD_QUERY_MSG_LIST_RESP] have q1: "qs_up q1" by simp
  then have st: "some_conn (qs_store q1)" by (simp add: qs_up_store)
  obtain who limit where wl: "(case query_msg_list_req (rq_body p) of
      Some r \<Rightarrow> (qml_sender_id r, qml_limit r) | None \<Rightarrow> ([], 0)) = (who, limit)"
    by (cases "case query_msg_list_req (rq_body p) of Some r \<Rightarrow> (qml_sender_id r, qml_limit r) | None \<Rightarrow> ([], 0)")
  show ?thesis
  proof (cases "validateQueryListRequest p")
    case None
    show ?thesis
      unfolding handleQueryMessageList_def h Let_def prod.case None option.case wl
      by (auto simp: qs_up_store intro!: ends_audit ends_Some ends_if ends_read [OF ends_queryRecent] q1 st)
  next
    case (Some err)
    show ?thesis
      unfolding handleQueryMessageList_def h Let_def prod.case Some option.case
      by (auto intro!: ends_audit ends_Some q1)
  qed
qed

lemma ends_view:
  assumes "ends qs_up m"
  shows "ends db_up (m \<bind> (\<lambda>(resp, q). Some (resp, query_back q s)))"
  using assms by (auto simp: ends_def qs_up_def db_up_def query_back_def)

lemma qs_up_view: "qs_up (query_view s) = db_up s"
  by (simp add: qs_up_def db_up_def query_view_def)

section \<open>Properties\<close>

lemma ends_respond: "ends db_up r \<Longrightarrow> ends db_up (respond init r)"
  by (auto simp: ends_def)

lemma ends_dispatch:
  assumes "db_up s" and "openssl_returns env" and "request_fits env p"
  shows "ends db_up (dispatch env p s)"
proof -
  have uns: "db_up (snd (unsupported_response env p s))"
    using assms(1) by (simp add: unsupported_response_def service_time_def db_up_def Let_def split: prod.split)
  have q: "ends db_up (service_query env p s)" "ends db_up (service_query_list env p s)"
    using assms(1) unfolding service_query_def service_query_list_def
    by (auto intro!: ends_view ends_handleQueryMessage ends_handleQueryMessageList simp: qs_up_view)
  have send: "ends db_up (handleSendMessage env p s)"
    using handleSendMessage_returns [OF assms(1), of env p] by (auto simp: ends_def)
  show ?thesis
  proof (cases "rq_body p")
    case NoRequest
    with uns show ?thesis by (auto simp: dispatch_def ends_def split: prod.split)
  qed (use q send ends_secKeyCheck [OF assms(1)] ends_SeckeyLogout [OF assms(1)] ends_seckeyAgree [OF assms(2,3,1)]
      in \<open>simp_all add: dispatch_def ends_respond\<close>)
qed


lemma demo_server_up: "db_up demo_server"
  by (simp add: demo_server_def demo_service_def db_up_def)

lemma length_esc_enc: "length (esc_enc s) \<le> 2 * length s"
  by (induction s) auto

lemma calm_openssl: "openssl_returns calm_env"
proof -
  have "length (esc_enc x) < 128" if "length x = 16" for x
    using length_esc_enc [of x] that by simp
  then show ?thesis by (simp add: openssl_returns_def)
qed


text \<open>C25. The condition on the identifiers is needed: when the signature of a key agreement is accepted and
  the identifier of the requester or of the server has 12 bytes or more, the copy into the cache entry runs
  past its array; the handler never gets to the database. Anybody who holds any RSA key can send such a
  request.\<close>

theorem agreement_overflow:
  assumes "rq_header p = Some header" and "rq_body p = KeyAgreeReq req"
    and "verify_agreement env header req s = Some ((True, rsa), s1)"
    and "12 \<le> length (c_str (h_sender_id header)) \<or> 12 \<le> length (c_str (h_receiver_id header))"
  shows "seckeyAgree env p s = None"
proof (rule ccontr)
  assume "seckeyAgree env p s \<noteq> None"
  then obtain resp s' where run: "seckeyAgree env p s = Some (resp, s')" by auto
  obtain aesKey node where "agreed_node env (h_sender_id header) (h_receiver_id header) aesKey = Some node"
    by (rule seckeyAgree_accepted [OF run assms(1-3)])
  with agreed_node_wf(5,6) assms(4) show False by fastforce
qed

theorem agreement_overflow_witness:
  "seckeyAgree calm_env (demo_agree ''twelve_bytes'') demo_server = None"
proof -
  let ?h = "key_header ''twelve_bytes'' CMD_KEY_AGREE_REQ"
  let ?r = "\<lparr>kar_public_key = ''pub'', kar_sign = concat (replicate 16 ''46'')\<rparr>"
  have "case verify_agreement calm_env ?h ?r demo_server of None \<Rightarrow> False | Some ((b, rsa), s1) \<Rightarrow> b"
    by code_simp
  then obtain rsa s1 where v: "verify_agreement calm_env ?h ?r demo_server = Some ((True, rsa), s1)"
    by (auto split: option.splits)
  have "12 \<le> length (c_str (h_sender_id ?h)) \<or> 12 \<le> length (c_str (h_receiver_id ?h))" by code_simp
  with agreement_overflow [OF _ _ v] show ?thesis by (simp add: demo_agree_def)
qed

section \<open>Addresses of the answers\<close>

definition yields :: "('r \<Rightarrow> bool) \<Rightarrow> ('r \<times> 's) option \<Rightarrow> bool" where
  "yields Q m \<longleftrightarrow> (\<forall>x s'. m = Some (x, s') \<longrightarrow> Q x)"

lemma yields_bind: "(\<And>x s. m = Some (x, s) \<Longrightarrow> yields Q (f (x, s))) \<Longrightarrow> yields Q (m \<bind> f)"
  by (auto simp: yields_def bind_eq_Some_conv)

lemma yields_call: "(\<And>x. m = Some x \<Longrightarrow> yields Q (f x)) \<Longrightarrow> yields Q (m \<bind> f)"
  by (auto simp: yields_def bind_eq_Some_conv)

lemma yields_let: "(\<And>x s. e = (x, s) \<Longrightarrow> yields Q (f x s)) \<Longrightarrow> yields Q (case e of (x, s) \<Rightarrow> f x s)"
  by (cases e) simp

lemma yields_if: "(b \<Longrightarrow> yields Q x) \<Longrightarrow> (\<not> b \<Longrightarrow> yields Q y) \<Longrightarrow> yields Q (if b then x else y)"
  by simp

lemma yields_Some: "Q x \<Longrightarrow> yields Q (Some (x, s))"
  by (simp add: yields_def)

text \<open>The header of the answer to \<open>p\<close>.\<close>

definition addressed :: "RequestPacket \<Rightarrow> string \<Rightarrow> int \<Rightarrow> V2HeaderInfo \<Rightarrow> bool" where
  "addressed p serverId command h \<longleftrightarrow> vh_command h = command \<and> vh_senderId h = serverId \<and>
     (\<forall>rh. rq_header p = Some rh \<longrightarrow> vh_messageId h = h_message_id rh \<and> vh_receiverId h = h_sender_id rh)"

lemma send_reject_header:
  "vsp_header resp = h0 \<Longrightarrow> yields (\<lambda>r. vsp_header r = h0) (send_reject env resp c m nd a tg d s)"
  unfolding send_reject_def by (rule yields_call) (simp add: yields_def)

lemma send_store_header:
  assumes "vsp_header resp = h0"
  shows "yields (\<lambda>r. vsp_header r = h0) (send_store env resp h em k enc s)"
  unfolding send_store_def Let_def
  by (intro yields_let yields_bind yields_call)
     (auto intro!: yields_if send_reject_header yields_call yields_let yields_Some assms)

lemma send_deliver_header:
  assumes "vsp_header resp = h0"
  shows "yields (\<lambda>r. vsp_header r = h0) (send_deliver env resp h em pt s)"
proof -
  have enc: "yields (\<lambda>r. vsp_header r = h0)
      (case encryptMessage env key pt (sv_proc s1) of
         (Inl e, w) \<Rightarrow> send_reject env resp c (m e) nd a tg (d e) (s1\<lparr>sv_proc := w\<rparr>)
       | (Inr enc, w) \<Rightarrow> send_store env resp h em k enc (s1\<lparr>sv_proc := w\<rparr>))" for s1 key c m nd a tg d k
    using assms by (auto split: prod.split sum.split intro: send_reject_header send_store_header)
  show ?thesis
    unfolding send_deliver_def Let_def
    by (auto intro!: yields_if yields_bind send_reject_header enc assms)
qed

lemma send_header_addressed: "addressed p (sv_id s) c (fst (send_response_header env p c s))"
  by (auto simp: addressed_def send_response_header_def service_time_def generateServerMessageId_def
      generateScopedId_def Let_def split: option.split prod.split)

lemma handleSendMessage_header:
  "yields (\<lambda>r. addressed p (sv_id s) CMD_SEND_MSG_RESP (vsp_header r)) (handleSendMessage env p s)"
proof -
  obtain h s1 where h: "send_response_header env p CMD_SEND_MSG_RESP s = (h, s1)"
    by (cases "send_response_header env p CMD_SEND_MSG_RESP s")
  obtain t s2 where t: "service_time env s1 = (t, s2)" by (cases "service_time env s1")
  have dec: "yields (\<lambda>r. vsp_header r = h)
      (case decryptMessage env key c n tg a (sv_proc s3) of
         (Inl e, w) \<Rightarrow> send_reject env resp cd (m e) nd ac tgt (d e) (s3\<lparr>sv_proc := w\<rparr>)
       | (Inr pt, w) \<Rightarrow> send_deliver env resp h0 em pt (s3\<lparr>sv_proc := w\<rparr>))"
    if "vsp_header resp = h" for s3 key c n tg a resp cd m nd ac tgt d h0 em
    using that by (auto split: prod.split sum.split intro: send_reject_header send_deliver_header)
  have "yields (\<lambda>r. vsp_header r = h) (handleSendMessage env p s)"
    unfolding handleSendMessage_def h t Let_def prod.case
    by (auto split: option.split intro!: yields_if yields_bind send_reject_header dec)
  with send_header_addressed [of p s CMD_SEND_MSG_RESP env] h show ?thesis by (auto simp: yields_def)
qed

lemma makeKeyResponse_header:
  "makeKeyResponse env p c code msg k d s = (r, s') \<Longrightarrow> addressed p (sv_id s) c (vko_header r)"
  by (auto simp: makeKeyResponse_def buildKeyResponseHeader_def service_time_def addressed_def Let_def
      split: option.splits prod.splits)

lemma yields_response:
  "sv_id s = i \<Longrightarrow> yields (\<lambda>r. addressed p i c (vko_header r)) (Some (makeKeyResponse env p c code msg k d s))"
  by (auto simp: yields_def dest: makeKeyResponse_header)

lemma key_calls_id:
  "check_key env c v k s = Some (b, s') \<Longrightarrow> sv_id s' = sv_id s"
  "revoke_key env c v k s = Some (b, s') \<Longrightarrow> sv_id s' = sv_id s"
  "store_key env node s = Some (x, s') \<Longrightarrow> sv_id s' = sv_id s"
  "cache_set_status c v st s = (i, s') \<Longrightarrow> sv_id s' = sv_id s"
  "cache_write node s = (i, s') \<Longrightarrow> sv_id s' = sv_id s"
  by (auto simp: check_key_def revoke_key_def store_key_def cache_set_status_def cache_write_def bind_eq_Some_conv
      split: option.splits prod.splits)

lemma cache_set_id [simp]: "sv_id (snd (cache_set_status c v st s)) = sv_id s"
  by (simp add: cache_set_status_def split: prod.split)

lemma secKeyCheck_header: "yields (\<lambda>r. addressed p (sv_id s) CMD_KEY_CHECK_RESP (vko_header r)) (secKeyCheck env p s)"
  unfolding secKeyCheck_def Let_def
  by (auto split: option.split intro!: yields_bind yields_if yields_response dest: key_calls_id(1))

lemma SeckeyLogout_header: "yields (\<lambda>r. addressed p (sv_id s) CMD_KEY_LOGOUT_RESP (vko_header r)) (SeckeyLogout env p s)"
  unfolding SeckeyLogout_def Let_def
  by (auto split: option.split intro!: yields_bind yields_let yields_if yields_response dest!: key_calls_id(2,4))

lemma seckeyAgree_header: "yields (\<lambda>r. addressed p (sv_id s) CMD_KEY_AGREE_RESP (vko_header r)) (seckeyAgree env p s)"
  unfolding seckeyAgree_def Let_def
  by (auto split: option.split
      intro!: yields_bind [where m = "verify_agreement _ _ _ _"] yields_bind [where m = "store_key _ _ _"] yields_call
        yields_let yields_if yields_response
      dest!: key_calls_id(3,5) getRandKey_effect(4) verify_agreement_effect(3))

lemma query_header_addressed: "addressed p i c (fst (query_response_header env i p c q))"
  by (auto simp: addressed_def query_response_header_def Let_def split: option.split prod.split)

lemma service_query_header: "yields (\<lambda>r. addressed p (sv_id s) CMD_QUERY_MSG_RESP (vqp_header r)) (service_query env p s)"
proof -
  obtain h q where h: "query_response_header env (sv_id s) p CMD_QUERY_MSG_RESP (query_view s) = (h, q)"
    by (cases "query_response_header env (sv_id s) p CMD_QUERY_MSG_RESP (query_view s)")
  then have a: "addressed p (sv_id s) CMD_QUERY_MSG_RESP h"
    using query_header_addressed [of p "sv_id s" CMD_QUERY_MSG_RESP env "query_view s"] by simp
  have "yields (\<lambda>r. vqp_header r = h)
      (handleQueryMessage env (sv_id s) (queryMessageById env) (logAction env) p (query_view s))"
    unfolding handleQueryMessage_def h Let_def prod.case
    by (auto split: option.split simp: query_response_new_def
        intro!: yields_call yields_bind [where m = "queryMessageById _ _ _"] yields_if yields_Some)
  with a show ?thesis by (auto simp: yields_def service_query_def bind_eq_Some_conv)
qed

lemma service_query_list_header:
  "yields (\<lambda>r. addressed p (sv_id s) CMD_QUERY_MSG_LIST_RESP (vlp_header r)) (service_query_list env p s)"
proof -
  obtain h q where h: "query_response_header env (sv_id s) p CMD_QUERY_MSG_LIST_RESP (query_view s) = (h, q)"
    by (cases "query_response_header env (sv_id s) p CMD_QUERY_MSG_LIST_RESP (query_view s)")
  then have a: "addressed p (sv_id s) CMD_QUERY_MSG_LIST_RESP h"
    using query_header_addressed [of p "sv_id s" CMD_QUERY_MSG_LIST_RESP env "query_view s"] by simp
  have "yields (\<lambda>r. vlp_header r = h)
      (handleQueryMessageList env (sv_id s) (queryRecentMessagesBySender env) (logAction env) p (query_view s))"
    unfolding handleQueryMessageList_def h Let_def prod.case
    by (cases "query_msg_list_req (rq_body p)"; cases "validateQueryListRequest p")
       (auto intro!: yields_call yields_bind [where m = "queryRecentMessagesBySender _ _ _ _"] yields_if yields_Some)
  with a show ?thesis by (auto simp: yields_def service_query_list_def bind_eq_Some_conv)
qed

text \<open>The command and the kind of body that answer a request.\<close>

fun response_command :: "RequestBody \<Rightarrow> int" where
  "response_command (QueryMsgReq r) = CMD_QUERY_MSG_RESP"
| "response_command (QueryMsgListReq r) = CMD_QUERY_MSG_LIST_RESP"
| "response_command (KeyAgreeReq r) = CMD_KEY_AGREE_RESP"
| "response_command (KeyCheckReq r) = CMD_KEY_CHECK_RESP"
| "response_command (KeyLogoutReq r) = CMD_KEY_LOGOUT_RESP"
| "response_command _ = CMD_SEND_MSG_RESP"

fun answers_kind :: "RequestBody \<Rightarrow> ResponseBody \<Rightarrow> bool" where
  "answers_kind (QueryMsgReq r) (QueryMsgResp b) = True"
| "answers_kind (QueryMsgListReq r) (QueryMsgListResp b) = True"
| "answers_kind (KeyAgreeReq r) (KeyOpResp b) = True"
| "answers_kind (KeyCheckReq r) (KeyOpResp b) = True"
| "answers_kind (KeyLogoutReq r) (KeyOpResp b) = True"
| "answers_kind (SendMsgReq r) (SendMsgResp b) = True"
| "answers_kind NoRequest (SendMsgResp b) = (sr_code b = RESULT_INVALID_REQUEST \<and> sr_delivery_status b = DELIVERY_REJECTED)"
| "answers_kind _ _ = False"

text \<open>C26. Answers are addressed: whatever the request and its outcome, the response has a header that goes
  from the server to the requester under the message identifier of the request, with the response command
  of the request's kind, and a body of that kind; a request without a body is rejected as invalid.\<close>

theorem response_addressed:
  assumes run: "dispatch env p s = Some (resp, s')" and "rq_header p = Some rh"
  shows "\<exists>h. rs_header resp = Some h \<and> h_message_id h = h_message_id rh \<and> h_sender_id h = sv_id s \<and>
     h_receiver_id h = h_sender_id rh \<and> h_command h = response_command (rq_body p) \<and>
     answers_kind (rq_body p) (rs_body resp)"
proof -
  have uns: "addressed p (sv_id s) CMD_SEND_MSG_RESP (vsp_header (fst (unsupported_response env p s)))"
    "vsp_code (fst (unsupported_response env p s)) = RESULT_INVALID_REQUEST"
    "vsp_deliveryStatus (fst (unsupported_response env p s)) = DELIVERY_REJECTED"
    by (auto simp: unsupported_response_def service_time_def addressed_def empty_header_def Let_def
        split: option.splits prod.splits)
  note heads = handleSendMessage_header [of p s env] service_query_header [of p s env] service_query_list_header [of p s env]
    seckeyAgree_header [of p s env] secKeyCheck_header [of p s env] SeckeyLogout_header [of p s env]
  show ?thesis
    using run assms(2) uns heads
    by (cases "rq_body p")
       (auto simp: dispatch_def yields_def addressed_def init_send_resp_def init_query_resp_def init_list_resp_def
          init_key_resp_def Let_def split: prod.splits)
qed

theorem response_addressed_witness:
  "\<exists>resp s' h. dispatch calm_env (demo_check ''alice'' 6) demo_server = Some (resp, s') \<and>
     rs_header resp = Some h \<and> h_message_id h = ''k1'' \<and> h_receiver_id h = ''alice'' \<and> h_command h = CMD_KEY_CHECK_RESP"
proof -
  have "dispatch calm_env (demo_check ''alice'' 6) demo_server \<noteq> None" by code_simp
  then obtain resp s' where run: "dispatch calm_env (demo_check ''alice'' 6) demo_server = Some (resp, s')" by auto
  have "rq_header (demo_check ''alice'' 6) = Some (key_header ''alice'' CMD_KEY_CHECK_REQ)" by (simp add: demo_check_def)
  from response_addressed [OF run this] run show ?thesis by (auto simp: demo_check_def key_header_def)
qed

end
