(* ===== verification/Framing.thy ===== *)
theory Framing
  imports Prelude
begin

text \<open>
  \<open>TcpSocket.cpp\<close>: connecting with a time limit, and sending and receiving one frame, four bytes of
  length in network order followed by the payload. A connection is a pair of byte streams: what this
  side has written, and what is still to be read of what the peer has written. What the system calls
  return is a parameter, indexed by the number of the call: \<open>recv\<close> and \<open>send\<close> move as many bytes as
  they like, and any call may fail. The code of \<open>_WIN32\<close> is left aside. An operation that gives
  \<^const>\<open>None\<close> does not return: it waits forever, throws, or is killed by \<open>SIGPIPE\<close>, which the program
  does not ignore.
\<close>

unbundle bit_operations_syntax

section \<open>The system calls\<close>

abbreviation (input) ParamError :: int where "ParamError \<equiv> 3001"
abbreviation (input) TimeoutError :: int where "TimeoutError \<equiv> 3002"
abbreviation (input) PeerCloseError :: int where "PeerCloseError \<equiv> 3003"
abbreviation (input) SyscallError :: int where "SyscallError \<equiv> 3005"

abbreviation (input) EINTR :: int where "EINTR \<equiv> 4"
abbreviation (input) ETIMEDOUT :: int where "ETIMEDOUT \<equiv> 110"
abbreviation (input) EINPROGRESS :: int where "EINPROGRESS \<equiv> 115"

text \<open>\<open>Moves n\<close>: up to \<open>n\<close> bytes are moved, at least one where there is one; \<open>Fails e\<close>: -1 with that
  \<open>errno\<close>; \<open>Nothing\<close>: \<open>send\<close> returns 0; \<open>Pipe\<close>: the peer is gone and the signal kills the process.\<close>

datatype io_fate = Moves nat | Fails int | Nothing | Pipe

record net =
  n_socket :: "nat \<Rightarrow> int \<times> int"
  n_pton :: "string \<Rightarrow> int"
  n_fcntl :: "nat \<Rightarrow> int"
  n_connect :: "nat \<Rightarrow> int \<times> int"
  n_select :: "nat \<Rightarrow> int \<times> int"
  n_soerror :: "nat \<Rightarrow> int"
  n_recv :: "nat \<Rightarrow> io_fate"
  n_send :: "nat \<Rightarrow> io_fate"

text \<open>\<open>ts_ends\<close>: the peer closes its side after the bytes of \<open>ts_rx\<close> (else reading on waits forever).\<close>

record TcpSocket =
  m_sockfd :: int
  ts_tick :: nat
  ts_errno :: int
  ts_block :: bool
  ts_tx :: string
  ts_rx :: string
  ts_ends :: bool

definition tick :: "TcpSocket \<Rightarrow> nat \<times> TcpSocket" where
  "tick s = (ts_tick s, s\<lparr>ts_tick := Suc (ts_tick s)\<rparr>)"

definition TcpSocket_new :: "int \<Rightarrow> TcpSocket" where
  "TcpSocket_new fd = \<lparr>m_sockfd = fd, ts_tick = 0, ts_errno = 0, ts_block = True, ts_tx = [], ts_rx = [], ts_ends = True\<rparr>"

text \<open>\<open>recv(fd, buf, n, 0)\<close>: the bytes, none at the end of the stream, or the error.\<close>

definition sys_recv :: "net \<Rightarrow> nat \<Rightarrow> TcpSocket \<Rightarrow> (string option \<times> TcpSocket) option" where
  "sys_recv net n s =
     (let (k, s) = tick s in
      case n_recv net k of
        Moves j \<Rightarrow>
          (if ts_rx s = [] then (if ts_ends s then Some (Some [], s) else None)
           else let i = max 1 (min j (min n (length (ts_rx s)))) in
             Some (Some (take i (ts_rx s)), s\<lparr>ts_rx := drop i (ts_rx s)\<rparr>))
      | Fails e \<Rightarrow> Some (None, s\<lparr>ts_errno := e\<rparr>)
      | Nothing \<Rightarrow> Some (Some [], s)
      | Pipe \<Rightarrow> Some (None, s))"

text \<open>\<open>send(fd, buf, n, 0)\<close>: its return value.\<close>

definition sys_send :: "net \<Rightarrow> string \<Rightarrow> TcpSocket \<Rightarrow> (int \<times> TcpSocket) option" where
  "sys_send net buf s =
     (let (k, s) = tick s in
      case n_send net k of
        Moves j \<Rightarrow> (let i = max 1 (min j (length buf)) in Some (int i, s\<lparr>ts_tx := ts_tx s @ take i buf\<rparr>))
      | Fails e \<Rightarrow> Some (-1, s\<lparr>ts_errno := e\<rparr>)
      | Nothing \<Rightarrow> Some (0, s)
      | Pipe \<Rightarrow> None)"

definition sys_select :: "net \<Rightarrow> TcpSocket \<Rightarrow> int \<times> TcpSocket" where
  "sys_select net s =
     (let (k, s) = tick s; (r, e) = n_select net k in (r, if r < 0 then s\<lparr>ts_errno := e\<rparr> else s))"

section \<open>Reading and writing all of a buffer\<close>

text \<open>\<open>left\<close> is positive where the size of the buffer is compared with it.\<close>

function readn_loop :: "net \<Rightarrow> int \<Rightarrow> string \<Rightarrow> TcpSocket \<Rightarrow> ((int \<times> string) \<times> TcpSocket) option" where
  "readn_loop net left acc s =
     (if left \<le> 0 then Some ((0, acc), s)
      else
        (case sys_recv net (nat (min left 1024)) s of
           None \<Rightarrow> None
         | Some (None, s') \<Rightarrow> Some ((-1, acc), s')
         | Some (Some bytes, s') \<Rightarrow>
             (if bytes = [] then Some ((PeerCloseError, acc), s')
              else readn_loop net (left - int (length bytes)) (acc @ bytes) s')))"
  by pat_completeness auto
termination
  by (relation "measure (\<lambda>(net, left, acc, s). nat left)") auto

definition readn :: "net \<Rightarrow> int \<Rightarrow> TcpSocket \<Rightarrow> ((int \<times> string) \<times> TcpSocket) option" where
  "readn net len s = readn_loop net len [] s"

text \<open>A \<open>send\<close> interrupted by a signal is repeated, without limit.\<close>

partial_function (option) writen_loop :: "net \<Rightarrow> string \<Rightarrow> TcpSocket \<Rightarrow> (int \<times> TcpSocket) option" where
  "writen_loop net buf s =
     (if buf = [] then Some (0, s)
      else
        (case sys_send net buf s of
           None \<Rightarrow> None
         | Some (written, s') \<Rightarrow>
             (if written < 0 then
                (if ts_errno s' = EINTR then writen_loop net buf s' else Some (-1, s'))
              else if written = 0 then Some (-1, s')
              else writen_loop net (drop (nat written) buf) s')))"

declare writen_loop.simps [code, simp del]

definition writen :: "net \<Rightarrow> string \<Rightarrow> TcpSocket \<Rightarrow> (int \<times> TcpSocket) option" where
  "writen net sendData s = writen_loop net sendData s"

section \<open>Time limits\<close>

definition writeWithTimeout :: "net \<Rightarrow> TcpSocket \<Rightarrow> int \<times> TcpSocket" where
  "writeWithTimeout net s =
     (let (r, s) = sys_select net s in (if r = 0 then TimeoutError else if r > 0 then 0 else -1, s))"

definition readWithTimeout :: "net \<Rightarrow> TcpSocket \<Rightarrow> int \<times> TcpSocket" where
  "readWithTimeout net s =
     (let (r, s) = sys_select net s in (if r = 0 then TimeoutError else if r > 0 then 0 else -1, s))"

section \<open>Frames\<close>

text \<open>The four bytes of a 32-bit number in network order.\<close>

definition be32 :: "32 word \<Rightarrow> string" where
  "be32 w = map (\<lambda>i. char_of (unat (drop_bit i w))) [24, 16, 8, 0]"

definition of_be32 :: "string \<Rightarrow> 32 word" where
  "of_be32 b = push_bit 24 (word_of_nat (of_char (b ! 0))) OR push_bit 16 (word_of_nat (of_char (b ! 1))) OR
     push_bit 8 (word_of_nat (of_char (b ! 2))) OR word_of_nat (of_char (b ! 3))"

text \<open>\<open>int dataLen = sendData.size()\<close> keeps the low 32 bits; a negative length, or one that overflows
  \<open>4 + dataLen\<close>, is no size for the buffer.\<close>

definition sendMsg :: "net \<Rightarrow> string \<Rightarrow> int \<Rightarrow> TcpSocket \<Rightarrow> (int \<times> TcpSocket) option" where
  "sendMsg net sendData timeout s =
     (if m_sockfd s < 0 \<or> timeout < 0 then Some (ParamError, s)
      else
        let netLen = word_of_nat (length sendData) :: 32 word; dataLen = sint netLen in
        if dataLen < 0 \<or> 2 ^ 31 \<le> 4 + dataLen then None
        else
          let sendBuf = be32 netLen @ take (nat dataLen) sendData; (ret, s) = writeWithTimeout net s in
          if ret = 0 then
            (case writen net sendBuf s of
               None \<Rightarrow> None
             | Some (ret, s) \<Rightarrow> if ret \<noteq> 0 then Some (SyscallError, s) else Some (0, s))
          else if ret = -1 then Some (SyscallError, s)
          else if ret = TimeoutError then Some (TimeoutError, s)
          else Some (SyscallError, s))"

definition recvMsg :: "net \<Rightarrow> int \<Rightarrow> TcpSocket \<Rightarrow> ((int \<times> string) \<times> TcpSocket) option" where
  "recvMsg net timeout s =
     (if m_sockfd s < 0 \<or> timeout < 0 then Some ((ParamError, []), s)
      else
        let (ret, s) = readWithTimeout net s in
        if ret \<noteq> 0 then Some ((ret, []), s)
        else do {
          ((ret, lenBuf), s) \<leftarrow> readn net 4 s;
          if ret \<noteq> 0 then Some ((ret, []), s)
          else do {
            let netLen = sint (of_be32 lenBuf);
            ((ret, recvData), s) \<leftarrow> readn net netLen s;
            if ret \<noteq> 0 then Some ((ret, recvData), s) else Some ((0, recvData), s)
          }
        })"

section \<open>Connecting\<close>

definition setNonBlock :: "net \<Rightarrow> TcpSocket \<Rightarrow> int \<times> TcpSocket" where
  "setNonBlock net s = (let (k, s) = tick s; r = n_fcntl net k in (r, if r = 0 then s\<lparr>ts_block := False\<rparr> else s))"

definition setBlock :: "net \<Rightarrow> TcpSocket \<Rightarrow> int \<times> TcpSocket" where
  "setBlock net s = (let (k, s) = tick s; r = n_fcntl net k in (r, if r = 0 then s\<lparr>ts_block := True\<rparr> else s))"

definition connectTimeout :: "net \<Rightarrow> TcpSocket \<Rightarrow> int \<times> TcpSocket" where
  "connectTimeout net s =
     (let (r, s) = setNonBlock net s in
      if r \<noteq> 0 then (-1, s)
      else
        let (k, s) = tick s; (r, e) = n_connect net k in
        if r = 0 then (0, snd (setBlock net s))
        else
          let s = s\<lparr>ts_errno := e\<rparr> in
          if e \<noteq> EINPROGRESS then (-1, snd (setBlock net s))
          else
            let (r, s) = sys_select net s in
            if r < 0 then (-1, snd (setBlock net s))
            else if r = 0 then (TimeoutError, (snd (setBlock net s))\<lparr>ts_errno := ETIMEDOUT\<rparr>)
            else
              let (k, s) = tick s; opt = n_soerror net k in
              if opt \<noteq> 0 then (-1, (snd (setBlock net s))\<lparr>ts_errno := opt\<rparr>)
              else (0, snd (setBlock net s)))"

definition connectToHost :: "net \<Rightarrow> string \<Rightarrow> 16 word \<Rightarrow> int \<Rightarrow> TcpSocket \<Rightarrow> int \<times> TcpSocket" where
  "connectToHost net ip port timeout s =
     (if port = 0 \<or> timeout < 0 then (ParamError, s)
      else
        let (k, s) = tick s; (fd, e) = n_socket net k; s = s\<lparr>m_sockfd := fd\<rparr> in
        if fd < 0 then (e, s\<lparr>ts_errno := e\<rparr>)
        else if n_pton net (c_str ip) \<le> 0 then (ParamError, s)
        else
          let (ret, s) = connectTimeout net s in
          if ret < 0 then
            (if ret = -1 \<and> ts_errno s = ETIMEDOUT then (TimeoutError, s) else (ts_errno s, s))
          else (ret, s))"

definition disconnect :: "TcpSocket \<Rightarrow> int \<times> TcpSocket" where
  "disconnect s = (if m_sockfd s = -1 then (0, s) else (0, s\<lparr>m_sockfd := -1\<rparr>))"

end
