(* ===== verification/Wire.thy ===== *)
theory Wire
  imports ServerOp Framing
begin

text \<open>
  Requests and responses as byte strings: \<open>encodeMsg\<close> and \<open>decodeMsg\<close> of \<open>V2RequestCodec.cpp\<close> and
  \<open>V2RespondCodec.cpp\<close>, \<open>ServerOP::processV2Request\<close> on bytes, and \<open>ServerOP::handleClientFd\<close>, which
  serves one connection. The byte format is the record \<open>wire\<close>, an argument of the definitions that use it;
  \<open>Protobuf\<close> gives the one that the generated code implements.
\<close>

text \<open>What \<open>SerializeToString\<close> produces, and what \<open>ParseFromString\<close> leaves in the packet, whether or not
  it reports success.\<close>

record wire =
  w_ser_req :: "RequestPacket \<Rightarrow> string"
  w_parse_req :: "string \<Rightarrow> RequestPacket"
  w_ser_resp :: "ResponsePacket \<Rightarrow> string"
  w_parse_resp :: "string \<Rightarrow> ResponsePacket"

definition encodeRequest :: "wire \<Rightarrow> RequestPacket \<Rightarrow> string" where
  "encodeRequest wi m = w_ser_req wi m"

definition decodeRequest :: "wire \<Rightarrow> string \<Rightarrow> RequestPacket" where
  "decodeRequest wi encStr = w_parse_req wi encStr"

definition encodeResponse :: "wire \<Rightarrow> ResponsePacket \<Rightarrow> string" where
  "encodeResponse wi m = w_ser_resp wi m"

definition decodeResponse :: "wire \<Rightarrow> string \<Rightarrow> ResponsePacket" where
  "decodeResponse wi encStr = w_parse_resp wi encStr"

text \<open>The pointer that \<open>decodeMsg\<close> returns is never null. \<^const>\<open>None\<close>: an exception leaves the worker
  thread, or memory is overrun.\<close>

definition processV2Request :: "env \<Rightarrow> wire \<Rightarrow> string \<Rightarrow> service \<Rightarrow> (string \<times> service) option" where
  "processV2Request env wi recvData s = do {
     (resp, s) \<leftarrow> dispatch env (decodeRequest wi recvData) s;
     Some (encodeResponse wi resp, s)
   }"

text \<open>One connection, alone: a request is read, processed and answered, and the connection closed. The
  second component is the set of descriptors that \<open>epoll\<close> watches.\<close>

definition handleClientFd ::
    "env \<Rightarrow> wire \<Rightarrow> net \<Rightarrow> int \<Rightarrow> TcpSocket \<Rightarrow> int set \<Rightarrow> service \<Rightarrow> (TcpSocket \<times> int set \<times> service) option" where
  "handleClientFd env wi net clientfd conn watched s = do {
     ((ret, recvData), tcp) \<leftarrow> recvMsg net 10 (conn\<lparr>m_sockfd := clientfd\<rparr>);
     if ret \<noteq> 0 then Some (snd (disconnect tcp), watched - {clientfd}, s)
     else do {
       (rspData, s) \<leftarrow> processV2Request env wi recvData s;
       if rspData = [] then Some (snd (disconnect tcp), watched - {clientfd}, s)
       else do {
         (_, tcp) \<leftarrow> sendMsg net rspData 10 tcp;
         Some (snd (disconnect tcp), watched - {clientfd}, s)
       }
     }
   }"

end
