(* ===== verification/Console.thy ===== *)
theory Console
  imports Prelude
begin

text \<open>
  What the client reads from the terminal with \<open>std::cin\<close>: formatted and unformatted input of the
  standard library on a stream that is the rest of the input with its \<open>eofbit\<close> and \<open>failbit\<close>. An
  operation on a stream that is not good sets \<open>failbit\<close> and leaves the variable as it was.
\<close>

record istream =
  in_buf :: string
  in_eof :: bool
  in_fail :: bool

definition in_good :: "istream \<Rightarrow> bool" where
  "in_good s \<longleftrightarrow> \<not> in_eof s \<and> \<not> in_fail s"

text \<open>The sentry of an input operation, which skips white space before formatted input.\<close>

definition in_sentry :: "bool \<Rightarrow> istream \<Rightarrow> bool \<times> istream" where
  "in_sentry noskip s =
     (if \<not> in_good s then (False, s\<lparr>in_fail := True\<rparr>)
      else if noskip then (True, s)
      else
        let rest = dropWhile is_space (in_buf s) in
        if rest = [] then (False, s\<lparr>in_buf := [], in_eof := True, in_fail := True\<rparr>)
        else (True, s\<lparr>in_buf := rest\<rparr>))"

text \<open>\<open>cin >> word\<close>.\<close>

definition read_word :: "string \<Rightarrow> istream \<Rightarrow> string \<times> istream" where
  "read_word old s =
     (let (ok, s) = in_sentry False s in
      if \<not> ok then (old, s)
      else
        let rest = dropWhile (\<lambda>c. \<not> is_space c) (in_buf s) in
        (takeWhile (\<lambda>c. \<not> is_space c) (in_buf s), s\<lparr>in_buf := rest, in_eof := (rest = [])\<rparr>))"

text \<open>\<open>cin >> number\<close>: an optional sign and decimal digits; no digit gives 0, a number that is no \<open>int\<close>
  the nearest one, and both set \<open>failbit\<close>.\<close>

definition read_int :: "int \<Rightarrow> istream \<Rightarrow> int \<times> istream" where
  "read_int old s =
     (let (ok, s) = in_sentry False s in
      if \<not> ok then (old, s)
      else
        let signed = (hd (in_buf s) = CHR ''-'' \<or> hd (in_buf s) = CHR ''+'');
            text = (if signed then tl (in_buf s) else in_buf s);
            digits = takeWhile is_digit text; rest = dropWhile is_digit text;
            v = (if hd (in_buf s) = CHR ''-'' then - read_digits 0 digits else read_digits 0 digits);
            s = s\<lparr>in_buf := rest, in_eof := (rest = [])\<rparr> in
        if digits = [] then (0, s\<lparr>in_fail := True\<rparr>)
        else if v > 2 ^ 31 - 1 then (2 ^ 31 - 1, s\<lparr>in_fail := True\<rparr>)
        else if v < - (2 ^ 31) then (- (2 ^ 31), s\<lparr>in_fail := True\<rparr>)
        else (v, s))"

text \<open>\<open>cin.ignore()\<close> and \<open>cin.ignore(max, newline)\<close>.\<close>

definition ignore_char :: "istream \<Rightarrow> istream" where
  "ignore_char s =
     (let (ok, s) = in_sentry True s in
      if \<not> ok then s else if in_buf s = [] then s\<lparr>in_eof := True\<rparr> else s\<lparr>in_buf := tl (in_buf s)\<rparr>)"

definition ignore_line :: "istream \<Rightarrow> istream" where
  "ignore_line s =
     (let (ok, s) = in_sentry True s in
      if \<not> ok then s
      else
        let rest = dropWhile (\<lambda>c. c \<noteq> CHR 10) (in_buf s) in
        if rest = [] then s\<lparr>in_buf := [], in_eof := True\<rparr> else s\<lparr>in_buf := tl rest\<rparr>)"

text \<open>\<open>std::getline(cin, text)\<close>.\<close>

definition getline :: "string \<Rightarrow> istream \<Rightarrow> string \<times> istream" where
  "getline old s =
     (let (ok, s) = in_sentry True s in
      if \<not> ok then (old, s)
      else
        let line = takeWhile (\<lambda>c. c \<noteq> CHR 10) (in_buf s); rest = dropWhile (\<lambda>c. c \<noteq> CHR 10) (in_buf s) in
        if rest = [] then (line, s\<lparr>in_buf := [], in_eof := True, in_fail := (line = [])\<rparr>)
        else (line, s\<lparr>in_buf := tl rest\<rparr>))"

section \<open>A stream that is not good stays so\<close>

lemma not_good_reads:
  assumes "\<not> in_good s"
  shows "read_word w s = (w, s\<lparr>in_fail := True\<rparr>)" "read_int n s = (n, s\<lparr>in_fail := True\<rparr>)"
    "ignore_char s = s\<lparr>in_fail := True\<rparr>" "ignore_line s = s\<lparr>in_fail := True\<rparr>" "getline w s = (w, s\<lparr>in_fail := True\<rparr>)"
  using assms by (simp_all add: read_word_def read_int_def ignore_char_def ignore_line_def getline_def in_sentry_def)

lemma fail_not_good [simp]: "\<not> in_good (s\<lparr>in_fail := True\<rparr>)"
  by (simp add: in_good_def)

lemma not_good_stays:
  assumes "\<not> in_good s"
  shows "read_word w s = (w', t) \<Longrightarrow> \<not> in_good t" "read_int n s = (n', t) \<Longrightarrow> \<not> in_good t"
    "\<not> in_good (ignore_char s)" "\<not> in_good (ignore_line s)" "getline w s = (w', t) \<Longrightarrow> \<not> in_good t"
  by (auto simp: not_good_reads [OF assms])

end
