(* ===== verification/Client.thy ===== *)
theory Client
  imports Wire Console
begin

text \<open>
  \<open>MessageClient.cpp\<close> and what it shares with \<open>ClientOP.cpp\<close>: the state of the client process, request
  identifiers, and one exchange with the server. The other end of a connection is the parameter
  \<open>peer\<close>: from the bytes the client has written it gives the bytes that come back, and whether the
  connection is closed after them; the rest of the world is its state. What is printed is left out,
  except that a query gives the response it prints. Error texts are named by constructors.
\<close>

section \<open>The client process\<close>

record ClientInfo =
  ci_serverId :: string
  ci_clientId :: string
  ci_IP :: string
  ci_port :: "16 word"

text \<open>The two counters are the static \<open>sequence\<close> of \<open>generateClientRequestId\<close>, which each of the two
  files has for itself.\<close>

record 'p client =
  m_info :: ClientInfo
  m_shm :: SecKeyShm
  m_lastServerMessageId :: string
  cl_proc :: proc
  cl_seq_op :: "64 word"
  cl_seq_msg :: "64 word"
  cl_files :: "string \<Rightarrow> string option"
  cl_tick :: nat
  cl_in :: istream
  cl_world :: 'p

type_synonym 'p peer = "string \<Rightarrow> 'p \<Rightarrow> (string \<times> bool) \<times> 'p"

datatype client_error =
    NoKey
  | EncryptFailed string
  | ConnectFailed
  | SendFailed
  | RecvFailed
  | WrongBody
  | ServerSays string
  | BadParameter

definition client_time :: "env \<Rightarrow> 'p client \<Rightarrow> int \<times> 'p client" where
  "client_time env c = (let (t, w) = time_now env (cl_proc c) in (t, c\<lparr>cl_proc := w\<rparr>))"

definition generateMessageId :: "env \<Rightarrow> 'p client \<Rightarrow> string \<times> 'p client" where
  "generateMessageId env c =
     (let (micros, w) = micros_now env (cl_proc c); seq = cl_seq_msg c + 1 in
      (ci_clientId (m_info c) @ ''_'' @ show_nat micros @ ''_'' @ show_u64 seq, c\<lparr>cl_proc := w, cl_seq_msg := seq\<rparr>))"

definition client_header :: "env \<Rightarrow> int \<Rightarrow> string \<Rightarrow> 'p client \<Rightarrow> V2HeaderInfo \<times> 'p client" where
  "client_header env command receiverId c =
     (let (i, c) = generateMessageId env c; (t, c) = client_time env c in
      (\<lparr>vh_messageId = i, vh_command = command, vh_senderId = ci_clientId (m_info c), vh_receiverId = receiverId,
        vh_timestamp = t\<rparr>, c))"

definition buildHeader :: "env \<Rightarrow> string \<Rightarrow> 'p client \<Rightarrow> V2HeaderInfo \<times> 'p client" where
  "buildHeader env receiverId c = client_header env CMD_SEND_MSG_REQ receiverId c"

text \<open>Connect, send the request, receive the response; the socket is closed when the method returns.
  The peer sees what has been written also where \<open>sendMsg\<close> reports an error.\<close>

definition exchange ::
    "net \<Rightarrow> 'p peer \<Rightarrow> string \<Rightarrow> 'p client \<Rightarrow> ((client_error + string) \<times> 'p client) option" where
  "exchange net peer encStr c =
     (let tcp = (TcpSocket_new (-1))\<lparr>ts_tick := cl_tick c\<rparr>;
          (ret, tcp) = connectToHost net (ci_IP (m_info c)) (ci_port (m_info c)) 10 tcp in
      if ret \<noteq> 0 then Some (Inl ConnectFailed, c\<lparr>cl_tick := ts_tick tcp\<rparr>)
      else do {
        (ret, tcp) \<leftarrow> sendMsg net encStr 10 tcp;
        let ((bytes, ends), w) = peer (ts_tx tcp) (cl_world c);
        let tcp = tcp\<lparr>ts_rx := bytes, ts_ends := ends\<rparr>;
        if ret \<noteq> 0 then Some (Inl SendFailed, c\<lparr>cl_tick := ts_tick tcp, cl_world := w\<rparr>)
        else do {
          ((ret, recvData), tcp) \<leftarrow> recvMsg net 10 tcp;
          let c = c\<lparr>cl_tick := ts_tick tcp, cl_world := w\<rparr>;
          if ret \<noteq> 0 then Some (Inl RecvFailed, c) else Some (Inr recvData, c)
        }
      })"

section \<open>Sending a text\<close>

definition client_active_key :: "'p client \<Rightarrow> NodeSHMInfo option" where
  "client_active_key c =
     (let keyInfo = shmRead (ci_clientId (m_info c)) (ci_serverId (m_info c)) (m_shm c) in
      if strlen (n_clientID keyInfo) = 0 \<or> strlen (n_serverID keyInfo) = 0 then None
      else if n_status keyInfo \<noteq> 1 then None
      else Some keyInfo)"

definition encryptText :: "env \<Rightarrow> string \<Rightarrow> string \<Rightarrow> proc \<Rightarrow> (string + EncryptMessageResult) \<times> proc" where
  "encryptText env base64Key plaintext w =
     (let rawKey = b64_decode env base64Key in
      if rawKey = [] then (Inl ''cannot decode key'', w)
      else
        (case gcm_encrypt env rawKey plaintext w of
           (Inl e, w) \<Rightarrow> (Inl e, w)
         | (Inr (ciphertext, nonce, tag), w) \<Rightarrow>
             (Inr \<lparr>er_ciphertext = b64_encode env ciphertext, er_nonce = b64_encode env nonce,
                er_tag = b64_encode env tag, er_algorithm = ''AES-128-GCM''\<rparr>, w)))"

definition text_request :: "NodeSHMInfo \<Rightarrow> EncryptMessageResult \<Rightarrow> V2HeaderInfo \<Rightarrow> V2SendMessageRequestInfo" where
  "text_request keyNode enc header = \<lparr>vsr_header = header, vsr_message = \<lparr>ve_keyId = n_seckeyID keyNode,
     ve_msgType = MSG_TYPE_TEXT, ve_ciphertext = er_ciphertext enc, ve_nonce = er_nonce enc, ve_tag = er_tag enc,
     ve_algorithm = er_algorithm enc\<rparr>\<rparr>"

text \<open>The first three steps: the usable key, the encrypted text, the request.\<close>

definition send_request ::
    "env \<Rightarrow> string \<Rightarrow> string \<Rightarrow> 'p client \<Rightarrow> (client_error + V2SendMessageRequestInfo) \<times> 'p client" where
  "send_request env receiverId plaintext c =
     (case client_active_key c of
        None \<Rightarrow> (Inl NoKey, c)
      | Some keyNode \<Rightarrow>
          (case encryptText env (c_str (n_seckey keyNode)) plaintext (cl_proc c) of
             (Inl e, w) \<Rightarrow> (Inl (EncryptFailed e), c\<lparr>cl_proc := w\<rparr>)
           | (Inr enc, w) \<Rightarrow>
               let (header, c) = buildHeader env receiverId (c\<lparr>cl_proc := w\<rparr>) in
               (Inr (text_request keyNode enc header), c)))"

text \<open>The result on success is the identifier the server gave to the message.\<close>

definition sendTextMessage ::
    "env \<Rightarrow> wire \<Rightarrow> net \<Rightarrow> 'p peer \<Rightarrow> string \<Rightarrow> string \<Rightarrow> 'p client \<Rightarrow>
     ((client_error + string) \<times> 'p client) option" where
  "sendTextMessage env wi net peer receiverId plaintext c =
     (case send_request env receiverId plaintext c of
        (Inl e, c) \<Rightarrow> Some (Inl e, c)
      | (Inr reqInfo, c) \<Rightarrow> do {
          let encStr = encodeRequest wi (init_send_req reqInfo RequestPacket_default);
          (r, c) \<leftarrow> exchange net peer encStr c;
          Some ((case r of
              Inl e \<Rightarrow> Inl e
            | Inr recvData \<Rightarrow>
                (case send_msg_resp (rs_body (decodeResponse wi recvData)) of
                   None \<Rightarrow> Inl WrongBody
                 | Some resp \<Rightarrow>
                     if sr_code resp = RESULT_SUCCESS then Inr (sr_server_message_id resp)
                     else Inl (ServerSays (sr_message resp)))), c)
        })"

section \<open>Queries\<close>

text \<open>On success the response is printed.\<close>

definition client_queryMessageById ::
    "env \<Rightarrow> wire \<Rightarrow> net \<Rightarrow> 'p peer \<Rightarrow> string \<Rightarrow> 'p client \<Rightarrow>
     ((client_error + QueryMessageResponse) \<times> 'p client) option" where
  "client_queryMessageById env wi net peer serverMessageId c =
     (if serverMessageId = [] then Some (Inl BadParameter, c)
      else do {
        let (header, c) = client_header env CMD_QUERY_MSG_REQ (ci_serverId (m_info c)) c;
        let encStr = encodeRequest wi (init_query_req \<lparr>vqr_header = header, vqr_serverMessageId = serverMessageId\<rparr>
              RequestPacket_default);
        (r, c) \<leftarrow> exchange net peer encStr c;
        Some ((case r of
            Inl e \<Rightarrow> Inl e
          | Inr recvData \<Rightarrow>
              (case query_msg_resp (rs_body (decodeResponse wi recvData)) of
                 None \<Rightarrow> Inl WrongBody
               | Some resp \<Rightarrow> if qr_code resp \<noteq> RESULT_SUCCESS then Inl (ServerSays (qr_message resp)) else Inr resp)), c)
      })"

definition client_queryRecentMessagesBySender ::
    "env \<Rightarrow> wire \<Rightarrow> net \<Rightarrow> 'p peer \<Rightarrow> string \<Rightarrow> int \<Rightarrow> 'p client \<Rightarrow>
     ((client_error + QueryMessageListResponse) \<times> 'p client) option" where
  "client_queryRecentMessagesBySender env wi net peer senderId limit c =
     (if senderId = [] then Some (Inl BadParameter, c)
      else if limit \<le> 0 then Some (Inl BadParameter, c)
      else if limit > 100 then Some (Inl BadParameter, c)
      else do {
        let (header, c) = client_header env CMD_QUERY_MSG_LIST_REQ (ci_serverId (m_info c)) c;
        let encStr = encodeRequest wi (init_list_req \<lparr>vlr_header = header, vlr_senderId = senderId, vlr_limit = limit\<rparr>
              RequestPacket_default);
        (r, c) \<leftarrow> exchange net peer encStr c;
        Some ((case r of
            Inl e \<Rightarrow> Inl e
          | Inr recvData \<Rightarrow>
              (case query_msg_list_resp (rs_body (decodeResponse wi recvData)) of
                 None \<Rightarrow> Inl WrongBody
               | Some resp \<Rightarrow> if lr_code resp \<noteq> RESULT_SUCCESS then Inl (ServerSays (lr_message resp)) else Inr resp)), c)
      })"

end
