(* ===== verification/ClientOp.thy ===== *)
theory ClientOp
  imports Client
begin

text \<open>
  \<open>ClientOP.cpp\<close>, the six menu actions, \<open>RsaCrypto::generateKeyPair\<close>, \<open>Config.cpp\<close> as far as the
  constructor reads it, and the menu loop of the client's \<open>main.cpp\<close>. \<^const>\<open>None\<close> means that the process
  does not get past the action.
\<close>

section \<open>A key pair in files\<close>

text \<open>\<open>BIO_new_file(name, w)\<close> and \<open>PEM_write_bio_..\<close>; the file may not open or not be written.\<close>

definition pem_write ::
    "env \<Rightarrow> string \<Rightarrow> string \<Rightarrow> proc \<times> (string \<Rightarrow> string option) \<Rightarrow> bool \<times> proc \<times> (string \<Rightarrow> string option)" where
  "pem_write env name key w = (case w of (w, files) \<Rightarrow>
     let f = c_str name in
     (e_ssl env (pr_ssl w), w\<lparr>pr_ssl := Suc (pr_ssl w), pr_file := Suc (pr_file w)\<rparr>,
      files(f := e_fwrite env (pr_file w) (files f) (e_pem_text env key))))"

text \<open>The keys of the object are replaced after both files have been written.\<close>

definition generateKeyPair ::
    "env \<Rightarrow> string \<Rightarrow> string \<Rightarrow> RsaCrypto \<Rightarrow> proc \<times> (string \<Rightarrow> string option) \<Rightarrow>
     RsaCrypto \<times> proc \<times> (string \<Rightarrow> string option)" where
  "generateKeyPair env pubfile prifile r w =
     (let k = pr_ssl (fst w); (pub, pri) = e_keygen env k;
          w = ((fst w)\<lparr>pr_ssl := Suc (pr_ssl (fst w))\<rparr>, snd w) in
      if \<not> e_ssl env k then (r, w)
      else
        let (ok, w) = pem_write env pubfile pub w in
        if \<not> ok then (r, w)
        else
          let (ok, w) = pem_write env prifile pri w in
          if \<not> ok then (r, w) else (r\<lparr>rsa_pri := Some pri, rsa_pub := Some pub\<rparr>, w))"

section \<open>Key agreement\<close>

definition buildKeyHeader :: "env \<Rightarrow> int \<Rightarrow> 'p client \<Rightarrow> V2HeaderInfo \<times> 'p client" where
  "buildKeyHeader env command c =
     (let (micros, w) = micros_now env (cl_proc c); seq = cl_seq_op c + 1;
          i = ci_clientId (m_info c) @ ''_'' @ show_nat micros @ ''_'' @ show_u64 seq;
          (t, c) = client_time env (c\<lparr>cl_proc := w, cl_seq_op := seq\<rparr>) in
      (\<lparr>vh_messageId = i, vh_command = command, vh_senderId = ci_clientId (m_info c),
        vh_receiverId = ci_serverId (m_info c), vh_timestamp = t\<rparr>, c))"

definition next_ssl :: "'p client \<Rightarrow> nat \<times> 'p client" where
  "next_ssl c = (pr_ssl (cl_proc c), c\<lparr>cl_proc := (cl_proc c)\<lparr>pr_ssl := Suc (pr_ssl (cl_proc c))\<rparr>\<rparr>)"

text \<open>The node is cleared and each text copied with room for the terminator; the copy is cut where it
  does not fit.\<close>

definition client_node :: "ClientInfo \<Rightarrow> string \<Rightarrow> int \<Rightarrow> NodeSHMInfo" where
  "client_node i base64Key keyId = node_new\<lparr>
     n_clientID := c_strncpy (n_clientID node_new) (ci_clientId i) 11,
     n_serverID := c_strncpy (n_serverID node_new) (ci_serverId i) 11,
     n_seckey := c_strncpy (n_seckey node_new) base64Key 127,
     n_seckeyID := keyId, n_status := 1\<rparr>"

text \<open>The cached key is read back to see whether it is there.\<close>

definition cache_agreed :: "string \<Rightarrow> int \<Rightarrow> 'p client \<Rightarrow> bool \<times> 'p client" where
  "cache_agreed base64Key keyId c =
     (let (_, shm) = shmWrite (client_node (m_info c) base64Key keyId) (m_shm c);
          checkInfo = shmRead (ci_clientId (m_info c)) (ci_serverId (m_info c)) shm in
      (\<not> (strlen (n_clientID checkInfo) = 0 \<or> strlen (n_serverID checkInfo) = 0), c\<lparr>m_shm := shm\<rparr>))"

text \<open>The new key pair and the signed request; none where the file of the public key does not open.\<close>

definition agreement_request ::
    "env \<Rightarrow> 'p client \<Rightarrow> ((RsaCrypto \<times> V2KeyAgreementRequestInfo) option \<times> 'p client) option" where
  "agreement_request env c =
     (let (rsa, w, files) = generateKeyPair env ''pub.pem'' ''pri.pem'' RsaCrypto_empty (cl_proc c, cl_files c);
          c = c\<lparr>cl_proc := w, cl_files := files\<rparr> in
      case files ''pub.pem'' of
        None \<Rightarrow> Some (None, c)
      | Some str \<Rightarrow> do {
          let (header, c) = buildKeyHeader env CMD_KEY_AGREE_REQ c;
          let (k, c) = next_ssl c;
          sign \<leftarrow> rsaSign env k rsa (hash_result env (addData str (Hash_new T_SHA256)));
          Some (Some (rsa, \<lparr>vka_header = header, vka_publicKey = str, vka_sign = sign\<rparr>), c)
        })"

definition keyAgreement :: "env \<Rightarrow> wire \<Rightarrow> net \<Rightarrow> 'p peer \<Rightarrow> 'p client \<Rightarrow> (bool \<times> 'p client) option" where
  "keyAgreement env wi net peer c = do {
     (request, c) \<leftarrow> agreement_request env c;
     (case request of
        None \<Rightarrow> Some (False, c)
      | Some (rsa, reqInfo) \<Rightarrow> do {
          let encstr = encodeRequest wi (init_agree_req reqInfo RequestPacket_default);
          (r, c) \<leftarrow> exchange net peer encstr c;
          (case r of
             Inl e \<Rightarrow> Some (False, c)
           | Inr recvData \<Rightarrow>
               (case key_op_resp (rs_body (decodeResponse wi recvData)) of
                  None \<Rightarrow> Some (False, c)
                | Some keyResp \<Rightarrow>
                    if ko_code keyResp \<noteq> RESULT_SUCCESS then Some (False, c)
                    else do {
                      let (k, c) = next_ssl c;
                      key \<leftarrow> rsaPrivateDecrypt env k rsa (ko_data keyResp);
                      Some (cache_agreed (b64_encode env key) (ko_key_id keyResp) c)
                    }))
        })
   }"

section \<open>Key check and logout\<close>

definition client_set_status :: "int \<Rightarrow> 'p client \<Rightarrow> 'p client" where
  "client_set_status st c =
     c\<lparr>m_shm := snd (shmUpdateStatus (ci_clientId (m_info c)) (ci_serverId (m_info c)) st (m_shm c))\<rparr>"

definition keyVerification :: "env \<Rightarrow> wire \<Rightarrow> net \<Rightarrow> 'p peer \<Rightarrow> 'p client \<Rightarrow> 'p client option" where
  "keyVerification env wi net peer c =
     (let readInfo = shmRead (ci_clientId (m_info c)) (ci_serverId (m_info c)) (m_shm c) in
      if strlen (n_clientID readInfo) = 0 \<or> strlen (n_serverID readInfo) = 0 then Some c
      else if n_status readInfo = 0 then Some c
      else do {
        let (header, c) = buildKeyHeader env CMD_KEY_CHECK_REQ c;
        let resStr = encodeRequest wi (init_check_req \<lparr>vkc_header = header, vkc_keyId = n_seckeyID readInfo\<rparr>
              RequestPacket_default);
        (r, c) \<leftarrow> exchange net peer resStr c;
        Some (case r of
            Inl e \<Rightarrow> c
          | Inr recvData \<Rightarrow>
              (case key_op_resp (rs_body (decodeResponse wi recvData)) of
                 None \<Rightarrow> c
               | Some keyResp \<Rightarrow> if ko_code keyResp = RESULT_SUCCESS then c else client_set_status 0 c))
      })"

definition keyLogout :: "env \<Rightarrow> wire \<Rightarrow> net \<Rightarrow> 'p peer \<Rightarrow> 'p client \<Rightarrow> 'p client option" where
  "keyLogout env wi net peer c =
     (let node = shmRead (ci_clientId (m_info c)) (ci_serverId (m_info c)) (m_shm c) in
      if n_status node \<noteq> 1 then Some c
      else do {
        let (header, c) = buildKeyHeader env CMD_KEY_LOGOUT_REQ c;
        let encstr = encodeRequest wi (init_logout_req \<lparr>vkl_header = header, vkl_keyId = n_seckeyID node\<rparr>
              RequestPacket_default);
        (r, c) \<leftarrow> exchange net peer encstr c;
        Some (case r of
            Inl e \<Rightarrow> c
          | Inr recvData \<Rightarrow>
              (case key_op_resp (rs_body (decodeResponse wi recvData)) of
                 None \<Rightarrow> c
               | Some keyResp \<Rightarrow> if ko_code keyResp = RESULT_SUCCESS then client_set_status 0 c else c))
      })"

section \<open>Messages\<close>

definition sendEncryptedMessage :: "env \<Rightarrow> wire \<Rightarrow> net \<Rightarrow> 'p peer \<Rightarrow> 'p client \<Rightarrow> 'p client option" where
  "sendEncryptedMessage env wi net peer c =
     (let (receiverId, i) = read_word [] (cl_in c);
          i = ignore_char i;
          (plaintext, i) = getline [] i;
          c = c\<lparr>cl_in := i\<rparr> in
      if plaintext = [] then Some c
      else do {
        (result, c) \<leftarrow> sendTextMessage env wi net peer receiverId plaintext c;
        Some (case result of Inl e \<Rightarrow> c | Inr i \<Rightarrow> c\<lparr>m_lastServerMessageId := i\<rparr>)
      })"

definition queryMessage :: "env \<Rightarrow> wire \<Rightarrow> net \<Rightarrow> 'p peer \<Rightarrow> 'p client \<Rightarrow> 'p client option" where
  "queryMessage env wi net peer c =
     (let (serverMessageId, i) =
            (if m_lastServerMessageId c \<noteq> [] then
               let (text, i) = getline [] (ignore_char (cl_in c)) in
               (if text = [] then m_lastServerMessageId c else text, i)
             else read_word [] (cl_in c));
          c = c\<lparr>cl_in := i\<rparr> in
      if serverMessageId = [] then Some c
      else map_option snd (client_queryMessageById env wi net peer serverMessageId c))"

definition queryRecentMessages :: "env \<Rightarrow> wire \<Rightarrow> net \<Rightarrow> 'p peer \<Rightarrow> 'p client \<Rightarrow> 'p client option" where
  "queryRecentMessages env wi net peer c =
     (let (senderId, i) = getline [] (ignore_line (cl_in c));
          senderId = (if senderId = [] then ci_clientId (m_info c) else senderId);
          (limit, i) = read_int 10 i;
          c = c\<lparr>cl_in := i\<rparr> in
      if limit \<le> 0 then Some c
      else if limit > 100 then Some c
      else map_option snd (client_queryRecentMessagesBySender env wi net peer senderId limit c))"

section \<open>Construction and the menu\<close>

text \<open>A configuration file that was read: the texts and numbers of its keys, \<^const>\<open>None\<close> where the JSON
  library throws.\<close>

record Config =
  cf_string :: "string \<Rightarrow> string option"
  cf_int :: "string \<Rightarrow> int option"

definition getString :: "Config \<Rightarrow> string \<Rightarrow> string option" where
  "getString cfg key = cf_string cfg key"

definition getInt :: "Config \<Rightarrow> string \<Rightarrow> int option" where
  "getInt cfg key = cf_int cfg key"

text \<open>The port is cut to 16 bits. The constructor ends the process where the file cannot be loaded; \<open>shm\<close> is
  the segment that the kernel gives for a name and a number of nodes.\<close>

definition ClientOP_new ::
    "Config option \<Rightarrow> (string \<Rightarrow> int \<Rightarrow> SecKeyShm) \<Rightarrow> istream \<Rightarrow> 'p \<Rightarrow> 'p client option" where
  "ClientOP_new file shm input world = do {
     config \<leftarrow> file;
     serverId \<leftarrow> getString config ''ServerID'';
     clientId \<leftarrow> getString config ''ClientID'';
     IP \<leftarrow> getString config ''ServerIP'';
     port \<leftarrow> getInt config ''Port'';
     shmKey \<leftarrow> getString config ''ShmKey'';
     maxNode \<leftarrow> getInt config ''ShmMaxNode'';
     Some \<lparr>m_info = \<lparr>ci_serverId = serverId, ci_clientId = clientId, ci_IP = IP, ci_port = word_of_int port\<rparr>,
       m_shm = shm shmKey maxNode, m_lastServerMessageId = [], cl_proc = proc_start, cl_seq_op = 0, cl_seq_msg = 0,
       cl_files = (\<lambda>_. None), cl_tick = 0, cl_in = input, cl_world = world\<rparr>
   }"

definition menu_choice :: "env \<Rightarrow> wire \<Rightarrow> net \<Rightarrow> 'p peer \<Rightarrow> int \<Rightarrow> 'p client \<Rightarrow> 'p client option" where
  "menu_choice env wi net peer nChoice c =
     (if nChoice = 1 then map_option snd (keyAgreement env wi net peer c)
      else if nChoice = 2 then keyVerification env wi net peer c
      else if nChoice = 3 then sendEncryptedMessage env wi net peer c
      else if nChoice = 4 then queryMessage env wi net peer c
      else if nChoice = 5 then queryRecentMessages env wi net peer c
      else if nChoice = 6 then keyLogout env wi net peer c
      else Some c)"

partial_function (option) menu :: "env \<Rightarrow> wire \<Rightarrow> net \<Rightarrow> 'p peer \<Rightarrow> int \<Rightarrow> 'p client \<Rightarrow> 'p client option" where
  "menu env wi net peer nChoice c =
     (if nChoice = 7 then Some c
      else
        let (nChoice, i) = read_int nChoice (cl_in c) in
        (case menu_choice env wi net peer nChoice (c\<lparr>cl_in := i\<rparr>) of
           None \<Rightarrow> None
         | Some c \<Rightarrow> menu env wi net peer nChoice c))"

declare menu.simps [code, simp del]

definition client_main :: "env \<Rightarrow> wire \<Rightarrow> net \<Rightarrow> 'p peer \<Rightarrow> 'p client \<Rightarrow> 'p client option" where
  "client_main env wi net peer c = menu env wi net peer 0 c"

end
