(* ===== verification/FramingProps.thy ===== *)
theory FramingProps
  imports Framing "HOL-Library.Sublist"
begin

text \<open>
  Framing: a frame that was sent is received, and nothing else, for every way in which the two system
  calls split the bytes; the loops end; failures are the codes the callers look at.
\<close>

section \<open>The length field\<close>

lemma byte_back: "word_of_nat (of_char (char_of (unat x) :: char)) = take_bit 8 (x :: 32 word)"
proof -
  have "(of_char (char_of (unat x) :: char) :: nat) = take_bit 8 (unat x)"
    by (simp add: of_char_of take_bit_eq_mod)
  then have "word_of_nat (of_char (char_of (unat x) :: char)) = word_of_nat (take_bit 8 (unat x))" by simp
  also have "\<dots> = take_bit 8 x" by (simp add: take_bit_of_nat [symmetric] of_nat_take_bit)
  finally show ?thesis .
qed

lemma of_be32_be32 [simp]: "of_be32 (be32 w) = w"
proof (rule bit_word_eqI)
  fix n assume "n < LENGTH(32)"
  then consider "n < 8" | "8 \<le> n \<and> n < 16" | "16 \<le> n \<and> n < 24" | "24 \<le> n \<and> n < 32" by fastforce
  then show "bit (of_be32 (be32 w)) n = bit w n"
    by cases (auto simp: of_be32_def be32_def byte_back bit_simps simp del: of_char_of)
qed

lemma length_be32 [simp]: "length (be32 w) = 4"
  by (simp add: be32_def)

lemma be32_length: "length m < 2 ^ 31 \<Longrightarrow> sint (word_of_nat (length m) :: 32 word) = int (length m)"
  by (simp add: signed_of_nat signed_take_bit_int_eq_self)

section \<open>Reading\<close>

text \<open>The next calls deliver data: \<open>recv\<close> moves bytes, in pieces of any size.\<close>

definition recv_flows :: "net \<Rightarrow> bool" where
  "recv_flows net \<longleftrightarrow> (\<forall>k. \<exists>j. n_recv net k = Moves j)"

lemma sys_recv_flows:
  assumes "recv_flows net" and "ts_rx s \<noteq> []" and "0 < n"
  shows "\<exists>i s'. sys_recv net n s = Some (Some (take i (ts_rx s)), s') \<and> 0 < i \<and> i \<le> n \<and> i \<le> length (ts_rx s) \<and>
     ts_rx s' = drop i (ts_rx s) \<and> m_sockfd s' = m_sockfd s \<and> ts_tx s' = ts_tx s \<and> ts_ends s' = ts_ends s"
proof -
  from assms(1) obtain j where j: "n_recv net (ts_tick s) = Moves j" by (auto simp: recv_flows_def)
  let ?i = "max 1 (min j (min n (length (ts_rx s))))"
  have "0 < length (ts_rx s)" using assms(2) by simp
  then have "0 < ?i \<and> ?i \<le> n \<and> ?i \<le> length (ts_rx s)" using assms(3) by (auto simp: max_def min_def Suc_le_eq)
  then show ?thesis
    using j assms(2) by (intro exI [of _ ?i]) (auto simp: sys_recv_def tick_def Let_def)
qed

lemma readn_loop_flows:
  assumes "recv_flows net" and "int (length x) = left" and "ts_rx s = x @ rest"
  shows "\<exists>s'. readn_loop net left acc s = Some ((0, acc @ x), s') \<and> ts_rx s' = rest \<and> m_sockfd s' = m_sockfd s \<and>
     ts_tx s' = ts_tx s \<and> ts_ends s' = ts_ends s"
  using assms(2,3)
proof (induction "length x" arbitrary: x left acc s rule: less_induct)
  case less
  show ?case
  proof (cases "x = []")
    case True
    with less.prems show ?thesis by simp
  next
    case False
    with less.prems have rx: "ts_rx s \<noteq> []" and pos: "0 < nat (min left 1024)" by auto
    from sys_recv_flows [OF assms(1) rx pos] obtain i s1 where
      r: "sys_recv net (nat (min left 1024)) s = Some (Some (take i (ts_rx s)), s1)" "0 < i" "i \<le> nat (min left 1024)"
        "i \<le> length (ts_rx s)"
      and s1: "ts_rx s1 = drop i (ts_rx s)" "m_sockfd s1 = m_sockfd s" "ts_tx s1 = ts_tx s" "ts_ends s1 = ts_ends s"
      by blast
    from r(3) less.prems have i: "i \<le> length x" by auto
    then have tk: "take i (ts_rx s) = take i x" "ts_rx s1 = drop i x @ rest" using less.prems(2) s1(1) by simp_all
    have "length (drop i x) < length x" "int (length (drop i x)) = left - int (length (take i x))"
      using i r(2) False less.prems(1) by auto
    from less.hyps [OF this tk(2), of "acc @ take i x"] obtain s2 where
      "readn_loop net (left - int (length (take i x))) (acc @ take i x) s1 = Some ((0, acc @ x), s2)"
      "ts_rx s2 = rest" "m_sockfd s2 = m_sockfd s1" "ts_tx s2 = ts_tx s1" "ts_ends s2 = ts_ends s1" by auto
    moreover have "take i x \<noteq> []" using r(2) False by simp
    moreover have "\<not> left \<le> 0" using False less.prems(1) by auto
    ultimately show ?thesis using r(1) tk(1) s1 by simp
  qed
qed

lemma readn_flows:
  "recv_flows net \<Longrightarrow> ts_rx s = x @ rest \<Longrightarrow> \<exists>s'. readn net (int (length x)) s = Some ((0, x), s') \<and> ts_rx s' = rest \<and>
     m_sockfd s' = m_sockfd s \<and> ts_tx s' = ts_tx s \<and> ts_ends s' = ts_ends s"
  using readn_loop_flows [of net x "int (length x)" s rest "[]"] by (simp add: readn_def)

section \<open>Writing\<close>

lemma writen_loop_Nil [simp]: "writen_loop net [] s = Some (0, s)"
  by (simp add: writen_loop.simps)

text \<open>Signals only cost calls.\<close>

lemma writen_loop_skips:
  assumes "\<And>i. i < d \<Longrightarrow> n_send net (ts_tick s + i) = Fails EINTR" and "buf \<noteq> []"
  shows "\<exists>e. writen_loop net buf s = writen_loop net buf (s\<lparr>ts_tick := ts_tick s + d, ts_errno := e\<rparr>)"
  using assms(1)
proof (induction d arbitrary: s)
  case 0
  show ?case by (rule exI [of _ "ts_errno s"]) simp
next
  case (Suc d)
  let ?s = "s\<lparr>ts_tick := Suc (ts_tick s), ts_errno := EINTR\<rparr>"
  have "n_send net (ts_tick s) = Fails EINTR" using Suc.prems [of 0] by simp
  then have "writen_loop net buf s = writen_loop net buf ?s"
    using assms(2) by (subst writen_loop.simps) (simp add: sys_send_def tick_def Let_def)
  moreover have "n_send net (ts_tick ?s + i) = Fails EINTR" if "i < d" for i
    using Suc.prems [of "Suc i"] that by simp
  from Suc.IH [OF this] obtain e where
    "writen_loop net buf ?s = writen_loop net buf (?s\<lparr>ts_tick := ts_tick ?s + d, ts_errno := e\<rparr>)" by blast
  ultimately show ?case by (intro exI [of _ e]) simp
qed

definition send_progress :: "net \<Rightarrow> bool" where
  "send_progress net \<longleftrightarrow> (\<forall>k. \<exists>j \<ge> k. n_send net j \<noteq> Fails EINTR) \<and> (\<forall>k. n_send net k \<noteq> Pipe)"

lemma next_send:
  assumes "send_progress net"
  obtains d where "\<And>i. i < d \<Longrightarrow> n_send net (k + i) = Fails EINTR" "n_send net (k + d) \<noteq> Fails EINTR"
proof -
  from assms obtain j where "k \<le> j" "n_send net j \<noteq> Fails EINTR" unfolding send_progress_def by blast
  then have ex: "\<exists>d. n_send net (k + d) \<noteq> Fails EINTR" by (metis le_add_diff_inverse)
  from LeastI_ex [OF ex] not_less_Least show thesis by (intro that) auto
qed

lemma writen_loop_ends:
  assumes "send_progress net"
  shows "\<exists>r s' n. writen_loop net buf s = Some (r, s') \<and> ts_tx s' = ts_tx s @ take n buf \<and> m_sockfd s' = m_sockfd s \<and>
     ts_rx s' = ts_rx s \<and> ts_ends s' = ts_ends s \<and> (r = 0 \<and> length buf \<le> n \<or> r = -1)"
proof (induction "length buf" arbitrary: buf s rule: less_induct)
  case less
  show ?case
  proof (cases "buf = []")
    case True
    then show ?thesis by (auto intro!: exI [of _ 0])
  next
    case False
    obtain d where d: "\<And>i. i < d \<Longrightarrow> n_send net (ts_tick s + i) = Fails EINTR"
      "n_send net (ts_tick s + d) \<noteq> Fails EINTR" by (rule next_send [OF assms, where k = "ts_tick s"]) (rule that)
    from writen_loop_skips [OF d(1) False] obtain e where
      skip: "writen_loop net buf s = writen_loop net buf (s\<lparr>ts_tick := ts_tick s + d, ts_errno := e\<rparr>)" by blast
    let ?s = "s\<lparr>ts_tick := ts_tick s + d, ts_errno := e\<rparr>"
    consider (moves) j where "n_send net (ts_tick s + d) = Moves j"
      | (fails) c where "n_send net (ts_tick s + d) = Fails c" "c \<noteq> EINTR"
      | (nothing) "n_send net (ts_tick s + d) = Nothing"
      using d(2) assms unfolding send_progress_def by (cases "n_send net (ts_tick s + d)") auto
    then show ?thesis
    proof cases
      case moves
      let ?i = "max 1 (min j (length buf))"
      have i: "0 < ?i" "?i \<le> length buf" using False by (auto simp: max_def min_def Suc_le_eq)
      let ?s1 = "?s\<lparr>ts_tick := Suc (ts_tick s + d), ts_tx := ts_tx s @ take ?i buf\<rparr>"
      have "writen_loop net buf s = writen_loop net (drop ?i buf) ?s1"
        unfolding skip using moves False i
        by (subst writen_loop.simps) (simp add: sys_send_def tick_def Let_def)
      moreover have "length (drop ?i buf) < length buf" using i False by simp
      from less.hyps [OF this, of ?s1] obtain r s' n where
        "writen_loop net (drop ?i buf) ?s1 = Some (r, s')" "ts_tx s' = ts_tx s @ take ?i buf @ take n (drop ?i buf)"
        "m_sockfd s' = m_sockfd s" "ts_rx s' = ts_rx s" "ts_ends s' = ts_ends s"
        "r = 0 \<and> length (drop ?i buf) \<le> n \<or> r = -1" by auto
      ultimately show ?thesis
        by (intro exI [of _ r] exI [of _ s'] exI [of _ "?i + n"]) (auto simp: take_add)
    next
      case fails
      then have "writen_loop net buf s = Some (-1, ?s\<lparr>ts_tick := Suc (ts_tick s + d), ts_errno := c\<rparr>)"
        unfolding skip using False by (subst writen_loop.simps) (simp add: sys_send_def tick_def Let_def)
      then show ?thesis by (auto intro!: exI [of _ 0])
    next
      case nothing
      then have "writen_loop net buf s = Some (-1, ?s\<lparr>ts_tick := Suc (ts_tick s + d)\<rparr>)"
        unfolding skip using False by (subst writen_loop.simps) (simp add: sys_send_def tick_def Let_def)
      then show ?thesis by (auto intro!: exI [of _ 0])
    qed
  qed
qed

lemma writen_loop_stuck:
  assumes "writen_loop net buf s = Some (r, s')" and "buf \<noteq> []"
  shows "\<exists>j \<ge> ts_tick s. n_send net j \<noteq> Fails EINTR"
proof -
  have "buf \<noteq> [] \<longrightarrow> (\<exists>j \<ge> ts_tick s. n_send net j \<noteq> Fails EINTR)"
    using assms(1)
  proof (induction rule: writen_loop.raw_induct [rotated, consumes 1])
    case (1 loop net buf s r)
    show ?case
    proof (cases "n_send net (ts_tick s) = Fails EINTR")
      case True
      show ?thesis
      proof
        assume ne: "buf \<noteq> []"
        let ?s = "s\<lparr>ts_tick := Suc (ts_tick s), ts_errno := EINTR\<rparr>"
        from True ne 1(2) have "loop net buf ?s = Some r"
          by (simp add: sys_send_def tick_def Let_def split: if_splits)
        with 1(1) ne obtain j where "Suc (ts_tick s) \<le> j" "n_send net j \<noteq> Fails EINTR" by fastforce
        then show "\<exists>j \<ge> ts_tick s. n_send net j \<noteq> Fails EINTR" by (metis Suc_leD)
      qed
    qed auto
  qed
  with assms(2) show ?thesis by blast
qed

section \<open>Frames\<close>

definition frame :: "string \<Rightarrow> string" where
  "frame m = be32 (word_of_nat (length m)) @ m"

text \<open>A payload that the length field can carry.\<close>

definition fits_frame :: "string \<Rightarrow> bool" where
  "fits_frame m \<longleftrightarrow> length m + 4 < 2 ^ 31"

definition select_ready :: "net \<Rightarrow> bool" where
  "select_ready net \<longleftrightarrow> (\<forall>k. 0 < fst (n_select net k))"

lemma sys_select_frame:
  "sys_select net s = (r, s') \<Longrightarrow> ts_tx s' = ts_tx s \<and> ts_rx s' = ts_rx s \<and> m_sockfd s' = m_sockfd s \<and>
     ts_ends s' = ts_ends s \<and> r = fst (n_select net (ts_tick s))"
  by (auto simp: sys_select_def tick_def Let_def split: prod.splits if_splits)

lemma sendMsg_result:
  assumes "send_progress net" and "fits_frame m"
  shows "\<exists>r s' n. sendMsg net m t s = Some (r, s') \<and> ts_tx s' = ts_tx s @ take n (frame m) \<and> m_sockfd s' = m_sockfd s \<and>
     ts_rx s' = ts_rx s \<and> ts_ends s' = ts_ends s \<and>
     (r = 0 \<and> length (frame m) \<le> n \<or> r \<in> {ParamError, TimeoutError, SyscallError})"
proof (cases "m_sockfd s < 0 \<or> t < 0")
  case True
  then show ?thesis by (auto simp: sendMsg_def intro!: exI [of _ 0])
next
  case False
  from assms(2) have len: "sint (word_of_nat (length m) :: 32 word) = int (length m)" "int (length m) + 4 < 2 ^ 31"
    by (auto simp: fits_frame_def intro: be32_length)
  obtain r s1 where w: "writeWithTimeout net s = (r, s1)" by (cases "writeWithTimeout net s")
  then have s1: "ts_tx s1 = ts_tx s" "m_sockfd s1 = m_sockfd s" "ts_rx s1 = ts_rx s" "ts_ends s1 = ts_ends s"
    by (auto simp: writeWithTimeout_def split: prod.splits dest: sys_select_frame)
  obtain q s2 n where e: "writen net (frame m) s1 = Some (q, s2)" "ts_tx s2 = ts_tx s1 @ take n (frame m)"
    "m_sockfd s2 = m_sockfd s1" "ts_rx s2 = ts_rx s1" "ts_ends s2 = ts_ends s1" "q = 0 \<and> length (frame m) \<le> n \<or> q = -1"
    using writen_loop_ends [OF assms(1), of "frame m" s1] unfolding writen_def by blast
  have "sendMsg net m t s = (if r = 0 then (case writen net (frame m) s1 of None \<Rightarrow> None
      | Some (ret, s) \<Rightarrow> if ret \<noteq> 0 then Some (SyscallError, s) else Some (0, s))
    else if r = -1 then Some (SyscallError, s1) else if r = TimeoutError then Some (TimeoutError, s1)
    else Some (SyscallError, s1))"
    using False len w by (simp add: sendMsg_def Let_def frame_def)
  note step = this
  show ?thesis
  proof (cases "r = 0")
    case True
    with step e(1) have "sendMsg net m t s = Some (if q = 0 then 0 else SyscallError, s2)" by simp
    moreover have "q = 0 \<longrightarrow> length (frame m) \<le> n" using e(6) by auto
    ultimately show ?thesis
      using e s1 by (intro exI [of _ "if q = 0 then 0 else SyscallError"] exI [of _ s2] exI [of _ n]) simp
  next
    case False
    with step have "sendMsg net m t s = Some (if r = TimeoutError then TimeoutError else SyscallError, s1)" by simp
    with s1 show ?thesis
      by (intro exI [of _ "if r = TimeoutError then TimeoutError else SyscallError"] exI [of _ s1] exI [of _ 0]) simp
  qed
qed

lemma recvMsg_frame:
  assumes "recv_flows net" and "select_ready net" and "0 \<le> m_sockfd s" and "0 \<le> t" and "fits_frame m"
    and "ts_rx s = frame m @ rest"
  shows "\<exists>s'. recvMsg net t s = Some ((0, m), s') \<and> ts_rx s' = rest \<and> m_sockfd s' = m_sockfd s"
proof -
  obtain r s1 where sel: "sys_select net s = (r, s1)" by (cases "sys_select net s")
  note s1 = sys_select_frame [OF sel]
  have "0 < r" using s1 assms(2) by (simp add: select_ready_def)
  with sel have w: "readWithTimeout net s = (0, s1)" by (simp add: readWithTimeout_def)
  let ?w = "word_of_nat (length m) :: 32 word"
  from assms(6) s1 have "ts_rx s1 = be32 ?w @ m @ rest" by (simp add: frame_def)
  from readn_flows [OF assms(1) this] obtain s2 where r1: "readn net 4 s1 = Some ((0, be32 ?w), s2)"
    "ts_rx s2 = m @ rest" "m_sockfd s2 = m_sockfd s1" by auto
  from readn_flows [OF assms(1) r1(2)] obtain s3 where r2: "readn net (int (length m)) s2 = Some ((0, m), s3)"
    "ts_rx s3 = rest" "m_sockfd s3 = m_sockfd s2" by auto
  have "sint ?w = int (length m)" using assms(5) by (intro be32_length) (simp add: fits_frame_def)
  with w r1 r2 s1 assms(3,4) show ?thesis by (simp add: recvMsg_def)
qed

text \<open>One message after the other on one connection.\<close>

fun send_frames :: "net \<Rightarrow> int \<Rightarrow> string list \<Rightarrow> TcpSocket \<Rightarrow> (int \<times> TcpSocket) option" where
  "send_frames net t [] s = Some (0, s)"
| "send_frames net t (m # ms) s =
     (case sendMsg net m t s of
        None \<Rightarrow> None
      | Some (r, s) \<Rightarrow> if r \<noteq> 0 then Some (r, s) else send_frames net t ms s)"

fun recv_frames :: "net \<Rightarrow> int \<Rightarrow> nat \<Rightarrow> TcpSocket \<Rightarrow> (string list \<times> TcpSocket) option" where
  "recv_frames net t 0 s = Some ([], s)"
| "recv_frames net t (Suc n) s =
     (case recvMsg net t s of
        None \<Rightarrow> None
      | Some ((r, m), s) \<Rightarrow> if r \<noteq> 0 then None else map_option (\<lambda>(ms, s). (m # ms, s)) (recv_frames net t n s))"

lemma sendMsg_sent:
  assumes "sendMsg net m t s = Some (0, s')" and "send_progress net" and "fits_frame m"
  shows "ts_tx s' = ts_tx s @ frame m"
  using sendMsg_result [OF assms(2,3), of t s] assms(1) by auto

lemma send_frames_sent:
  assumes "send_frames net t ms s = Some (0, s')" and "send_progress net" and "\<forall>m \<in> set ms. fits_frame m"
  shows "ts_tx s' = ts_tx s @ concat (map frame ms)"
  using assms(1,3)
proof (induction ms arbitrary: s)
  case (Cons m ms)
  then obtain s1 where "sendMsg net m t s = Some (0, s1)" "send_frames net t ms s1 = Some (0, s')"
    by (auto split: option.splits prod.splits if_splits)
  with Cons sendMsg_sent [OF _ assms(2)] show ?case by simp
qed simp

lemma recv_frames_received:
  assumes "recv_flows net" and "select_ready net" and "0 \<le> t" and "\<forall>m \<in> set ms. fits_frame m"
    and "0 \<le> m_sockfd s" and "ts_rx s = concat (map frame ms) @ rest"
  shows "\<exists>s'. recv_frames net t (length ms) s = Some (ms, s') \<and> ts_rx s' = rest"
  using assms(4-)
proof (induction ms arbitrary: s)
  case (Cons m ms)
  have m: "fits_frame m" "ts_rx s = frame m @ concat (map frame ms) @ rest" using Cons.prems by simp_all
  from recvMsg_frame [OF assms(1,2) Cons.prems(2) assms(3) m]
  obtain s1 where s1: "recvMsg net t s = Some ((0, m), s1)" "ts_rx s1 = concat (map frame ms) @ rest"
    "m_sockfd s1 = m_sockfd s" by auto
  with Cons.prems obtain s' where "recv_frames net t (length ms) s1 = Some (ms, s')" "ts_rx s' = rest"
    using Cons.IH [of s1] by auto
  with s1 show ?case by auto
qed simp

text \<open>A stream that ends in the middle.\<close>

lemma readn_loop_short:
  assumes "recv_flows net" and "ts_ends s" and "int (length (ts_rx s)) < left"
  shows "\<exists>s'. readn_loop net left acc s = Some ((PeerCloseError, acc @ ts_rx s), s') \<and> ts_rx s' = []"
  using assms(2,3)
proof (induction "length (ts_rx s)" arbitrary: left acc s rule: less_induct)
  case less
  then have pos: "\<not> left \<le> 0" "0 < nat (min left 1024)" by auto
  show ?case
  proof (cases "ts_rx s = []")
    case True
    obtain j where "n_recv net (ts_tick s) = Moves j" using assms(1) by (auto simp: recv_flows_def)
    with True less.prems(1) have "sys_recv net (nat (min left 1024)) s = Some (Some [], s\<lparr>ts_tick := Suc (ts_tick s)\<rparr>)"
      by (simp add: sys_recv_def tick_def Let_def)
    with True pos(1) show ?thesis by simp
  next
    case False
    from sys_recv_flows [OF assms(1) False pos(2)] obtain i s1 where
      r: "sys_recv net (nat (min left 1024)) s = Some (Some (take i (ts_rx s)), s1)" "0 < i" "i \<le> length (ts_rx s)"
      and s1: "ts_rx s1 = drop i (ts_rx s)" "ts_ends s1 = ts_ends s" by blast
    have "length (ts_rx s1) < length (ts_rx s)" "ts_ends s1"
      "int (length (ts_rx s1)) < left - int (length (take i (ts_rx s)))"
      using r(2,3) s1 False less.prems by auto
    from less.hyps [OF this, of "acc @ take i (ts_rx s)"] obtain s2 where
      "readn_loop net (left - int (length (take i (ts_rx s)))) (acc @ take i (ts_rx s)) s1 =
         Some ((PeerCloseError, acc @ ts_rx s), s2)" "ts_rx s2 = []"
      using s1 by auto
    moreover have "take i (ts_rx s) \<noteq> []" using r(2) False by simp
    ultimately show ?thesis using r(1) pos(1) by simp
  qed
qed

lemma readWithTimeout_ready:
  assumes "select_ready net"
  obtains s1 where "readWithTimeout net s = (0, s1)" "ts_rx s1 = ts_rx s" "m_sockfd s1 = m_sockfd s" "ts_ends s1 = ts_ends s"
proof -
  obtain r s1 where sel: "sys_select net s = (r, s1)" by (cases "sys_select net s")
  note s1 = sys_select_frame [OF sel]
  have "0 < r" using s1 assms by (simp add: select_ready_def)
  with sel have eq: "readWithTimeout net s = (0, s1)" by (simp add: readWithTimeout_def)
  show thesis using s1 by (intro that [OF eq]) simp_all
qed

section \<open>What a result says, whatever the network does\<close>

lemma writen_loop_sent:
  assumes "writen_loop net buf s = Some (r, s')"
  shows "\<exists>n. ts_tx s' = ts_tx s @ take n buf \<and> (r = 0 \<longrightarrow> length buf \<le> n)"
proof -
  have "\<exists>n. ts_tx (snd x) = ts_tx s @ take n buf \<and> (fst x = 0 \<longrightarrow> length buf \<le> n)" if "writen_loop net buf s = Some x" for x
    using that
  proof (induction rule: writen_loop.raw_induct [rotated, consumes 1])
    case (1 loop net buf s x)
    show ?case
    proof (cases "buf = []")
      case True
      with 1(2) show ?thesis by auto
    next
      case False
      with 1(2) obtain w s1 where send: "sys_send net buf s = Some (w, s1)" by (auto split: option.splits)
      show ?thesis
      proof (cases "w \<le> 0")
        case True
        with send have "ts_tx s1 = ts_tx s" by (auto simp: sys_send_def tick_def Let_def split: io_fate.splits)
        moreover from 1(2) False send True have "x = (-1, s1) \<or> loop net buf s1 = Some x" by (auto split: if_splits)
        ultimately show ?thesis
        proof (elim disjE)
          assume "x = (-1, s1)" "ts_tx s1 = ts_tx s"
          then show ?thesis by (intro exI [of _ 0]) simp
        next
          assume "loop net buf s1 = Some x" "ts_tx s1 = ts_tx s"
          with 1(1) [of net buf s1 x] show ?thesis by simp
        qed
      next
        case w: False
        with send have s1: "ts_tx s1 = ts_tx s @ take (nat w) buf" by (auto simp: sys_send_def tick_def Let_def split: io_fate.splits)
        from 1(2) False send w have "loop net (drop (nat w) buf) s1 = Some x" by (auto split: if_splits)
        from 1(1) [OF this] obtain n where n: "ts_tx (snd x) = ts_tx s1 @ take n (drop (nat w) buf)"
          "fst x = 0 \<longrightarrow> length (drop (nat w) buf) \<le> n" by blast
        with s1 show ?thesis by (intro exI [of _ "nat w + n"]) (auto simp: take_add)
      qed
    qed
  qed
  from this [OF assms] show ?thesis by simp
qed

lemma sendMsg_sends:
  assumes "sendMsg net m t s = Some (r, s')" and "length m < 2 ^ 32"
  shows "\<exists>n. ts_tx s' = ts_tx s @ take n (frame m) \<and> (r = 0 \<longrightarrow> length (frame m) \<le> n \<and> fits_frame m)"
proof (cases "m_sockfd s < 0 \<or> t < 0")
  case True
  with assms(1) show ?thesis by (auto simp: sendMsg_def intro: exI [of _ 0])
next
  case False
  let ?w = "word_of_nat (length m) :: 32 word"
  from assms(1) False have d: "\<not> sint ?w < 0" "sint ?w + 4 < 2 ^ 31" by (auto simp: sendMsg_def Let_def split: if_splits)
  have u: "uint ?w = int (length m)" using assms(2) by (simp add: unsigned_of_nat take_bit_nat_eq_self)
  have "uint ?w = sint ?w" using d by (subst uint_sint) (simp add: take_bit_int_eq_self)
  with u have len: "sint ?w = int (length m)" by simp
  then have fits: "fits_frame m" using d(2) by (simp add: fits_frame_def)
  obtain q s1 where w: "writeWithTimeout net s = (q, s1)" by (cases "writeWithTimeout net s")
  then have s1: "ts_tx s1 = ts_tx s" by (auto simp: writeWithTimeout_def split: prod.splits dest: sys_select_frame)
  show ?thesis
  proof (cases "q = 0")
    case True
    with assms(1) False d w len obtain p s2 where p: "writen net (frame m) s1 = Some (p, s2)" "s' = s2" "r = 0 \<longrightarrow> p = 0"
      by (auto simp: sendMsg_def Let_def frame_def split: option.splits if_splits)
    from writen_loop_sent [OF p(1) [unfolded writen_def]] p(2,3) s1 fits show ?thesis by auto
  next
    case ne: False
    with assms(1) False d w len have "s' = s1" "r \<noteq> 0" by (auto simp: sendMsg_def Let_def split: if_splits)
    with s1 show ?thesis by (intro exI [of _ 0]) simp
  qed
qed

lemma sys_recv_bytes:
  assumes "sys_recv net n s = Some (Some bytes, s')" and "0 < n"
  shows "ts_rx s = bytes @ ts_rx s' \<and> length bytes \<le> n \<and> ts_tx s' = ts_tx s \<and> m_sockfd s' = m_sockfd s"
proof (cases "n_recv net (ts_tick s)")
  case (Moves j)
  show ?thesis
  proof (cases "ts_rx s = []")
    case False
    let ?i = "max 1 (min j (min n (length (ts_rx s))))"
    from Moves False assms(1) have "bytes = take ?i (ts_rx s)" "s' = s\<lparr>ts_tick := Suc (ts_tick s), ts_rx := drop ?i (ts_rx s)\<rparr>"
      by (auto simp: sys_recv_def tick_def Let_def)
    moreover have "length (take ?i (ts_rx s)) \<le> n" using assms(2) by (simp add: min.coboundedI2)
    ultimately show ?thesis by simp
  qed (use assms(1) Moves in \<open>auto simp: sys_recv_def tick_def split: if_splits\<close>)
qed (use assms(1) in \<open>auto simp: sys_recv_def tick_def\<close>)

lemma readn_loop_read:
  assumes "readn_loop net left acc s = Some ((0, d), s')" and "0 \<le> left"
  shows "\<exists>x. ts_rx s = x @ ts_rx s' \<and> d = acc @ x \<and> int (length x) = left \<and> ts_tx s' = ts_tx s \<and> m_sockfd s' = m_sockfd s"
  using assms
proof (induction net left acc s rule: readn_loop.induct)
  case (1 net left acc s)
  show ?case
  proof (cases "left \<le> 0")
    case True
    with 1(2,3) show ?thesis by simp
  next
    case False
    with 1(2) obtain bytes s1 where r: "sys_recv net (nat (min left 1024)) s = Some (Some bytes, s1)" "bytes \<noteq> []"
      "readn_loop net (left - int (length bytes)) (acc @ bytes) s1 = Some ((0, d), s')"
      by (auto split: option.splits if_splits)
    from sys_recv_bytes [OF r(1)] False have s1: "ts_rx s = bytes @ ts_rx s1" "ts_tx s1 = ts_tx s" "m_sockfd s1 = m_sockfd s"
      and "int (length bytes) \<le> left" by auto
    with 1(1) [OF False r(1)] r(2,3) obtain x where "ts_rx s1 = x @ ts_rx s'" "d = (acc @ bytes) @ x"
      "int (length x) = left - int (length bytes)" "ts_tx s' = ts_tx s1" "m_sockfd s' = m_sockfd s1" by auto
    with s1 show ?thesis by (intro exI [of _ "bytes @ x"]) simp
  qed
qed

lemma recvMsg_reads:
  assumes "recvMsg net t s = Some ((0, d), s')" and "ts_rx s = take n (frame m)" and "fits_frame m"
  shows "d = m \<and> ts_tx s' = ts_tx s"
proof -
  from assms(1) obtain s1 where w: "readWithTimeout net s = (0, s1)"
    by (auto simp: recvMsg_def Let_def split: if_splits prod.splits)
  then have s1: "ts_rx s1 = ts_rx s" "ts_tx s1 = ts_tx s"
    by (auto simp: readWithTimeout_def split: prod.splits if_splits dest: sys_select_frame)
  from assms(1) w obtain lenBuf s2 where l: "readn net 4 s1 = Some ((0, lenBuf), s2)"
    and b: "readn net (sint (of_be32 lenBuf)) s2 = Some ((0, d), s')"
    by (auto simp: recvMsg_def Let_def bind_eq_Some_conv split: if_splits)
  from readn_loop_read [OF l [unfolded readn_def]] have x: "ts_rx s = lenBuf @ ts_rx s2" "length lenBuf = 4" "ts_tx s2 = ts_tx s1"
    using s1 by auto
  let ?w = "word_of_nat (length m) :: 32 word"
  have "take 4 (ts_rx s) = lenBuf" using x by simp
  moreover have "4 \<le> length (ts_rx s)" using x by simp
  then have "4 \<le> n" using assms(2) by simp
  ultimately have "lenBuf = be32 ?w" using assms(2) by (simp add: frame_def min_def)
  then have sint: "sint (of_be32 lenBuf) = int (length m)"
    using assms(3) by (simp add: be32_length fits_frame_def)
  with readn_loop_read [OF b [unfolded readn_def]] have y: "ts_rx s2 = d @ ts_rx s'" "length d = length m" "ts_tx s' = ts_tx s2"
    by auto
  have "take n (frame m) = be32 ?w @ d @ ts_rx s'" using assms(2) x(1) y(1) \<open>lenBuf = be32 ?w\<close> by simp
  then have "take (n - 4) m = d @ ts_rx s'" using \<open>4 \<le> n\<close> by (simp add: frame_def)
  moreover from this have "length (take (n - 4) m) = length m + length (ts_rx s')" using y(2) by simp
  then have "length m \<le> n - 4" "length (ts_rx s') = 0" unfolding length_take by linarith+
  ultimately have "d = m" by simp
  with y(3) x(3) s1 show ?thesis by simp
qed

section \<open>The properties\<close>

definition calm :: "nat \<Rightarrow> net" where
  "calm n = \<lparr>n_socket = (\<lambda>_. (3, 0)), n_pton = (\<lambda>_. 1), n_fcntl = (\<lambda>_. 0), n_connect = (\<lambda>_. (0, 0)),
     n_select = (\<lambda>_. (1, 0)), n_soerror = (\<lambda>_. 0), n_recv = (\<lambda>_. Moves n),
     n_send = (\<lambda>k. if even k then Fails EINTR else Moves n)\<rparr>"

lemma calm_flows [simp]: "recv_flows (calm n)" "select_ready (calm n)" "send_progress (calm n)"
  by (simp_all add: calm_def recv_flows_def select_ready_def send_progress_def)
    (metis even_Suc le_Suc_eq order_refl)

text \<open>C27. What one end of a connection sends as messages, the other end receives: the same messages,
  whole and in order, and the bytes after them are left in the stream. It holds however the two system
  calls split the bytes and however often a signal interrupts the sending.\<close>

theorem frames_received:
  assumes "send_frames net t ms a = Some (0, a')" and "ts_tx a' = ts_tx a @ sent" and "ts_rx b = sent @ rest"
    and "\<forall>m \<in> set ms. fits_frame m" and "send_progress net"
    and "recv_flows net'" and "select_ready net'" and "0 \<le> t'" and "0 \<le> m_sockfd b"
  shows "\<exists>b'. recv_frames net' t' (length ms) b = Some (ms, b') \<and> ts_rx b' = rest"
proof -
  have "sent = concat (map frame ms)"
    using send_frames_sent [OF assms(1,5,4)] assms(2) by simp
  with recv_frames_received [OF assms(6,7,8,4,9)] assms(3) show ?thesis by simp
qed

theorem frames_received_witness:
  "\<exists>a' b'. send_frames (calm 3) 5 [''hello'', [], ''ab''] (TcpSocket_new 3) = Some (0, a') \<and>
     recv_frames (calm 2) 5 3 (TcpSocket_new 4\<lparr>ts_rx := ts_tx a' @ ''x''\<rparr>) = Some ([''hello'', [], ''ab''], b') \<and>
     ts_rx b' = ''x''"
proof -
  define ms where "ms = [''hello'', [], ''ab'']"
  have "map_option fst (send_frames (calm 3) 5 ms (TcpSocket_new 3)) = Some 0"
    unfolding ms_def by code_simp
  then obtain a' where a: "send_frames (calm 3) 5 ms (TcpSocket_new 3) = Some (0, a')" by auto
  have tx: "ts_tx a' = ts_tx (TcpSocket_new 3) @ ts_tx a'" by (simp add: TcpSocket_new_def)
  have fits: "\<forall>m \<in> set ms. fits_frame m" by (simp add: ms_def fits_frame_def)
  let ?b = "TcpSocket_new 4\<lparr>ts_rx := ts_tx a' @ ''x''\<rparr>"
  have "0 \<le> m_sockfd ?b" "ts_rx ?b = ts_tx a' @ ''x''" by (simp_all add: TcpSocket_new_def)
  from frames_received [OF a tx this(2) fits _ _ _ _ this(1), of "calm 2" 5]
  have "\<exists>b'. recv_frames (calm 2) 5 (length ms) ?b = Some (ms, b') \<and> ts_rx b' = ''x''" by simp
  moreover have "length ms = 3" by (simp add: ms_def)
  ultimately show ?thesis using a unfolding ms_def by metis
qed

text \<open>C29. \<open>sendMsg\<close> returns when signals do not interrupt \<open>send\<close> for ever (and the peer does not make
  the signal of a broken pipe kill the process), and its result can be trusted: 0 only when the whole
  frame is in the stream, otherwise one of the three error codes, with at most a part of the frame in
  the stream; nothing else of the connection changes.\<close>

theorem sendMsg_outcome:
  assumes "send_progress net" and "fits_frame m"
  shows "\<exists>r s' n. sendMsg net m t s = Some (r, s') \<and> ts_tx s' = ts_tx s @ take n (frame m) \<and> m_sockfd s' = m_sockfd s \<and>
     ts_rx s' = ts_rx s \<and> (r = 0 \<and> length (frame m) \<le> n \<or> r \<in> {ParamError, TimeoutError, SyscallError})"
  using sendMsg_result [OF assms, of t s] by blast

theorem sendMsg_outcome_witness:
  "\<exists>r s' n. sendMsg (calm 3) ''hello'' 5 (TcpSocket_new 3) = Some (r, s') \<and>
     ts_tx s' = ts_tx (TcpSocket_new 3) @ take n (frame ''hello'') \<and> m_sockfd s' = m_sockfd (TcpSocket_new 3) \<and>
     ts_rx s' = ts_rx (TcpSocket_new 3) \<and> (r = 0 \<and> length (frame ''hello'') \<le> n \<or> r \<in> {ParamError, TimeoutError, SyscallError})"
  by (rule sendMsg_outcome) (simp_all add: fits_frame_def)

text \<open>C28. \<open>recvMsg\<close> never takes a part of a message for a message: when the peer closes the connection
  inside a frame, in the length or in the payload, the caller gets the code of a closed connection.\<close>

theorem truncated_frame:
  assumes "strict_prefix (ts_rx s) (frame m)" and "fits_frame m" and "ts_ends s"
    and "recv_flows net" and "select_ready net" and "0 \<le> t" and "0 \<le> m_sockfd s"
  shows "\<exists>d s'. recvMsg net t s = Some ((PeerCloseError, d), s')"
proof -
  from assms(5) obtain s1 where w: "readWithTimeout net s = (0, s1)" and s1: "ts_rx s1 = ts_rx s" "ts_ends s1"
    using assms(3) by (metis readWithTimeout_ready)
  have skip: "recvMsg net t s = do {
          ((ret, lenBuf), s) \<leftarrow> readn net 4 s1;
          if ret \<noteq> 0 then Some ((ret, []), s)
          else do {
            ((ret, recvData), s) \<leftarrow> readn net (sint (of_be32 lenBuf)) s;
            if ret \<noteq> 0 then Some ((ret, recvData), s) else Some ((0, recvData), s) } }"
    using w assms(6,7) unfolding recvMsg_def Let_def by simp
  from assms(1) obtain z zs where z: "frame m = ts_rx s @ z # zs" by (rule strict_prefixE')
  show ?thesis
  proof (cases "length (ts_rx s) < 4")
    case True
    with readn_loop_short [OF assms(4) s1(2), of 4 "[]"] s1 obtain s2 where
      "readn net 4 s1 = Some ((PeerCloseError, ts_rx s), s2)" by (auto simp: readn_def)
    with skip show ?thesis by simp
  next
    case False
    let ?w = "word_of_nat (length m) :: 32 word"
    have fr: "take 4 (frame m) = be32 ?w" "drop 4 (frame m) = m" by (simp_all add: frame_def)
    let ?y = "drop 4 (ts_rx s)"
    have "take 4 (ts_rx s) = be32 ?w" using fr(1) z False by simp
    then have rx: "ts_rx s1 = be32 ?w @ ?y" using s1 by (metis append_take_drop_id)
    have "m = ?y @ z # zs" using fr(2) z False by simp
    then have y: "length ?y < length m" by (metis length_append length_Cons less_add_Suc1 add_Suc_right)
    from readn_flows [OF assms(4) rx] s1 obtain s2 where r: "readn net 4 s1 = Some ((0, be32 ?w), s2)"
      "ts_rx s2 = ?y" "ts_ends s2" by auto
    have "sint ?w = int (length m)" using assms(2) by (intro be32_length) (simp add: fits_frame_def)
    moreover have "\<exists>d s3. readn net (int (length m)) s2 = Some ((PeerCloseError, d), s3)"
      using readn_loop_short [OF assms(4) r(3), of "int (length m)" "[]"] r(2) y by (auto simp: readn_def)
    ultimately show ?thesis using skip r(1) by auto
  qed
qed

theorem truncated_frame_witness:
  "\<exists>d s'. recvMsg (calm 2) 5 (TcpSocket_new 4\<lparr>ts_rx := take 7 (frame ''hello'')\<rparr>) = Some ((PeerCloseError, d), s')"
proof (rule truncated_frame)
  have "drop 7 (frame ''hello'') \<noteq> []" by (simp add: frame_def)
  then show "strict_prefix (ts_rx (TcpSocket_new 4\<lparr>ts_rx := take 7 (frame ''hello'')\<rparr>)) (frame ''hello'')"
    by (simp add: strict_prefix_def take_is_prefix frame_def)
qed (simp_all add: fits_frame_def TcpSocket_new_def)

text \<open>C30. A frame whose length field is negative, read as the signed number the code reads it as, is
  not refused: \<open>recvMsg\<close> reports success with an empty message and leaves the payload in the stream,
  where the next call takes it for a length.\<close>

theorem negative_frame:
  assumes "ts_rx s = be32 w @ rest" and "sint w < 0"
    and "recv_flows net" and "select_ready net" and "0 \<le> t" and "0 \<le> m_sockfd s"
  shows "\<exists>s'. recvMsg net t s = Some ((0, []), s') \<and> ts_rx s' = rest"
proof -
  from assms(4) obtain s1 where w: "readWithTimeout net s = (0, s1)" and s1: "ts_rx s1 = be32 w @ rest"
    using assms(1) by (metis readWithTimeout_ready)
  from readn_flows [OF assms(3) s1] obtain s2 where r: "readn net 4 s1 = Some ((0, be32 w), s2)" "ts_rx s2 = rest" by auto
  moreover have "readn net (sint w) s2 = Some ((0, []), s2)" using assms(2) by (simp add: readn_def)
  ultimately show ?thesis using w assms(5,6) by (simp add: recvMsg_def Let_def)
qed

theorem negative_frame_witness:
  "\<exists>s'. recvMsg (calm 2) 5 (TcpSocket_new 4\<lparr>ts_rx := be32 (- 1) @ ''abc''\<rparr>) = Some ((0, []), s') \<and> ts_rx s' = ''abc''"
  by (rule negative_frame [where w = "- 1"]) (simp_all add: TcpSocket_new_def)

end
