(* ===== verification/EventLoop.thy ===== *)
theory EventLoop
  imports Framing "HOL-Library.Multiset"
begin

text \<open>
  The threads of the server: the loop of \<open>ServerOP::startServer\<close> over \<open>EpollServer.cpp\<close>, the pool of
  \<open>ThreadPool.cpp\<close> and the workers that run \<open>ServerOP::handleClientFd\<close>, as a state machine whose
  steps interleave. A step of the main thread is one pass of its loops up to the next system call; a
  step of a worker is one call of \<open>handleClientFd\<close>. The kernel is part of the state: which descriptors
  are open and on what connection, which of them have an event that \<open>epoll_wait\<close> has not reported
  (\<open>EPOLLET\<close> reports one only once), and the connections that wait to be accepted. What the kernel
  answers is the label of a step. What a request is turned into is the parameter \<open>process\<close>.
\<close>

unbundle bit_operations_syntax

section \<open>EpollServer\<close>

abbreviation (input) EPOLLIN :: "32 word" where "EPOLLIN \<equiv> 1"
abbreviation (input) EPOLLET :: "32 word" where "EPOLLET \<equiv> push_bit 31 1"
abbreviation (input) EAGAIN :: int where "EAGAIN \<equiv> 11"

record EpollServer =
  m_lfd :: int
  m_epfd :: int
  ep_watched :: "(int \<times> 32 word) list"

definition EpollServer_new :: EpollServer where
  "EpollServer_new = \<lparr>m_lfd = -1, m_epfd = -1, ep_watched = []\<rparr>"

text \<open>\<open>ep_watched\<close>: the interest list. The \<open>bool\<close> is the answer of \<open>epoll_ctl\<close>.\<close>

definition addFd :: "bool \<Rightarrow> int \<Rightarrow> 32 word \<Rightarrow> EpollServer \<Rightarrow> bool \<times> EpollServer" where
  "addFd ok fd events e = (if ok then (True, e\<lparr>ep_watched := (fd, events) # filter (\<lambda>(f, _). f \<noteq> fd) (ep_watched e)\<rparr>) else (False, e))"

definition modFd :: "bool \<Rightarrow> int \<Rightarrow> 32 word \<Rightarrow> EpollServer \<Rightarrow> bool \<times> EpollServer" where
  "modFd ok fd events e = (if ok then (True, e\<lparr>ep_watched := (fd, events) # filter (\<lambda>(f, _). f \<noteq> fd) (ep_watched e)\<rparr>) else (False, e))"

definition delFd :: "int \<Rightarrow> EpollServer \<Rightarrow> EpollServer" where
  "delFd fd e = e\<lparr>ep_watched := filter (\<lambda>(f, _). f \<noteq> fd) (ep_watched e)\<rparr>"

text \<open>\<open>sys\<close> gives the result of each system call, in the order of the code.\<close>

definition setNonBlocking :: "(nat \<Rightarrow> int) \<Rightarrow> nat \<Rightarrow> bool" where
  "setNonBlocking sys k = (if sys k < 0 then False else if sys (Suc k) < 0 then False else True)"

definition init :: "(nat \<Rightarrow> int) \<Rightarrow> EpollServer \<Rightarrow> bool \<times> EpollServer" where
  "init sys e =
     (let e = e\<lparr>m_lfd := sys 0\<rparr> in
      if m_lfd e < 0 then (False, e)
      else if \<not> setNonBlocking sys 2 then (False, e)
      else if sys 4 \<noteq> 0 then (False, e)
      else if sys 5 \<noteq> 0 then (False, e)
      else
        let e = e\<lparr>m_epfd := sys 6\<rparr> in
        if m_epfd e < 0 then (False, e)
        else addFd (sys 7 = 0) (m_lfd e) EPOLLIN e)"

section \<open>Threads and kernel\<close>

text \<open>Where a worker is: waiting for a task, at a call of \<open>handleClientFd\<close>, about to unmark, or ended.
  The number is the connection the request was read from.\<close>

datatype worker =
    Idle
  | Recv int
  | Process int nat string
  | Send int nat string
  | DelFd int
  | Disconnect int
  | Unmark int
  | Exited

text \<open>Where the main thread is: at \<open>wait\<close>, with the rest of the reported events, in the loop of
  \<open>accept\<close>, about to enqueue; after the loop, joining the workers, ended.\<close>

datatype main_pc =
    Wait
  | Events "(int \<times> 32 word) list"
  | Accepting "(int \<times> 32 word) list"
  | Enqueue int "(int \<times> 32 word) list"
  | Broken
  | Joining
  | Ended

text \<open>\<open>lp_sent\<close> records every answer: the connection its request came from, the connection it was sent
  on, the bytes.\<close>

record 'st loop =
  m_server :: EpollServer
  m_processingFds :: "int set"
  m_tasks :: "int list"
  m_stop :: bool
  m_workers :: "worker list"
  lp_main :: main_pc
  lp_state :: 'st
  k_fds :: "int \<rightharpoonup> nat"
  k_conns :: "nat \<Rightarrow> TcpSocket"
  k_armed :: "int set"
  k_backlog :: "nat list"
  k_next :: nat
  lp_sent :: "(nat \<times> nat \<times> string) list"

text \<open>What the kernel answers the main thread: reported events, a failure with \<open>errno\<close>, an accepted
  descriptor with the answer of \<open>epoll_ctl\<close>; \<open>Go\<close> where no answer is needed.\<close>

datatype answer = Ready "(int \<times> 32 word) list" | Fail int | Conn int bool | Go

section \<open>The pool\<close>

definition markFdProcessing :: "int \<Rightarrow> 'st loop \<Rightarrow> bool \<times> 'st loop" where
  "markFdProcessing fd s =
     (if fd \<in> m_processingFds s then (False, s)
      else (True, s\<lparr>m_processingFds := insert fd (m_processingFds s)\<rparr>))"

definition unmarkFdProcessing :: "int \<Rightarrow> 'st loop \<Rightarrow> 'st loop" where
  "unmarkFdProcessing fd s = s\<lparr>m_processingFds := m_processingFds s - {fd}\<rparr>"

text \<open>\<open>enqueue\<close> throws once the pool has been stopped.\<close>

definition enqueue :: "int \<Rightarrow> 'st loop \<Rightarrow> 'st loop option" where
  "enqueue fd s = (if m_stop s then None else Some (s\<lparr>m_tasks := m_tasks s @ [fd]\<rparr>))"

definition set_worker :: "nat \<Rightarrow> worker \<Rightarrow> 'st loop \<Rightarrow> 'st loop" where
  "set_worker i p s = s\<lparr>m_workers := (m_workers s)[i := p]\<rparr>"

text \<open>\<open>ThreadPool::worker\<close>: wait, leave when stopped and out of tasks, otherwise take the first one.\<close>

definition take_task :: "nat \<Rightarrow> 'st loop \<Rightarrow> 'st loop option" where
  "take_task i s =
     (if \<not> (m_stop s \<or> m_tasks s \<noteq> []) then None
      else if m_stop s \<and> m_tasks s = [] then Some (set_worker i Exited s)
      else Some (set_worker i (Recv (hd (m_tasks s))) (s\<lparr>m_tasks := tl (m_tasks s)\<rparr>)))"

definition close_fd :: "int \<Rightarrow> 'st loop \<Rightarrow> 'st loop" where
  "close_fd fd s = s\<lparr>k_fds := (k_fds s)(fd := None), k_armed := k_armed s - {fd},
     m_server := delFd fd (m_server s)\<rparr>"

text \<open>The calls of \<open>handleClientFd\<close>, and \<open>unmarkFdProcessing\<close> after it. A descriptor that is not open
  makes the call fail. \<^const>\<open>None\<close>: the worker waits.\<close>

fun worker_step ::
    "net \<Rightarrow> (string \<Rightarrow> 'st \<Rightarrow> (string \<times> 'st) option) \<Rightarrow> nat \<Rightarrow> worker \<Rightarrow> 'st loop \<Rightarrow> 'st loop option" where
  "worker_step net process i Idle s = take_task i s"
| "worker_step net process i (Recv fd) s =
     (case k_fds s fd of
        None \<Rightarrow> Some (set_worker i (DelFd fd) s)
      | Some c \<Rightarrow>
          (case recvMsg net 10 ((k_conns s c)\<lparr>m_sockfd := fd\<rparr>) of
             None \<Rightarrow> None
           | Some ((ret, recvData), tcp) \<Rightarrow>
               Some (set_worker i (if ret \<noteq> 0 then DelFd fd else Process fd c recvData)
                 (s\<lparr>k_conns := (k_conns s)(c := tcp)\<rparr>))))"
| "worker_step net process i (Process fd c recvData) s =
     (case process recvData (lp_state s) of
        None \<Rightarrow> None
      | Some (rspData, st) \<Rightarrow>
          Some (set_worker i (if rspData = [] then DelFd fd else Send fd c rspData) (s\<lparr>lp_state := st\<rparr>)))"
| "worker_step net process i (Send fd c rspData) s =
     (case k_fds s fd of
        None \<Rightarrow> Some (set_worker i (DelFd fd) s)
      | Some c' \<Rightarrow>
          (case sendMsg net rspData 10 ((k_conns s c')\<lparr>m_sockfd := fd\<rparr>) of
             None \<Rightarrow> None
           | Some (ret, tcp) \<Rightarrow>
               Some (set_worker i (DelFd fd)
                 (s\<lparr>k_conns := (k_conns s)(c' := tcp), lp_sent := lp_sent s @ [(c, c', rspData)]\<rparr>))))"
| "worker_step net process i (DelFd fd) s = Some (set_worker i (Disconnect fd) (s\<lparr>m_server := delFd fd (m_server s)\<rparr>))"
| "worker_step net process i (Disconnect fd) s = Some (set_worker i (Unmark fd) (close_fd fd s))"
| "worker_step net process i (Unmark fd) s = Some (set_worker i Idle (unmarkFdProcessing fd s))"
| "worker_step net process i Exited s = None"

section \<open>The main thread\<close>

text \<open>A connection has an event when there is something to read.\<close>

definition readable :: "TcpSocket \<Rightarrow> bool" where
  "readable t \<longleftrightarrow> ts_rx t \<noteq> [] \<or> ts_ends t"

text \<open>\<open>accept\<close> and \<open>addFd\<close> for the first waiting connection.\<close>

definition accept_conn :: "int \<Rightarrow> bool \<Rightarrow> 'st loop \<Rightarrow> 'st loop" where
  "accept_conn cfd ok s =
     (let c = hd (k_backlog s); s = s\<lparr>k_backlog := tl (k_backlog s), k_fds := (k_fds s)(cfd \<mapsto> c)\<rparr>;
          (added, e) = addFd ok cfd (EPOLLIN OR EPOLLET) (m_server s); s = s\<lparr>m_server := e\<rparr> in
      if \<not> added then close_fd cfd s
      else if readable (k_conns s c) then s\<lparr>k_armed := insert cfd (k_armed s)\<rparr> else s)"

text \<open>\<open>startServer\<close> after its initialisation; at the end the destructor of the pool stops and joins.\<close>

fun main_step :: "answer \<Rightarrow> main_pc \<Rightarrow> 'st loop \<Rightarrow> 'st loop option" where
  "main_step (Ready evs) Wait s = Some (s\<lparr>lp_main := Events evs, k_armed := k_armed s - fst ` set evs\<rparr>)"
| "main_step (Fail e) Wait s = Some (if e = EINTR then s else s\<lparr>lp_main := Broken\<rparr>)"
| "main_step Go (Events []) s = Some (s\<lparr>lp_main := Wait\<rparr>)"
| "main_step Go (Events ((fd, ev) # evs)) s =
     (if fd = m_lfd (m_server s) then Some (s\<lparr>lp_main := Accepting evs\<rparr>)
      else if ev AND EPOLLIN \<noteq> 0 then
        (let (marked, s) = markFdProcessing fd s in
         Some (s\<lparr>lp_main := if \<not> marked then Events evs else Enqueue fd evs\<rparr>))
      else Some ((close_fd fd (s\<lparr>m_server := delFd fd (m_server s)\<rparr>))\<lparr>lp_main := Events evs\<rparr>))"
| "main_step (Conn cfd ok) (Accepting evs) s = Some (accept_conn cfd ok s)"
| "main_step (Fail e) (Accepting evs) s = Some (s\<lparr>lp_main := Events evs\<rparr>)"
| "main_step Go (Enqueue fd evs) s = map_option (\<lambda>s. s\<lparr>lp_main := Events evs\<rparr>) (enqueue fd s)"
| "main_step Go Broken s = Some (s\<lparr>m_stop := True, lp_main := Joining\<rparr>)"
| "main_step Go Joining s = (if \<forall>w \<in> set (m_workers s). w = Exited then Some (s\<lparr>lp_main := Ended\<rparr>) else None)"
| "main_step _ _ s = None"

text \<open>What the kernel may answer: events that are there, of different descriptors, at most 128; a
  descriptor that is free.\<close>

fun allowed :: "answer \<Rightarrow> 'st loop \<Rightarrow> bool" where
  "allowed (Ready evs) s \<longleftrightarrow> evs \<noteq> [] \<and> length evs \<le> 128 \<and> distinct (map fst evs) \<and>
     (\<forall>fd \<in> fst ` set evs. fd \<in> k_armed s \<or> fd = m_lfd (m_server s) \<and> k_backlog s \<noteq> [])"
| "allowed (Conn cfd ok) s \<longleftrightarrow> k_backlog s \<noteq> [] \<and> k_fds s cfd = None \<and> 0 \<le> cfd \<and> cfd \<noteq> m_lfd (m_server s) \<and>
     cfd \<noteq> m_epfd (m_server s)"
| "allowed (Fail e) s = True"
| "allowed Go s = True"

section \<open>The state machine\<close>

text \<open>The peers: one connects; data arrives on a connection, or its end.\<close>

definition connects :: "'st loop \<Rightarrow> 'st loop" where
  "connects s = s\<lparr>k_backlog := k_backlog s @ [k_next s], k_next := Suc (k_next s),
     k_conns := (k_conns s)(k_next s := (TcpSocket_new (-1))\<lparr>ts_ends := False\<rparr>)\<rparr>"

definition arrives :: "nat \<Rightarrow> string \<Rightarrow> bool \<Rightarrow> 'st loop \<Rightarrow> 'st loop" where
  "arrives c bytes ends s =
     (let t = k_conns s c in
      s\<lparr>k_conns := (k_conns s)(c := t\<lparr>ts_rx := ts_rx t @ bytes, ts_ends := ends \<or> ts_ends t\<rparr>),
        k_armed := k_armed s \<union> set (filter (\<lambda>fd. k_fds s fd = Some c) (map fst (ep_watched (m_server s))))\<rparr>)"

datatype label = Main answer | Worker nat | Connects | Arrives nat string bool

fun step_of ::
    "net \<Rightarrow> (string \<Rightarrow> 'st \<Rightarrow> (string \<times> 'st) option) \<Rightarrow> label \<Rightarrow> 'st loop \<Rightarrow> 'st loop option" where
  "step_of net process (Main a) s = (if allowed a s then main_step a (lp_main s) s else None)"
| "step_of net process (Worker i) s =
     (if i < length (m_workers s) then worker_step net process i (m_workers s ! i) s else None)"
| "step_of net process Connects s = Some (connects s)"
| "step_of net process (Arrives c bytes ends) s = Some (arrives c bytes ends s)"

text \<open>\<open>startServer\<close> before its loop: a listening descriptor is there and the pool has its workers.\<close>

definition startServer :: "(nat \<Rightarrow> int) \<Rightarrow> nat \<Rightarrow> 'st \<Rightarrow> 'st loop option" where
  "startServer sys threadCount st =
     (let (ok, e) = init sys EpollServer_new in
      if \<not> ok then None
      else Some \<lparr>m_server = e, m_processingFds = {}, m_tasks = [], m_stop = False,
        m_workers = replicate threadCount Idle, lp_main = Wait, lp_state = st, k_fds = Map.empty,
        k_conns = (\<lambda>_. TcpSocket_new (-1)), k_armed = {}, k_backlog = [], k_next = 0, lp_sent = []\<rparr>)"

text \<open>\<open>P\<close> restricts what the kernel answers.\<close>

inductive reachable ::
    "(label \<Rightarrow> bool) \<Rightarrow> net \<Rightarrow> (string \<Rightarrow> 'st \<Rightarrow> (string \<times> 'st) option) \<Rightarrow> 'st loop \<Rightarrow> bool"
  for P net process where
  start: "startServer sys 4 st = Some s \<Longrightarrow> reachable P net process s"
| step: "reachable P net process s \<Longrightarrow> P l \<Longrightarrow> step_of net process l s = Some s' \<Longrightarrow> reachable P net process s'"

end
