(* ===== verification/LoopProps.thy ===== *)
theory LoopProps
  imports EventLoop
begin

text \<open>
  The threads of the server: a descriptor is in the hands of at most one thread, an answer goes out on
  the connection its request came from, at most one per connection, and the pool finishes what it has
  accepted before it ends. These hold for every interleaving. Two runs show what the code does not
  exclude.
\<close>

unbundle bit_operations_syntax

section \<open>One owner for each descriptor\<close>

fun fd_of :: "worker \<Rightarrow> int list" where
  "fd_of Idle = []"
| "fd_of (Recv fd) = [fd]"
| "fd_of (Process fd c d) = [fd]"
| "fd_of (Send fd c r) = [fd]"
| "fd_of (DelFd fd) = [fd]"
| "fd_of (Disconnect fd) = [fd]"
| "fd_of (Unmark fd) = [fd]"
| "fd_of Exited = []"

fun main_fd :: "main_pc \<Rightarrow> int list" where
  "main_fd (Enqueue fd evs) = [fd]"
| "main_fd _ = []"

definition owners :: "'st loop \<Rightarrow> int list" where
  "owners s = m_tasks s @ concat (map fd_of (m_workers s)) @ main_fd (lp_main s)"

definition one_each :: "'st loop \<Rightarrow> bool" where
  "one_each s \<longleftrightarrow> finite (m_processingFds s) \<and> mset (owners s) = mset_set (m_processingFds s)"

lemma one_each_distinct:
  assumes "one_each s"
  shows "distinct (owners s) \<and> set (owners s) = m_processingFds s"
proof -
  from assms have m: "finite (m_processingFds s)" "mset (owners s) = mset_set (m_processingFds s)"
    by (simp_all add: one_each_def)
  then have set: "set (owners s) = m_processingFds s" by (metis finite_set_mset_mset_set set_mset_mset)
  with m have "\<forall>x. count (mset (owners s)) x = (if x \<in> set (owners s) then 1 else 0)" by simp
  with set show ?thesis by (simp add: distinct_count_atmost_1)
qed

lemma mset_update:
  "i < length ws \<Longrightarrow> mset (concat (map fd_of (ws[i := p]))) + mset (fd_of (ws ! i)) =
     mset (concat (map fd_of ws)) + mset (fd_of p)"
  by (induction ws arbitrary: i) (auto simp: nth_Cons add.assoc add.commute add.left_commute split: nat.splits)

lemma mset_same:
  "i < length ws \<Longrightarrow> fd_of p = fd_of (ws ! i) \<Longrightarrow> mset (concat (map fd_of (ws[i := p]))) = mset (concat (map fd_of ws))"
  using mset_update [of i ws p] by simp

lemma one_each_set_worker:
  assumes "one_each s" and "i < length (m_workers s)" and "fd_of p = fd_of (m_workers s ! i)"
    and "m_tasks s' = m_tasks s" "m_workers s' = m_workers s" "lp_main s' = lp_main s"
    "m_processingFds s' = m_processingFds s"
  shows "one_each (set_worker i p s')"
  using assms mset_same [OF assms(2,3)] by (simp add: one_each_def owners_def set_worker_def)

lemma one_each_take:
  assumes "one_each s" and "i < length (m_workers s)" and "m_workers s ! i = Idle" and "take_task i s = Some s'"
  shows "one_each s'"
proof (cases "m_stop s \<and> m_tasks s = []")
  case True
  with assms show ?thesis by (auto simp: take_task_def intro: one_each_set_worker)
next
  case False
  with assms(4) have ne: "m_tasks s \<noteq> []" "s' = set_worker i (Recv (hd (m_tasks s))) (s\<lparr>m_tasks := tl (m_tasks s)\<rparr>)"
    by (auto simp: take_task_def split: if_splits)
  obtain t ts where t: "m_tasks s = t # ts" using ne(1) by (cases "m_tasks s") auto
  from mset_update [OF assms(2), of "Recv t"] assms(3)
  have "mset (concat (map fd_of ((m_workers s)[i := Recv t]))) = mset (concat (map fd_of (m_workers s))) + {#t#}" by simp
  with assms(1) ne(2) t show ?thesis by (simp add: one_each_def owners_def set_worker_def)
qed

lemma one_each_unmark:
  assumes "one_each s" and "i < length (m_workers s)" and "m_workers s ! i = Unmark fd"
  shows "one_each (set_worker i Idle (unmarkFdProcessing fd s))"
proof -
  from mset_update [OF assms(2), of Idle] assms(3)
  have "mset (concat (map fd_of (m_workers s))) = add_mset fd (mset (concat (map fd_of ((m_workers s)[i := Idle]))))"
    by simp
  with assms(1) have all: "mset_set (m_processingFds s) =
      add_mset fd (mset (m_tasks s) + (mset (concat (map fd_of ((m_workers s)[i := Idle]))) + mset (main_fd (lp_main s))))"
    and fin: "finite (m_processingFds s)"
    by (simp_all add: one_each_def owners_def)
  then have "fd \<in> m_processingFds s" by (metis finite_set_mset_mset_set union_single_eq_member)
  then have "mset_set (m_processingFds s) = add_mset fd (mset_set (m_processingFds s - {fd}))"
    using fin by (rule mset_set.remove [rotated])
  with all fin show ?thesis
    by (simp add: one_each_def owners_def set_worker_def unmarkFdProcessing_def)
qed

lemma one_each_worker:
  assumes "one_each s" and "i < length (m_workers s)" and "worker_step net process i (m_workers s ! i) s = Some s'"
  shows "one_each s'"
proof (cases "m_workers s ! i")
  case Idle
  with assms show ?thesis by (auto intro: one_each_take)
next
  case (Unmark fd)
  with assms show ?thesis by (auto intro: one_each_unmark)
qed (use assms in \<open>auto split: option.splits prod.splits if_splits simp: close_fd_def intro!: one_each_set_worker\<close>)

lemma one_each_main:
  assumes "one_each s" and "main_step a (lp_main s) s = Some s'"
  shows "one_each s'"
  using assms(2,1)
  by (elim main_step.elims)
    (auto simp: one_each_def owners_def markFdProcessing_def enqueue_def close_fd_def accept_conn_def addFd_def Let_def
      split: if_splits)

lemma one_each_step: "one_each s \<Longrightarrow> step_of net process l s = Some s' \<Longrightarrow> one_each s'"
  by (cases l)
    (auto split: if_splits dest: one_each_worker one_each_main, simp_all add: connects_def arrives_def one_each_def owners_def Let_def)

lemma startServer_state:
  "startServer sys n st = Some s \<Longrightarrow> m_tasks s = [] \<and> m_workers s = replicate n Idle \<and> lp_main s = Wait \<and>
     m_processingFds s = {} \<and> m_stop s = False \<and> k_fds s = Map.empty \<and> k_backlog s = [] \<and> k_next s = 0 \<and> lp_sent s = []"
  by (auto simp: startServer_def Let_def split: prod.splits if_splits)

lemma one_each_start: "startServer sys n st = Some s \<Longrightarrow> one_each s"
  by (frule startServer_state) (simp add: one_each_def owners_def map_replicate_const)

lemma one_each_reachable: "reachable P net process s \<Longrightarrow> one_each s"
  by (induction rule: reachable.induct) (blast intro: one_each_start one_each_step)+

lemma same_worker:
  assumes "one_each s" and "i < length (m_workers s)" "j < length (m_workers s)"
    and "fd \<in> set (fd_of (m_workers s ! i))" "fd \<in> set (fd_of (m_workers s ! j))"
  shows "i = j"
proof (rule ccontr)
  assume "i \<noteq> j"
  let ?ws = "m_workers s"
  from one_each_distinct [OF assms(1)] have d: "distinct (concat (map fd_of ?ws))" by (simp add: owners_def)
  have "distinct (concat (map fd_of (?ws[i := Idle])) @ fd_of (?ws ! i))"
    using mset_update [OF assms(2), of Idle] d
    by (metis append_Nil2 fd_of.simps(1) mset_append mset_eq_imp_distinct_iff)
  moreover have "fd \<in> set (concat (map fd_of (?ws[i := Idle])))"
    using assms(3,5) \<open>i \<noteq> j\<close> by (auto intro!: bexI [of _ "?ws ! j"] simp: in_set_conv_nth)
      (metis length_list_update nth_list_update_neq)
  ultimately show False using assms(4) by auto
qed

section \<open>Answers go to their own connection\<close>

text \<open>Every event that \<open>epoll\<close> reports says that there is something to read.\<close>

definition all_in :: "(int \<times> 32 word) list \<Rightarrow> bool" where
  "all_in evs \<longleftrightarrow> (\<forall>(fd, ev) \<in> set evs. ev AND EPOLLIN \<noteq> 0)"

fun reads_only :: "label \<Rightarrow> bool" where
  "reads_only (Main (Ready evs)) = all_in evs"
| "reads_only _ = True"

fun main_in :: "main_pc \<Rightarrow> bool" where
  "main_in (Events evs) = all_in evs"
| "main_in (Accepting evs) = all_in evs"
| "main_in (Enqueue fd evs) = all_in evs"
| "main_in _ = True"

fun serving :: "worker \<Rightarrow> (int \<times> nat) option" where
  "serving (Process fd c d) = Some (fd, c)"
| "serving (Send fd c r) = Some (fd, c)"
| "serving _ = None"

definition answered :: "'st loop \<Rightarrow> nat set" where
  "answered s = fst ` set (lp_sent s)"

definition conns_ok :: "'st loop \<Rightarrow> bool" where
  "conns_ok s \<longleftrightarrow> (\<forall>fd fd' c. k_fds s fd = Some c \<longrightarrow> k_fds s fd' = Some c \<longrightarrow> fd = fd') \<and>
     (\<forall>c \<in> ran (k_fds s) \<union> set (k_backlog s) \<union> answered s. c < k_next s) \<and> distinct (k_backlog s) \<and>
     (\<forall>c \<in> set (k_backlog s). c \<notin> ran (k_fds s) \<and> c \<notin> answered s)"

definition own :: "'st loop \<Rightarrow> bool" where
  "own s \<longleftrightarrow> main_in (lp_main s) \<and> conns_ok s \<and>
     (\<forall>i fd c. i < length (m_workers s) \<longrightarrow> serving (m_workers s ! i) = Some (fd, c) \<longrightarrow>
        k_fds s fd = Some c \<and> c \<notin> answered s) \<and>
     (\<forall>fd c. c \<in> answered s \<longrightarrow> k_fds s fd = Some c \<longrightarrow>
        (\<exists>i < length (m_workers s). m_workers s ! i \<in> {DelFd fd, Disconnect fd})) \<and>
     (\<forall>(c, c', r) \<in> set (lp_sent s). c = c') \<and> distinct (map fst (lp_sent s))"

lemma ownI:
  assumes "main_in (lp_main s)" and "conns_ok s"
    and "\<And>i fd c. i < length (m_workers s) \<Longrightarrow> serving (m_workers s ! i) = Some (fd, c) \<Longrightarrow>
      k_fds s fd = Some c \<and> c \<notin> answered s"
    and "\<And>fd c. c \<in> answered s \<Longrightarrow> k_fds s fd = Some c \<Longrightarrow>
      \<exists>i < length (m_workers s). m_workers s ! i \<in> {DelFd fd, Disconnect fd}"
    and "\<And>c c' r. (c, c', r) \<in> set (lp_sent s) \<Longrightarrow> c = c'" and "distinct (map fst (lp_sent s))"
  shows "own s"
  unfolding own_def using assms by blast

lemma ownD:
  assumes "own s"
  shows "main_in (lp_main s)" "conns_ok s"
    "\<And>i fd c. i < length (m_workers s) \<Longrightarrow> serving (m_workers s ! i) = Some (fd, c) \<Longrightarrow>
      k_fds s fd = Some c \<and> c \<notin> answered s"
    "\<And>fd c. c \<in> answered s \<Longrightarrow> k_fds s fd = Some c \<Longrightarrow>
      \<exists>i < length (m_workers s). m_workers s ! i \<in> {DelFd fd, Disconnect fd}"
    "\<And>c c' r. (c, c', r) \<in> set (lp_sent s) \<Longrightarrow> c = c'" "distinct (map fst (lp_sent s))"
  using assms unfolding own_def by blast+

lemma own_set_workerI:
  assumes "main_in (lp_main s)" and "conns_ok s"
    and "\<And>j fd c. j < length (m_workers s) \<Longrightarrow> serving ((m_workers s)[i := p] ! j) = Some (fd, c) \<Longrightarrow>
      k_fds s fd = Some c \<and> c \<notin> answered s"
    and "\<And>fd c. c \<in> answered s \<Longrightarrow> k_fds s fd = Some c \<Longrightarrow>
      \<exists>j < length (m_workers s). (m_workers s)[i := p] ! j \<in> {DelFd fd, Disconnect fd}"
    and "\<And>c c' r. (c, c', r) \<in> set (lp_sent s) \<Longrightarrow> c = c'" and "distinct (map fst (lp_sent s))"
  shows "own (set_worker i p s)"
proof (rule ownI)
  show "conns_ok (set_worker i p s)" using assms(2) by (simp add: conns_ok_def set_worker_def answered_def)
qed (use assms(1,3-) in \<open>simp_all add: set_worker_def answered_def\<close>)

lemma conns_inj: "conns_ok s \<Longrightarrow> k_fds s fd = Some c \<Longrightarrow> k_fds s fd' = Some c \<Longrightarrow> fd = fd'"
  unfolding conns_ok_def by blast

lemma serving_fd: "serving w = Some (fd, c) \<Longrightarrow> fd \<in> set (fd_of w)"
  by (cases w) auto

lemma ran_map_upd: "c \<in> ran (m(a \<mapsto> b)) \<Longrightarrow> c = b \<or> c \<in> ran m"
  by (auto simp: ran_def split: if_splits)

lemma ran_del: "c \<in> ran (m(a := None)) \<Longrightarrow> c \<in> ran m"
  by (auto simp: ran_def split: if_splits)

text \<open>A worker moves on while descriptors, waiting connections and answers stay.\<close>

lemma own_moves:
  assumes "own s" and "i < length (m_workers s)"
    and new: "\<And>fd c. serving p = Some (fd, c) \<Longrightarrow> k_fds s fd = Some c \<and> c \<notin> answered s"
    and "\<And>fd. m_workers s ! i \<in> {DelFd fd, Disconnect fd} \<Longrightarrow> p \<in> {DelFd fd, Disconnect fd} \<or> k_fds s fd = None"
    and same: "m_workers s' = m_workers s" "lp_main s' = lp_main s" "k_fds s' = k_fds s" "k_backlog s' = k_backlog s"
    "k_next s' = k_next s" "lp_sent s' = lp_sent s"
  shows "own (set_worker i p s')"
proof -
  have ans: "answered s' = answered s" using same(6) by (simp add: answered_def)
  show ?thesis
  proof (rule own_set_workerI)
    show "main_in (lp_main s')" "distinct (map fst (lp_sent s'))" using ownD(1,6) [OF assms(1)] same by simp_all
    show "conns_ok s'" using ownD(2) [OF assms(1)] same ans by (simp add: conns_ok_def)
    show "d = d'" if "(d, d', r) \<in> set (lp_sent s')" for d d' r using ownD(5) [OF assms(1)] that same by simp
    show "k_fds s' fd' = Some c' \<and> c' \<notin> answered s'"
      if "j < length (m_workers s')" "serving ((m_workers s')[i := p] ! j) = Some (fd', c')" for j fd' c'
    proof (cases "j = i")
      case True
      with that assms(2) same(1) have "serving p = Some (fd', c')" by simp
      from new [OF this] show ?thesis using ans same(3) by simp
    next
      case False
      with that same(1) have "j < length (m_workers s)" "serving (m_workers s ! j) = Some (fd', c')" by simp_all
      from ownD(3) [OF assms(1) this] show ?thesis using ans same(3) by simp
    qed
    show "\<exists>j < length (m_workers s'). (m_workers s')[i := p] ! j \<in> {DelFd fd', Disconnect fd'}"
      if prem: "c' \<in> answered s'" "k_fds s' fd' = Some c'" for fd' c'
    proof -
      from prem ans same have prem': "c' \<in> answered s" "k_fds s fd' = Some c'" by simp_all
      from ownD(4) [OF assms(1) this] obtain j where
        j: "j < length (m_workers s)" "m_workers s ! j \<in> {DelFd fd', Disconnect fd'}" by blast
      show ?thesis
      proof (cases "j = i")
        case True
        with j(2) assms(4) [of fd'] prem'(2) have "p \<in> {DelFd fd', Disconnect fd'}" by auto
        with assms(2) same(1) show ?thesis by (intro exI [of _ i]) simp
      next
        case False
        with j same(1) show ?thesis by (intro exI [of _ j]) simp
      qed
    qed
  qed
qed

lemma own_quiet:
  assumes "own s" and "i < length (m_workers s)" and "serving p = None"
    and "\<And>fd. m_workers s ! i \<in> {DelFd fd, Disconnect fd} \<Longrightarrow> p \<in> {DelFd fd, Disconnect fd} \<or> k_fds s fd = None"
    and "m_workers s' = m_workers s" "lp_main s' = lp_main s" "k_fds s' = k_fds s" "k_backlog s' = k_backlog s"
    "k_next s' = k_next s" "lp_sent s' = lp_sent s"
  shows "own (set_worker i p s')"
  by (rule own_moves [OF assms(1,2) _ assms(4-10)]) (simp_all add: assms(3))

lemma own_read:
  assumes "own s" and "one_each s" and "i < length (m_workers s)" and "m_workers s ! i = Recv fd" and "k_fds s fd = Some c"
  shows "c \<notin> answered s"
proof
  assume "c \<in> answered s"
  with assms(1,5) obtain j where j: "j < length (m_workers s)" "m_workers s ! j \<in> {DelFd fd, Disconnect fd}"
    unfolding own_def by blast
  then have "i = j" using same_worker [OF assms(2,3) j(1), of fd] assms(4) by auto
  with j(2) assms(4) show False by auto
qed

text \<open>A descriptor is closed by the worker that has it.\<close>

lemma own_close:
  assumes "own s" and "one_each s" and "i < length (m_workers s)" and "m_workers s ! i = Disconnect fd"
  shows "own (set_worker i (Unmark fd) (close_fd fd s))"
proof -
  have own': "own (close_fd fd s)"
  proof (rule ownI)
    show "conns_ok (close_fd fd s)"
      using ownD(2) [OF assms(1)] unfolding conns_ok_def close_fd_def answered_def by (auto dest: ran_del split: if_splits)
    fix j fd' c assume j: "j < length (m_workers (close_fd fd s))" "serving (m_workers (close_fd fd s) ! j) = Some (fd', c)"
    then have j': "j < length (m_workers s)" "serving (m_workers s ! j) = Some (fd', c)" by (simp_all add: close_fd_def)
    have "fd' \<noteq> fd" using same_worker [OF assms(2,3) j'(1), of fd] serving_fd [OF j'(2)] assms(4) j'(2) by auto
    with ownD(3) [OF assms(1) j'] show "k_fds (close_fd fd s) fd' = Some c \<and> c \<notin> answered (close_fd fd s)"
      by (simp add: close_fd_def answered_def)
  next
    fix fd' c assume "c \<in> answered (close_fd fd s)" "k_fds (close_fd fd s) fd' = Some c"
    then have "c \<in> answered s" "k_fds s fd' = Some c" by (auto simp: close_fd_def answered_def split: if_splits)
    from ownD(4) [OF assms(1) this]
    show "\<exists>i < length (m_workers (close_fd fd s)). m_workers (close_fd fd s) ! i \<in> {DelFd fd', Disconnect fd'}"
      by (simp add: close_fd_def)
  qed (use ownD [OF assms(1)] in \<open>simp_all add: close_fd_def\<close>)
  show ?thesis
    by (rule own_quiet [OF own']) (use assms(3,4) in \<open>simp_all add: close_fd_def\<close>)
qed

lemma own_send:
  assumes "own s" and "one_each s" and "i < length (m_workers s)" and "m_workers s ! i = Send fd c r" and "k_fds s fd = Some c'"
    and "m_workers s' = m_workers s" "lp_main s' = lp_main s" "k_fds s' = k_fds s" "k_backlog s' = k_backlog s"
    "k_next s' = k_next s" "lp_sent s' = lp_sent s @ [(c, c', r)]"
  shows "own (set_worker i (DelFd fd) s')"
proof -
  let ?ws = "m_workers s"
  from ownD(3) [OF assms(1,3)] assms(4) have c: "k_fds s fd = Some c" "c \<notin> answered s" by simp_all
  with assms(5) have eq: "c' = c" by simp
  have ans: "answered s' = insert c (answered s)" using assms(11) by (auto simp: answered_def)
  have inj: "fd' = fd" if "k_fds s fd' = Some c" for fd' by (rule conns_inj [OF ownD(2) [OF assms(1)] that c(1)])
  have "c \<in> ran (k_fds s)" using c(1) by (rule ranI)
  show ?thesis
  proof (rule own_set_workerI)
    show "main_in (lp_main s')" using ownD(1) [OF assms(1)] assms(7) by simp
    show "conns_ok s'"
      using ownD(2) [OF assms(1)] \<open>c \<in> ran (k_fds s)\<close> assms(8-10) ans unfolding conns_ok_def by auto
    show "d = d'" if "(d, d', q) \<in> set (lp_sent s')" for d d' q
      using ownD(5) [OF assms(1)] that assms(11) eq by auto
    have "c \<notin> set (map fst (lp_sent s))" using c(2) by (simp add: answered_def)
    with ownD(6) [OF assms(1)] assms(11) show "distinct (map fst (lp_sent s'))" by simp
    show "k_fds s' fd' = Some d \<and> d \<notin> answered s'"
      if prem: "j < length (m_workers s')" "serving ((m_workers s')[i := DelFd fd] ! j) = Some (fd', d)" for j fd' d
    proof -
      from prem assms(3,6) have ne: "j \<noteq> i" by auto
      with prem assms(6) have j: "j < length ?ws" "serving (?ws ! j) = Some (fd', d)" by simp_all
      from ownD(3) [OF assms(1) this] have d: "k_fds s fd' = Some d" "d \<notin> answered s" by blast+
      have "d \<noteq> c"
      proof
        assume "d = c"
        with d inj have "fd' = fd" by simp
        with same_worker [OF assms(2,3) j(1), of fd] serving_fd [OF j(2)] assms(4) ne show False by simp
      qed
      with d ans assms(8) show ?thesis by simp
    qed
    show "\<exists>j < length (m_workers s'). (m_workers s')[i := DelFd fd] ! j \<in> {DelFd fd', Disconnect fd'}"
      if prem: "d \<in> answered s'" "k_fds s' fd' = Some d" for fd' d
    proof (cases "d = c")
      case True
      with prem(2) inj assms(3,6,8) show ?thesis by (intro exI [of _ i]) simp
    next
      case False
      with prem ans assms(8) ownD(4) [OF assms(1), of d fd'] obtain j where
        j: "j < length ?ws" "?ws ! j \<in> {DelFd fd', Disconnect fd'}" by auto
      with assms(4) have "j \<noteq> i" by auto
      with j assms(6) show ?thesis by (intro exI [of _ j]) simp
    qed
  qed
qed

lemma own_worker:
  assumes "own s" and "one_each s" and i: "i < length (m_workers s)"
    and step: "worker_step net process i (m_workers s ! i) s = Some s'"
  shows "own s'"
proof (cases "m_workers s ! i")
  case Idle
  with step show ?thesis
    by (auto simp: take_task_def split: if_splits intro!: own_quiet [OF assms(1) i])
next
  case (Recv fd)
  show ?thesis
  proof (cases "k_fds s fd")
    case None
    with Recv step show ?thesis by (auto intro!: own_quiet [OF assms(1) i])
  next
    case (Some c)
    from own_read [OF assms(1-3) Recv Some] have new: "c \<notin> answered s" .
    from Recv Some step show ?thesis
      by (auto split: option.splits prod.splits if_splits
          intro!: own_quiet [OF assms(1) i] own_moves [OF assms(1) i] simp: new)
  qed
next
  case (Process fd c d)
  with ownD(3) [OF assms(1) i, of fd c] have c: "k_fds s fd = Some c \<and> c \<notin> answered s" by simp
  from Process step show ?thesis
    by (auto split: option.splits prod.splits if_splits
        intro!: own_quiet [OF assms(1) i] own_moves [OF assms(1) i] simp: c)
next
  case (Send fd c r)
  show ?thesis
  proof (cases "k_fds s fd")
    case None
    with Send step show ?thesis by (auto intro!: own_quiet [OF assms(1) i])
  next
    case (Some c')
    with Send step show ?thesis
      by (auto split: option.splits prod.splits intro!: own_send [OF assms(1-3) Send Some])
  qed
next
  case (DelFd fd)
  with step show ?thesis by (auto intro!: own_quiet [OF assms(1) i])
next
  case (Disconnect fd)
  with step own_close [OF assms(1-3)] show ?thesis by simp
next
  case (Unmark fd)
  with step show ?thesis by (auto simp: unmarkFdProcessing_def intro!: own_quiet [OF assms(1) i])
next
  case Exited
  with step show ?thesis by simp
qed

text \<open>The main thread changes descriptors only by accepting.\<close>

lemma own_frame:
  assumes "own s" and "main_in (lp_main s')" and "m_workers s' = m_workers s" "k_fds s' = k_fds s"
    "k_backlog s' = k_backlog s" "k_next s' = k_next s" "lp_sent s' = lp_sent s"
  shows "own s'"
proof (rule ownI)
  have ans: "answered s' = answered s" by (simp only: answered_def assms(7))
  show "conns_ok s'" using ownD(2) [OF assms(1)] unfolding conns_ok_def ans assms(3-7) .
  show "main_in (lp_main s')" by (rule assms(2))
  show "distinct (map fst (lp_sent s'))" unfolding assms(7) by (rule ownD(6) [OF assms(1)])
  show "k_fds s' fd = Some c \<and> c \<notin> answered s'"
    if "i < length (m_workers s')" "serving (m_workers s' ! i) = Some (fd, c)" for i fd c
    using ownD(3) [OF assms(1) that [unfolded assms(3)]] unfolding ans assms(4) .
  show "\<exists>i < length (m_workers s'). m_workers s' ! i \<in> {DelFd fd, Disconnect fd}"
    if "c \<in> answered s'" "k_fds s' fd = Some c" for c fd
    using ownD(4) [OF assms(1) that [unfolded ans assms(4)]] unfolding assms(3) .
  show "c = c'" if "(c, c', r) \<in> set (lp_sent s')" for c c' r
    by (rule ownD(5) [OF assms(1) that [unfolded assms(7)]])
qed

lemma conns_ok_accept:
  assumes "conns_ok s" and "k_backlog s = c # cs" and "k_fds s cfd = None"
    and "k_fds s' = k_fds s \<or> k_fds s' = (k_fds s)(cfd \<mapsto> c)" "k_backlog s' = cs" "k_next s' = k_next s" "lp_sent s' = lp_sent s"
  shows "conns_ok s'"
proof -
  have c: "c \<notin> ran (k_fds s)" "c \<notin> set cs" "c < k_next s" using assms(1,2) by (auto simp: conns_ok_def)
  have "fd = fd'" if "k_fds s' fd = Some d" "k_fds s' fd' = Some d" for fd fd' d
    using assms(4)
  proof
    assume "k_fds s' = k_fds s"
    with that conns_inj [OF assms(1)] show ?thesis by metis
  next
    assume upd: "k_fds s' = (k_fds s)(cfd \<mapsto> c)"
    have "k_fds s e \<noteq> Some c" for e using c(1) by (auto intro: ranI)
    with that upd conns_inj [OF assms(1)] show ?thesis by (metis fun_upd_apply option.inject)
  qed
  moreover have "ran (k_fds s') \<subseteq> insert c (ran (k_fds s))" using assms(4) by (auto dest: ran_map_upd)
  ultimately show ?thesis
    using assms(1,2,5-7) c unfolding conns_ok_def answered_def by auto
qed

lemma own_accept:
  assumes "own s" and "lp_main s = Accepting evs" and "k_backlog s = c # cs" and "k_fds s cfd = None"
  shows "own (accept_conn cfd ok s)"
proof -
  let ?s = "accept_conn cfd ok s"
  have f: "k_fds ?s = (if ok then (k_fds s)(cfd \<mapsto> c) else k_fds s)" "k_backlog ?s = cs" "k_next ?s = k_next s"
    "lp_sent ?s = lp_sent s" "m_workers ?s = m_workers s" "lp_main ?s = lp_main s"
    using assms(3,4) by (auto simp: accept_conn_def addFd_def close_fd_def Let_def fun_upd_idem)
  have new: "c \<notin> answered s" using ownD(2) [OF assms(1)] assms(3) by (simp add: conns_ok_def)
  show ?thesis
  proof (rule ownI)
    show "conns_ok ?s" by (rule conns_ok_accept [OF ownD(2) [OF assms(1)] assms(3,4)]) (simp_all add: f)
    show "k_fds ?s fd = Some d \<and> d \<notin> answered ?s"
      if "i < length (m_workers ?s)" "serving (m_workers ?s ! i) = Some (fd, d)" for i fd d
      using ownD(3) [OF assms(1), of i fd d] that assms(4) f by (auto simp: answered_def)
    show "\<exists>i < length (m_workers ?s). m_workers ?s ! i \<in> {DelFd fd, Disconnect fd}"
      if "d \<in> answered ?s" "k_fds ?s fd = Some d" for fd d
    proof -
      have "d \<in> answered s" using that(1) f(4) by (simp add: answered_def)
      moreover from this new have "k_fds s fd = Some d" using that(2) f(1) by (auto split: if_splits)
      ultimately show ?thesis using ownD(4) [OF assms(1), of d fd] f(5) by simp
    qed
  qed (use ownD(1,5,6) [OF assms(1)] f in simp_all)
qed

lemma own_main:
  assumes "own s" and "allowed a s" and "reads_only (Main a)" and "main_step a (lp_main s) s = Some s'"
  shows "own s'"
proof (cases "\<exists>evs cfd ok. lp_main s = Accepting evs \<and> a = Conn cfd ok")
  case True
  then obtain evs cfd ok where a: "lp_main s = Accepting evs" "a = Conn cfd ok" by blast
  with assms(2) obtain c cs where "k_backlog s = c # cs" "k_fds s cfd = None" by (cases "k_backlog s") auto
  with own_accept [OF assms(1) a(1)] a assms(4) show ?thesis by auto
next
  case False
  have "main_in (lp_main s') \<and> m_workers s' = m_workers s \<and> k_fds s' = k_fds s \<and> k_backlog s' = k_backlog s \<and>
      k_next s' = k_next s \<and> lp_sent s' = lp_sent s"
    using assms(4) False assms(3) ownD(1) [OF assms(1)]
    by (elim main_step.elims)
      (auto simp: markFdProcessing_def enqueue_def all_in_def Let_def split: if_splits)
  then show ?thesis by (blast intro: own_frame [OF assms(1)])
qed

lemma own_connects:
  assumes "own s"
  shows "own (connects s)"
proof -
  have "conns_ok (connects s)"
    using ownD(2) [OF assms] unfolding conns_ok_def connects_def answered_def by (auto simp: less_Suc_eq)
  then show ?thesis
    by (rule ownI [rotated]) (use ownD [OF assms] in \<open>simp_all add: connects_def answered_def\<close>)
qed

lemma own_arrives: "own s \<Longrightarrow> own (arrives c bytes ends s)"
  by (rule own_frame) (auto simp: arrives_def Let_def dest: ownD(1))

lemma own_step:
  "own s \<Longrightarrow> one_each s \<Longrightarrow> reads_only l \<Longrightarrow> step_of net process l s = Some s' \<Longrightarrow> own s'"
  by (cases l)
    (auto split: if_splits dest: own_worker own_main intro: own_connects own_arrives)

lemma own_start: "startServer sys n st = Some s \<Longrightarrow> own s"
  by (frule startServer_state) (auto intro!: ownI simp: conns_ok_def answered_def)

lemma own_reachable: "reachable reads_only net process s \<Longrightarrow> own s"
proof (induction rule: reachable.induct)
  case (step s l s')
  then show ?case using own_step one_each_reachable by blast
qed (rule own_start)

section \<open>The end of the pool\<close>

definition drains :: "'st loop \<Rightarrow> bool" where
  "drains s \<longleftrightarrow> (Exited \<in> set (m_workers s) \<longrightarrow> m_stop s \<and> m_tasks s = []) \<and>
     (m_stop s \<longrightarrow> lp_main s \<in> {Joining, Ended}) \<and> m_workers s \<noteq> [] \<and>
     (lp_main s = Ended \<longrightarrow> (\<forall>w \<in> set (m_workers s). w = Exited))"

lemma drains_worker:
  assumes "drains s" and i: "i < length (m_workers s)" and "worker_step net process i (m_workers s ! i) s = Some s'"
  shows "drains s'"
proof -
  have "m_workers s ! i \<noteq> Exited" using assms(3) by auto
  then have not_ended: "lp_main s \<noteq> Ended" using assms(1) i unfolding drains_def by (metis nth_mem)
  have "m_stop s' = m_stop s \<and> lp_main s' = lp_main s \<and> (m_tasks s = [] \<longrightarrow> m_tasks s' = []) \<and>
      (\<exists>p. m_workers s' = (m_workers s)[i := p] \<and> (p = Exited \<longrightarrow> m_stop s \<and> m_tasks s' = []))"
    using assms(3)
    by (cases "m_workers s ! i")
      (auto simp: take_task_def set_worker_def close_fd_def unmarkFdProcessing_def split: option.splits prod.splits if_splits)
  then obtain p where p: "m_workers s' = (m_workers s)[i := p]" "p = Exited \<longrightarrow> m_stop s \<and> m_tasks s' = []"
    "m_stop s' = m_stop s" "lp_main s' = lp_main s" "m_tasks s = [] \<longrightarrow> m_tasks s' = []" by blast
  moreover have "Exited \<in> set ((m_workers s)[i := p]) \<Longrightarrow> p = Exited \<or> Exited \<in> set (m_workers s)"
    by (auto dest: set_update_subset_insert [THEN subsetD])
  moreover have "(m_workers s)[i := p] \<noteq> []" using i by auto
  moreover note not_ended
  ultimately show ?thesis using assms(1) unfolding drains_def by auto
qed

lemma drains_main: "drains s \<Longrightarrow> main_step a (lp_main s) s = Some s' \<Longrightarrow> drains s'"
  by (elim main_step.elims)
    (auto simp: drains_def markFdProcessing_def enqueue_def close_fd_def accept_conn_def addFd_def Let_def split: if_splits)

lemma drains_step: "drains s \<Longrightarrow> step_of net process l s = Some s' \<Longrightarrow> drains s'"
  by (cases l) (auto split: if_splits dest: drains_worker drains_main, simp_all add: drains_def connects_def arrives_def Let_def)

lemma drains_reachable: "reachable P net process s \<Longrightarrow> drains s"
proof (induction rule: reachable.induct)
  case (start sys st s)
  then show ?case by (auto simp: drains_def dest!: startServer_state)
qed (rule drains_step)

section \<open>Runs\<close>

fun run :: "net \<Rightarrow> (string \<Rightarrow> 'st \<Rightarrow> (string \<times> 'st) option) \<Rightarrow> label list \<Rightarrow> 'st loop \<Rightarrow> 'st loop option" where
  "run net process [] s = Some s"
| "run net process (l # ls) s = (case step_of net process l s of None \<Rightarrow> None | Some s \<Rightarrow> run net process ls s)"

lemma run_reachable:
  "reachable P net process s \<Longrightarrow> \<forall>l \<in> set ls. P l \<Longrightarrow> run net process ls s = Some s' \<Longrightarrow> reachable P net process s'"
  by (induction ls arbitrary: s) (auto split: option.splits intro: reachable.step)

text \<open>A kernel and a network in which nothing fails: listening descriptor 3, \<open>epoll\<close> descriptor 4; the
  answer to a request is its reverse, and the number of requests is counted.\<close>

definition demo_net :: net where
  "demo_net = \<lparr>n_socket = (\<lambda>_. (3, 0)), n_pton = (\<lambda>_. 1), n_fcntl = (\<lambda>_. 0), n_connect = (\<lambda>_. (0, 0)),
     n_select = (\<lambda>_. (1, 0)), n_soerror = (\<lambda>_. 0), n_recv = (\<lambda>_. Moves 100), n_send = (\<lambda>_. Moves 100)\<rparr>"

definition demo_sys :: "nat \<Rightarrow> int" where
  "demo_sys k = (if k = 0 then 3 else if k = 6 then 4 else 0)"

definition echo :: "string \<Rightarrow> nat \<Rightarrow> (string \<times> nat) option" where
  "echo d n = Some (rev d, Suc n)"

abbreviation (input) hello :: string where
  "hello \<equiv> [NUL, NUL, NUL, CHR 0x02, CHR ''h'', CHR ''i'']"

text \<open>Accepting a connection as \<open>fd\<close>; reporting its data and handing it to a worker; serving it.\<close>

definition accept_run :: "int \<Rightarrow> label list" where
  "accept_run fd = [Main (Ready [(3, EPOLLIN)]), Main Go, Main (Conn fd True), Main (Fail EAGAIN), Main Go]"

definition report_run :: "int \<Rightarrow> label list" where
  "report_run fd = [Main (Ready [(fd, EPOLLIN)]), Main Go, Main Go, Main Go]"

definition serve_run :: "nat \<Rightarrow> label list" where
  "serve_run i = replicate 6 (Worker i)"

definition one_request :: "label list" where
  "one_request = [Connects, Arrives 0 hello False] @ accept_run 5 @ report_run 5 @ serve_run 0 @ [Worker 0]"

definition demo_end :: "label list \<Rightarrow> nat loop option" where
  "demo_end ls = Option.bind (startServer demo_sys 4 0) (run demo_net echo ls)"

lemma demo_reachable:
  assumes "demo_end ls = Some s" and "\<forall>l \<in> set ls. P l"
  shows "reachable P demo_net echo s"
proof -
  from assms(1) obtain s0 where "startServer demo_sys 4 0 = Some s0" "run demo_net echo ls s0 = Some s"
    by (auto simp: demo_end_def bind_eq_Some_conv)
  with assms(2) show ?thesis by (blast intro: run_reachable reachable.start)
qed

section \<open>The properties\<close>

text \<open>C35. A descriptor is worked on by one thread at most, in every reachable state: it is at most once
  among the queued tasks, the workers and the main thread's next task, and the descriptors that
  \<open>m_processingFds\<close> holds are exactly these.\<close>

theorem one_worker_per_fd:
  assumes "reachable P net process s"
  shows "distinct (owners s) \<and> m_processingFds s = set (m_tasks s @ concat (map fd_of (m_workers s)) @ main_fd (lp_main s))"
  using one_each_distinct [OF one_each_reachable [OF assms]] by (simp add: owners_def)

theorem one_worker_per_fd_witness:
  "\<exists>s. demo_end ([Connects, Arrives 0 hello False] @ accept_run 5 @ report_run 5 @ [Worker 0]) = Some s \<and>
     distinct (owners s) \<and> m_processingFds s = set (m_tasks s @ concat (map fd_of (m_workers s)) @ main_fd (lp_main s))"
proof -
  let ?ls = "[Connects, Arrives 0 hello False] @ accept_run 5 @ report_run 5 @ [Worker 0]"
  have "demo_end ?ls \<noteq> None" by code_simp
  then obtain s where s: "demo_end ?ls = Some s" by blast
  with one_worker_per_fd [OF demo_reachable [OF s, of "\<lambda>_. True"]] show ?thesis by simp
qed

text \<open>C36. An answer is sent on the connection that its request was read from, and a connection gets at
  most one answer, for every interleaving of the threads and although descriptors are closed and given
  to new connections while events for them are still being handled; as long as \<open>epoll\<close> reports no event
  without \<open>EPOLLIN\<close>.\<close>

theorem answers_own_request:
  assumes "reachable reads_only net process s"
  shows "distinct (map fst (lp_sent s)) \<and> (\<forall>(c, c', rsp) \<in> set (lp_sent s). c = c')"
  using ownD(5,6) [OF own_reachable [OF assms]] by auto

theorem answers_own_request_witness:
  "\<exists>s. demo_end one_request = Some s \<and> map fst (lp_sent s) = [0] \<and>
     distinct (map fst (lp_sent s)) \<and> (\<forall>(c, c', rsp) \<in> set (lp_sent s). c = c')"
proof -
  have "map_option (\<lambda>s. map fst (lp_sent s)) (demo_end one_request) = Some [0]" by code_simp
  then obtain s where s: "demo_end one_request = Some s" "map fst (lp_sent s) = [0]" by auto
  have "\<forall>l \<in> set one_request. reads_only l"
    by (simp add: one_request_def accept_run_def report_run_def serve_run_def all_in_def)
  from answers_own_request [OF demo_reachable [OF s(1) this]] s show ?thesis by simp
qed

text \<open>C38. An event without \<open>EPOLLIN\<close> makes the main thread close a descriptor that a worker is using: the
  number can go to a new connection, and the answer to the first client's request is sent to the second
  client.\<close>

theorem answer_crosses:
  "\<exists>s. reachable (\<lambda>_. True) demo_net echo s \<and> (0, 1, ''ih'') \<in> set (lp_sent s)"
proof -
  let ?ls = "[Connects, Arrives 0 hello False] @ accept_run 5 @ report_run 5 @ [Worker 0, Worker 0, Arrives 0 [] True,
     Main (Ready [(5, 8)]), Main Go, Main Go, Connects] @ accept_run 5 @ [Worker 0, Worker 0]"
  have "map_option (\<lambda>s. map (\<lambda>(c, c', r). (c, c', r)) (lp_sent s)) (demo_end ?ls) = Some [(0, 1, ''ih'')]" by code_simp
  then obtain s where s: "demo_end ?ls = Some s" "lp_sent s = [(0, 1, ''ih'')]" by auto
  with demo_reachable [OF s(1), of "\<lambda>_. True"] show ?thesis by auto
qed

text \<open>No thread can do anything, and \<open>epoll\<close> has nothing to report.\<close>

definition quiescent :: "'st loop \<Rightarrow> bool" where
  "quiescent s \<longleftrightarrow> lp_main s = Wait \<and> m_tasks s = [] \<and> \<not> m_stop s \<and> (\<forall>w \<in> set (m_workers s). w = Idle) \<and>
     k_armed s = {} \<and> k_backlog s = []"

lemma quiescent_stuck:
  "quiescent s \<Longrightarrow> step_of net process l s = Some s' \<Longrightarrow> (\<exists>e. l = Main (Fail e)) \<or> l = Connects \<or> (\<exists>c b e. l = Arrives c b e)"
proof (cases l)
  case (Worker i)
  assume "quiescent s" "step_of net process l s = Some s'"
  then have "worker_step net process i Idle s = Some s'"
    using Worker by (auto simp: quiescent_def split: if_splits dest: bspec [OF _ nth_mem])
  with \<open>quiescent s\<close> show ?thesis by (auto simp: quiescent_def take_task_def split: if_splits)
next
  case (Main a)
  then show "quiescent s \<Longrightarrow> step_of net process l s = Some s' \<Longrightarrow> ?thesis"
    by (cases a) (auto simp: quiescent_def split: if_splits)
qed auto

text \<open>C37. A request can be lost: there is a run, with no failing call, to a state in which an open and
  watched connection holds a complete request that has not been answered, and nothing will happen any
  more unless some peer acts. The descriptor was closed and reused before it was unmarked, and the one
  event that \<open>EPOLLET\<close> reports for the new connection was dropped.\<close>

theorem request_lost:
  "\<exists>s fd c. reachable reads_only demo_net echo s \<and> quiescent s \<and> k_fds s fd = Some c \<and> fd \<in> fst ` set (ep_watched (m_server s)) \<and>
     ts_rx (k_conns s c) = hello \<and> c \<notin> fst ` set (lp_sent s)"
proof -
  let ?ls = "[Connects, Arrives 0 hello False] @ accept_run 5 @ report_run 5 @ serve_run 0 @
     [Connects, Arrives 1 hello False] @ accept_run 5 @ [Main (Ready [(5, EPOLLIN)]), Main Go, Main Go, Worker 0]"
  let ?good = "\<lambda>s. (lp_main s, m_tasks s, m_stop s, m_workers s) = (Wait, [], False, replicate 4 Idle) \<and>
      k_armed s = {} \<and> k_backlog s = [] \<and> k_fds s 5 = Some 1 \<and> 5 \<in> fst ` set (ep_watched (m_server s)) \<and>
      ts_rx (k_conns s 1) = hello \<and> map fst (lp_sent s) = [0]"
  have "map_option ?good (demo_end ?ls) = Some True" by code_simp
  then obtain s where s0: "demo_end ?ls = Some s" "?good s" unfolding map_option_eq_Some by iprover
  then have s: "demo_end ?ls = Some s" "lp_main s = Wait" "m_tasks s = []" "\<not> m_stop s"
    "m_workers s = replicate 4 Idle" "k_armed s = {}" "k_backlog s = []" "k_fds s 5 = Some 1"
    "5 \<in> fst ` set (ep_watched (m_server s))" "ts_rx (k_conns s 1) = hello" "map fst (lp_sent s) = [0]" by simp_all
  have "\<forall>l \<in> set ?ls. reads_only l" by (simp add: accept_run_def report_run_def serve_run_def all_in_def)
  note r = demo_reachable [OF s(1) this]
  have "quiescent s" using s by (simp add: quiescent_def)
  moreover have "1 \<notin> fst ` set (lp_sent s)" using s(11) by (metis One_nat_def list.set_map list.set(1,2) singletonD zero_neq_one)
  ultimately show ?thesis using r s(8-10) by blast
qed



end
