(* ===== verification/ClientProps.thy ===== *)
theory ClientProps
  imports ClientOp FramingProps LoopProps
begin

text \<open>
  The client: what each action may do to the cached keys, what a successful key agreement leaves there,
  what leaves the process when a text is sent, and when the menu loop ends.
\<close>

section \<open>Frame of the actions\<close>

lemma exchange_cases:
  assumes "exchange net peer e c = Some (r, c')"
  obtains (refused) t where "r = Inl ConnectFailed" "c' = c\<lparr>cl_tick := t\<rparr>"
  | (unsent) tcp0 ret tcp1 bytes ends w where "sendMsg net e 10 tcp0 = Some (ret, tcp1)" "ret \<noteq> 0"
      "peer (ts_tx tcp1) (cl_world c) = ((bytes, ends), w)" "r = Inl SendFailed"
      "c' = c\<lparr>cl_tick := ts_tick tcp1, cl_world := w\<rparr>"
      "connectToHost net (ci_IP (m_info c)) (ci_port (m_info c)) 10 ((TcpSocket_new (-1))\<lparr>ts_tick := cl_tick c\<rparr>) = (0, tcp0)"
  | (sent) tcp0 tcp1 bytes ends w ret d tcp2 where
      "connectToHost net (ci_IP (m_info c)) (ci_port (m_info c)) 10 ((TcpSocket_new (-1))\<lparr>ts_tick := cl_tick c\<rparr>) = (0, tcp0)"
      "sendMsg net e 10 tcp0 = Some (0, tcp1)" "peer (ts_tx tcp1) (cl_world c) = ((bytes, ends), w)"
      "recvMsg net 10 (tcp1\<lparr>ts_rx := bytes, ts_ends := ends\<rparr>) = Some ((ret, d), tcp2)"
      "r = (if ret \<noteq> 0 then Inl RecvFailed else Inr d)" "c' = c\<lparr>cl_tick := ts_tick tcp2, cl_world := w\<rparr>"
proof -
  obtain ret0 tcp0 where con: "connectToHost net (ci_IP (m_info c)) (ci_port (m_info c)) 10
      ((TcpSocket_new (-1))\<lparr>ts_tick := cl_tick c\<rparr>) = (ret0, tcp0)" by fastforce
  show thesis
  proof (cases "ret0 = 0")
    case False
    with assms con show thesis by (intro refused [of "ts_tick tcp0"]) (auto simp: exchange_def)
  next
    case True
    with assms con obtain ret tcp1 where snd: "sendMsg net e 10 tcp0 = Some (ret, tcp1)"
      by (auto simp: exchange_def bind_eq_Some_conv)
    obtain bytes ends w where p: "peer (ts_tx tcp1) (cl_world c) = ((bytes, ends), w)" by (metis prod.exhaust)
    show thesis
    proof (cases "ret = 0")
      case False
      with assms con True snd p unsent show thesis by (simp add: exchange_def)
    next
      case r0: True
      with assms con True snd p obtain ret2 d tcp2 where
        "recvMsg net 10 (tcp1\<lparr>ts_rx := bytes, ts_ends := ends\<rparr>) = Some ((ret2, d), tcp2)"
        "(r, c') = (if ret2 \<noteq> 0 then Inl RecvFailed else Inr d, c\<lparr>cl_tick := ts_tick tcp2, cl_world := w\<rparr>)"
        by (auto simp: exchange_def bind_eq_Some_conv Let_def split: if_splits)
      with con True snd p r0 sent show thesis by simp
    qed
  qed
qed

lemma exchange_frame:
  assumes "exchange net peer e c = Some (r, c')"
  shows "\<exists>t w. c' = c\<lparr>cl_tick := t, cl_world := w\<rparr>"
  using assms
proof (cases rule: exchange_cases)
  case (refused t)
  then show ?thesis by (intro exI [of _ t] exI [of _ "cl_world c"]) simp
qed blast+

text \<open>What the actions leave alone.\<close>

definition only_runs :: "'p client \<Rightarrow> 'p client \<Rightarrow> bool" where
  "only_runs c c' \<longleftrightarrow> m_info c' = m_info c \<and> m_shm c' = m_shm c \<and> cl_in c' = cl_in c \<and>
     m_lastServerMessageId c' = m_lastServerMessageId c"

lemma only_runs_refl [simp]: "only_runs c c"
  by (simp add: only_runs_def)

lemma only_runs_trans [trans]: "only_runs c d \<Longrightarrow> only_runs d e \<Longrightarrow> only_runs c e"
  by (simp add: only_runs_def)

lemma only_runs_exchange: "exchange net peer e c = Some (r, c') \<Longrightarrow> only_runs c c'"
  by (drule exchange_frame) (auto simp: only_runs_def)

lemma only_runs_header: "client_header env cmd r c = (h, c') \<Longrightarrow> only_runs c c'"
  by (auto simp: client_header_def generateMessageId_def client_time_def only_runs_def Let_def split: prod.splits)

lemma only_runs_keyHeader: "buildKeyHeader env cmd c = (h, c') \<Longrightarrow> only_runs c c'"
  by (auto simp: buildKeyHeader_def client_time_def only_runs_def Let_def split: prod.splits)

lemma only_runs_upd [simp]:
  "only_runs c (c\<lparr>cl_proc := w\<rparr>)" "only_runs c (c\<lparr>cl_proc := w, cl_files := f\<rparr>)" "only_runs c (snd (next_ssl c))"
  by (simp_all add: only_runs_def next_ssl_def)

lemma send_request_cases:
  assumes "send_request env r p c = (q, c')"
  obtains (failed) e where "q = Inl e" "only_runs c c'" "cl_world c' = cl_world c"
  | (made) node enc h w where "q = Inr (text_request node enc h)" "client_active_key c = Some node"
      "encryptText env (c_str (n_seckey node)) p (cl_proc c) = (Inr enc, w)" "vh_senderId h = ci_clientId (m_info c)"
      "vh_receiverId h = r" "only_runs c c'" "cl_world c' = cl_world c"
proof (cases "client_active_key c")
  case (Some node)
  obtain x w where e: "encryptText env (c_str (n_seckey node)) p (cl_proc c) = (x, w)" by fastforce
  show thesis
  proof (cases x)
    case (Inl e')
    with assms Some e failed show thesis by (auto simp: send_request_def)
  next
    case (Inr enc)
    obtain h c1 where h: "client_header env CMD_SEND_MSG_REQ r (c\<lparr>cl_proc := w\<rparr>) = (h, c1)" by fastforce
    then have f: "cl_world c1 = cl_world c" "vh_senderId h = ci_clientId (m_info c)" "vh_receiverId h = r"
      by (auto simp: client_header_def generateMessageId_def client_time_def Let_def split: prod.splits)
    have "only_runs c c1" using only_runs_header [OF h] by (simp add: only_runs_def)
    with assms Some e Inr h f show thesis by (intro made) (auto simp: send_request_def buildHeader_def)
  qed
qed (use assms failed in \<open>auto simp: send_request_def\<close>)

lemma send_request_frame: "send_request env r p c = (q, c') \<Longrightarrow> only_runs c c'"
  by (erule send_request_cases)

lemma sendTextMessage_frame:
  assumes "sendTextMessage env wi net peer r p c = Some (res, c')"
  shows "only_runs c c'"
proof -
  obtain q c1 where q: "send_request env r p c = (q, c1)" by fastforce
  note c1 = send_request_frame [OF q]
  show ?thesis
  proof (cases q)
    case (Inr info)
    with assms q obtain res' where "exchange net peer (encodeRequest wi (init_send_req info RequestPacket_default)) c1 =
        Some (res', c')" by (auto simp: sendTextMessage_def bind_eq_Some_conv)
    with c1 show ?thesis by (blast intro: only_runs_trans only_runs_exchange)
  qed (use assms q c1 in \<open>auto simp: sendTextMessage_def\<close>)
qed

lemma query_frame:
  assumes "client_queryMessageById env wi net peer i c = Some (res, c')"
  shows "only_runs c c'"
proof (cases "i = []")
  case False
  obtain h c1 where h: "client_header env CMD_QUERY_MSG_REQ (ci_serverId (m_info c)) c = (h, c1)" by fastforce
  from assms False h obtain r where "exchange net peer (encodeRequest wi (init_query_req
      \<lparr>vqr_header = h, vqr_serverMessageId = i\<rparr> RequestPacket_default)) c1 = Some (r, c')"
    by (auto simp: client_queryMessageById_def bind_eq_Some_conv)
  with only_runs_header [OF h] show ?thesis by (blast intro: only_runs_trans only_runs_exchange)
qed (use assms in \<open>simp add: client_queryMessageById_def\<close>)

lemma query_list_frame:
  assumes "client_queryRecentMessagesBySender env wi net peer i n c = Some (res, c')"
  shows "only_runs c c'"
proof (cases "i = [] \<or> n \<le> 0 \<or> n > 100")
  case False
  obtain h c1 where h: "client_header env CMD_QUERY_MSG_LIST_REQ (ci_serverId (m_info c)) c = (h, c1)" by fastforce
  from assms False h obtain r where "exchange net peer (encodeRequest wi (init_list_req
      \<lparr>vlr_header = h, vlr_senderId = i, vlr_limit = n\<rparr> RequestPacket_default)) c1 = Some (r, c')"
    by (auto simp: client_queryRecentMessagesBySender_def bind_eq_Some_conv)
  with only_runs_header [OF h] show ?thesis by (blast intro: only_runs_trans only_runs_exchange)
qed (use assms in \<open>auto simp: client_queryRecentMessagesBySender_def split: if_splits\<close>)

text \<open>The three key actions: the cache is the only thing that changes, and only in the one way.\<close>

definition cache_only :: "'p client \<Rightarrow> 'p client \<Rightarrow> bool" where
  "cache_only c c' \<longleftrightarrow> m_info c' = m_info c \<and> cl_in c' = cl_in c \<and> m_lastServerMessageId c' = m_lastServerMessageId c"

definition keeps_or_invalidates :: "'p client \<Rightarrow> 'p client \<Rightarrow> bool" where
  "keeps_or_invalidates c c' \<longleftrightarrow> m_shm c' = m_shm c \<or>
     m_shm c' = snd (shmUpdateStatus (ci_clientId (m_info c)) (ci_serverId (m_info c)) 0 (m_shm c))"

lemma only_runs_cache: "only_runs c c' \<Longrightarrow> cache_only c c' \<and> keeps_or_invalidates c c'"
  by (simp add: only_runs_def cache_only_def keeps_or_invalidates_def)

lemma set_status_cache: "only_runs c d \<Longrightarrow> cache_only c (client_set_status 0 d) \<and> keeps_or_invalidates c (client_set_status 0 d)"
  by (simp add: only_runs_def cache_only_def keeps_or_invalidates_def client_set_status_def)

lemma keyVerification_frame:
  assumes "keyVerification env wi net peer c = Some c'"
  shows "cache_only c c' \<and> keeps_or_invalidates c c'"
proof -
  let ?n = "shmRead (ci_clientId (m_info c)) (ci_serverId (m_info c)) (m_shm c)"
  show ?thesis
  proof (cases "strlen (n_clientID ?n) = 0 \<or> strlen (n_serverID ?n) = 0 \<or> n_status ?n = 0")
    case True
    with assms have "c' = c" by (auto simp: keyVerification_def Let_def split: if_splits)
    then show ?thesis by (simp add: only_runs_cache)
  next
    case False
    obtain h c1 where h: "buildKeyHeader env CMD_KEY_CHECK_REQ c = (h, c1)" by fastforce
    from assms False h obtain r c2 where x: "exchange net peer (encodeRequest wi (init_check_req
        \<lparr>vkc_header = h, vkc_keyId = n_seckeyID ?n\<rparr> RequestPacket_default)) c1 = Some (r, c2)"
      and r: "c' = (case r of Inl e \<Rightarrow> c2 | Inr d \<Rightarrow> (case key_op_resp (rs_body (decodeResponse wi d)) of None \<Rightarrow> c2
        | Some k \<Rightarrow> if ko_code k = RESULT_SUCCESS then c2 else client_set_status 0 c2))"
      by (auto simp: keyVerification_def Let_def bind_eq_Some_conv)
    from r have c': "c' = c2 \<or> c' = client_set_status 0 c2" by (auto split: sum.splits option.splits)
    from only_runs_trans [OF only_runs_keyHeader [OF h] only_runs_exchange [OF x]] c' show ?thesis
      by (metis only_runs_cache set_status_cache)
  qed
qed

lemma keyLogout_frame:
  assumes "keyLogout env wi net peer c = Some c'"
  shows "cache_only c c' \<and> keeps_or_invalidates c c'"
proof -
  let ?n = "shmRead (ci_clientId (m_info c)) (ci_serverId (m_info c)) (m_shm c)"
  show ?thesis
  proof (cases "n_status ?n \<noteq> 1")
    case True
    with assms have "c' = c" by (simp add: keyLogout_def Let_def)
    then show ?thesis by (simp add: only_runs_cache)
  next
    case False
    obtain h c1 where h: "buildKeyHeader env CMD_KEY_LOGOUT_REQ c = (h, c1)" by fastforce
    from assms False h obtain r c2 where x: "exchange net peer (encodeRequest wi (init_logout_req
        \<lparr>vkl_header = h, vkl_keyId = n_seckeyID ?n\<rparr> RequestPacket_default)) c1 = Some (r, c2)"
      and r: "c' = (case r of Inl e \<Rightarrow> c2 | Inr d \<Rightarrow> (case key_op_resp (rs_body (decodeResponse wi d)) of None \<Rightarrow> c2
        | Some k \<Rightarrow> if ko_code k = RESULT_SUCCESS then client_set_status 0 c2 else c2))"
      by (auto simp: keyLogout_def Let_def bind_eq_Some_conv)
    from r have c': "c' = c2 \<or> c' = client_set_status 0 c2" by (auto split: sum.splits option.splits)
    from only_runs_trans [OF only_runs_keyHeader [OF h] only_runs_exchange [OF x]] c' show ?thesis
      by (metis only_runs_cache set_status_cache)
  qed
qed

lemma connectTimeout_streams: "connectTimeout net s = (r, s') \<Longrightarrow> ts_tx s' = ts_tx s"
  by (auto simp: connectTimeout_def setNonBlock_def setBlock_def sys_select_def tick_def Let_def
      split: if_splits prod.splits)

lemma connectToHost_streams: "connectToHost net ip port t s = (r, s') \<Longrightarrow> ts_tx s' = ts_tx s"
  by (auto simp: connectToHost_def tick_def Let_def split: if_splits prod.splits dest!: connectTimeout_streams)

section \<open>Key agreement\<close>

lemma exchange_peer:
  assumes "exchange net peer e c = Some (Inr d, c')"
  shows "\<exists>bytes ends. (length e < 2 ^ 32 \<longrightarrow> peer (frame e) (cl_world c) = ((bytes, ends), cl_world c')) \<and>
     (\<forall>n m. bytes = take n (frame m) \<longrightarrow> fits_frame m \<longrightarrow> d = m)"
  using assms
proof (cases rule: exchange_cases)
  case (sent tcp0 tcp1 bytes ends w ret d' tcp2)
  from connectToHost_streams [OF sent(1)] have "ts_tx tcp0 = []" by (simp add: TcpSocket_new_def)
  with sendMsg_sends [OF sent(2)] have fr: "length e < 2 ^ 32 \<Longrightarrow> ts_tx tcp1 = frame e" by fastforce
  from sent(5) have "ret = 0" "d' = d" by (auto split: if_splits)
  with sent(4) have rv: "recvMsg net 10 (tcp1\<lparr>ts_rx := bytes, ts_ends := ends\<rparr>) = Some ((0, d), tcp2)" by simp
  have "peer (frame e) (cl_world c) = ((bytes, ends), cl_world c')" if "length e < 2 ^ 32"
    using fr [OF that] sent(3,6) by simp
  moreover have "d = m" if "bytes = take n (frame m)" "fits_frame m" for n m
    using recvMsg_reads [OF rv _ that(2), of n] that(1) by simp
  ultimately show ?thesis by blast
qed auto

lemma generateKeyPair_files:
  "generateKeyPair env f g r (w, files) = (r', w', files') \<Longrightarrow> h \<notin> {c_str f, c_str g} \<Longrightarrow> files' h = files h"
  by (auto simp: generateKeyPair_def pem_write_def Let_def split: prod.splits if_splits)

lemma agreement_request_frame:
  assumes "agreement_request env c = Some (r, c')"
  shows "only_runs c c'"
proof -
  obtain rsa w files where g: "generateKeyPair env ''pub.pem'' ''pri.pem'' RsaCrypto_empty (cl_proc c, cl_files c) =
      (rsa, w, files)" by (metis prod.exhaust)
  obtain h c1 where h: "buildKeyHeader env CMD_KEY_AGREE_REQ (c\<lparr>cl_proc := w, cl_files := files\<rparr>) = (h, c1)" by fastforce
  obtain k c2 where k: "next_ssl c1 = (k, c2)" by fastforce
  have "c' = c\<lparr>cl_proc := w, cl_files := files\<rparr> \<or> c' = c2"
  proof (cases "files ''pub.pem''")
    case None
    with assms g show ?thesis by (simp add: agreement_request_def)
  next
    case (Some str)
    with assms g h k show ?thesis by (auto simp: agreement_request_def bind_eq_Some_conv)
  qed
  with only_runs_keyHeader [OF h] k show ?thesis by (auto simp: only_runs_def next_ssl_def)
qed

text \<open>A successful agreement: what the response carried, decrypted, is what has been written to the cache
  and read back. In every other case the cache is as it was, or the write did not hold.\<close>

lemma keyAgreement_cases:
  assumes "keyAgreement env wi net peer c = Some (ok, c')"
  obtains (failed) "\<not> ok" "only_runs c c'"
  | (agreed) info c0 c2 d keyResp rsa k key c1 where
      "agreement_request env c = Some (Some (rsa, info), c0)"
      "exchange net peer (encodeRequest wi (init_agree_req info RequestPacket_default)) c0 = Some (Inr d, c2)"
      "cl_world c1 = cl_world c2" "key_op_resp (rs_body (decodeResponse wi d)) = Some keyResp"
      "ko_code keyResp = RESULT_SUCCESS" "rsaPrivateDecrypt env k rsa (ko_data keyResp) = Some key" "only_runs c c1"
      "(ok, c') = cache_agreed (b64_encode env key) (ko_key_id keyResp) c1"
proof -
  from assms obtain r c1 where q: "agreement_request env c = Some (r, c1)"
    by (auto simp: keyAgreement_def bind_eq_Some_conv)
  note c1 = agreement_request_frame [OF q]
  show thesis
  proof (cases r)
    case None
    with assms q c1 failed show thesis by (simp add: keyAgreement_def)
  next
    case (Some rq)
    obtain rsa info where rq: "rq = (rsa, info)" by (cases rq)
    with assms q Some obtain r c3 where
      x: "exchange net peer (encodeRequest wi (init_agree_req info RequestPacket_default)) c1 = Some (r, c3)" and
      c': "(case r of Inl e \<Rightarrow> Some (False, c3)
         | Inr recvData \<Rightarrow> (case key_op_resp (rs_body (decodeResponse wi recvData)) of
              None \<Rightarrow> Some (False, c3)
            | Some keyResp \<Rightarrow> if ko_code keyResp \<noteq> RESULT_SUCCESS then Some (False, c3)
                else do { let (k, c) = next_ssl c3; key \<leftarrow> rsaPrivateDecrypt env k rsa (ko_data keyResp);
                  Some (cache_agreed (b64_encode env key) (ko_key_id keyResp) c) })) = Some (ok, c')"
      by (auto simp: keyAgreement_def bind_eq_Some_conv)
    have c3: "only_runs c c3" by (rule only_runs_trans [OF c1 only_runs_exchange [OF x]])
    obtain k3 c4 where k3: "next_ssl c3 = (k3, c4)" by fastforce
    then have c4: "only_runs c c4" "cl_world c4 = cl_world c3" using c3 by (auto simp: only_runs_def next_ssl_def)
    show thesis
    proof (cases r)
      case (Inl e)
      with c' c3 failed show thesis by simp
    next
      case (Inr d)
      from c' k3 Inr consider "\<not> ok" "c' = c3"
        | keyResp key where "key_op_resp (rs_body (decodeResponse wi d)) = Some keyResp" "ko_code keyResp = RESULT_SUCCESS"
          "rsaPrivateDecrypt env k3 rsa (ko_data keyResp) = Some key"
          "(ok, c') = cache_agreed (b64_encode env key) (ko_key_id keyResp) c4"
        by (auto simp: bind_eq_Some_conv split: option.splits if_splits)
      then show thesis
      proof cases
        case 1
        with c3 show thesis by (simp add: failed)
      next
        case 2
        show thesis
          by (rule agreed [OF q [unfolded Some rq] x [unfolded Inr] c4(2) 2(1-3) c4(1) 2(4)])
      qed
    qed
  qed
qed

lemma c_str_app_NUL: "NUL \<notin> set u \<Longrightarrow> c_str (u @ NUL # t) = u"
  by (induction u) (auto simp: c_str_def)

lemma c_str_strncpy: "c_str (c_strncpy arr s n) = take n (c_str s)" if "length arr > n" "arr ! n = NUL"
proof -
  have "drop n arr = NUL # drop (Suc n) arr" using that by (metis Cons_nth_drop_Suc)
  then have "c_strncpy arr s n = take n (c_str s) @ NUL # (replicate (n - length (take n (c_str s))) NUL @ drop (Suc n) arr)"
    by (simp add: c_strncpy_def Let_def replicate_app_Cons_same)
  moreover have "NUL \<notin> set (take n (c_str s))" using set_take_subset [of n "c_str s"] by (auto simp: c_str_def dest: set_takeWhileD)
  then have "c_str (take n (c_str s) @ NUL # t) = take n (c_str s)" for t by (rule c_str_app_NUL)
  ultimately show ?thesis by simp
qed

lemma client_node_fields [simp]:
  "n_status (client_node i k n) = 1" "n_seckeyID (client_node i k n) = n"
  "c_str (n_clientID (client_node i k n)) = take 11 (c_str (ci_clientId i))"
  "c_str (n_serverID (client_node i k n)) = take 11 (c_str (ci_serverId i))"
  "c_str (n_seckey (client_node i k n)) = take 127 (c_str k)"
  by (simp_all add: client_node_def node_new_def c_str_strncpy)

lemma wf_client_node: "wf_node (client_node i k n)"
  unfolding wf_node_def client_node_def node_new_def
  by (auto simp: c_strncpy_def Let_def)

lemma c_str_in_node:
  assumes "length a = Suc k" and "NUL \<in> set a"
  shows "length (c_str a) \<le> k"
proof (rule ccontr)
  assume "\<not> length (c_str a) \<le> k"
  then have "length (c_str a) = length a" using assms(1) length_c_str_le [of a] by simp
  then have "c_str a = a" unfolding c_str_def by (metis takeWhile_eq_take take_all order_refl)
  then show False using assms(2) by (auto simp: c_str_def takeWhile_eq_all_conv)
qed

lemma shmRead_hit_short:
  assumes "wf_shm s" and "node_hit (shmRead cl v s)"
  shows "length (c_str cl) \<le> 11 \<and> length (c_str v) \<le> 11"
proof -
  have "wf_node (shmRead cl v s)" by (rule wf_shmRead [OF assms(1)])
  moreover from shmRead_key [OF assms(2)] have "c_str (n_clientID (shmRead cl v s)) = c_str cl"
    "c_str (n_serverID (shmRead cl v s)) = c_str v" by simp_all
  ultimately show ?thesis
    using c_str_in_node [of "n_clientID (shmRead cl v s)" 11] c_str_in_node [of "n_serverID (shmRead cl v s)" 11]
    by (simp add: wf_node_def)
qed

lemma shmWrite_hit:
  assumes "node_hit (shmRead cl v s)" and "c_str cl = c_str (n_clientID p)" "c_str v = c_str (n_serverID p)"
  shows "fst (shmWrite p s) = 0"
proof -
  from assms(1) obtain ns n where m: "mapShm s = Some ns" "first_match (node_matches cl v) ns = Some n"
    by (auto simp: shmRead_def split: option.splits)
  moreover have "node_matches cl v = node_matches (n_clientID p) (n_serverID p)"
    using assms(2,3) by (simp add: node_matches_def fun_eq_iff streq_def)
  ultimately obtain ns' where "update_first (node_matches (n_clientID p) (n_serverID p)) (\<lambda>_. p) ns = Some ns'"
    by (metis first_match_hit)
  with m(1) show ?thesis by (simp add: shmWrite_def)
qed

lemma cache_agreed_true:
  assumes "cache_agreed k n c = (True, c')" and "wf_shm (m_shm c)"
  shows "length (c_str (ci_clientId (m_info c))) \<le> 11 \<and> length (c_str (ci_serverId (m_info c))) \<le> 11 \<and>
     shmRead (ci_clientId (m_info c)) (ci_serverId (m_info c)) (m_shm c') = client_node (m_info c) k n \<and>
     wf_shm (m_shm c') \<and> shmWrite (client_node (m_info c) k n) (m_shm c) = (0, m_shm c')"
proof -
  let ?p = "client_node (m_info c) k n" and ?c = "ci_clientId (m_info c)" and ?v = "ci_serverId (m_info c)"
  obtain r shm where w: "shmWrite ?p (m_shm c) = (r, shm)" by fastforce
  with assms(1) have hit: "node_hit (shmRead ?c ?v shm)" and c': "m_shm c' = shm"
    by (auto simp: cache_agreed_def node_hit_def Let_def)
  have wf: "wf_shm shm" by (rule wf_shm_write [OF assms(2) wf_client_node w])
  from shmRead_hit_short [OF wf hit] have short: "length (c_str ?c) \<le> 11" "length (c_str ?v) \<le> 11" by simp_all
  then have ids: "c_str ?c = c_str (n_clientID ?p)" "c_str ?v = c_str (n_serverID ?p)" by simp_all
  have "r = 0"
  proof (rule ccontr)
    assume "r \<noteq> 0"
    with shmWrite_fail [OF w] have "shm = m_shm c" by simp
    with shmWrite_hit [OF _ ids, of "m_shm c"] hit w \<open>r \<noteq> 0\<close> show False by simp
  qed
  with w have w0: "shmWrite ?p (m_shm c) = (0, shm)" by simp
  have "shmRead ?c ?v shm = ?p"
    using shmRead_c_str [OF ids] shmRead_write_same [OF w0] by simp
  with short wf w0 c' show ?thesis by simp
qed

section \<open>The menu\<close>

lemma menu_choice_frame:
  assumes "menu_choice env wi net peer n c = Some c'" and "n \<notin> {1, 3, 4, 5}"
  shows "cache_only c c' \<and> keeps_or_invalidates c c'"
  using assms keyVerification_frame [of env wi net peer c c'] keyLogout_frame [of env wi net peer c c']
  by (auto simp: menu_choice_def only_runs_cache split: if_splits)

lemma keyAgreement_input: "keyAgreement env wi net peer c = Some (ok, c') \<Longrightarrow> cl_in c' = cl_in c"
  by (erule keyAgreement_cases) (auto simp: only_runs_def cache_agreed_def Let_def split: prod.splits)

lemma sendEncryptedMessage_frame:
  assumes "sendEncryptedMessage env wi net peer c = Some c'"
  shows "m_shm c' = m_shm c \<and> m_info c' = m_info c \<and> (\<not> in_good (cl_in c) \<longrightarrow> \<not> in_good (cl_in c'))"
proof -
  obtain w i where r: "read_word [] (cl_in c) = (w, i)" by fastforce
  obtain p i' where g: "getline [] (ignore_char i) = (p, i')" by fastforce
  have bad: "\<not> in_good (cl_in c) \<longrightarrow> \<not> in_good i'"
    using not_good_stays(1) [OF _ r] not_good_stays(3) not_good_stays(5) [OF _ g] by blast
  show ?thesis
  proof (cases "p = []")
    case True
    with assms r g bad show ?thesis by (auto simp: sendEncryptedMessage_def)
  next
    case False
    with assms r g obtain res d where s: "sendTextMessage env wi net peer w p (c\<lparr>cl_in := i'\<rparr>) = Some (res, d)"
      and c': "c' = (case res of Inl e \<Rightarrow> d | Inr x \<Rightarrow> d\<lparr>m_lastServerMessageId := x\<rparr>)"
      by (auto simp: sendEncryptedMessage_def bind_eq_Some_conv)
    from sendTextMessage_frame [OF s] c' bad show ?thesis by (auto simp: only_runs_def split: sum.splits)
  qed
qed

lemma queryMessage_frame:
  assumes "queryMessage env wi net peer c = Some c'"
  shows "m_shm c' = m_shm c \<and> m_info c' = m_info c \<and> (\<not> in_good (cl_in c) \<longrightarrow> \<not> in_good (cl_in c'))"
proof -
  obtain x i where r: "(if m_lastServerMessageId c \<noteq> [] then
       let (text, i) = getline [] (ignore_char (cl_in c)) in (if text = [] then m_lastServerMessageId c else text, i)
     else read_word [] (cl_in c)) = (x, i)" by fastforce
  have bad: "\<not> in_good i" if "\<not> in_good (cl_in c)"
    using r not_good_stays [OF that] not_good_stays(5) [OF not_good_stays(3) [OF that], of "[]"]
    by (auto simp: Let_def split: if_splits prod.splits)
  from assms r have "c' = c\<lparr>cl_in := i\<rparr> \<or> (\<exists>res. client_queryMessageById env wi net peer x (c\<lparr>cl_in := i\<rparr>) = Some (res, c'))"
    unfolding queryMessage_def by (auto simp: Let_def split: if_splits)
  with bad show ?thesis by (auto dest!: query_frame simp: only_runs_def)
qed

lemma queryRecentMessages_frame:
  assumes "queryRecentMessages env wi net peer c = Some c'"
  shows "m_shm c' = m_shm c \<and> m_info c' = m_info c \<and> (\<not> in_good (cl_in c) \<longrightarrow> \<not> in_good (cl_in c'))"
proof -
  obtain x i where g: "getline [] (ignore_line (cl_in c)) = (x, i)" by fastforce
  obtain n i' where r: "read_int 10 i = (n, i')" by fastforce
  have bad: "\<not> in_good i'" if "\<not> in_good (cl_in c)"
    using not_good_stays(5) [OF not_good_stays(4) [OF that] g] not_good_stays(2) [OF _ r] by blast
  from assms g r have "c' = c\<lparr>cl_in := i'\<rparr> \<or>
      (\<exists>y res. client_queryRecentMessagesBySender env wi net peer y n (c\<lparr>cl_in := i'\<rparr>) = Some (res, c'))"
    unfolding queryRecentMessages_def by (auto simp: Let_def split: if_splits)
  with bad show ?thesis by (auto dest!: query_list_frame simp: only_runs_def)
qed

lemma menu_choice_not_good:
  assumes "menu_choice env wi net peer n c = Some c'" and "\<not> in_good (cl_in c)"
  shows "\<not> in_good (cl_in c')"
proof -
  consider "n = 1" | "n = 3" | "n = 4" | "n = 5" | "n \<notin> {1, 3, 4, 5}" by auto
  then show ?thesis
  proof cases
    case 1
    with assms obtain ok where "keyAgreement env wi net peer c = Some (ok, c')" by (auto simp: menu_choice_def)
    with assms(2) show ?thesis by (simp add: keyAgreement_input)
  next
    case 5
    with menu_choice_frame [OF assms(1)] assms(2) show ?thesis by (simp add: cache_only_def)
  qed (use assms in \<open>auto simp: menu_choice_def dest: sendEncryptedMessage_frame queryMessage_frame queryRecentMessages_frame\<close>)
qed

lemma menu_needs_input:
  assumes "menu env wi net peer n c = Some c'" and "\<not> in_good (cl_in c)"
  shows "n = 7"
proof -
  have "\<not> in_good (cl_in c) \<longrightarrow> n = 7" if "menu env wi net peer n c = Some x" for x
    using that
  proof (induction rule: menu.raw_induct [rotated, consumes 1])
    case (1 loop env wi net peer n c x)
    show ?case
    proof (intro impI, rule ccontr)
      assume bad: "\<not> in_good (cl_in c)" and n: "n \<noteq> 7"
      from 1(2) n not_good_reads(2) [OF bad, of n] obtain d where
        d: "menu_choice env wi net peer n (c\<lparr>cl_in := cl_in c\<lparr>in_fail := True\<rparr>\<rparr>) = Some d" "loop env wi net peer n d = Some x"
        by (auto split: option.splits)
      have "\<not> in_good (cl_in d)" by (rule menu_choice_not_good [OF d(1)]) simp
      with 1(1) [OF d(2)] n show False by simp
    qed
  qed
  from this [OF assms(1)] assms(2) show ?thesis by simp
qed

lemma cache_agreed_wf:
  assumes "cache_agreed k n c = (ok, c')" and "wf_shm (m_shm c)"
  shows "wf_shm (m_shm c') \<and> m_info c' = m_info c"
proof -
  obtain r shm where w: "shmWrite (client_node (m_info c) k n) (m_shm c) = (r, shm)" by fastforce
  from wf_shm_write [OF assms(2) wf_client_node w] assms(1) w show ?thesis by (auto simp: cache_agreed_def Let_def)
qed

lemma keeps_or_invalidates_wf:
  assumes "keeps_or_invalidates c c'" and "wf_shm (m_shm c)"
  shows "wf_shm (m_shm c')"
proof -
  obtain r shm where "shmUpdateStatus (ci_clientId (m_info c)) (ci_serverId (m_info c)) 0 (m_shm c) = (r, shm)" by fastforce
  with wf_shm_update [OF assms(2) this] assms show ?thesis by (auto simp: keeps_or_invalidates_def)
qed

lemma menu_choice_messages:
  assumes "menu_choice env wi net peer n c = Some c'" and "n \<in> {3, 4, 5}"
  shows "m_shm c' = m_shm c \<and> m_info c' = m_info c"
  using assms by (auto simp: menu_choice_def dest: sendEncryptedMessage_frame queryMessage_frame queryRecentMessages_frame)

lemma menu_choice_wf:
  assumes "menu_choice env wi net peer n c = Some c'" and "wf_shm (m_shm c)"
  shows "wf_shm (m_shm c') \<and> m_info c' = m_info c"
proof -
  consider "n = 1" | "n \<in> {3, 4, 5}" | "n \<notin> {1, 3, 4, 5}" by auto
  then show ?thesis
  proof cases
    case 1
    with assms obtain ok where "keyAgreement env wi net peer c = Some (ok, c')" by (auto simp: menu_choice_def)
    then show ?thesis
    proof (cases rule: keyAgreement_cases)
      case failed
      with assms(2) show ?thesis by (simp add: only_runs_def)
    next
      case (agreed info c0 c2 d keyResp rsa k key c1)
      with cache_agreed_wf [OF agreed(8) [symmetric]] assms(2) show ?thesis by (simp add: only_runs_def)
    qed
  next
    case 2
    with menu_choice_messages [OF assms(1)] assms(2) show ?thesis by simp
  next
    case 3
    with menu_choice_frame [OF assms(1)] assms(2) show ?thesis
      by (auto simp: cache_only_def intro: keeps_or_invalidates_wf)
  qed
qed

lemma menu_keeps_wf:
  assumes "menu env wi net peer n c = Some c'" and "wf_shm (m_shm c)"
  shows "wf_shm (m_shm c') \<and> m_info c' = m_info c"
proof -
  have "wf_shm (m_shm c) \<longrightarrow> wf_shm (m_shm x) \<and> m_info x = m_info c" if "menu env wi net peer n c = Some x" for x
    using that
  proof (induction rule: menu.raw_induct [rotated, consumes 1])
    case (1 loop env wi net peer n c x)
    show ?case
    proof (cases "n = 7")
      case True
      with 1(2) show ?thesis by simp
    next
      case False
      obtain n' i where r: "read_int n (cl_in c) = (n', i)" by fastforce
      with 1(2) False obtain d where d: "menu_choice env wi net peer n' (c\<lparr>cl_in := i\<rparr>) = Some d"
        "loop env wi net peer n' d = Some x" by (auto split: option.splits)
      show ?thesis
      proof
        assume "wf_shm (m_shm c)"
        with menu_choice_wf [OF d(1)] have "wf_shm (m_shm d) \<and> m_info d = m_info c" by simp
        with 1(1) [OF d(2)] show "wf_shm (m_shm x) \<and> m_info x = m_info c" by simp
      qed
    qed
  qed
  with assms show ?thesis by blast
qed

section \<open>The properties\<close>

text \<open>A client with one cached key, a network in which nothing fails, and a peer that answers every
  request with the same frame.\<close>

definition demo_client :: "unit client" where
  "demo_client = \<lparr>m_info = \<lparr>ci_serverId = ''srv'', ci_clientId = ''alice'', ci_IP = ''1.2.3.4'', ci_port = 9000\<rparr>,
     m_shm = \<lparr>shm_ok = True, shm_nodes = [demo_node, node_new]\<rparr>, m_lastServerMessageId = [], cl_proc = proc_start,
     cl_seq_op = 0, cl_seq_msg = 0, cl_files = (\<lambda>_. None), cl_tick = 0,
     cl_in = \<lparr>in_buf = [], in_eof = False, in_fail = False\<rparr>, cl_world = ()\<rparr>"

definition demo_wire :: "ResponsePacket \<Rightarrow> wire" where
  "demo_wire resp = \<lparr>w_ser_req = (\<lambda>_. ''q''), w_parse_req = (\<lambda>_. RequestPacket_default), w_ser_resp = (\<lambda>_. ''r''),
     w_parse_resp = (\<lambda>_. resp)\<rparr>"

definition demo_peer :: "unit peer" where
  "demo_peer bytes w = ((frame ''r'', True), w)"

abbreviation (input) demo_key_resp :: ResponsePacket where
  "demo_key_resp \<equiv> \<lparr>rs_header = None, rs_body = KeyOpResp \<lparr>ko_code = RESULT_SUCCESS, ko_message = [], ko_key_id = 9,
     ko_data = ''terces''\<rparr>\<rparr>"

abbreviation (input) demo_send_resp :: ResponsePacket where
  "demo_send_resp \<equiv> \<lparr>rs_header = None, rs_body = SendMsgResp \<lparr>sr_code = RESULT_SUCCESS, sr_message = [],
     sr_server_message_id = ''m1'', sr_server_time = 1, sr_delivery_status = 1\<rparr>\<rparr>"

lemma wf_demo_client [simp]: "wf_shm (m_shm demo_client)"
  by (simp add: demo_client_def wf_shm_def) (simp add: wf_node_def demo_node_def)



text \<open>C33. Only a key agreement makes a key usable: after any other menu action, whatever the server
  answered, a cached key that is usable was there before, unchanged.\<close>

theorem client_never_activates:
  assumes "menu_choice env wi net peer n c = Some c'" and "n \<noteq> 1" and "n_status (shmRead d w (m_shm c')) = 1"
  shows "n_status (shmRead d w (m_shm c)) = 1 \<and> shmRead d w (m_shm c') = shmRead d w (m_shm c)"
proof (cases "n \<in> {3, 4, 5}")
  case True
  with menu_choice_messages [OF assms(1)] assms(3) show ?thesis by simp
next
  case False
  with menu_choice_frame [OF assms(1)] assms(2) have "keeps_or_invalidates c c'" by auto
  moreover obtain r shm where "shmUpdateStatus (ci_clientId (m_info c)) (ci_serverId (m_info c)) 0 (m_shm c) = (r, shm)"
    by fastforce
  ultimately show ?thesis
    using shm.invalidate_never_activates [of "ci_clientId (m_info c)" "ci_serverId (m_info c)" "m_shm c" r shm d w] assms(3)
    by (auto simp: keeps_or_invalidates_def)
qed

theorem client_never_activates_witness:
  "\<exists>c'. menu_choice calm_env (demo_wire demo_key_resp) demo_net demo_peer 2 demo_client = Some c' \<and>
     n_status (shmRead ''alice'' ''srv'' (m_shm demo_client)) = 1 \<and>
     shmRead ''alice'' ''srv'' (m_shm c') = shmRead ''alice'' ''srv'' (m_shm demo_client)"
proof -
  have "map_option (\<lambda>c. n_status (shmRead ''alice'' ''srv'' (m_shm c)))
      (menu_choice calm_env (demo_wire demo_key_resp) demo_net demo_peer 2 demo_client) = Some 1" by code_simp
  then obtain c' where r: "menu_choice calm_env (demo_wire demo_key_resp) demo_net demo_peer 2 demo_client = Some c'"
    "n_status (shmRead ''alice'' ''srv'' (m_shm c')) = 1" by auto
  from client_never_activates [OF r(1) _ r(2)] r(1) show ?thesis by simp
qed



text \<open>When \<open>keyAgreement\<close> says yes, the cache really has the key: the entry of the pair is usable,
  with the number of the response and the key that the response carried encrypted for this client's private
  key; the identifiers fit the slot, so that nothing was cut.\<close>

theorem keyAgreement_cached:
  assumes "keyAgreement env wi net peer c = Some (True, c')" and "wf_shm (m_shm c)"
  shows "\<exists>d keyResp rsa k key. key_op_resp (rs_body (decodeResponse wi d)) = Some keyResp \<and>
     ko_code keyResp = RESULT_SUCCESS \<and> rsaPrivateDecrypt env k rsa (ko_data keyResp) = Some key \<and>
     shmRead (ci_clientId (m_info c)) (ci_serverId (m_info c)) (m_shm c') =
       client_node (m_info c) (b64_encode env key) (ko_key_id keyResp) \<and>
     length (c_str (ci_clientId (m_info c))) \<le> 11 \<and> length (c_str (ci_serverId (m_info c))) \<le> 11"
  using assms(1)
proof (cases rule: keyAgreement_cases)
  case (agreed info c0 c2 d keyResp rsa k key c1)
  then have "m_info c1 = m_info c" "wf_shm (m_shm c1)" using assms(2) by (simp_all add: only_runs_def)
  with cache_agreed_true [OF agreed(8) [symmetric]] have
    "shmRead (ci_clientId (m_info c)) (ci_serverId (m_info c)) (m_shm c') =
       client_node (m_info c) (b64_encode env key) (ko_key_id keyResp)"
    "length (c_str (ci_clientId (m_info c))) \<le> 11" "length (c_str (ci_serverId (m_info c))) \<le> 11" by simp_all
  with agreed(4-6) show ?thesis by blast
qed simp

theorem keyAgreement_cached_witness:
  "\<exists>c' d keyResp rsa k key. keyAgreement calm_env (demo_wire demo_key_resp) demo_net demo_peer demo_client = Some (True, c') \<and>
     key_op_resp (rs_body (decodeResponse (demo_wire demo_key_resp) d)) = Some keyResp \<and>
     ko_code keyResp = RESULT_SUCCESS \<and> rsaPrivateDecrypt calm_env k rsa (ko_data keyResp) = Some key \<and>
     shmRead (ci_clientId (m_info demo_client)) (ci_serverId (m_info demo_client)) (m_shm c') =
       client_node (m_info demo_client) (b64_encode calm_env key) (ko_key_id keyResp)"
proof -
  have "map_option fst (keyAgreement calm_env (demo_wire demo_key_resp) demo_net demo_peer demo_client) = Some True"
    by code_simp
  then obtain c' where r: "keyAgreement calm_env (demo_wire demo_key_resp) demo_net demo_peer demo_client = Some (True, c')"
    by auto
  from keyAgreement_cached [OF r wf_demo_client] r show ?thesis by blast
qed

text \<open>C32. A text leaves the process only encrypted: when \<open>sendTextMessage\<close> succeeds, the server has seen
  exactly one frame, the request with the text encrypted under the usable key of the cache, the client as
  its sender and the receiver that was asked for.\<close>

theorem text_leaves_encrypted:
  assumes "sendTextMessage env wi net peer receiverId plaintext c = Some (Inr i, c')"
  shows "\<exists>node enc h bytes ends. client_active_key c = Some node \<and> n_status node = 1 \<and>
     fst (encryptText env (c_str (n_seckey node)) plaintext (cl_proc c)) = Inr enc \<and>
     vh_senderId h = ci_clientId (m_info c) \<and> vh_receiverId h = receiverId \<and>
     (let req = encodeRequest wi (init_send_req (text_request node enc h) RequestPacket_default) in
      length req < 2 ^ 32 \<longrightarrow> peer (frame req) (cl_world c) = ((bytes, ends), cl_world c'))"
proof -
  obtain q c1 where q: "send_request env receiverId plaintext c = (q, c1)" by fastforce
  from q show ?thesis
  proof (cases rule: send_request_cases)
    case (failed e)
    with assms q show ?thesis by (simp add: sendTextMessage_def)
  next
    case (made node enc h w)
    let ?req = "encodeRequest wi (init_send_req (text_request node enc h) RequestPacket_default)"
    from assms q made obtain r where r: "exchange net peer ?req c1 = Some (r, c')" "case r of Inl e \<Rightarrow> False | Inr d \<Rightarrow> True"
      by (fastforce simp: sendTextMessage_def bind_eq_Some_conv split: sum.splits)
    then obtain d where x: "exchange net peer ?req c1 = Some (Inr d, c')" by (cases r) auto
    obtain bytes ends where "length ?req < 2 ^ 32 \<longrightarrow> peer (frame ?req) (cl_world c) = ((bytes, ends), cl_world c')"
      using exchange_peer [OF x] made(7) by metis
    moreover have "n_status node = 1" using made(2) by (auto simp: client_active_key_def Let_def split: if_splits)
    ultimately show ?thesis using made(2-5) by (auto simp: Let_def)
  qed
qed

theorem text_leaves_encrypted_witness:
  "\<exists>i c' node enc h bytes ends. sendTextMessage calm_env (demo_wire demo_send_resp) demo_net demo_peer ''bob'' ''hi''
      demo_client = Some (Inr i, c') \<and> client_active_key demo_client = Some node \<and>
     (let req = encodeRequest (demo_wire demo_send_resp) (init_send_req (text_request node enc h) RequestPacket_default) in
      length req < 2 ^ 32 \<longrightarrow> demo_peer (frame req) (cl_world demo_client) = ((bytes, ends), cl_world c'))"
proof -
  have "map_option fst (sendTextMessage calm_env (demo_wire demo_send_resp) demo_net demo_peer ''bob'' ''hi'' demo_client) =
      Some (Inr ''m1'')" by code_simp
  then obtain c' where r: "sendTextMessage calm_env (demo_wire demo_send_resp) demo_net demo_peer ''bob'' ''hi'' demo_client =
      Some (Inr ''m1'', c')" by auto
  from text_leaves_encrypted [OF r] r show ?thesis by blast
qed

end
