(* ===== verification/Protobuf.thy ===== *)
theory Protobuf
  imports Wire
begin

text \<open>
  The code that \<open>protoc\<close> generated for \<open>MessageV2.proto\<close> (\<open>MessageV2.pb.cc\<close>): for each message
  \<open>_InternalParse\<close>, \<open>InternalSerializeWithCachedSizesToArray\<close> and \<open>ByteSizeLong\<close>. The protobuf
  library underneath, which writes and reads single fields, is the record \<open>pb_runtime\<close>, an argument
  of the definitions; the locale \<open>protobuf\<close> states what its documentation promises of the format.
  \<open>pb_wire\<close> puts the two packets together into the \<open>wire\<close> that the codecs of \<open>Wire\<close> work on.

  Fields of unknown numbers are skipped: the code keeps their bytes with the message, where nothing in
  the program looks at them, and writes them back with it; no packet that was read is ever written. The
  serializer's UTF-8 check only prints. The library refuses to write packets of 2 GB or more.
\<close>

section \<open>The protobuf library\<close>

record pb_runtime =
  \<comment> \<open>\<open>WireFormatLite::Write..ToArray(number, value)\<close>: the bytes of a field; for a message, from its own bytes\<close>
  rt_WriteInt32 :: "nat \<Rightarrow> int \<Rightarrow> string"
  rt_WriteInt64 :: "nat \<Rightarrow> int \<Rightarrow> string"
  rt_WriteEnum :: "nat \<Rightarrow> int \<Rightarrow> string"
  rt_WriteString :: "nat \<Rightarrow> string \<Rightarrow> string"
  rt_WriteMessage :: "nat \<Rightarrow> string \<Rightarrow> string"
  \<comment> \<open>\<open>WireFormatLite::..Size\<close>; for a message, from its own size\<close>
  rt_Int32Size :: "int \<Rightarrow> nat"
  rt_Int64Size :: "int \<Rightarrow> nat"
  rt_EnumSize :: "int \<Rightarrow> nat"
  rt_StringSize :: "string \<Rightarrow> nat"
  rt_MessageSize :: "nat \<Rightarrow> nat"
  \<comment> \<open>\<open>ReadTag\<close>, \<open>ReadVarint\<close>: the value and the rest of the input, none for a null pointer\<close>
  rt_ReadTag :: "string \<Rightarrow> (nat \<times> string) option"
  rt_ReadVarint :: "string \<Rightarrow> nat \<times> string option"
  \<comment> \<open>\<open>InlineGreedyStringParserUTF8\<close>: what becomes of the old string, and the rest\<close>
  rt_ReadString :: "string \<Rightarrow> string \<Rightarrow> string \<times> string option"
  \<comment> \<open>the length in front of a message: the message's bytes as far as they are there, and the rest behind it
      if they are all there\<close>
  rt_ReadLength :: "string \<Rightarrow> (string \<times> string option) option"
  \<comment> \<open>\<open>UnknownFieldParse\<close> of a field with the given tag\<close>
  rt_UnknownFieldParse :: "nat \<Rightarrow> string \<Rightarrow> string option"
  rt_utf8 :: "string \<Rightarrow> bool"

definition is_int32 :: "int \<Rightarrow> bool" where
  "is_int32 v \<longleftrightarrow> - (2 ^ 31) \<le> v \<and> v < 2 ^ 31"

definition is_int64 :: "int \<Rightarrow> bool" where
  "is_int64 v \<longleftrightarrow> - (2 ^ 63) \<le> v \<and> v < 2 ^ 63"

text \<open>A field is a key and a value. For numbers up to 15 the key is the one byte \<open>8 * number + type\<close>,
  with type 0 for integers and enumerations, which are sign-extended to 64 bits and take at most 10 bytes, and
  type 2 for strings and messages, with a length of at most 5 bytes in front. Every reader goes forward.\<close>

locale protobuf =
  fixes rt :: pb_runtime
  assumes read_tag: "0 < t \<Longrightarrow> t < 128 \<Longrightarrow> rt_ReadTag rt (char_of t # s) = Some (t, s)"
    and write_int32: "0 < f \<Longrightarrow> f < 16 \<Longrightarrow> is_int32 v \<Longrightarrow> \<exists>b. rt_WriteInt32 rt f v = char_of (8 * f) # b \<and>
      length b = rt_Int32Size rt v \<and> length b \<le> 10 \<and> (\<forall>r. rt_ReadVarint rt (b @ r) = (nat (v mod 2 ^ 64), Some r))"
    and write_int64: "0 < f \<Longrightarrow> f < 16 \<Longrightarrow> is_int64 v \<Longrightarrow> \<exists>b. rt_WriteInt64 rt f v = char_of (8 * f) # b \<and>
      length b = rt_Int64Size rt v \<and> length b \<le> 10 \<and> (\<forall>r. rt_ReadVarint rt (b @ r) = (nat (v mod 2 ^ 64), Some r))"
    and write_enum: "0 < f \<Longrightarrow> f < 16 \<Longrightarrow> is_int32 v \<Longrightarrow> \<exists>b. rt_WriteEnum rt f v = char_of (8 * f) # b \<and>
      length b = rt_EnumSize rt v \<and> length b \<le> 10 \<and> (\<forall>r. rt_ReadVarint rt (b @ r) = (nat (v mod 2 ^ 64), Some r))"
    and write_string: "0 < f \<Longrightarrow> f < 16 \<Longrightarrow> \<exists>b. rt_WriteString rt f x = char_of (8 * f + 2) # b \<and>
      length b = rt_StringSize rt x \<and> length x \<le> length b \<and>
      (length x < 2 ^ 31 \<longrightarrow> length b \<le> length x + 5) \<and>
      (length x < 2 ^ 31 \<longrightarrow> rt_utf8 rt x \<longrightarrow> (\<forall>old r. rt_ReadString rt old (b @ r) = (x, Some r)))"
    and write_message: "0 < f \<Longrightarrow> f < 16 \<Longrightarrow> \<exists>b. rt_WriteMessage rt f x = char_of (8 * f + 2) # b \<and>
      length b = rt_MessageSize rt (length x) \<and> length x \<le> length b \<and>
      (length x < 2 ^ 31 \<longrightarrow> length b \<le> length x + 5) \<and>
      (length x < 2 ^ 31 \<longrightarrow> (\<forall>r. rt_ReadLength rt (b @ r) = Some (x, Some r)))"
    and ascii_utf8: "(\<And>c. c \<in> set x \<Longrightarrow> (of_char c :: nat) < 128) \<Longrightarrow> rt_utf8 rt x"
    and tag_forward: "rt_ReadTag rt s = Some (t, r) \<Longrightarrow> length r < length s"
    and varint_forward: "rt_ReadVarint rt s = (n, Some r) \<Longrightarrow> length r \<le> length s"
    and string_forward: "rt_ReadString rt old s = (x, Some r) \<Longrightarrow> length r \<le> length s"
    and length_forward: "rt_ReadLength rt s = Some (x, Some r) \<Longrightarrow> length r \<le> length s"
    and unknown_forward: "rt_UnknownFieldParse rt t s = Some r \<Longrightarrow> length r \<le> length s"

section \<open>The parser\<close>

text \<open>One case of the switch: the message and the rest of the input (none: \<open>goto failure\<close>), or
  \<open>goto handle_unusual\<close>. \<open>Stuck\<close> and \<^const>\<open>None\<close> below stand for an inner loop that does not end.\<close>

datatype 'm field_result = Field 'm "string option" | Unusual | Stuck

text \<open>How \<open>_InternalParse\<close> returns: at the end of its input, at a tag that ends a group, or with a null
  pointer.\<close>

datatype parse_end = AtEnd | AtEndTag | Failed

text \<open>The loop runs at most once for each byte, so its length is enough fuel.\<close>

fun parse_loop ::
    "pb_runtime \<Rightarrow> (nat \<Rightarrow> 'm \<Rightarrow> string \<Rightarrow> 'm field_result) \<Rightarrow> nat \<Rightarrow> 'm \<Rightarrow> string \<Rightarrow> ('m \<times> parse_end) option" where
  "parse_loop rt sw n m [] = Some (m, AtEnd)"
| "parse_loop rt sw 0 m (c # cs) = None"
| "parse_loop rt sw (Suc n) m (c # cs) =
     (case rt_ReadTag rt (c # cs) of
        None \<Rightarrow> Some (m, Failed)
      | Some (tag, s) \<Rightarrow>
          (case sw tag m s of
             Stuck \<Rightarrow> None
           | Field m' None \<Rightarrow> Some (m', Failed)
           | Field m' (Some r) \<Rightarrow> parse_loop rt sw n m' r
           | Unusual \<Rightarrow>
               if tag mod 8 = 4 \<or> tag = 0 then Some (m, AtEndTag)
               else (case rt_UnknownFieldParse rt tag s of
                   None \<Rightarrow> Some (m, Failed)
                 | Some r \<Rightarrow> parse_loop rt sw n m r)))"

text \<open>The values of \<open>int32\<close>, enumeration and \<open>int64\<close> fields are the low bits of what was read. An integer is
  assigned before the pointer is checked, an enumeration after.\<close>

definition to_int32 :: "nat \<Rightarrow> int" where
  "to_int32 x = sint (word_of_nat x :: 32 word)"

definition to_int64 :: "nat \<Rightarrow> int" where
  "to_int64 x = sint (word_of_nat x :: 64 word)"

definition int32_field :: "pb_runtime \<Rightarrow> (int \<Rightarrow> 'm) \<Rightarrow> string \<Rightarrow> 'm field_result" where
  "int32_field rt put s = (let (x, r) = rt_ReadVarint rt s in Field (put (to_int32 x)) r)"

definition int64_field :: "pb_runtime \<Rightarrow> (int \<Rightarrow> 'm) \<Rightarrow> string \<Rightarrow> 'm field_result" where
  "int64_field rt put s = (let (x, r) = rt_ReadVarint rt s in Field (put (to_int64 x)) r)"

definition enum_field :: "pb_runtime \<Rightarrow> 'm \<Rightarrow> (int \<Rightarrow> 'm) \<Rightarrow> string \<Rightarrow> 'm field_result" where
  "enum_field rt m put s =
     (let (val, r) = rt_ReadVarint rt s in Field (if r = None then m else put (to_int32 val)) r)"

definition string_field :: "pb_runtime \<Rightarrow> string \<Rightarrow> (string \<Rightarrow> 'm) \<Rightarrow> string \<Rightarrow> 'm field_result" where
  "string_field rt old put s = (let (x, r) = rt_ReadString rt old s in Field (put x) r)"

text \<open>\<open>ParseMessage\<close>: the sub-message must end with the bytes its length announced.\<close>

definition parse_message ::
    "pb_runtime \<Rightarrow> ('s \<Rightarrow> string \<Rightarrow> ('s \<times> parse_end) option) \<Rightarrow> 's \<Rightarrow> string \<Rightarrow> ('s \<times> string option) option" where
  "parse_message rt parse sub s =
     (case rt_ReadLength rt s of
        None \<Rightarrow> Some (sub, None)
      | Some (inner, rest) \<Rightarrow> do {
          (sub', e) \<leftarrow> parse sub inner;
          Some (sub', if e = AtEnd then rest else None)
        })"

definition message_field ::
    "pb_runtime \<Rightarrow> ('s \<Rightarrow> string \<Rightarrow> ('s \<times> parse_end) option) \<Rightarrow> 's \<Rightarrow> ('s \<Rightarrow> 'm) \<Rightarrow> string \<Rightarrow> 'm field_result" where
  "message_field rt parse sub put s =
     (case parse_message rt parse sub s of None \<Rightarrow> Stuck | Some (x, r) \<Rightarrow> Field (put x) r)"

section \<open>The messages\<close>

text \<open>For each message: the switch over the field numbers, the parser, the serializer, the size, and the
  values that the format can carry (integers of the field's width, texts in UTF-8).\<close>

subsection \<open>\<open>QueryMessageListRequest\<close>\<close>

definition QueryMessageListRequest_case :: "pb_runtime \<Rightarrow> nat \<Rightarrow> QueryMessageListRequest \<Rightarrow> string \<Rightarrow> QueryMessageListRequest field_result" where
  "QueryMessageListRequest_case rt tag m s =
     (if tag div 8 = 1 then (if tag mod 256 = 10 then string_field rt (qml_sender_id m) (\<lambda>x. m\<lparr>qml_sender_id := x\<rparr>) s else Unusual)
      else if tag div 8 = 2 then (if tag mod 256 = 16 then int32_field rt (\<lambda>x. m\<lparr>qml_limit := x\<rparr>) s else Unusual)
      else Unusual)"

definition QueryMessageListRequest_InternalParse :: "pb_runtime \<Rightarrow> QueryMessageListRequest \<Rightarrow> string \<Rightarrow> (QueryMessageListRequest \<times> parse_end) option" where
  "QueryMessageListRequest_InternalParse rt m s = parse_loop rt (QueryMessageListRequest_case rt) (length s) m s"

definition QueryMessageListRequest_ToArray :: "pb_runtime \<Rightarrow> QueryMessageListRequest \<Rightarrow> string" where
  "QueryMessageListRequest_ToArray rt m =
     (if qml_sender_id m \<noteq> [] then rt_WriteString rt 1 (qml_sender_id m) else []) @
     (if qml_limit m \<noteq> 0 then rt_WriteInt32 rt 2 (qml_limit m) else [])"

definition QueryMessageListRequest_ByteSizeLong :: "pb_runtime \<Rightarrow> QueryMessageListRequest \<Rightarrow> nat" where
  "QueryMessageListRequest_ByteSizeLong rt m =
     (if qml_sender_id m \<noteq> [] then 1 + rt_StringSize rt (qml_sender_id m) else 0) +
     (if qml_limit m \<noteq> 0 then 1 + rt_Int32Size rt (qml_limit m) else 0)"

definition QueryMessageListRequest_ranges :: "QueryMessageListRequest \<Rightarrow> bool" where
  "QueryMessageListRequest_ranges m \<longleftrightarrow> is_int32 (qml_limit m)"

definition QueryMessageListRequest_utf8 :: "pb_runtime \<Rightarrow> QueryMessageListRequest \<Rightarrow> bool" where
  "QueryMessageListRequest_utf8 rt m \<longleftrightarrow> rt_utf8 rt (qml_sender_id m)"

subsection \<open>\<open>KeyAgreementRequest\<close>\<close>

definition KeyAgreementRequest_case :: "pb_runtime \<Rightarrow> nat \<Rightarrow> KeyAgreementRequest \<Rightarrow> string \<Rightarrow> KeyAgreementRequest field_result" where
  "KeyAgreementRequest_case rt tag m s =
     (if tag div 8 = 1 then (if tag mod 256 = 10 then string_field rt (kar_public_key m) (\<lambda>x. m\<lparr>kar_public_key := x\<rparr>) s else Unusual)
      else if tag div 8 = 2 then (if tag mod 256 = 18 then string_field rt (kar_sign m) (\<lambda>x. m\<lparr>kar_sign := x\<rparr>) s else Unusual)
      else Unusual)"

definition KeyAgreementRequest_InternalParse :: "pb_runtime \<Rightarrow> KeyAgreementRequest \<Rightarrow> string \<Rightarrow> (KeyAgreementRequest \<times> parse_end) option" where
  "KeyAgreementRequest_InternalParse rt m s = parse_loop rt (KeyAgreementRequest_case rt) (length s) m s"

definition KeyAgreementRequest_ToArray :: "pb_runtime \<Rightarrow> KeyAgreementRequest \<Rightarrow> string" where
  "KeyAgreementRequest_ToArray rt m =
     (if kar_public_key m \<noteq> [] then rt_WriteString rt 1 (kar_public_key m) else []) @
     (if kar_sign m \<noteq> [] then rt_WriteString rt 2 (kar_sign m) else [])"

definition KeyAgreementRequest_ByteSizeLong :: "pb_runtime \<Rightarrow> KeyAgreementRequest \<Rightarrow> nat" where
  "KeyAgreementRequest_ByteSizeLong rt m =
     (if kar_public_key m \<noteq> [] then 1 + rt_StringSize rt (kar_public_key m) else 0) +
     (if kar_sign m \<noteq> [] then 1 + rt_StringSize rt (kar_sign m) else 0)"

definition KeyAgreementRequest_ranges :: "KeyAgreementRequest \<Rightarrow> bool" where
  "KeyAgreementRequest_ranges m \<longleftrightarrow> True"

definition KeyAgreementRequest_utf8 :: "pb_runtime \<Rightarrow> KeyAgreementRequest \<Rightarrow> bool" where
  "KeyAgreementRequest_utf8 rt m \<longleftrightarrow> rt_utf8 rt (kar_public_key m) \<and> rt_utf8 rt (kar_sign m)"

subsection \<open>\<open>KeyCheckRequest\<close>\<close>

definition KeyCheckRequest_case :: "pb_runtime \<Rightarrow> nat \<Rightarrow> KeyCheckRequest \<Rightarrow> string \<Rightarrow> KeyCheckRequest field_result" where
  "KeyCheckRequest_case rt tag m s =
     (if tag div 8 = 1 then (if tag mod 256 = 8 then int32_field rt (\<lambda>x. m\<lparr>kcr_key_id := x\<rparr>) s else Unusual)
      else Unusual)"

definition KeyCheckRequest_InternalParse :: "pb_runtime \<Rightarrow> KeyCheckRequest \<Rightarrow> string \<Rightarrow> (KeyCheckRequest \<times> parse_end) option" where
  "KeyCheckRequest_InternalParse rt m s = parse_loop rt (KeyCheckRequest_case rt) (length s) m s"

definition KeyCheckRequest_ToArray :: "pb_runtime \<Rightarrow> KeyCheckRequest \<Rightarrow> string" where
  "KeyCheckRequest_ToArray rt m =
     (if kcr_key_id m \<noteq> 0 then rt_WriteInt32 rt 1 (kcr_key_id m) else [])"

definition KeyCheckRequest_ByteSizeLong :: "pb_runtime \<Rightarrow> KeyCheckRequest \<Rightarrow> nat" where
  "KeyCheckRequest_ByteSizeLong rt m =
     (if kcr_key_id m \<noteq> 0 then 1 + rt_Int32Size rt (kcr_key_id m) else 0)"

definition KeyCheckRequest_ranges :: "KeyCheckRequest \<Rightarrow> bool" where
  "KeyCheckRequest_ranges m \<longleftrightarrow> is_int32 (kcr_key_id m)"

definition KeyCheckRequest_utf8 :: "pb_runtime \<Rightarrow> KeyCheckRequest \<Rightarrow> bool" where
  "KeyCheckRequest_utf8 rt m \<longleftrightarrow> True"

subsection \<open>\<open>KeyLogoutRequest\<close>\<close>

definition KeyLogoutRequest_case :: "pb_runtime \<Rightarrow> nat \<Rightarrow> KeyLogoutRequest \<Rightarrow> string \<Rightarrow> KeyLogoutRequest field_result" where
  "KeyLogoutRequest_case rt tag m s =
     (if tag div 8 = 1 then (if tag mod 256 = 8 then int32_field rt (\<lambda>x. m\<lparr>klr_key_id := x\<rparr>) s else Unusual)
      else Unusual)"

definition KeyLogoutRequest_InternalParse :: "pb_runtime \<Rightarrow> KeyLogoutRequest \<Rightarrow> string \<Rightarrow> (KeyLogoutRequest \<times> parse_end) option" where
  "KeyLogoutRequest_InternalParse rt m s = parse_loop rt (KeyLogoutRequest_case rt) (length s) m s"

definition KeyLogoutRequest_ToArray :: "pb_runtime \<Rightarrow> KeyLogoutRequest \<Rightarrow> string" where
  "KeyLogoutRequest_ToArray rt m =
     (if klr_key_id m \<noteq> 0 then rt_WriteInt32 rt 1 (klr_key_id m) else [])"

definition KeyLogoutRequest_ByteSizeLong :: "pb_runtime \<Rightarrow> KeyLogoutRequest \<Rightarrow> nat" where
  "KeyLogoutRequest_ByteSizeLong rt m =
     (if klr_key_id m \<noteq> 0 then 1 + rt_Int32Size rt (klr_key_id m) else 0)"

definition KeyLogoutRequest_ranges :: "KeyLogoutRequest \<Rightarrow> bool" where
  "KeyLogoutRequest_ranges m \<longleftrightarrow> is_int32 (klr_key_id m)"

definition KeyLogoutRequest_utf8 :: "pb_runtime \<Rightarrow> KeyLogoutRequest \<Rightarrow> bool" where
  "KeyLogoutRequest_utf8 rt m \<longleftrightarrow> True"

subsection \<open>\<open>KeyOperationResponse\<close>\<close>

definition KeyOperationResponse_case :: "pb_runtime \<Rightarrow> nat \<Rightarrow> KeyOperationResponse \<Rightarrow> string \<Rightarrow> KeyOperationResponse field_result" where
  "KeyOperationResponse_case rt tag m s =
     (if tag div 8 = 1 then (if tag mod 256 = 8 then enum_field rt m (\<lambda>x. m\<lparr>ko_code := x\<rparr>) s else Unusual)
      else if tag div 8 = 2 then (if tag mod 256 = 18 then string_field rt (ko_message m) (\<lambda>x. m\<lparr>ko_message := x\<rparr>) s else Unusual)
      else if tag div 8 = 3 then (if tag mod 256 = 24 then int32_field rt (\<lambda>x. m\<lparr>ko_key_id := x\<rparr>) s else Unusual)
      else if tag div 8 = 4 then (if tag mod 256 = 34 then string_field rt (ko_data m) (\<lambda>x. m\<lparr>ko_data := x\<rparr>) s else Unusual)
      else Unusual)"

definition KeyOperationResponse_InternalParse :: "pb_runtime \<Rightarrow> KeyOperationResponse \<Rightarrow> string \<Rightarrow> (KeyOperationResponse \<times> parse_end) option" where
  "KeyOperationResponse_InternalParse rt m s = parse_loop rt (KeyOperationResponse_case rt) (length s) m s"

definition KeyOperationResponse_ToArray :: "pb_runtime \<Rightarrow> KeyOperationResponse \<Rightarrow> string" where
  "KeyOperationResponse_ToArray rt m =
     (if ko_code m \<noteq> 0 then rt_WriteEnum rt 1 (ko_code m) else []) @
     (if ko_message m \<noteq> [] then rt_WriteString rt 2 (ko_message m) else []) @
     (if ko_key_id m \<noteq> 0 then rt_WriteInt32 rt 3 (ko_key_id m) else []) @
     (if ko_data m \<noteq> [] then rt_WriteString rt 4 (ko_data m) else [])"

definition KeyOperationResponse_ByteSizeLong :: "pb_runtime \<Rightarrow> KeyOperationResponse \<Rightarrow> nat" where
  "KeyOperationResponse_ByteSizeLong rt m =
     (if ko_message m \<noteq> [] then 1 + rt_StringSize rt (ko_message m) else 0) +
     (if ko_data m \<noteq> [] then 1 + rt_StringSize rt (ko_data m) else 0) +
     (if ko_code m \<noteq> 0 then 1 + rt_EnumSize rt (ko_code m) else 0) +
     (if ko_key_id m \<noteq> 0 then 1 + rt_Int32Size rt (ko_key_id m) else 0)"

definition KeyOperationResponse_ranges :: "KeyOperationResponse \<Rightarrow> bool" where
  "KeyOperationResponse_ranges m \<longleftrightarrow> is_int32 (ko_code m) \<and> is_int32 (ko_key_id m)"

definition KeyOperationResponse_utf8 :: "pb_runtime \<Rightarrow> KeyOperationResponse \<Rightarrow> bool" where
  "KeyOperationResponse_utf8 rt m \<longleftrightarrow> rt_utf8 rt (ko_message m) \<and> rt_utf8 rt (ko_data m)"

subsection \<open>\<open>Header\<close>\<close>

definition Header_case :: "pb_runtime \<Rightarrow> nat \<Rightarrow> Header \<Rightarrow> string \<Rightarrow> Header field_result" where
  "Header_case rt tag m s =
     (if tag div 8 = 1 then (if tag mod 256 = 10 then string_field rt (h_message_id m) (\<lambda>x. m\<lparr>h_message_id := x\<rparr>) s else Unusual)
      else if tag div 8 = 2 then (if tag mod 256 = 16 then enum_field rt m (\<lambda>x. m\<lparr>h_command := x\<rparr>) s else Unusual)
      else if tag div 8 = 3 then (if tag mod 256 = 26 then string_field rt (h_sender_id m) (\<lambda>x. m\<lparr>h_sender_id := x\<rparr>) s else Unusual)
      else if tag div 8 = 4 then (if tag mod 256 = 34 then string_field rt (h_receiver_id m) (\<lambda>x. m\<lparr>h_receiver_id := x\<rparr>) s else Unusual)
      else if tag div 8 = 5 then (if tag mod 256 = 40 then int64_field rt (\<lambda>x. m\<lparr>h_timestamp := x\<rparr>) s else Unusual)
      else Unusual)"

definition Header_InternalParse :: "pb_runtime \<Rightarrow> Header \<Rightarrow> string \<Rightarrow> (Header \<times> parse_end) option" where
  "Header_InternalParse rt m s = parse_loop rt (Header_case rt) (length s) m s"

definition Header_ToArray :: "pb_runtime \<Rightarrow> Header \<Rightarrow> string" where
  "Header_ToArray rt m =
     (if h_message_id m \<noteq> [] then rt_WriteString rt 1 (h_message_id m) else []) @
     (if h_command m \<noteq> 0 then rt_WriteEnum rt 2 (h_command m) else []) @
     (if h_sender_id m \<noteq> [] then rt_WriteString rt 3 (h_sender_id m) else []) @
     (if h_receiver_id m \<noteq> [] then rt_WriteString rt 4 (h_receiver_id m) else []) @
     (if h_timestamp m \<noteq> 0 then rt_WriteInt64 rt 5 (h_timestamp m) else [])"

definition Header_ByteSizeLong :: "pb_runtime \<Rightarrow> Header \<Rightarrow> nat" where
  "Header_ByteSizeLong rt m =
     (if h_message_id m \<noteq> [] then 1 + rt_StringSize rt (h_message_id m) else 0) +
     (if h_sender_id m \<noteq> [] then 1 + rt_StringSize rt (h_sender_id m) else 0) +
     (if h_receiver_id m \<noteq> [] then 1 + rt_StringSize rt (h_receiver_id m) else 0) +
     (if h_timestamp m \<noteq> 0 then 1 + rt_Int64Size rt (h_timestamp m) else 0) +
     (if h_command m \<noteq> 0 then 1 + rt_EnumSize rt (h_command m) else 0)"

definition Header_ranges :: "Header \<Rightarrow> bool" where
  "Header_ranges m \<longleftrightarrow> is_int32 (h_command m) \<and> is_int64 (h_timestamp m)"

definition Header_utf8 :: "pb_runtime \<Rightarrow> Header \<Rightarrow> bool" where
  "Header_utf8 rt m \<longleftrightarrow> rt_utf8 rt (h_message_id m) \<and> rt_utf8 rt (h_sender_id m) \<and> rt_utf8 rt (h_receiver_id m)"

subsection \<open>\<open>EncryptedMessage\<close>\<close>

definition EncryptedMessage_case :: "pb_runtime \<Rightarrow> nat \<Rightarrow> EncryptedMessage \<Rightarrow> string \<Rightarrow> EncryptedMessage field_result" where
  "EncryptedMessage_case rt tag m s =
     (if tag div 8 = 1 then (if tag mod 256 = 8 then int32_field rt (\<lambda>x. m\<lparr>em_key_id := x\<rparr>) s else Unusual)
      else if tag div 8 = 2 then (if tag mod 256 = 16 then enum_field rt m (\<lambda>x. m\<lparr>em_msg_type := x\<rparr>) s else Unusual)
      else if tag div 8 = 3 then (if tag mod 256 = 26 then string_field rt (em_ciphertext m) (\<lambda>x. m\<lparr>em_ciphertext := x\<rparr>) s else Unusual)
      else if tag div 8 = 4 then (if tag mod 256 = 34 then string_field rt (em_nonce m) (\<lambda>x. m\<lparr>em_nonce := x\<rparr>) s else Unusual)
      else if tag div 8 = 5 then (if tag mod 256 = 42 then string_field rt (em_tag m) (\<lambda>x. m\<lparr>em_tag := x\<rparr>) s else Unusual)
      else if tag div 8 = 6 then (if tag mod 256 = 50 then string_field rt (em_algorithm m) (\<lambda>x. m\<lparr>em_algorithm := x\<rparr>) s else Unusual)
      else Unusual)"

definition EncryptedMessage_InternalParse :: "pb_runtime \<Rightarrow> EncryptedMessage \<Rightarrow> string \<Rightarrow> (EncryptedMessage \<times> parse_end) option" where
  "EncryptedMessage_InternalParse rt m s = parse_loop rt (EncryptedMessage_case rt) (length s) m s"

definition EncryptedMessage_ToArray :: "pb_runtime \<Rightarrow> EncryptedMessage \<Rightarrow> string" where
  "EncryptedMessage_ToArray rt m =
     (if em_key_id m \<noteq> 0 then rt_WriteInt32 rt 1 (em_key_id m) else []) @
     (if em_msg_type m \<noteq> 0 then rt_WriteEnum rt 2 (em_msg_type m) else []) @
     (if em_ciphertext m \<noteq> [] then rt_WriteString rt 3 (em_ciphertext m) else []) @
     (if em_nonce m \<noteq> [] then rt_WriteString rt 4 (em_nonce m) else []) @
     (if em_tag m \<noteq> [] then rt_WriteString rt 5 (em_tag m) else []) @
     (if em_algorithm m \<noteq> [] then rt_WriteString rt 6 (em_algorithm m) else [])"

definition EncryptedMessage_ByteSizeLong :: "pb_runtime \<Rightarrow> EncryptedMessage \<Rightarrow> nat" where
  "EncryptedMessage_ByteSizeLong rt m =
     (if em_ciphertext m \<noteq> [] then 1 + rt_StringSize rt (em_ciphertext m) else 0) +
     (if em_nonce m \<noteq> [] then 1 + rt_StringSize rt (em_nonce m) else 0) +
     (if em_tag m \<noteq> [] then 1 + rt_StringSize rt (em_tag m) else 0) +
     (if em_algorithm m \<noteq> [] then 1 + rt_StringSize rt (em_algorithm m) else 0) +
     (if em_key_id m \<noteq> 0 then 1 + rt_Int32Size rt (em_key_id m) else 0) +
     (if em_msg_type m \<noteq> 0 then 1 + rt_EnumSize rt (em_msg_type m) else 0)"

definition EncryptedMessage_ranges :: "EncryptedMessage \<Rightarrow> bool" where
  "EncryptedMessage_ranges m \<longleftrightarrow> is_int32 (em_key_id m) \<and> is_int32 (em_msg_type m)"

definition EncryptedMessage_utf8 :: "pb_runtime \<Rightarrow> EncryptedMessage \<Rightarrow> bool" where
  "EncryptedMessage_utf8 rt m \<longleftrightarrow> rt_utf8 rt (em_ciphertext m) \<and> rt_utf8 rt (em_nonce m) \<and> rt_utf8 rt (em_tag m) \<and>
     rt_utf8 rt (em_algorithm m)"

subsection \<open>\<open>SendMessageRequest\<close>\<close>

definition SendMessageRequest_case :: "pb_runtime \<Rightarrow> nat \<Rightarrow> SendMessageRequest \<Rightarrow> string \<Rightarrow> SendMessageRequest field_result" where
  "SendMessageRequest_case rt tag m s =
     (if tag div 8 = 1 then (if tag mod 256 = 10 then message_field rt (EncryptedMessage_InternalParse rt) (smr_get_message m)
        (\<lambda>x. m\<lparr>smr_message := Some x\<rparr>) s else Unusual)
      else Unusual)"

definition SendMessageRequest_InternalParse :: "pb_runtime \<Rightarrow> SendMessageRequest \<Rightarrow> string \<Rightarrow> (SendMessageRequest \<times> parse_end) option" where
  "SendMessageRequest_InternalParse rt m s = parse_loop rt (SendMessageRequest_case rt) (length s) m s"

definition SendMessageRequest_ToArray :: "pb_runtime \<Rightarrow> SendMessageRequest \<Rightarrow> string" where
  "SendMessageRequest_ToArray rt m =
     (case smr_message m of None \<Rightarrow> [] | Some x \<Rightarrow> rt_WriteMessage rt 1 (EncryptedMessage_ToArray rt x))"

definition SendMessageRequest_ByteSizeLong :: "pb_runtime \<Rightarrow> SendMessageRequest \<Rightarrow> nat" where
  "SendMessageRequest_ByteSizeLong rt m =
     (case smr_message m of None \<Rightarrow> 0 | Some x \<Rightarrow> 1 + rt_MessageSize rt (EncryptedMessage_ByteSizeLong rt x))"

definition SendMessageRequest_ranges :: "SendMessageRequest \<Rightarrow> bool" where
  "SendMessageRequest_ranges m \<longleftrightarrow> (\<forall>x \<in> set_option (smr_message m). EncryptedMessage_ranges x)"

definition SendMessageRequest_utf8 :: "pb_runtime \<Rightarrow> SendMessageRequest \<Rightarrow> bool" where
  "SendMessageRequest_utf8 rt m \<longleftrightarrow> (\<forall>x \<in> set_option (smr_message m). EncryptedMessage_utf8 rt x)"

subsection \<open>\<open>SendMessageResponse\<close>\<close>

definition SendMessageResponse_case :: "pb_runtime \<Rightarrow> nat \<Rightarrow> SendMessageResponse \<Rightarrow> string \<Rightarrow> SendMessageResponse field_result" where
  "SendMessageResponse_case rt tag m s =
     (if tag div 8 = 1 then (if tag mod 256 = 8 then enum_field rt m (\<lambda>x. m\<lparr>sr_code := x\<rparr>) s else Unusual)
      else if tag div 8 = 2 then (if tag mod 256 = 18 then string_field rt (sr_message m) (\<lambda>x. m\<lparr>sr_message := x\<rparr>) s else Unusual)
      else if tag div 8 = 3 then (if tag mod 256 = 26 then string_field rt (sr_server_message_id m) (\<lambda>x. m\<lparr>sr_server_message_id := x\<rparr>) s else Unusual)
      else if tag div 8 = 4 then (if tag mod 256 = 32 then int64_field rt (\<lambda>x. m\<lparr>sr_server_time := x\<rparr>) s else Unusual)
      else if tag div 8 = 5 then (if tag mod 256 = 40 then enum_field rt m (\<lambda>x. m\<lparr>sr_delivery_status := x\<rparr>) s else Unusual)
      else Unusual)"

definition SendMessageResponse_InternalParse :: "pb_runtime \<Rightarrow> SendMessageResponse \<Rightarrow> string \<Rightarrow> (SendMessageResponse \<times> parse_end) option" where
  "SendMessageResponse_InternalParse rt m s = parse_loop rt (SendMessageResponse_case rt) (length s) m s"

definition SendMessageResponse_ToArray :: "pb_runtime \<Rightarrow> SendMessageResponse \<Rightarrow> string" where
  "SendMessageResponse_ToArray rt m =
     (if sr_code m \<noteq> 0 then rt_WriteEnum rt 1 (sr_code m) else []) @
     (if sr_message m \<noteq> [] then rt_WriteString rt 2 (sr_message m) else []) @
     (if sr_server_message_id m \<noteq> [] then rt_WriteString rt 3 (sr_server_message_id m) else []) @
     (if sr_server_time m \<noteq> 0 then rt_WriteInt64 rt 4 (sr_server_time m) else []) @
     (if sr_delivery_status m \<noteq> 0 then rt_WriteEnum rt 5 (sr_delivery_status m) else [])"

definition SendMessageResponse_ByteSizeLong :: "pb_runtime \<Rightarrow> SendMessageResponse \<Rightarrow> nat" where
  "SendMessageResponse_ByteSizeLong rt m =
     (if sr_message m \<noteq> [] then 1 + rt_StringSize rt (sr_message m) else 0) +
     (if sr_server_message_id m \<noteq> [] then 1 + rt_StringSize rt (sr_server_message_id m) else 0) +
     (if sr_code m \<noteq> 0 then 1 + rt_EnumSize rt (sr_code m) else 0) +
     (if sr_delivery_status m \<noteq> 0 then 1 + rt_EnumSize rt (sr_delivery_status m) else 0) +
     (if sr_server_time m \<noteq> 0 then 1 + rt_Int64Size rt (sr_server_time m) else 0)"

definition SendMessageResponse_ranges :: "SendMessageResponse \<Rightarrow> bool" where
  "SendMessageResponse_ranges m \<longleftrightarrow> is_int32 (sr_code m) \<and> is_int64 (sr_server_time m) \<and> is_int32 (sr_delivery_status m)"

definition SendMessageResponse_utf8 :: "pb_runtime \<Rightarrow> SendMessageResponse \<Rightarrow> bool" where
  "SendMessageResponse_utf8 rt m \<longleftrightarrow> rt_utf8 rt (sr_message m) \<and> rt_utf8 rt (sr_server_message_id m)"

subsection \<open>\<open>QueryMessageRequest\<close>\<close>

definition QueryMessageRequest_case :: "pb_runtime \<Rightarrow> nat \<Rightarrow> QueryMessageRequest \<Rightarrow> string \<Rightarrow> QueryMessageRequest field_result" where
  "QueryMessageRequest_case rt tag m s =
     (if tag div 8 = 1 then (if tag mod 256 = 10 then string_field rt (qmr_server_message_id m) (\<lambda>x. m\<lparr>qmr_server_message_id := x\<rparr>) s else Unusual)
      else Unusual)"

definition QueryMessageRequest_InternalParse :: "pb_runtime \<Rightarrow> QueryMessageRequest \<Rightarrow> string \<Rightarrow> (QueryMessageRequest \<times> parse_end) option" where
  "QueryMessageRequest_InternalParse rt m s = parse_loop rt (QueryMessageRequest_case rt) (length s) m s"

definition QueryMessageRequest_ToArray :: "pb_runtime \<Rightarrow> QueryMessageRequest \<Rightarrow> string" where
  "QueryMessageRequest_ToArray rt m =
     (if qmr_server_message_id m \<noteq> [] then rt_WriteString rt 1 (qmr_server_message_id m) else [])"

definition QueryMessageRequest_ByteSizeLong :: "pb_runtime \<Rightarrow> QueryMessageRequest \<Rightarrow> nat" where
  "QueryMessageRequest_ByteSizeLong rt m =
     (if qmr_server_message_id m \<noteq> [] then 1 + rt_StringSize rt (qmr_server_message_id m) else 0)"

definition QueryMessageRequest_ranges :: "QueryMessageRequest \<Rightarrow> bool" where
  "QueryMessageRequest_ranges m \<longleftrightarrow> True"

definition QueryMessageRequest_utf8 :: "pb_runtime \<Rightarrow> QueryMessageRequest \<Rightarrow> bool" where
  "QueryMessageRequest_utf8 rt m \<longleftrightarrow> rt_utf8 rt (qmr_server_message_id m)"

subsection \<open>\<open>QueryMessageResponse\<close>\<close>

definition QueryMessageResponse_case :: "pb_runtime \<Rightarrow> nat \<Rightarrow> QueryMessageResponse \<Rightarrow> string \<Rightarrow> QueryMessageResponse field_result" where
  "QueryMessageResponse_case rt tag m s =
     (if tag div 8 = 1 then (if tag mod 256 = 8 then enum_field rt m (\<lambda>x. m\<lparr>qr_code := x\<rparr>) s else Unusual)
      else if tag div 8 = 2 then (if tag mod 256 = 18 then string_field rt (qr_message m) (\<lambda>x. m\<lparr>qr_message := x\<rparr>) s else Unusual)
      else if tag div 8 = 3 then (if tag mod 256 = 26 then string_field rt (qr_server_message_id m) (\<lambda>x. m\<lparr>qr_server_message_id := x\<rparr>) s else Unusual)
      else if tag div 8 = 4 then (if tag mod 256 = 34 then string_field rt (qr_sender_id m) (\<lambda>x. m\<lparr>qr_sender_id := x\<rparr>) s else Unusual)
      else if tag div 8 = 5 then (if tag mod 256 = 42 then string_field rt (qr_receiver_id m) (\<lambda>x. m\<lparr>qr_receiver_id := x\<rparr>) s else Unusual)
      else if tag div 8 = 6 then (if tag mod 256 = 48 then int32_field rt (\<lambda>x. m\<lparr>qr_key_id := x\<rparr>) s else Unusual)
      else if tag div 8 = 7 then (if tag mod 256 = 58 then string_field rt (qr_msg_type m) (\<lambda>x. m\<lparr>qr_msg_type := x\<rparr>) s else Unusual)
      else if tag div 8 = 8 then (if tag mod 256 = 64 then int64_field rt (\<lambda>x. m\<lparr>qr_send_time := x\<rparr>) s else Unusual)
      else if tag div 8 = 9 then (if tag mod 256 = 72 then int32_field rt (\<lambda>x. m\<lparr>qr_status := x\<rparr>) s else Unusual)
      else Unusual)"

definition QueryMessageResponse_InternalParse :: "pb_runtime \<Rightarrow> QueryMessageResponse \<Rightarrow> string \<Rightarrow> (QueryMessageResponse \<times> parse_end) option" where
  "QueryMessageResponse_InternalParse rt m s = parse_loop rt (QueryMessageResponse_case rt) (length s) m s"

definition QueryMessageResponse_ToArray :: "pb_runtime \<Rightarrow> QueryMessageResponse \<Rightarrow> string" where
  "QueryMessageResponse_ToArray rt m =
     (if qr_code m \<noteq> 0 then rt_WriteEnum rt 1 (qr_code m) else []) @
     (if qr_message m \<noteq> [] then rt_WriteString rt 2 (qr_message m) else []) @
     (if qr_server_message_id m \<noteq> [] then rt_WriteString rt 3 (qr_server_message_id m) else []) @
     (if qr_sender_id m \<noteq> [] then rt_WriteString rt 4 (qr_sender_id m) else []) @
     (if qr_receiver_id m \<noteq> [] then rt_WriteString rt 5 (qr_receiver_id m) else []) @
     (if qr_key_id m \<noteq> 0 then rt_WriteInt32 rt 6 (qr_key_id m) else []) @
     (if qr_msg_type m \<noteq> [] then rt_WriteString rt 7 (qr_msg_type m) else []) @
     (if qr_send_time m \<noteq> 0 then rt_WriteInt64 rt 8 (qr_send_time m) else []) @
     (if qr_status m \<noteq> 0 then rt_WriteInt32 rt 9 (qr_status m) else [])"

definition QueryMessageResponse_ByteSizeLong :: "pb_runtime \<Rightarrow> QueryMessageResponse \<Rightarrow> nat" where
  "QueryMessageResponse_ByteSizeLong rt m =
     (if qr_message m \<noteq> [] then 1 + rt_StringSize rt (qr_message m) else 0) +
     (if qr_server_message_id m \<noteq> [] then 1 + rt_StringSize rt (qr_server_message_id m) else 0) +
     (if qr_sender_id m \<noteq> [] then 1 + rt_StringSize rt (qr_sender_id m) else 0) +
     (if qr_receiver_id m \<noteq> [] then 1 + rt_StringSize rt (qr_receiver_id m) else 0) +
     (if qr_msg_type m \<noteq> [] then 1 + rt_StringSize rt (qr_msg_type m) else 0) +
     (if qr_code m \<noteq> 0 then 1 + rt_EnumSize rt (qr_code m) else 0) +
     (if qr_key_id m \<noteq> 0 then 1 + rt_Int32Size rt (qr_key_id m) else 0) +
     (if qr_send_time m \<noteq> 0 then 1 + rt_Int64Size rt (qr_send_time m) else 0) +
     (if qr_status m \<noteq> 0 then 1 + rt_Int32Size rt (qr_status m) else 0)"

definition QueryMessageResponse_ranges :: "QueryMessageResponse \<Rightarrow> bool" where
  "QueryMessageResponse_ranges m \<longleftrightarrow> is_int32 (qr_code m) \<and> is_int32 (qr_key_id m) \<and> is_int64 (qr_send_time m) \<and>
     is_int32 (qr_status m)"

definition QueryMessageResponse_utf8 :: "pb_runtime \<Rightarrow> QueryMessageResponse \<Rightarrow> bool" where
  "QueryMessageResponse_utf8 rt m \<longleftrightarrow> rt_utf8 rt (qr_message m) \<and> rt_utf8 rt (qr_server_message_id m) \<and> rt_utf8 rt (qr_sender_id m) \<and>
     rt_utf8 rt (qr_receiver_id m) \<and> rt_utf8 rt (qr_msg_type m)"

subsection \<open>\<open>MessageSummary\<close>\<close>

definition MessageSummary_case :: "pb_runtime \<Rightarrow> nat \<Rightarrow> MessageSummary \<Rightarrow> string \<Rightarrow> MessageSummary field_result" where
  "MessageSummary_case rt tag m s =
     (if tag div 8 = 1 then (if tag mod 256 = 10 then string_field rt (ms_server_message_id m) (\<lambda>x. m\<lparr>ms_server_message_id := x\<rparr>) s else Unusual)
      else if tag div 8 = 2 then (if tag mod 256 = 18 then string_field rt (ms_sender_id m) (\<lambda>x. m\<lparr>ms_sender_id := x\<rparr>) s else Unusual)
      else if tag div 8 = 3 then (if tag mod 256 = 26 then string_field rt (ms_receiver_id m) (\<lambda>x. m\<lparr>ms_receiver_id := x\<rparr>) s else Unusual)
      else if tag div 8 = 4 then (if tag mod 256 = 32 then int32_field rt (\<lambda>x. m\<lparr>ms_key_id := x\<rparr>) s else Unusual)
      else if tag div 8 = 5 then (if tag mod 256 = 42 then string_field rt (ms_msg_type m) (\<lambda>x. m\<lparr>ms_msg_type := x\<rparr>) s else Unusual)
      else if tag div 8 = 6 then (if tag mod 256 = 48 then int64_field rt (\<lambda>x. m\<lparr>ms_send_time := x\<rparr>) s else Unusual)
      else if tag div 8 = 7 then (if tag mod 256 = 56 then int32_field rt (\<lambda>x. m\<lparr>ms_status := x\<rparr>) s else Unusual)
      else Unusual)"

definition MessageSummary_InternalParse :: "pb_runtime \<Rightarrow> MessageSummary \<Rightarrow> string \<Rightarrow> (MessageSummary \<times> parse_end) option" where
  "MessageSummary_InternalParse rt m s = parse_loop rt (MessageSummary_case rt) (length s) m s"

definition MessageSummary_ToArray :: "pb_runtime \<Rightarrow> MessageSummary \<Rightarrow> string" where
  "MessageSummary_ToArray rt m =
     (if ms_server_message_id m \<noteq> [] then rt_WriteString rt 1 (ms_server_message_id m) else []) @
     (if ms_sender_id m \<noteq> [] then rt_WriteString rt 2 (ms_sender_id m) else []) @
     (if ms_receiver_id m \<noteq> [] then rt_WriteString rt 3 (ms_receiver_id m) else []) @
     (if ms_key_id m \<noteq> 0 then rt_WriteInt32 rt 4 (ms_key_id m) else []) @
     (if ms_msg_type m \<noteq> [] then rt_WriteString rt 5 (ms_msg_type m) else []) @
     (if ms_send_time m \<noteq> 0 then rt_WriteInt64 rt 6 (ms_send_time m) else []) @
     (if ms_status m \<noteq> 0 then rt_WriteInt32 rt 7 (ms_status m) else [])"

definition MessageSummary_ByteSizeLong :: "pb_runtime \<Rightarrow> MessageSummary \<Rightarrow> nat" where
  "MessageSummary_ByteSizeLong rt m =
     (if ms_server_message_id m \<noteq> [] then 1 + rt_StringSize rt (ms_server_message_id m) else 0) +
     (if ms_sender_id m \<noteq> [] then 1 + rt_StringSize rt (ms_sender_id m) else 0) +
     (if ms_receiver_id m \<noteq> [] then 1 + rt_StringSize rt (ms_receiver_id m) else 0) +
     (if ms_msg_type m \<noteq> [] then 1 + rt_StringSize rt (ms_msg_type m) else 0) +
     (if ms_key_id m \<noteq> 0 then 1 + rt_Int32Size rt (ms_key_id m) else 0) +
     (if ms_status m \<noteq> 0 then 1 + rt_Int32Size rt (ms_status m) else 0) +
     (if ms_send_time m \<noteq> 0 then 1 + rt_Int64Size rt (ms_send_time m) else 0)"

definition MessageSummary_ranges :: "MessageSummary \<Rightarrow> bool" where
  "MessageSummary_ranges m \<longleftrightarrow> is_int32 (ms_key_id m) \<and> is_int64 (ms_send_time m) \<and> is_int32 (ms_status m)"

definition MessageSummary_utf8 :: "pb_runtime \<Rightarrow> MessageSummary \<Rightarrow> bool" where
  "MessageSummary_utf8 rt m \<longleftrightarrow> rt_utf8 rt (ms_server_message_id m) \<and> rt_utf8 rt (ms_sender_id m) \<and>
     rt_utf8 rt (ms_receiver_id m) \<and> rt_utf8 rt (ms_msg_type m)"

subsection \<open>\<open>QueryMessageListResponse\<close>\<close>

text \<open>The \<open>do .. while\<close> over the repeated field: after a message, the next byte is looked at, and
  where it is the same tag it is skipped and another message read.\<close>

fun parse_summaries ::
    "pb_runtime \<Rightarrow> nat \<Rightarrow> MessageSummary list \<Rightarrow> string \<Rightarrow> (MessageSummary list \<times> string option) option" where
  "parse_summaries rt 0 ms s = None"
| "parse_summaries rt (Suc n) ms s = do {
     (x, r) \<leftarrow> parse_message rt (MessageSummary_InternalParse rt) MessageSummary_default s;
     let ms = ms @ [x];
     case r of
       None \<Rightarrow> Some (ms, None)
     | Some [] \<Rightarrow> Some (ms, Some [])
     | Some (c # cs) \<Rightarrow> if c = char_of (26 :: nat) then parse_summaries rt n ms cs else Some (ms, Some (c # cs))
   }"

definition QueryMessageListResponse_case :: "pb_runtime \<Rightarrow> nat \<Rightarrow> QueryMessageListResponse \<Rightarrow> string \<Rightarrow> QueryMessageListResponse field_result" where
  "QueryMessageListResponse_case rt tag m s =
     (if tag div 8 = 1 then (if tag mod 256 = 8 then enum_field rt m (\<lambda>x. m\<lparr>lr_code := x\<rparr>) s else Unusual)
      else if tag div 8 = 2 then (if tag mod 256 = 18 then string_field rt (lr_message m) (\<lambda>x. m\<lparr>lr_message := x\<rparr>) s else Unusual)
      else if tag div 8 = 3 then (if tag mod 256 = 26 then (case parse_summaries rt (Suc (length s)) (lr_messages m) s of
          None \<Rightarrow> Stuck
        | Some (ms, r) \<Rightarrow> Field (m\<lparr>lr_messages := ms\<rparr>) r) else Unusual)
      else Unusual)"

definition QueryMessageListResponse_InternalParse :: "pb_runtime \<Rightarrow> QueryMessageListResponse \<Rightarrow> string \<Rightarrow> (QueryMessageListResponse \<times> parse_end) option" where
  "QueryMessageListResponse_InternalParse rt m s = parse_loop rt (QueryMessageListResponse_case rt) (length s) m s"

definition QueryMessageListResponse_ToArray :: "pb_runtime \<Rightarrow> QueryMessageListResponse \<Rightarrow> string" where
  "QueryMessageListResponse_ToArray rt m =
     (if lr_code m \<noteq> 0 then rt_WriteEnum rt 1 (lr_code m) else []) @
     (if lr_message m \<noteq> [] then rt_WriteString rt 2 (lr_message m) else []) @
     concat (map (\<lambda>x. rt_WriteMessage rt 3 (MessageSummary_ToArray rt x)) (lr_messages m))"

definition QueryMessageListResponse_ByteSizeLong :: "pb_runtime \<Rightarrow> QueryMessageListResponse \<Rightarrow> nat" where
  "QueryMessageListResponse_ByteSizeLong rt m =
     length (lr_messages m) + sum_list (map (\<lambda>x. rt_MessageSize rt (MessageSummary_ByteSizeLong rt x)) (lr_messages m)) +
     (if lr_message m \<noteq> [] then 1 + rt_StringSize rt (lr_message m) else 0) +
     (if lr_code m \<noteq> 0 then 1 + rt_EnumSize rt (lr_code m) else 0)"

definition QueryMessageListResponse_ranges :: "QueryMessageListResponse \<Rightarrow> bool" where
  "QueryMessageListResponse_ranges m \<longleftrightarrow> is_int32 (lr_code m) \<and> (\<forall>x \<in> set (lr_messages m). MessageSummary_ranges x)"

definition QueryMessageListResponse_utf8 :: "pb_runtime \<Rightarrow> QueryMessageListResponse \<Rightarrow> bool" where
  "QueryMessageListResponse_utf8 rt m \<longleftrightarrow> rt_utf8 rt (lr_message m) \<and> (\<forall>x \<in> set (lr_messages m). MessageSummary_utf8 rt x)"

subsection \<open>\<open>RequestPacket\<close>\<close>

text \<open>\<open>mutable_..()\<close> of a \<open>oneof\<close> case replaces the body unless that case is already set, so a
  second occurrence is read on top of the first.\<close>

definition RequestPacket_case :: "pb_runtime \<Rightarrow> nat \<Rightarrow> RequestPacket \<Rightarrow> string \<Rightarrow> RequestPacket field_result" where
  "RequestPacket_case rt tag m s =
     (if tag div 8 = 1 then
        (if tag mod 256 = 10 then message_field rt (Header_InternalParse rt) (get_header (rq_header m))
           (\<lambda>x. m\<lparr>rq_header := Some x\<rparr>) s else Unusual)
      else if tag div 8 = 2 then
        (if tag mod 256 = 18 then message_field rt (SendMessageRequest_InternalParse rt)
           (case send_msg_req (rq_body m) of Some r \<Rightarrow> r | None \<Rightarrow> SendMessageRequest_default)
           (\<lambda>x. m\<lparr>rq_body := SendMsgReq x\<rparr>) s else Unusual)
      else if tag div 8 = 3 then
        (if tag mod 256 = 26 then message_field rt (QueryMessageRequest_InternalParse rt)
           (case query_msg_req (rq_body m) of Some r \<Rightarrow> r | None \<Rightarrow> QueryMessageRequest_default)
           (\<lambda>x. m\<lparr>rq_body := QueryMsgReq x\<rparr>) s else Unusual)
      else if tag div 8 = 4 then
        (if tag mod 256 = 34 then message_field rt (QueryMessageListRequest_InternalParse rt)
           (case query_msg_list_req (rq_body m) of Some r \<Rightarrow> r | None \<Rightarrow> QueryMessageListRequest_default)
           (\<lambda>x. m\<lparr>rq_body := QueryMsgListReq x\<rparr>) s else Unusual)
      else if tag div 8 = 5 then
        (if tag mod 256 = 42 then message_field rt (KeyAgreementRequest_InternalParse rt)
           (case key_agree_req (rq_body m) of Some r \<Rightarrow> r | None \<Rightarrow> KeyAgreementRequest_default)
           (\<lambda>x. m\<lparr>rq_body := KeyAgreeReq x\<rparr>) s else Unusual)
      else if tag div 8 = 6 then
        (if tag mod 256 = 50 then message_field rt (KeyCheckRequest_InternalParse rt)
           (case key_check_req (rq_body m) of Some r \<Rightarrow> r | None \<Rightarrow> KeyCheckRequest_default)
           (\<lambda>x. m\<lparr>rq_body := KeyCheckReq x\<rparr>) s else Unusual)
      else if tag div 8 = 7 then
        (if tag mod 256 = 58 then message_field rt (KeyLogoutRequest_InternalParse rt)
           (case key_logout_req (rq_body m) of Some r \<Rightarrow> r | None \<Rightarrow> KeyLogoutRequest_default)
           (\<lambda>x. m\<lparr>rq_body := KeyLogoutReq x\<rparr>) s else Unusual)
      else Unusual)"

definition RequestPacket_InternalParse :: "pb_runtime \<Rightarrow> RequestPacket \<Rightarrow> string \<Rightarrow> (RequestPacket \<times> parse_end) option" where
  "RequestPacket_InternalParse rt m s = parse_loop rt (RequestPacket_case rt) (length s) m s"

definition RequestPacket_ToArray :: "pb_runtime \<Rightarrow> RequestPacket \<Rightarrow> string" where
  "RequestPacket_ToArray rt m =
     (case rq_header m of None \<Rightarrow> [] | Some x \<Rightarrow> rt_WriteMessage rt 1 (Header_ToArray rt x)) @
     (case send_msg_req (rq_body m) of None \<Rightarrow> [] | Some x \<Rightarrow> rt_WriteMessage rt 2 (SendMessageRequest_ToArray rt x)) @
     (case query_msg_req (rq_body m) of None \<Rightarrow> [] | Some x \<Rightarrow> rt_WriteMessage rt 3 (QueryMessageRequest_ToArray rt x)) @
     (case query_msg_list_req (rq_body m) of None \<Rightarrow> [] | Some x \<Rightarrow> rt_WriteMessage rt 4 (QueryMessageListRequest_ToArray rt x)) @
     (case key_agree_req (rq_body m) of None \<Rightarrow> [] | Some x \<Rightarrow> rt_WriteMessage rt 5 (KeyAgreementRequest_ToArray rt x)) @
     (case key_check_req (rq_body m) of None \<Rightarrow> [] | Some x \<Rightarrow> rt_WriteMessage rt 6 (KeyCheckRequest_ToArray rt x)) @
     (case key_logout_req (rq_body m) of None \<Rightarrow> [] | Some x \<Rightarrow> rt_WriteMessage rt 7 (KeyLogoutRequest_ToArray rt x))"

definition RequestPacket_ByteSizeLong :: "pb_runtime \<Rightarrow> RequestPacket \<Rightarrow> nat" where
  "RequestPacket_ByteSizeLong rt m =
     (case rq_header m of None \<Rightarrow> 0 | Some x \<Rightarrow> 1 + rt_MessageSize rt (Header_ByteSizeLong rt x)) +
     (case rq_body m of
        NoRequest \<Rightarrow> 0
      | SendMsgReq x \<Rightarrow> 1 + rt_MessageSize rt (SendMessageRequest_ByteSizeLong rt x)
      | QueryMsgReq x \<Rightarrow> 1 + rt_MessageSize rt (QueryMessageRequest_ByteSizeLong rt x)
      | QueryMsgListReq x \<Rightarrow> 1 + rt_MessageSize rt (QueryMessageListRequest_ByteSizeLong rt x)
      | KeyAgreeReq x \<Rightarrow> 1 + rt_MessageSize rt (KeyAgreementRequest_ByteSizeLong rt x)
      | KeyCheckReq x \<Rightarrow> 1 + rt_MessageSize rt (KeyCheckRequest_ByteSizeLong rt x)
      | KeyLogoutReq x \<Rightarrow> 1 + rt_MessageSize rt (KeyLogoutRequest_ByteSizeLong rt x))"

definition RequestPacket_ranges :: "RequestPacket \<Rightarrow> bool" where
  "RequestPacket_ranges m \<longleftrightarrow> (\<forall>h \<in> set_option (rq_header m). Header_ranges h) \<and>
     (case rq_body m of
        NoRequest \<Rightarrow> True
      | SendMsgReq x \<Rightarrow> SendMessageRequest_ranges x
      | QueryMsgReq x \<Rightarrow> QueryMessageRequest_ranges x
      | QueryMsgListReq x \<Rightarrow> QueryMessageListRequest_ranges x
      | KeyAgreeReq x \<Rightarrow> KeyAgreementRequest_ranges x
      | KeyCheckReq x \<Rightarrow> KeyCheckRequest_ranges x
      | KeyLogoutReq x \<Rightarrow> KeyLogoutRequest_ranges x)"

definition RequestPacket_utf8 :: "pb_runtime \<Rightarrow> RequestPacket \<Rightarrow> bool" where
  "RequestPacket_utf8 rt m \<longleftrightarrow> (\<forall>h \<in> set_option (rq_header m). Header_utf8 rt h) \<and>
     (case rq_body m of
        NoRequest \<Rightarrow> True
      | SendMsgReq x \<Rightarrow> SendMessageRequest_utf8 rt x
      | QueryMsgReq x \<Rightarrow> QueryMessageRequest_utf8 rt x
      | QueryMsgListReq x \<Rightarrow> QueryMessageListRequest_utf8 rt x
      | KeyAgreeReq x \<Rightarrow> KeyAgreementRequest_utf8 rt x
      | KeyCheckReq x \<Rightarrow> KeyCheckRequest_utf8 rt x
      | KeyLogoutReq x \<Rightarrow> KeyLogoutRequest_utf8 rt x)"


subsection \<open>\<open>ResponsePacket\<close>\<close>

definition ResponsePacket_case :: "pb_runtime \<Rightarrow> nat \<Rightarrow> ResponsePacket \<Rightarrow> string \<Rightarrow> ResponsePacket field_result" where
  "ResponsePacket_case rt tag m s =
     (if tag div 8 = 1 then
        (if tag mod 256 = 10 then message_field rt (Header_InternalParse rt) (get_header (rs_header m))
           (\<lambda>x. m\<lparr>rs_header := Some x\<rparr>) s else Unusual)
      else if tag div 8 = 2 then
        (if tag mod 256 = 18 then message_field rt (SendMessageResponse_InternalParse rt)
           (case send_msg_resp (rs_body m) of Some r \<Rightarrow> r | None \<Rightarrow> SendMessageResponse_default)
           (\<lambda>x. m\<lparr>rs_body := SendMsgResp x\<rparr>) s else Unusual)
      else if tag div 8 = 3 then
        (if tag mod 256 = 26 then message_field rt (QueryMessageResponse_InternalParse rt)
           (case query_msg_resp (rs_body m) of Some r \<Rightarrow> r | None \<Rightarrow> QueryMessageResponse_default)
           (\<lambda>x. m\<lparr>rs_body := QueryMsgResp x\<rparr>) s else Unusual)
      else if tag div 8 = 4 then
        (if tag mod 256 = 34 then message_field rt (QueryMessageListResponse_InternalParse rt)
           (case query_msg_list_resp (rs_body m) of Some r \<Rightarrow> r | None \<Rightarrow> QueryMessageListResponse_default)
           (\<lambda>x. m\<lparr>rs_body := QueryMsgListResp x\<rparr>) s else Unusual)
      else if tag div 8 = 5 then
        (if tag mod 256 = 42 then message_field rt (KeyOperationResponse_InternalParse rt)
           (case key_op_resp (rs_body m) of Some r \<Rightarrow> r | None \<Rightarrow> KeyOperationResponse_default)
           (\<lambda>x. m\<lparr>rs_body := KeyOpResp x\<rparr>) s else Unusual)
      else Unusual)"

definition ResponsePacket_InternalParse :: "pb_runtime \<Rightarrow> ResponsePacket \<Rightarrow> string \<Rightarrow> (ResponsePacket \<times> parse_end) option" where
  "ResponsePacket_InternalParse rt m s = parse_loop rt (ResponsePacket_case rt) (length s) m s"

definition ResponsePacket_ToArray :: "pb_runtime \<Rightarrow> ResponsePacket \<Rightarrow> string" where
  "ResponsePacket_ToArray rt m =
     (case rs_header m of None \<Rightarrow> [] | Some x \<Rightarrow> rt_WriteMessage rt 1 (Header_ToArray rt x)) @
     (case send_msg_resp (rs_body m) of None \<Rightarrow> [] | Some x \<Rightarrow> rt_WriteMessage rt 2 (SendMessageResponse_ToArray rt x)) @
     (case query_msg_resp (rs_body m) of None \<Rightarrow> [] | Some x \<Rightarrow> rt_WriteMessage rt 3 (QueryMessageResponse_ToArray rt x)) @
     (case query_msg_list_resp (rs_body m) of None \<Rightarrow> [] | Some x \<Rightarrow> rt_WriteMessage rt 4 (QueryMessageListResponse_ToArray rt x)) @
     (case key_op_resp (rs_body m) of None \<Rightarrow> [] | Some x \<Rightarrow> rt_WriteMessage rt 5 (KeyOperationResponse_ToArray rt x))"

definition ResponsePacket_ByteSizeLong :: "pb_runtime \<Rightarrow> ResponsePacket \<Rightarrow> nat" where
  "ResponsePacket_ByteSizeLong rt m =
     (case rs_header m of None \<Rightarrow> 0 | Some x \<Rightarrow> 1 + rt_MessageSize rt (Header_ByteSizeLong rt x)) +
     (case rs_body m of
        NoResponse \<Rightarrow> 0
      | SendMsgResp x \<Rightarrow> 1 + rt_MessageSize rt (SendMessageResponse_ByteSizeLong rt x)
      | QueryMsgResp x \<Rightarrow> 1 + rt_MessageSize rt (QueryMessageResponse_ByteSizeLong rt x)
      | QueryMsgListResp x \<Rightarrow> 1 + rt_MessageSize rt (QueryMessageListResponse_ByteSizeLong rt x)
      | KeyOpResp x \<Rightarrow> 1 + rt_MessageSize rt (KeyOperationResponse_ByteSizeLong rt x))"

definition ResponsePacket_ranges :: "ResponsePacket \<Rightarrow> bool" where
  "ResponsePacket_ranges m \<longleftrightarrow> (\<forall>h \<in> set_option (rs_header m). Header_ranges h) \<and>
     (case rs_body m of
        NoResponse \<Rightarrow> True
      | SendMsgResp x \<Rightarrow> SendMessageResponse_ranges x
      | QueryMsgResp x \<Rightarrow> QueryMessageResponse_ranges x
      | QueryMsgListResp x \<Rightarrow> QueryMessageListResponse_ranges x
      | KeyOpResp x \<Rightarrow> KeyOperationResponse_ranges x)"

definition ResponsePacket_utf8 :: "pb_runtime \<Rightarrow> ResponsePacket \<Rightarrow> bool" where
  "ResponsePacket_utf8 rt m \<longleftrightarrow> (\<forall>h \<in> set_option (rs_header m). Header_utf8 rt h) \<and>
     (case rs_body m of
        NoResponse \<Rightarrow> True
      | SendMsgResp x \<Rightarrow> SendMessageResponse_utf8 rt x
      | QueryMsgResp x \<Rightarrow> QueryMessageResponse_utf8 rt x
      | QueryMsgListResp x \<Rightarrow> QueryMessageListResponse_utf8 rt x
      | KeyOpResp x \<Rightarrow> KeyOperationResponse_utf8 rt x)"


section \<open>The two packets as byte strings\<close>

text \<open>\<open>SerializeToString\<close>, and what \<open>ParseFromString\<close> leaves in a packet that is cleared first, whether it
  reports success or not.\<close>

definition parsed :: "'m \<Rightarrow> ('m \<times> parse_end) option \<Rightarrow> 'm" where
  "parsed d r = (case r of None \<Rightarrow> d | Some (m, e) \<Rightarrow> m)"

definition pb_wire :: "pb_runtime \<Rightarrow> wire" where
  "pb_wire rt = \<lparr>w_ser_req = RequestPacket_ToArray rt,
     w_parse_req = (\<lambda>s. parsed RequestPacket_default (RequestPacket_InternalParse rt RequestPacket_default s)),
     w_ser_resp = ResponsePacket_ToArray rt,
     w_parse_resp = (\<lambda>s. parsed ResponsePacket_default (ResponsePacket_InternalParse rt ResponsePacket_default s))\<rparr>"

end
