(* ===== verification/Base128.thy ===== *)
theory Base128
  imports Protobuf
begin

text \<open>
  The documented encoding of protobuf, as an instance of \<open>pb_runtime\<close>: base-128 integers with the low
  group first, keys that hold number and type, lengths in front of strings and messages. It interprets
  the locale \<open>protobuf\<close>, so its laws can hold, and gives the witnesses a wire format to run on. Groups
  (types 3 and 4), which the language version of the program does not have, are refused.
\<close>

fun put_varint :: "nat \<Rightarrow> string" where
  "put_varint n = (if n < 128 then [char_of n] else char_of (128 + n mod 128) # put_varint (n div 128))"

declare put_varint.simps [simp del]

text \<open>At most \<open>k\<close> bytes.\<close>

fun get_varint :: "nat \<Rightarrow> string \<Rightarrow> (nat \<times> string) option" where
  "get_varint 0 s = None"
| "get_varint (Suc k) [] = None"
| "get_varint (Suc k) (c # cs) =
     (let b = of_char c in
      if b < 128 then Some (b, cs)
      else map_option (\<lambda>(v, r). (b - 128 + 128 * v, r)) (get_varint k cs))"

text \<open>Well-formed UTF-8: number of continuation bytes still expected.\<close>

fun utf8_from :: "nat \<Rightarrow> string \<Rightarrow> bool" where
  "utf8_from k [] = (k = 0)"
| "utf8_from k (c # cs) =
     (let b = of_char c :: nat in
      if 0 < k then 128 \<le> b \<and> b < 192 \<and> utf8_from (k - 1) cs
      else if b < 128 then utf8_from 0 cs
      else if 194 \<le> b \<and> b < 224 then utf8_from 1 cs
      else if 224 \<le> b \<and> b < 240 then utf8_from 2 cs
      else 240 \<le> b \<and> b < 245 \<and> utf8_from 3 cs)"

definition u64 :: "int \<Rightarrow> nat" where
  "u64 v = nat (v mod 2 ^ 64)"

definition put_int :: "nat \<Rightarrow> int \<Rightarrow> string" where
  "put_int f v = put_varint (8 * f) @ put_varint (u64 v)"

definition put_bytes :: "nat \<Rightarrow> string \<Rightarrow> string" where
  "put_bytes f x = put_varint (8 * f + 2) @ put_varint (length x) @ x"

definition bytes_size :: "nat \<Rightarrow> nat" where
  "bytes_size n = length (put_varint n) + n"

definition get_bytes :: "string \<Rightarrow> (string \<times> string option) option" where
  "get_bytes s = (case get_varint 5 s of
       None \<Rightarrow> None
     | Some (n, r) \<Rightarrow> Some (take n r, if int n < 2 ^ 31 \<and> n \<le> length r then Some (drop n r) else None))"

definition base128 :: pb_runtime where
  "base128 = \<lparr>
     rt_WriteInt32 = put_int, rt_WriteInt64 = put_int, rt_WriteEnum = put_int,
     rt_WriteString = put_bytes, rt_WriteMessage = put_bytes,
     rt_Int32Size = (\<lambda>v. length (put_varint (u64 v))), rt_Int64Size = (\<lambda>v. length (put_varint (u64 v))),
     rt_EnumSize = (\<lambda>v. length (put_varint (u64 v))),
     rt_StringSize = (\<lambda>x. bytes_size (length x)), rt_MessageSize = bytes_size,
     rt_ReadTag = (\<lambda>s. case get_varint 5 s of None \<Rightarrow> None | Some (t, r) \<Rightarrow> if int t < 2 ^ 32 then Some (t, r) else None),
     rt_ReadVarint = (\<lambda>s. case get_varint 10 s of None \<Rightarrow> (0, None) | Some (n, r) \<Rightarrow> (nat (int n mod 2 ^ 64), Some r)),
     rt_ReadString = (\<lambda>old s. case get_bytes s of
        None \<Rightarrow> (old, None) | Some (x, r) \<Rightarrow> (x, if utf8_from 0 x then r else None)),
     rt_ReadLength = get_bytes,
     rt_UnknownFieldParse = (\<lambda>t s.
        if t mod 8 = 0 then map_option snd (get_varint 10 s)
        else if t mod 8 = 1 then (if 8 \<le> length s then Some (drop 8 s) else None)
        else if t mod 8 = 2 then (case get_bytes s of None \<Rightarrow> None | Some (x, r) \<Rightarrow> r)
        else if t mod 8 = 5 then (if 4 \<le> length s then Some (drop 4 s) else None)
        else None),
     rt_utf8 = utf8_from 0\<rparr>"

section \<open>Integers\<close>

lemma get_put_varint: "n < 128 * 128 ^ k \<Longrightarrow> get_varint (Suc k) (put_varint n @ r) = Some (n, r)"
proof (induction k arbitrary: n)
  case 0
  then show ?case by (simp add: put_varint.simps [of n] Let_def)
next
  case (Suc k)
  show ?case
  proof (cases "n < 128")
    case True
    then show ?thesis by (simp add: put_varint.simps [of n] Let_def)
  next
    case False
    have "n div 128 < 128 * 128 ^ k" using Suc.prems by (simp add: div_less_iff_less_mult mult.commute)
    note IH = Suc.IH [OF this]
    have "n mod 128 + 128 * (n div 128) = n" by simp
    with False IH show ?thesis by (simp add: put_varint.simps [of n] Let_def)
  qed
qed

lemma put_varint_length: "n < 128 * 128 ^ k \<Longrightarrow> length (put_varint n) \<le> Suc k"
proof (induction k arbitrary: n)
  case (Suc k)
  then have "n div 128 < 128 * 128 ^ k" by (simp add: div_less_iff_less_mult mult.commute)
  then show ?case using Suc.IH [of "n div 128"] by (simp add: put_varint.simps [of n])
qed (simp add: put_varint.simps)

lemma get_varint_forward: "get_varint k s = Some (n, r) \<Longrightarrow> length r < length s"
  by (induction k s arbitrary: n rule: get_varint.induct)
    (auto simp: Let_def split: if_splits dest: less_SucI)

lemma get_varint_byte: "t < 128 \<Longrightarrow> get_varint (Suc k) (char_of t # s) = Some (t, s)"
  by (simp add: Let_def)

lemma put_varint_byte: "t < 128 \<Longrightarrow> put_varint t = [char_of t]"
  by (simp add: put_varint.simps [of t])

lemma u64_less: "u64 v < 2 ^ 64"
  by (simp add: u64_def nat_less_iff)

lemma get_u64: "get_varint 10 (put_varint (u64 v) @ r) = Some (u64 v, r)"
  using get_put_varint [of "u64 v" 9 r] u64_less [of v] by simp

lemma put_u64_length: "length (put_varint (u64 v)) \<le> 10"
  using put_varint_length [of "u64 v" 9] u64_less [of v] by simp

lemma put_length_length: "n < 2 ^ 31 \<Longrightarrow> length (put_varint n) \<le> 5"
  using put_varint_length [of n 4] by simp

lemma get_length: "n < 2 ^ 31 \<Longrightarrow> get_varint 5 (put_varint n @ r) = Some (n, r)"
  using get_put_varint [of n 4 r] by simp

lemma get_put_bytes: "length x < 2 ^ 31 \<Longrightarrow> get_bytes (put_varint (length x) @ x @ r) = Some (x, Some r)"
  by (simp add: get_bytes_def get_length)

lemma get_bytes_forward: "get_bytes s = Some (x, Some r) \<Longrightarrow> length r \<le> length s"
  by (fastforce simp: get_bytes_def dest: get_varint_forward split: option.splits if_splits)

lemma ascii_utf8_from: "(\<And>c. c \<in> set x \<Longrightarrow> (of_char c :: nat) < 128) \<Longrightarrow> utf8_from 0 x"
  by (induction x) (auto simp: Let_def)

section \<open>The laws of the library hold\<close>

interpretation base128: protobuf base128
proof (unfold_locales, goal_cases)
  case (1 t s)
  then show ?case using get_varint_byte [of t 4 s] by (simp add: base128_def)
next
  case (2 f v)
  then show ?case
    by (intro exI [of _ "put_varint (u64 v)"])
      (simp add: base128_def put_int_def put_varint_byte get_u64 put_u64_length, simp add: u64_def)
next
  case (3 f v)
  then show ?case
    by (intro exI [of _ "put_varint (u64 v)"])
      (simp add: base128_def put_int_def put_varint_byte get_u64 put_u64_length, simp add: u64_def)
next
  case (4 f v)
  then show ?case
    by (intro exI [of _ "put_varint (u64 v)"])
      (simp add: base128_def put_int_def put_varint_byte get_u64 put_u64_length, simp add: u64_def)
next
  case (5 f x)
  then show ?case
    by (intro exI [of _ "put_varint (length x) @ x"])
      (simp add: base128_def put_bytes_def put_varint_byte bytes_size_def get_put_bytes put_length_length)
next
  case (6 f x)
  then show ?case
    by (intro exI [of _ "put_varint (length x) @ x"])
      (simp add: base128_def put_bytes_def put_varint_byte bytes_size_def get_put_bytes put_length_length)
next
  case (7 x)
  then show ?case by (simp add: base128_def ascii_utf8_from)
next
  case (8 s t r)
  then show ?case by (auto simp: base128_def split: option.splits if_splits dest: get_varint_forward)
next
  case (9 s n r)
  then show ?case by (auto simp: base128_def split: option.splits dest: get_varint_forward)
next
  case (10 old s x r)
  then show ?case by (auto simp: base128_def split: option.splits if_splits dest: get_bytes_forward)
next
  case (11 s x r)
  then show ?case by (auto simp: base128_def dest: get_bytes_forward)
next
  case (12 t s r)
  then show ?case
    by (auto simp: base128_def split: option.splits if_splits dest: get_varint_forward get_bytes_forward)
qed

end
