(* ===== verification/Session.thy ===== *)
theory Session
  imports ServerProps ClientProps MessageProps Base128
begin

text \<open>
  Client and server together: the peer of a client is the server itself, a worker that runs
  \<open>handleClientFd\<close> on the bytes the client has written, with faults of its own in every system call. An
  exchange over the two sockets is then one call of the dispatcher, and from this follow the promises of the
  protocol: after an agreement both sides hold one key, and a text that was sent can be opened by its
  receiver alone with what an agreement has left in the receiver's cache.
\<close>

section \<open>The server as a peer\<close>

text \<open>The state of the server is none once a worker does not get past a request. The client's side of the
  connection holds no more than what it has written.\<close>

definition server_peer :: "env \<Rightarrow> wire \<Rightarrow> net \<Rightarrow> int \<Rightarrow> service option peer" where
  "server_peer env wi net fd bytes st =
     (case st of
        None \<Rightarrow> (([], True), None)
      | Some s \<Rightarrow>
          (case handleClientFd env wi net fd ((TcpSocket_new (-1))\<lparr>ts_rx := bytes\<rparr>) {fd} s of
             None \<Rightarrow> (([], True), None)
           | Some (conn, _, s) \<Rightarrow> ((ts_tx conn, True), Some s)))"

text \<open>A message that the protobuf library carries from one side to the other, and that fits a frame.\<close>

definition req_travels :: "wire \<Rightarrow> RequestPacket \<Rightarrow> bool" where
  "req_travels wi p \<longleftrightarrow> w_parse_req wi (w_ser_req wi p) = p \<and> fits_frame (w_ser_req wi p)"

definition resp_travels :: "wire \<Rightarrow> ResponsePacket \<Rightarrow> bool" where
  "resp_travels wi p \<longleftrightarrow> w_parse_resp wi (w_ser_resp wi p) = p \<and> fits_frame (w_ser_resp wi p)"

lemma disconnect_tx [simp]: "ts_tx (snd (disconnect t)) = ts_tx t"
  by (simp add: disconnect_def)

lemma fits_frame_length: "fits_frame m \<Longrightarrow> length m < 2 ^ 32"
  by (simp add: fits_frame_def)

text \<open>Receiving sends nothing.\<close>

lemma sys_recv_tx: "sys_recv net n s = Some (r, s') \<Longrightarrow> ts_tx s' = ts_tx s"
  by (auto simp: sys_recv_def tick_def Let_def split: io_fate.splits if_splits)

lemma readn_loop_tx: "readn_loop net left acc s = Some (r, s') \<Longrightarrow> ts_tx s' = ts_tx s"
proof (induction net left acc s rule: readn_loop.induct)
  case (1 net left acc s)
  show ?case
  proof (cases "left \<le> 0")
    case True
    with 1(2) show ?thesis by simp
  next
    case False
    with 1(2) obtain b s1 where r: "sys_recv net (nat (min left 1024)) s = Some (b, s1)" by (auto split: option.splits)
    show ?thesis
    proof (cases "b = None \<or> b = Some []")
      case True
      with 1(2) False r sys_recv_tx [OF r] show ?thesis by auto
    next
      case ne: False
      then obtain bytes where b: "b = Some bytes" "bytes \<noteq> []" by auto
      with 1(1) [OF False r [unfolded b] refl] 1(2) False r sys_recv_tx [OF r] show ?thesis by simp
    qed
  qed
qed

lemma readn_tx: "readn net n s = Some (r, s') \<Longrightarrow> ts_tx s' = ts_tx s"
  unfolding readn_def by (rule readn_loop_tx)

lemma recvMsg_tx: "recvMsg net t s = Some (r, s') \<Longrightarrow> ts_tx s' = ts_tx s"
  by (auto simp: recvMsg_def readWithTimeout_def Let_def bind_eq_Some_conv split: if_splits prod.splits
      dest!: readn_tx sys_select_frame)

text \<open>What the server makes of the whole frame, or of the part of it that has arrived: nothing, or one
  dispatch.\<close>

lemma handleClientFd_frame:
  assumes run: "handleClientFd env wi net fd conn watched s = Some (conn', watched', s')"
    and rx: "ts_rx conn = take n (frame e)" "fits_frame e" "ts_tx conn = []"
  shows "(s' = s \<and> ts_tx conn' = []) \<or>
     (\<exists>resp. dispatch env (decodeRequest wi e) s = Some (resp, s') \<and>
        (fits_frame (encodeResponse wi resp) \<longrightarrow> (\<exists>i. ts_tx conn' = take i (frame (encodeResponse wi resp)))))"
proof -
  from run obtain ret d t where r: "recvMsg net 10 (conn\<lparr>m_sockfd := fd\<rparr>) = Some ((ret, d), t)"
    by (auto simp: handleClientFd_def bind_eq_Some_conv)
  have tx: "ts_tx t = []" using recvMsg_tx [OF r] rx(3) by simp
  show ?thesis
  proof (cases "ret = 0")
    case False
    with run r tx show ?thesis by (auto simp: handleClientFd_def)
  next
    case True
    with r recvMsg_reads [of net 10 "conn\<lparr>m_sockfd := fd\<rparr>" d t n e] rx have d: "d = e" by simp
    with run r True obtain resp where disp: "dispatch env (decodeRequest wi e) s = Some (resp, s')"
      and out: "encodeResponse wi resp = [] \<and> conn' = snd (disconnect t) \<or>
        (\<exists>q t'. sendMsg net (encodeResponse wi resp) 10 t = Some (q, t') \<and> conn' = snd (disconnect t'))"
      by (auto simp: handleClientFd_def processV2Request_def bind_eq_Some_conv split: if_splits)
    have "\<exists>i. ts_tx conn' = take i (frame (encodeResponse wi resp))" if fits: "fits_frame (encodeResponse wi resp)"
      using out
    proof (elim disjE exE conjE)
      assume "conn' = snd (disconnect t)"
      with tx show ?thesis by (intro exI [of _ 0]) simp
    next
      fix q t' assume snd: "sendMsg net (encodeResponse wi resp) 10 t = Some (q, t')" "conn' = snd (disconnect t')"
      from sendMsg_sends [OF snd(1) fits_frame_length [OF fits]] snd(2) tx show ?thesis by auto
    qed
    with disp show ?thesis by blast
  qed
qed

lemma server_peer_frame:
  assumes "server_peer env wi net fd (take n (frame e)) (Some s) = ((bytes, ends), st)" and "fits_frame e"
  obtains (nothing) "bytes = []" "st = Some s \<or> st = None"
  | (answered) resp s' where "dispatch env (decodeRequest wi e) s = Some (resp, s')" "st = Some s'"
      "fits_frame (encodeResponse wi resp) \<longrightarrow> (\<exists>i. bytes = take i (frame (encodeResponse wi resp)))"
proof (cases "handleClientFd env wi net fd ((TcpSocket_new (-1))\<lparr>ts_rx := take n (frame e)\<rparr>) {fd} s")
  case None
  with assms(1) have "bytes = []" "st = Some s \<or> st = None" by (auto simp: server_peer_def)
  then show thesis by (rule nothing)
next
  case (Some x)
  obtain conn w s' where x: "x = (conn, w, s')" by (cases x)
  with assms(1) Some have b: "bytes = ts_tx conn" "st = Some s'" by (auto simp: server_peer_def)
  have "(s' = s \<and> ts_tx conn = []) \<or> (\<exists>resp. dispatch env (decodeRequest wi e) s = Some (resp, s') \<and>
      (fits_frame (encodeResponse wi resp) \<longrightarrow> (\<exists>i. ts_tx conn = take i (frame (encodeResponse wi resp)))))"
    by (rule handleClientFd_frame [OF Some [unfolded x] _ assms(2), of n]) (simp_all add: TcpSocket_new_def)
  then show thesis
  proof (elim disjE exE conjE)
    assume "s' = s" "ts_tx conn = []"
    with b have "bytes = []" "st = Some s \<or> st = None" by simp_all
    then show thesis by (rule nothing)
  next
    fix resp assume "dispatch env (decodeRequest wi e) s = Some (resp, s')"
      "fits_frame (encodeResponse wi resp) \<longrightarrow> (\<exists>i. ts_tx conn = take i (frame (encodeResponse wi resp)))"
    with b(1) show thesis using b(2) answered by simp
  qed
qed

text \<open>What the client gets from an empty connection is no message.\<close>

lemma recvMsg_nothing: "recvMsg net t s = Some ((0, d), s') \<Longrightarrow> ts_rx s \<noteq> []"
  using recvMsg_reads [of net t s d s' 0 "[]"] recvMsg_reads [of net t s d s' 0 "''x''"]
  by (auto simp: fits_frame_def)

section \<open>An exchange is a call\<close>

lemma exchange_server:
  assumes run: "exchange net (server_peer env wi snet fd) (encodeRequest wi p) c = Some (r, c')"
    and travel: "req_travels wi p" and up: "cl_world c = Some s"
  obtains (not_done) e where "r = Inl e" "cl_world c' = Some s \<or> cl_world c' = None"
  | (performed) resp s' where "dispatch env p s = Some (resp, s')" "cl_world c' = Some s'"
      "\<And>d. r = Inr d \<Longrightarrow> resp_travels wi resp \<Longrightarrow> decodeResponse wi d = resp"
proof -
  let ?e = "encodeRequest wi p"
  from travel have p: "decodeRequest wi ?e = p" "fits_frame ?e"
    by (simp_all add: req_travels_def decodeRequest_def encodeRequest_def)
  from run show thesis
  proof (cases rule: exchange_cases)
    case (refused t)
    with up not_done show thesis by simp
  next
    case (unsent tcp0 ret tcp1 bytes ends w)
    from connectToHost_streams [OF unsent(6)] have "ts_tx tcp0 = []" by (simp add: TcpSocket_new_def)
    with sendMsg_sends [OF unsent(1) fits_frame_length [OF p(2)]] obtain n where "ts_tx tcp1 = take n (frame ?e)" by auto
    with unsent(3) up have peer: "server_peer env wi snet fd (take n (frame ?e)) (Some s) = ((bytes, ends), w)" by simp
    show thesis
    proof (rule server_peer_frame [OF peer p(2)])
      assume "w = Some s \<or> w = None"
      with unsent(4,5) not_done show thesis by simp
    next
      fix resp s' assume "dispatch env (decodeRequest wi ?e) s = Some (resp, s')" "w = Some s'"
      with unsent(4,5) p(1) show thesis by (intro performed) simp_all
    qed
  next
    case (sent tcp0 tcp1 bytes ends w ret d tcp2)
    from connectToHost_streams [OF sent(1)] have "ts_tx tcp0 = []" by (simp add: TcpSocket_new_def)
    with sendMsg_sends [OF sent(2) fits_frame_length [OF p(2)]] obtain n where "ts_tx tcp1 = take n (frame ?e)" by auto
    with sent(3) up have peer: "server_peer env wi snet fd (take n (frame ?e)) (Some s) = ((bytes, ends), w)" by simp
    show thesis
    proof (rule server_peer_frame [OF peer p(2)])
      assume "bytes = []" and w: "w = Some s \<or> w = None"
      then have "ret \<noteq> 0" using recvMsg_nothing sent(4) by fastforce
      with sent(5,6) w not_done show thesis by simp
    next
      fix resp s' assume disp: "dispatch env (decodeRequest wi ?e) s = Some (resp, s')" "w = Some s'"
        and out: "fits_frame (encodeResponse wi resp) \<longrightarrow> (\<exists>i. bytes = take i (frame (encodeResponse wi resp)))"
      have "decodeResponse wi d' = resp" if "r = Inr d'" "resp_travels wi resp" for d'
      proof -
        from that(1) sent(4,5) have rv: "recvMsg net 10 (tcp1\<lparr>ts_rx := bytes, ts_ends := ends\<rparr>) = Some ((0, d'), tcp2)"
          by (auto split: if_splits)
        from that(2) out obtain i where "bytes = take i (frame (encodeResponse wi resp))"
          by (auto simp: resp_travels_def encodeResponse_def)
        with recvMsg_reads [OF rv, of i "encodeResponse wi resp"] that(2) show ?thesis
          by (simp add: resp_travels_def encodeResponse_def decodeResponse_def)
      qed
      with disp sent(6) p(1) show thesis by (intro performed) simp_all
    qed
  qed
qed

section \<open>Agreeing on a key\<close>

text \<open>What the agreement relies on outside the program: files that are written hold what was written, a PEM
  text is read back as the key it was made of, and what is encrypted for a generated public key, a text of
  16 bytes, is opened by its private key.\<close>

definition files_ok :: "env \<Rightarrow> bool" where
  "files_ok env \<longleftrightarrow> (\<forall>k old new. e_fwrite env k old new = Some new)"

definition rsa_ok :: "env \<Rightarrow> bool" where
  "rsa_ok env \<longleftrightarrow> (\<forall>i pub pri. e_keygen env i = (pub, pri) \<longrightarrow>
     e_pem_public env (Some (e_pem_text env pub)) = Some (Some pub) \<and>
     (\<forall>j x. length x = 16 \<longrightarrow> (\<exists>y. y \<noteq> [] \<and> e_rsa_encrypt env j (Some pub) x = Some (Some y) \<and>
        (\<forall>k. e_rsa_decrypt env k (Some pri) y = Some (Some x)))))"

text \<open>Both sides hold one key: their entries for the client's pair are usable and have one number and one
  text.\<close>

definition keys_agree :: "'p client \<Rightarrow> service \<Rightarrow> bool" where
  "keys_agree c s \<longleftrightarrow>
     (let mine = shmRead (ci_clientId (m_info c)) (ci_serverId (m_info c)) (m_shm c);
          yours = shmRead (ci_clientId (m_info c)) (ci_serverId (m_info c)) (sv_shm s) in
      node_hit mine \<and> n_status mine = 1 \<and> node_hit yours \<and> n_status yours = 1 \<and>
      n_seckeyID mine = n_seckeyID yours \<and> c_str (n_seckey mine) = c_str (n_seckey yours))"

lemma generateKeyPair_made:
  assumes "generateKeyPair env ''pub.pem'' ''pri.pem'' RsaCrypto_empty (w, files) = (rsa, w', files')"
    and "files_ok env" "\<And>k. e_ssl env k"
  obtains i pub pri where "e_keygen env i = (pub, pri)" "rsa = \<lparr>rsa_pub = Some pub, rsa_pri = Some pri\<rparr>"
    "files' ''pub.pem'' = Some (e_pem_text env pub)"
proof -
  obtain pub pri where k: "e_keygen env (pr_ssl w) = (pub, pri)" by fastforce
  have names: "c_str ''pub.pem'' = ''pub.pem''" "c_str ''pri.pem'' = ''pri.pem''" by code_simp+
  show thesis
    by (rule that [OF k])
       (use assms k in \<open>simp_all add: generateKeyPair_def pem_write_def Let_def files_ok_def names RsaCrypto_empty_def,
         auto simp: names\<close>)
qed

lemma agreement_request_made:
  assumes "agreement_request env c = Some (Some (rsa, info), c')" and "files_ok env" "\<And>k. e_ssl env k"
  obtains i pub pri where "e_keygen env i = (pub, pri)" "rsa = \<lparr>rsa_pub = Some pub, rsa_pri = Some pri\<rparr>"
    "vka_publicKey info = e_pem_text env pub" "vh_senderId (vka_header info) = ci_clientId (m_info c)"
    "vh_receiverId (vka_header info) = ci_serverId (m_info c)" "cl_world c' = cl_world c"
proof -
  obtain r w files where g: "generateKeyPair env ''pub.pem'' ''pri.pem'' RsaCrypto_empty (cl_proc c, cl_files c) =
      (r, w, files)" by (metis prod.exhaust)
  from generateKeyPair_made [OF g assms(2,3)] obtain i pub pri where made: "e_keygen env i = (pub, pri)"
    "r = \<lparr>rsa_pub = Some pub, rsa_pri = Some pri\<rparr>" "files ''pub.pem'' = Some (e_pem_text env pub)" .
  obtain h c1 where h: "buildKeyHeader env CMD_KEY_AGREE_REQ (c\<lparr>cl_proc := w, cl_files := files\<rparr>) = (h, c1)" by fastforce
  then have f: "cl_world c1 = cl_world c" "vh_senderId h = ci_clientId (m_info c)" "vh_receiverId h = ci_serverId (m_info c)"
    by (auto simp: buildKeyHeader_def client_time_def Let_def split: prod.splits)
  obtain k c2 where k: "next_ssl c1 = (k, c2)" by fastforce
  from assms(1) g made(3) h k have "rsa = r" "vka_publicKey info = e_pem_text env pub" "vka_header info = h" "c' = c2"
    by (auto simp: agreement_request_def bind_eq_Some_conv)
  with made f k show thesis by (intro that [OF made(1)]) (auto simp: next_ssl_def)
qed

text \<open>The server reads the public key of the request back from the file it has written.\<close>

lemma verify_agreement_rsa:
  assumes "verify_agreement env header req s = Some ((flage, rsa), s')" and "files_ok env"
    and "e_pem_public env (Some (kar_public_key req)) = Some (Some pub)"
  shows "rsa_pub rsa = Some pub"
  using assms
  by (auto simp: verify_agreement_def write_file_def files_ok_def RsaCrypto_new_def initPublicKey_def Let_def bind_eq_Some_conv)

lemma seckeyAgree_key:
  assumes run: "seckeyAgree env p s = Some (resp, s')" and code: "vko_code resp = RESULT_SUCCESS"
    and pk: "rq_header p = Some header" "rq_body p = KeyAgreeReq req"
    and files: "files_ok env" and pem: "e_pem_public env (Some (kar_public_key req)) = Some (Some pub)"
  obtains aesKey rsa j node m m' where "rsa_pub rsa = Some pub" "rsaPublicEncrypt env j rsa aesKey = Some (vko_data resp)"
    "length aesKey = 16" "agreed_node env (h_sender_id header) (h_receiver_id header) aesKey = Some node"
    "sv_db s = Some m" "sv_db s' = Some m'" "rotates env node (vko_keyId resp) (tbl m) (tbl m')"
    "sv_shm s' = snd (shmWrite (node\<lparr>n_seckeyID := vko_keyId resp, n_status := 1\<rparr>) (sv_shm s))"
proof -
  from run pk obtain flage rsa s1 where ver: "verify_agreement env header req s = Some ((flage, rsa), s1)"
    by (auto simp: seckeyAgree_def bind_eq_Some_conv)
  have flage
  proof (rule ccontr)
    assume "\<not> flage"
    with run pk ver have "makeKeyResponse env p CMD_KEY_AGREE_RESP RESULT_KEY_AGREE_FAILED ''verify sign failed'' 0 [] s1 =
        (resp, s')" by (auto simp: seckeyAgree_def)
    from makeKeyResponse_fields(1) [OF this] code show False by simp
  qed
  with ver have ver: "verify_agreement env header req s = Some ((True, rsa), s1)" by simp
  from run pk ver obtain aesKey s2 j secKey node ok node' m m' s3 where
    rk: "getRandKey env Len16 s1 = (aesKey, s2)" and enc: "rsaPublicEncrypt env j rsa aesKey = Some secKey"
    and nd: "agreed_node env (h_sender_id header) (h_receiver_id header) aesKey = Some node"
    and db: "sv_db s = Some m" and w: "writeSecKeyWithTrans env node m = Some ((ok, node'), m')"
    and s3: "sv_db s3 = Some m'" "sv_shm s3 = (if ok then snd (shmWrite node' (sv_shm s)) else sv_shm s)"
    and fin: "(resp, s') = (if ok then makeKeyResponse env p CMD_KEY_AGREE_RESP RESULT_SUCCESS
        ''key agreement success'' (n_seckeyID node') secKey s3
      else makeKeyResponse env p CMD_KEY_AGREE_RESP RESULT_KEY_AGREE_FAILED ''write db failed'' 0 [] s3)"
    by (rule seckeyAgree_accepted)
  have ok
  proof (rule ccontr)
    assume "\<not> ok"
    with fin have "makeKeyResponse env p CMD_KEY_AGREE_RESP RESULT_KEY_AGREE_FAILED ''write db failed'' 0 [] s3 = (resp, s')"
      by simp
    from makeKeyResponse_fields(1) [OF this] code show False by simp
  qed
  with fin have "makeKeyResponse env p CMD_KEY_AGREE_RESP RESULT_SUCCESS ''key agreement success'' (n_seckeyID node') secKey s3 =
      (resp, s')" by simp
  note f = makeKeyResponse_fields [OF this]
  from w \<open>ok\<close> have "writeSecKeyWithTrans env node m = Some ((True, node'), m')" by simp
  from writeSecKeyWithTrans_success [OF this] obtain k where k: "rotates env node k (tbl m) (tbl m')"
    "node' = node\<lparr>n_seckeyID := k, n_status := 1\<rparr>" by auto
  show thesis
    by (rule that [OF verify_agreement_rsa [OF ver files pem] _ _ nd db])
       (use enc f(3-6) k s3 \<open>ok\<close> getRandKey_effect(1) [OF rk] in \<open>simp_all add: Len16_def\<close>)
qed

text \<open>The node the server publishes and the one the client caches read the same.\<close>

lemma nodes_agree:
  assumes nd: "agreed_node env (ci_clientId i) (ci_serverId i) key = Some node" and b64: "base64_ok env" "key \<noteq> []"
  shows "c_str (n_seckey (client_node i (b64_encode env key) k)) = c_str (n_seckey node)"
    "b64_decode env (c_str (n_seckey node)) = key"
proof -
  note N = agreed_node_wf [OF nd]
  have "length (c_str (n_seckey node)) \<le> 127"
    using N(1) c_str_in_node [of "n_seckey node" 127] by (simp add: wf_node_def)
  with N(4) show "c_str (n_seckey (client_node i (b64_encode env key) k)) = c_str (n_seckey node)" by simp
  show "b64_decode env (c_str (n_seckey node)) = key" using N(4) b64 by simp
qed

lemma rsa_opened:
  assumes "rsa_ok env" "base64_ok env" "e_keygen env i = (pub, pri)" "length x = 16"
    and "rsaPublicEncrypt env j r x = Some y" "rsa_pub r = Some pub"
    and "rsaPrivateDecrypt env k \<lparr>rsa_pub = Some pub, rsa_pri = Some pri\<rparr> y = Some z"
  shows "z = x"
proof -
  from assms(1,3,4) obtain b where b: "b \<noteq> []" "e_rsa_encrypt env j (Some pub) x = Some (Some b)"
    "e_rsa_decrypt env k (Some pri) b = Some (Some x)" unfolding rsa_ok_def by meson
  with assms(5,6) have "y = e_b64_enc env b" by (simp add: rsaPublicEncrypt_def)
  moreover have "e_b64_read env (e_b64_enc env b) = (int (length b), b)" using assms(2) b(1) by (simp add: base64_ok_def)
  ultimately have "fromBase64 env y = Some b" by (simp add: fromBase64_def resize_str_def)
  with assms(7) b(3) show ?thesis by (simp add: rsaPrivateDecrypt_def)
qed

lemma dispatch_agree:
  assumes "dispatch env (init_agree_req info RequestPacket_default) s = Some (resp, s')"
  obtains out where "seckeyAgree env (init_agree_req info RequestPacket_default) s = Some (out, s')"
    "resp = init_key_resp out ResponsePacket_default"
  using assms by (auto simp: dispatch_def init_agree_req_def)

text \<open>C7. An exchange is a remote call, done at most once: from the client's connect to the decoded answer,
  over both socket layers with any faults, the server either has not been changed (or a worker does not get
  past the request) and the client has an error, or the dispatcher has run exactly once on the request the
  client has built; if the client then has an answer at all, it is what the dispatcher has returned.\<close>

theorem exchange_at_most_once:
  assumes "exchange net (server_peer env wi snet fd) (encodeRequest wi p) c = Some (r, c')"
    and "req_travels wi p" and "cl_world c = Some s"
  shows "(\<exists>e. r = Inl e \<and> (cl_world c' = Some s \<or> cl_world c' = None)) \<or>
     (\<exists>resp s'. dispatch env p s = Some (resp, s') \<and> cl_world c' = Some s' \<and>
        (\<forall>d. r = Inr d \<and> resp_travels wi resp \<longrightarrow> decodeResponse wi d = resp))"
  by (rule exchange_server [OF assms]) blast+

text \<open>One key on both sides: when \<open>keyAgreement\<close> of the client says yes and its peer is the server, whatever
  the two networks did on the way, the server has rotated the key of the pair in its database once, the client
  and the server have cached the same 16-byte key under the same number as usable, and it is the key of the new
  row.\<close>

theorem agreement_end_to_end:
  assumes run: "keyAgreement env wi net (server_peer env wi snet fd) c = Some (True, c')"
    and up: "cl_world c = Some s" and request: "agreement_request env c = Some (Some (rsa, info), c0)"
    and travel: "req_travels wi (init_agree_req info RequestPacket_default)"
      "\<And>resp s'. dispatch env (init_agree_req info RequestPacket_default) s = Some (resp, s') \<Longrightarrow> resp_travels wi resp"
    and env: "files_ok env" "\<And>k. e_ssl env k" "rsa_ok env" "base64_ok env"
    and mem: "wf_shm (m_shm c)" "shm_ok (sv_shm s)" "node_new \<in> set (shm_nodes (sv_shm s))"
  shows "\<exists>s' m m' node. cl_world c' = Some s' \<and> keys_agree c' s' \<and> sv_db s = Some m \<and> sv_db s' = Some m' \<and>
     shmRead (ci_clientId (m_info c)) (ci_serverId (m_info c)) (sv_shm s') = node \<and>
     rotates env node (n_seckeyID node) (tbl m) (tbl m') \<and> length (b64_decode env (c_str (n_seckey node))) = 16"
  using run
proof (cases rule: keyAgreement_cases)
  case (agreed info' c0' c2 d keyResp rsa' k key c1)
  from agreed(1) request have same: "rsa' = rsa" "info' = info" "c0' = c0" by simp_all
  from agreement_request_made [OF request env(1,2)] obtain i pub pri where gen: "e_keygen env i = (pub, pri)"
    and rsa: "rsa = \<lparr>rsa_pub = Some pub, rsa_pri = Some pri\<rparr>" and pem: "vka_publicKey info = e_pem_text env pub"
    and ids: "vh_senderId (vka_header info) = ci_clientId (m_info c)" "vh_receiverId (vka_header info) = ci_serverId (m_info c)"
    and w: "cl_world c0 = cl_world c" .
  let ?p = "init_agree_req info RequestPacket_default"
  from agreed(2) same have x: "exchange net (server_peer env wi snet fd) (encodeRequest wi ?p) c0 = Some (Inr d, c2)" by simp
  obtain resp s' where disp: "dispatch env ?p s = Some (resp, s')" and s': "cl_world c2 = Some s'"
    and resp: "decodeResponse wi d = resp"
    by (rule exchange_server [OF x travel(1) trans [OF w up]]) (use travel(2) in auto)
  from dispatch_agree [OF disp] obtain out where out: "seckeyAgree env ?p s = Some (out, s')"
    "resp = init_key_resp out ResponsePacket_default" .
  from agreed(4) resp out(2) have kr: "ko_code keyResp = vko_code out" "ko_data keyResp = vko_data out"
    "ko_key_id keyResp = vko_keyId out" by (auto simp: init_key_resp_def)
  with agreed(5) have code: "vko_code out = RESULT_SUCCESS" by simp
  let ?kar = "\<lparr>kar_public_key = vka_publicKey info, kar_sign = vka_sign info\<rparr>"
  have pk: "rq_header ?p = Some (pb_header (vka_header info))" "rq_body ?p = KeyAgreeReq ?kar"
    by (simp_all add: init_agree_req_def)
  have "e_pem_public env (Some (kar_public_key ?kar)) = Some (Some pub)" using env(3) gen pem by (auto simp: rsa_ok_def)
  from out(1) code pk env(1) this obtain aesKey r j node m m' where
    key: "rsa_pub r = Some pub" "rsaPublicEncrypt env j r aesKey = Some (vko_data out)" "length aesKey = 16"
    and "agreed_node env (h_sender_id (pb_header (vka_header info))) (h_receiver_id (pb_header (vka_header info))) aesKey = Some node"
    and db: "sv_db s = Some m" "sv_db s' = Some m'" "rotates env node (vko_keyId out) (tbl m) (tbl m')"
    and shm: "sv_shm s' = snd (shmWrite (node\<lparr>n_seckeyID := vko_keyId out, n_status := 1\<rparr>) (sv_shm s))"
    by (rule seckeyAgree_key)
  with ids have nd: "agreed_node env (ci_clientId (m_info c)) (ci_serverId (m_info c)) aesKey = Some node" by simp
  let ?n = "node\<lparr>n_seckeyID := vko_keyId out, n_status := 1\<rparr>" and ?c = "ci_clientId (m_info c)" and ?v = "ci_serverId (m_info c)"
  have "key = aesKey" using rsa_opened [OF env(3,4) gen key(3,2,1)] agreed(6) kr(2) rsa same(1) by simp
  from agreed(7,8) this kr(3) have ca: "cache_agreed (b64_encode env aesKey) (vko_keyId out) c1 = (True, c')"
    and c1: "m_info c1 = m_info c" "m_shm c1 = m_shm c" by (auto simp: only_runs_def)
  from cache_agreed_true [OF ca] c1 mem(1) have mine: "shmRead ?c ?v (m_shm c') =
      client_node (m_info c) (b64_encode env aesKey) (vko_keyId out)" by simp
  have c': "m_info c' = m_info c" "cl_world c' = Some s'"
    using ca c1 agreed(3) s' by (auto simp: cache_agreed_def Let_def split: prod.splits)
  note N = agreed_node_wf [OF nd]
  from shm shmWrite_room [OF mem(2,3), of ?n] have wr: "shmWrite ?n (sv_shm s) = (0, sv_shm s')"
    by (cases "shmWrite ?n (sv_shm s)") simp
  have yours: "shmRead ?c ?v (sv_shm s') = ?n"
    using shm.get_write [OF wr] shm.get_cong [of ?c "n_clientID ?n" ?v "n_serverID ?n" "sv_shm s'"] N(2,3) by simp
  have "node_hit (shmRead ?c ?v (m_shm c'))"
    using ca c1 by (auto simp: cache_agreed_def node_hit_def Let_def split: prod.splits)
  moreover from this have "node_hit ?n" using N(2,3,5,6) unfolding mine by (simp add: node_hit_iff)
  moreover have "aesKey \<noteq> []" using key(3) by auto
  note K = nodes_agree [OF nd env(4) this]
  ultimately have "keys_agree c' s'" unfolding keys_agree_def c'(1) Let_def yours by (simp add: mine K(1))
  moreover have "rotates env ?n (n_seckeyID ?n) (tbl m) (tbl m')" using db(3) by (simp add: rotates_def)
  ultimately show ?thesis using c'(2) db(1,2) yours K(2) key(3) by (intro exI [of _ s'] exI [of _ m] exI [of _ m'] exI [of _ ?n]) simp
qed simp

text \<open>A client next to its server, and the byte format of protobuf.\<close>

definition beside :: "unit client \<Rightarrow> service \<Rightarrow> service option client" where
  "beside c s = \<lparr>m_info = m_info c, m_shm = m_shm c, m_lastServerMessageId = m_lastServerMessageId c, cl_proc = cl_proc c,
     cl_seq_op = cl_seq_op c, cl_seq_msg = cl_seq_msg c, cl_files = cl_files c, cl_tick = cl_tick c, cl_in = cl_in c,
     cl_world = Some s\<rparr>"

abbreviation (input) wire128 :: wire where
  "wire128 \<equiv> pb_wire base128"

lemma calm_rsa [simp]: "files_ok calm_env" "rsa_ok calm_env"
  by (auto simp: files_ok_def rsa_ok_def)

definition demo_agreement_packet :: RequestPacket where
  "demo_agreement_packet = \<lparr>rq_header = Some \<lparr>h_message_id = ''alice_0_1'', h_command = CMD_KEY_AGREE_REQ,
       h_sender_id = ''alice'', h_receiver_id = ''srv'', h_timestamp = 0\<rparr>,
     rq_body = KeyAgreeReq \<lparr>kar_public_key = ''pub'', kar_sign = concat (replicate 16 ''46'')\<rparr>\<rparr>"

definition demo_agreement_answer :: ResponsePacket where
  "demo_agreement_answer = \<lparr>rs_header = Some \<lparr>h_message_id = ''alice_0_1'', h_command = CMD_KEY_AGREE_RESP,
       h_sender_id = ''srv'', h_receiver_id = ''alice'', h_timestamp = 0\<rparr>,
     rs_body = KeyOpResp \<lparr>ko_code = RESULT_SUCCESS, ko_message = ''key agreement success'', ko_key_id = 7,
       ko_data = replicate 16 CHR ''r''\<rparr>\<rparr>"

lemma demo_agreement_travels: "req_travels wire128 demo_agreement_packet" "resp_travels wire128 demo_agreement_answer"
proof -
  have "w_parse_req wire128 (w_ser_req wire128 demo_agreement_packet) = demo_agreement_packet"
    "w_parse_resp wire128 (w_ser_resp wire128 demo_agreement_answer) = demo_agreement_answer"
    "length (w_ser_req wire128 demo_agreement_packet) < 200" "length (w_ser_resp wire128 demo_agreement_answer) < 200"
    by code_simp+
  then show "req_travels wire128 demo_agreement_packet" "resp_travels wire128 demo_agreement_answer"
    by (simp_all add: req_travels_def resp_travels_def fits_frame_def)
qed

lemma demo_agreement_answered:
  "map_option fst (dispatch calm_env demo_agreement_packet demo_server) = Some demo_agreement_answer"
  by code_simp

theorem exchange_at_most_once_witness:
  "\<exists>d c' resp s'. exchange demo_net (server_peer calm_env wire128 demo_net 7)
      (encodeRequest wire128 demo_agreement_packet) (beside demo_client demo_server) = Some (Inr d, c') \<and>
     dispatch calm_env demo_agreement_packet demo_server = Some (resp, s') \<and> cl_world c' = Some s' \<and>
     decodeResponse wire128 d = resp"
proof -
  let ?c = "beside demo_client demo_server"
  have "map_option fst (exchange demo_net (server_peer calm_env wire128 demo_net 7)
      (encodeRequest wire128 demo_agreement_packet) ?c) = Some (Inr (encodeResponse wire128 demo_agreement_answer))" by code_simp
  then obtain c' where run: "exchange demo_net (server_peer calm_env wire128 demo_net 7)
      (encodeRequest wire128 demo_agreement_packet) ?c =
      Some (Inr (encodeResponse wire128 demo_agreement_answer), c')" by auto
  have "cl_world ?c = Some demo_server" by (simp add: beside_def)
  with exchange_at_most_once [OF run, of demo_server] run demo_agreement_answered demo_agreement_travels show ?thesis by force
qed

theorem agreement_end_to_end_witness:
  "\<exists>c' s'. keyAgreement calm_env wire128 demo_net (server_peer calm_env wire128 demo_net 7)
      (beside demo_client demo_server) = Some (True, c') \<and> cl_world c' = Some s' \<and> keys_agree c' s'"
proof -
  let ?c = "beside demo_client demo_server"
  have "map_option fst (keyAgreement calm_env wire128 demo_net (server_peer calm_env wire128 demo_net 7) ?c) =
      Some True" by code_simp
  then obtain c' where run: "keyAgreement calm_env wire128 demo_net (server_peer calm_env wire128 demo_net 7) ?c =
      Some (True, c')" by auto
  have "case agreement_request calm_env ?c of
      Some (Some (_, info), _) \<Rightarrow> init_agree_req info RequestPacket_default = demo_agreement_packet | _ \<Rightarrow> False"
    by code_simp
  then obtain rsa info c0 where req: "agreement_request calm_env ?c = Some (Some (rsa, info), c0)"
    and p: "init_agree_req info RequestPacket_default = demo_agreement_packet"
    by (auto split: option.splits prod.splits)
  have "cl_world ?c = Some demo_server" "wf_shm (m_shm ?c)" "shm_ok (sv_shm demo_server)"
    "node_new \<in> set (shm_nodes (sv_shm demo_server))"
    using wf_demo_client by (simp_all add: beside_def demo_server_def)
  moreover have "resp_travels wire128 resp" if "dispatch calm_env demo_agreement_packet demo_server = Some (resp, s')" for resp s'
    using that demo_agreement_answered demo_agreement_travels by simp
  ultimately show ?thesis
    using agreement_end_to_end [OF run _ req, unfolded p] run calm_rsa calm_base64 calm_env_simps(9) demo_agreement_travels by fastforce
qed

section \<open>Sending a text\<close>

lemma keys_agree_active:
  assumes "keys_agree c s"
  shows "client_active_key c = Some (shmRead (ci_clientId (m_info c)) (ci_serverId (m_info c)) (m_shm c))"
    "c_str (n_seckey (shmRead (ci_clientId (m_info c)) (ci_serverId (m_info c)) (m_shm c))) =
       c_str (n_seckey (shmRead (ci_clientId (m_info c)) (ci_serverId (m_info c)) (sv_shm s)))"
  using assms by (auto simp: keys_agree_def client_active_key_def node_hit_def Let_def)

lemma encryptText_encryptMessage:
  assumes "encryptText env key p w = (Inr er, w')" and "p \<noteq> []"
  shows "encryptMessage env key p w = (Inr er, w')"
  using assms by (auto simp: encryptText_def encryptMessage_def Let_def split: if_splits sum.splits prod.splits)

lemma sendTextMessage_answer:
  assumes "sendTextMessage env wi net peer receiver p c = Some (Inr i, c')"
    and "send_request env receiver p c = (Inr info, c1)"
  obtains d resp where "exchange net peer (encodeRequest wi (init_send_req info RequestPacket_default)) c1 = Some (Inr d, c')"
    "send_msg_resp (rs_body (decodeResponse wi d)) = Some resp" "sr_code resp = RESULT_SUCCESS" "i = sr_server_message_id resp"
proof -
  from assms obtain q where x: "exchange net peer (encodeRequest wi (init_send_req info RequestPacket_default)) c1 = Some (q, c')"
    and q: "(case q of Inl e \<Rightarrow> Inl e | Inr d \<Rightarrow> (case send_msg_resp (rs_body (decodeResponse wi d)) of None \<Rightarrow> Inl WrongBody
      | Some resp \<Rightarrow> if sr_code resp = RESULT_SUCCESS then Inr (sr_server_message_id resp) else Inl (ServerSays (sr_message resp))))
      = Inr i"
    by (fastforce simp: sendTextMessage_def bind_eq_Some_conv)
  show thesis
  proof (cases q)
    case (Inr d)
    with q x that show thesis by (cases "send_msg_resp (rs_body (decodeResponse wi d))") (auto split: if_splits)
  qed (use q in simp)
qed

lemma dispatch_send:
  assumes "dispatch env (init_send_req info RequestPacket_default) s = Some (resp, s')"
  obtains out where "handleSendMessage env (init_send_req info RequestPacket_default) s = Some (out, s')"
    "resp = init_send_resp out ResponsePacket_default"
  using assms by (auto simp: dispatch_def init_send_req_def)

text \<open>The steps of a relayed message, with the keys named by the cache.\<close>

lemma relayed_keys:
  assumes "relayed env p s r"
  obtains header em plaintext w w1 k enc w2 w3 i t where
    "rq_header p = Some header" "rq_body p = SendMsgReq \<lparr>smr_message = Some em\<rparr>"
    "decryptMessage env (c_str (n_seckey (shmRead (h_sender_id header) (sv_id s) (sv_shm s)))) (em_ciphertext em)
       (em_nonce em) (em_tag em) (em_algorithm em) w = (Inr plaintext, w1)"
    "encryptMessage env (c_str (n_seckey (shmRead (h_receiver_id header) (sv_id s) (sv_shm s)))) plaintext w2 = (Inr enc, w3)"
    "r = message_record header em k enc i t"
proof -
  from assms obtain header em key s0 s1 s2 plaintext w0 w1 k rkey s3 w enc w' i t where
    pk: "rq_header p = Some header" "rq_body p = SendMsgReq \<lparr>smr_message = Some em\<rparr>" and
    s0: "sv_shm s0 = sv_shm s" and ks: "key_confirmed env (h_sender_id header) (sv_id s) (em_key_id em) key s0 s1"
    and dec: "decryptMessage env key (em_ciphertext em) (em_nonce em) (em_tag em) (em_algorithm em) w0 = (Inr plaintext, w1)"
    and s2: "s2 = s1\<lparr>sv_proc := w1\<rparr>" "sv_id s2 = sv_id s"
    and kr: "key_confirmed env (h_receiver_id header) (sv_id s2) k rkey s2 s3"
    and enc: "encryptMessage env rkey plaintext w = (Inr enc, w')"
    and rec: "r = message_record header em k enc i t"
    unfolding relayed_def delivered_def by auto
  from ks s0 have key: "key = c_str (n_seckey (shmRead (h_sender_id header) (sv_id s) (sv_shm s)))"
    and s1: "sv_shm s1 = sv_shm s" by (auto simp: key_confirmed_def Let_def)
  from kr s2 s1 have rkey: "rkey = c_str (n_seckey (shmRead (h_receiver_id header) (sv_id s) (sv_shm s)))"
    by (auto simp: key_confirmed_def Let_def)
  show thesis by (rule that [OF pk dec [unfolded key] enc [unfolded rkey] rec])
qed

text \<open>C5. From one client to the other: when \<open>sendTextMessage\<close> succeeds against the server, whatever the two
  networks did, and the client's key is the server's key for it, then the server has stored exactly one
  message, with the identifier that the client got, and a client that is its receiver and has agreed on a key
  with the server can open it with the key of its own cache: it holds the text that was typed.\<close>

theorem text_end_to_end:
  assumes run: "sendTextMessage env wi net (server_peer env wi snet fd) receiver plaintext c = Some (Inr i, c')"
    and up: "cl_world c = Some s" and request: "send_request env receiver plaintext c = (Inr info, c1)"
    and travel: "req_travels wi (init_send_req info RequestPacket_default)"
      "\<And>resp s'. dispatch env (init_send_req info RequestPacket_default) s = Some (resp, s') \<Longrightarrow> resp_travels wi resp"
    and agree: "keys_agree c s" "sv_id s = ci_serverId (m_info c)" and typed: "plaintext \<noteq> []"
    and env: "base64_ok env" "gcm_ok env" "gcm_len_ok env" "rand_ok env" "gcm_tag_ok env" "\<And>k. e_ssl env k"
  shows "\<exists>s' r. cl_world c' = Some s' \<and> messages_of (sv_db s') = messages_of (sv_db s) @ [r] \<and> ml_msgId r = i \<and>
     ml_senderId r = ci_clientId (m_info c) \<and> ml_receiverId r = receiver \<and>
     (\<forall>b :: unit client. ci_clientId (m_info b) = receiver \<and> ci_serverId (m_info b) = sv_id s \<and> keys_agree b s \<longrightarrow>
        (\<exists>node. client_active_key b = Some node \<and>
           fst (decryptMessage env (c_str (n_seckey node)) (ml_receiverCiphertext r) (ml_receiverNonce r)
             (ml_receiverTag r) (ml_algorithm r) v) = Inr plaintext))"
  using request
proof (cases rule: send_request_cases)
  case (made node enc h w)
  let ?p = "init_send_req info RequestPacket_default" and ?c = "ci_clientId (m_info c)" and ?v = "ci_serverId (m_info c)"
  from run request obtain d resp where x: "exchange net (server_peer env wi snet fd) (encodeRequest wi ?p) c1 = Some (Inr d, c')"
    and sr: "send_msg_resp (rs_body (decodeResponse wi d)) = Some resp" "sr_code resp = RESULT_SUCCESS"
      "i = sr_server_message_id resp"
    by (rule sendTextMessage_answer)
  obtain pkt s' where disp: "dispatch env ?p s = Some (pkt, s')" and s': "cl_world c' = Some s'"
    and pkt: "decodeResponse wi d = pkt"
    by (rule exchange_server [OF x travel(1) trans [OF made(7) up]]) (use travel(2) in auto)
  from dispatch_send [OF disp] obtain out where out: "handleSendMessage env ?p s = Some (out, s')"
    "pkt = init_send_resp out ResponsePacket_default" .
  with sr pkt have code: "vsp_code out = RESULT_SUCCESS" "i = vsp_serverMessageId out" by (auto simp: init_send_resp_def)
  from handleSendMessage_effect [OF out(1)] code obtain r where r: "relayed env ?p s r" "ml_msgId r = i"
    "messages_of (sv_db s') = messages_of (sv_db s) @ [r]" by (auto simp: send_result_def rejected_def)
  from r(1) obtain header em pt w0 w1 k er w2 w3 j t where
    pk: "rq_header ?p = Some header" "rq_body ?p = SendMsgReq \<lparr>smr_message = Some em\<rparr>"
    and dec: "decryptMessage env (c_str (n_seckey (shmRead (h_sender_id header) (sv_id s) (sv_shm s)))) (em_ciphertext em)
       (em_nonce em) (em_tag em) (em_algorithm em) w0 = (Inr pt, w1)"
    and re: "encryptMessage env (c_str (n_seckey (shmRead (h_receiver_id header) (sv_id s) (sv_shm s)))) pt w2 = (Inr er, w3)"
    and rec: "r = message_record header em k er j t" by (rule relayed_keys)
  from pk(1) made(1,4,5) have ids: "h_sender_id header = ?c" "h_receiver_id header = receiver"
    by (auto simp: init_send_req_def text_request_def)
  from pk(2) made(1) have em: "em_ciphertext em = er_ciphertext enc" "em_nonce em = er_nonce enc" "em_tag em = er_tag enc"
    "em_algorithm em = er_algorithm enc" by (auto simp: init_send_req_def text_request_def)
  from keys_agree_active [OF agree(1)] made(2) agree(2)
  have "c_str (n_seckey node) = c_str (n_seckey (shmRead ?c (sv_id s) (sv_shm s)))" by simp
  with made(3) have "encryptMessage env (c_str (n_seckey (shmRead ?c (sv_id s) (sv_shm s)))) plaintext (cl_proc c) = (Inr enc, w)"
    using encryptText_encryptMessage typed by simp
  from encryptMessage_opens [OF this env, of w0] dec em ids have pt: "pt = plaintext" by simp
  have opens: "fst (decryptMessage env (c_str (n_seckey (shmRead receiver (sv_id s) (sv_shm s)))) (er_ciphertext er)
      (er_nonce er) (er_tag er) (er_algorithm er) v) = Inr plaintext"
    using encryptMessage_opens [OF re env, of v] pt ids by simp
  have "\<exists>node. client_active_key b = Some node \<and> fst (decryptMessage env (c_str (n_seckey node)) (ml_receiverCiphertext r)
      (ml_receiverNonce r) (ml_receiverTag r) (ml_algorithm r) v) = Inr plaintext"
    if "ci_clientId (m_info b) = receiver" "ci_serverId (m_info b) = sv_id s" "keys_agree b s" for b :: "unit client"
    using keys_agree_active [OF that(3)] that(1,2) opens rec by (simp add: message_record_def)
  with r(2,3) s' rec ids show ?thesis by (intro exI [of _ s'] exI [of _ r]) (auto simp: message_record_def)
qed simp

definition demo_entry :: "string \<Rightarrow> int \<Rightarrow> NodeSHMInfo" where
  "demo_entry c k = \<lparr>n_status = 1, n_seckeyID = k, n_clientID = c, n_serverID = ''srv'', n_seckey = demo_key\<rparr>"

definition demo_alice :: "unit client" where
  "demo_alice = demo_client\<lparr>m_shm := \<lparr>shm_ok = True, shm_nodes = [demo_entry ''alice'' 6]\<rparr>\<rparr>"

definition demo_bob :: "unit client" where
  "demo_bob = demo_client\<lparr>m_info := (m_info demo_client)\<lparr>ci_clientId := ''bob''\<rparr>,
     m_shm := \<lparr>shm_ok = True, shm_nodes = [demo_entry ''bob'' 5]\<rparr>\<rparr>"

definition demo_text_packet :: RequestPacket where
  "demo_text_packet = \<lparr>rq_header = Some \<lparr>h_message_id = ''alice_0_1'', h_command = CMD_SEND_MSG_REQ,
       h_sender_id = ''alice'', h_receiver_id = ''bob'', h_timestamp = 0\<rparr>,
     rq_body = SendMsgReq \<lparr>smr_message = Some \<lparr>em_key_id = 6, em_msg_type = MSG_TYPE_TEXT, em_ciphertext = ''ih'',
       em_nonce = replicate 12 CHR ''r'', em_tag = replicate 16 CHR ''t'', em_algorithm = ''AES-128-GCM''\<rparr>\<rparr>\<rparr>"

definition demo_text_answer :: ResponsePacket where
  "demo_text_answer = \<lparr>rs_header = Some \<lparr>h_message_id = ''alice_0_1'', h_command = CMD_SEND_MSG_RESP,
       h_sender_id = ''srv'', h_receiver_id = ''alice'', h_timestamp = 0\<rparr>,
     rs_body = SendMsgResp \<lparr>sr_code = RESULT_SUCCESS, sr_message = text_send_success,
       sr_server_message_id = ''srv_msg_0_1'', sr_server_time = 4, sr_delivery_status = DELIVERY_ACCEPTED\<rparr>\<rparr>"

lemma demo_text_travels: "req_travels wire128 demo_text_packet" "resp_travels wire128 demo_text_answer"
proof -
  have "w_parse_req wire128 (w_ser_req wire128 demo_text_packet) = demo_text_packet"
    "w_parse_resp wire128 (w_ser_resp wire128 demo_text_answer) = demo_text_answer"
    "length (w_ser_req wire128 demo_text_packet) < 200" "length (w_ser_resp wire128 demo_text_answer) < 200"
    by code_simp+
  then show "req_travels wire128 demo_text_packet" "resp_travels wire128 demo_text_answer"
    by (simp_all add: req_travels_def resp_travels_def fits_frame_def)
qed

lemma demo_text_answered: "map_option fst (dispatch calm_env demo_text_packet demo_service) = Some demo_text_answer"
  by code_simp

theorem text_end_to_end_witness:
  "\<exists>c' s' r node. sendTextMessage calm_env wire128 demo_net (server_peer calm_env wire128 demo_net 7) ''bob'' ''hi''
      (beside demo_alice demo_service) = Some (Inr ''srv_msg_0_1'', c') \<and> cl_world c' = Some s' \<and>
     messages_of (sv_db s') = messages_of (sv_db demo_service) @ [r] \<and> client_active_key demo_bob = Some node \<and>
     fst (decryptMessage calm_env (c_str (n_seckey node)) (ml_receiverCiphertext r) (ml_receiverNonce r)
       (ml_receiverTag r) (ml_algorithm r) proc_start) = Inr ''hi''"
proof -
  let ?c = "beside demo_alice demo_service"
  have "map_option fst (sendTextMessage calm_env wire128 demo_net (server_peer calm_env wire128 demo_net 7)
      ''bob'' ''hi'' ?c) = Some (Inr ''srv_msg_0_1'')" by code_simp
  then obtain c' where run: "sendTextMessage calm_env wire128 demo_net (server_peer calm_env wire128 demo_net 7)
      ''bob'' ''hi'' ?c = Some (Inr ''srv_msg_0_1'', c')" by auto
  have "case send_request calm_env ''bob'' ''hi'' ?c of
      (Inr info, _) \<Rightarrow> init_send_req info RequestPacket_default = demo_text_packet | _ \<Rightarrow> False" by code_simp
  then obtain info c1 where req: "send_request calm_env ''bob'' ''hi'' ?c = (Inr info, c1)"
    and p: "init_send_req info RequestPacket_default = demo_text_packet" by (auto split: sum.splits)
  have agree: "keys_agree ?c demo_service" and bob: "keys_agree demo_bob demo_service"
    and ids: "sv_id demo_service = ci_serverId (m_info ?c)" "ci_clientId (m_info demo_bob) = ''bob''"
      "ci_serverId (m_info demo_bob) = sv_id demo_service"
    by code_simp+
  have travel: "resp_travels wire128 resp" if "dispatch calm_env demo_text_packet demo_service = Some (resp, s')" for resp s'
    using that demo_text_answered demo_text_travels by simp
  have up: "cl_world ?c = Some demo_service" by (simp add: beside_def)
  have hi: "''hi'' \<noteq> []" by simp
  have "\<exists>s' r. cl_world c' = Some s' \<and> messages_of (sv_db s') = messages_of (sv_db demo_service) @ [r] \<and>
      ml_msgId r = ''srv_msg_0_1'' \<and> ml_senderId r = ci_clientId (m_info ?c) \<and> ml_receiverId r = ''bob'' \<and>
      (\<forall>b :: unit client. ci_clientId (m_info b) = ''bob'' \<and> ci_serverId (m_info b) = sv_id demo_service \<and>
         keys_agree b demo_service \<longrightarrow> (\<exists>node. client_active_key b = Some node \<and>
         fst (decryptMessage calm_env (c_str (n_seckey node)) (ml_receiverCiphertext r) (ml_receiverNonce r)
           (ml_receiverTag r) (ml_algorithm r) proc_start) = Inr ''hi''))"
    by (rule text_end_to_end [OF run up req, unfolded p])
       (rule travel agree ids(1) hi demo_text_travels calm_base64 calm_gcm calm_gcm_len calm_rand calm_gcm_tag
          calm_env_simps(9) | assumption)+
  then obtain s' r node where "cl_world c' = Some s'" "messages_of (sv_db s') = messages_of (sv_db demo_service) @ [r]"
    "client_active_key demo_bob = Some node" "fst (decryptMessage calm_env (c_str (n_seckey node)) (ml_receiverCiphertext r)
      (ml_receiverNonce r) (ml_receiverTag r) (ml_algorithm r) proc_start) = Inr ''hi''"
    using ids(2,3) bob by metis
  with run show ?thesis by blast
qed

section \<open>Logging a key out\<close>

lemma dispatch_logout:
  assumes "dispatch env (init_logout_req info RequestPacket_default) s = Some (resp, s')"
  obtains out where "SeckeyLogout env (init_logout_req info RequestPacket_default) s = Some (out, s')"
    "resp = init_key_resp out ResponsePacket_default"
  using assms by (auto simp: dispatch_def init_logout_req_def)

lemma keyLogout_answer:
  assumes "keyLogout env wi net peer c = Some c'" and "buildKeyHeader env CMD_KEY_LOGOUT_REQ c = (h, c1)"
    and "n_status (shmRead (ci_clientId (m_info c)) (ci_serverId (m_info c)) (m_shm c)) = 1"
    and "n_status (shmRead (ci_clientId (m_info c)) (ci_serverId (m_info c)) (m_shm c')) \<noteq> 1"
  obtains d keyResp c2 where "exchange net peer (encodeRequest wi (init_logout_req \<lparr>vkl_header = h,
      vkl_keyId = n_seckeyID (shmRead (ci_clientId (m_info c)) (ci_serverId (m_info c)) (m_shm c))\<rparr> RequestPacket_default)) c1 =
      Some (Inr d, c2)" "cl_world c' = cl_world c2" "key_op_resp (rs_body (decodeResponse wi d)) = Some keyResp"
    "ko_code keyResp = RESULT_SUCCESS"
proof -
  let ?n = "shmRead (ci_clientId (m_info c)) (ci_serverId (m_info c)) (m_shm c)"
  from assms(1-3) obtain r c2 where x: "exchange net peer (encodeRequest wi (init_logout_req
      \<lparr>vkl_header = h, vkl_keyId = n_seckeyID ?n\<rparr> RequestPacket_default)) c1 = Some (r, c2)"
    and r: "c' = (case r of Inl e \<Rightarrow> c2 | Inr d \<Rightarrow> (case key_op_resp (rs_body (decodeResponse wi d)) of None \<Rightarrow> c2
      | Some k \<Rightarrow> if ko_code k = RESULT_SUCCESS then client_set_status 0 c2 else c2))"
    by (auto simp: keyLogout_def Let_def bind_eq_Some_conv)
  have "m_shm c2 = m_shm c"
    using only_runs_trans [OF only_runs_keyHeader [OF assms(2)] only_runs_exchange [OF x]] by (simp add: only_runs_def)
  with assms(3,4) have "c' \<noteq> c2" by auto
  with r obtain d k where "r = Inr d" "key_op_resp (rs_body (decodeResponse wi d)) = Some k" "ko_code k = RESULT_SUCCESS"
    "c' = client_set_status 0 c2" by (auto split: sum.splits option.splits if_splits)
  with x show thesis by (intro that) (simp_all add: client_set_status_def)
qed

text \<open>A logout is heard: when \<open>keyLogout\<close> has made the client's cached key unusable, the server has revoked
  it, and from then on, whatever requests it serves, it never hands out or confirms this key again.\<close>

theorem logout_end_to_end:
  assumes run: "keyLogout env wi net (server_peer env wi snet fd) c = Some c'" and up: "cl_world c = Some s"
    and request: "buildKeyHeader env CMD_KEY_LOGOUT_REQ c = (h, c1)"
      "p = init_logout_req \<lparr>vkl_header = h, vkl_keyId = k\<rparr> RequestPacket_default"
      "k = n_seckeyID (shmRead (ci_clientId (m_info c)) (ci_serverId (m_info c)) (m_shm c))"
    and travel: "req_travels wi p" "\<And>resp s'. dispatch env p s = Some (resp, s') \<Longrightarrow> resp_travels wi resp"
    and was: "n_status (shmRead (ci_clientId (m_info c)) (ci_serverId (m_info c)) (m_shm c)) = 1"
    and is_now: "n_status (shmRead (ci_clientId (m_info c)) (ci_serverId (m_info c)) (m_shm c')) \<noteq> 1"
    and db: "sv_db s = Some m" "snap m = None"
  shows "\<exists>s1. cl_world c' = Some s1 \<and> (\<forall>s2 rk s3. serves env s1 s2 \<longrightarrow>
     getActiveKey env (ci_clientId (m_info c)) (ci_serverId (m_info c)) k s2 = Some (rk, s3) \<longrightarrow> \<not> ak_valid rk)"
proof -
  from keyLogout_answer [OF run request(1) was is_now] obtain d keyResp c2 where
    "exchange net (server_peer env wi snet fd) (encodeRequest wi (init_logout_req \<lparr>vkl_header = h,
      vkl_keyId = n_seckeyID (shmRead (ci_clientId (m_info c)) (ci_serverId (m_info c)) (m_shm c))\<rparr> RequestPacket_default)) c1 =
      Some (Inr d, c2)" and c2: "cl_world c' = cl_world c2" and kr: "key_op_resp (rs_body (decodeResponse wi d)) = Some keyResp"
    "ko_code keyResp = RESULT_SUCCESS" .
  then have x: "exchange net (server_peer env wi snet fd) (encodeRequest wi p) c1 = Some (Inr d, c2)" by (simp add: request(2,3))
  have h: "vh_senderId h = ci_clientId (m_info c)" "vh_receiverId h = ci_serverId (m_info c)" "cl_world c1 = cl_world c"
    using request(1) by (auto simp: buildKeyHeader_def client_time_def Let_def split: prod.splits)
  obtain resp s1 where disp: "dispatch env p s = Some (resp, s1)" and s1: "cl_world c2 = Some s1"
    and resp: "decodeResponse wi d = resp"
    by (rule exchange_server [OF x travel(1) trans [OF h(3) up]]) (use travel(2) in auto)
  from dispatch_logout [OF disp [unfolded request(2)]] obtain out where
    out: "SeckeyLogout env p s = Some (out, s1)" "resp = init_key_resp out ResponsePacket_default" unfolding request(2) .
  with kr resp have code: "vko_code out = RESULT_SUCCESS" by (auto simp: init_key_resp_def)
  have pk: "rq_header p = Some (pb_header h)" "rq_body p = KeyLogoutReq \<lparr>klr_key_id = k\<rparr>"
    by (simp_all add: request(2) init_logout_req_def)
  from logout_dead [OF out(1) code pk db] obtain m1 where m1: "sv_db s1 = Some m1" "snap m1 = None"
    and "key_dead env (h_sender_id (pb_header h)) (h_receiver_id (pb_header h)) (klr_key_id \<lparr>klr_key_id = k\<rparr>) (t_keys (tbl m1))" .
  with h have "key_dead env (ci_clientId (m_info c)) (ci_serverId (m_info c)) k (t_keys (tbl m1))" by simp
  from dead_key_unused(1) [OF m1 this] c2 s1 show ?thesis by auto
qed

definition demo_logout_packet :: RequestPacket where
  "demo_logout_packet = \<lparr>rq_header = Some \<lparr>h_message_id = ''alice_0_1'', h_command = CMD_KEY_LOGOUT_REQ,
       h_sender_id = ''alice'', h_receiver_id = ''srv'', h_timestamp = 0\<rparr>,
     rq_body = KeyLogoutReq \<lparr>klr_key_id = 6\<rparr>\<rparr>"

definition demo_logout_answer :: ResponsePacket where
  "demo_logout_answer = \<lparr>rs_header = Some \<lparr>h_message_id = ''alice_0_1'', h_command = CMD_KEY_LOGOUT_RESP,
       h_sender_id = ''srv'', h_receiver_id = ''alice'', h_timestamp = 0\<rparr>,
     rs_body = KeyOpResp \<lparr>ko_code = RESULT_SUCCESS, ko_message = ''logout success'', ko_key_id = 6, ko_data = []\<rparr>\<rparr>"

lemma demo_logout_travels: "req_travels wire128 demo_logout_packet" "resp_travels wire128 demo_logout_answer"
proof -
  have "w_parse_req wire128 (w_ser_req wire128 demo_logout_packet) = demo_logout_packet"
    "w_parse_resp wire128 (w_ser_resp wire128 demo_logout_answer) = demo_logout_answer"
    "length (w_ser_req wire128 demo_logout_packet) < 200" "length (w_ser_resp wire128 demo_logout_answer) < 200"
    by code_simp+
  then show "req_travels wire128 demo_logout_packet" "resp_travels wire128 demo_logout_answer"
    by (simp_all add: req_travels_def resp_travels_def fits_frame_def)
qed

lemma demo_logout_answered: "map_option fst (dispatch calm_env demo_logout_packet demo_service) = Some demo_logout_answer"
  by code_simp

theorem logout_end_to_end_witness:
  "\<exists>c' s1. keyLogout calm_env wire128 demo_net (server_peer calm_env wire128 demo_net 7)
      (beside demo_alice demo_service) = Some c' \<and> cl_world c' = Some s1 \<and>
     (\<forall>s2 rk s3. serves calm_env s1 s2 \<longrightarrow> getActiveKey calm_env ''alice'' ''srv'' 6 s2 = Some (rk, s3) \<longrightarrow> \<not> ak_valid rk)"
proof -
  let ?c = "beside demo_alice demo_service"
  have "map_option (\<lambda>c. n_status (shmRead ''alice'' ''srv'' (m_shm c)))
      (keyLogout calm_env wire128 demo_net (server_peer calm_env wire128 demo_net 7) ?c) = Some 0" by code_simp
  then obtain c' where run: "keyLogout calm_env wire128 demo_net (server_peer calm_env wire128 demo_net 7) ?c = Some c'"
    and after: "n_status (shmRead ''alice'' ''srv'' (m_shm c')) = 0" by auto
  obtain h c1 where h: "buildKeyHeader calm_env CMD_KEY_LOGOUT_REQ ?c = (h, c1)" by fastforce
  have "init_logout_req \<lparr>vkl_header = fst (buildKeyHeader calm_env CMD_KEY_LOGOUT_REQ ?c), vkl_keyId = 6\<rparr>
      RequestPacket_default = demo_logout_packet" by code_simp
  with h have p: "demo_logout_packet = init_logout_req \<lparr>vkl_header = h, vkl_keyId = 6\<rparr> RequestPacket_default" by simp
  have ids: "ci_clientId (m_info ?c) = ''alice''" "ci_serverId (m_info ?c) = ''srv''"
    and node: "6 = n_seckeyID (shmRead ''alice'' ''srv'' (m_shm ?c))" "n_status (shmRead ''alice'' ''srv'' (m_shm ?c)) = 1"
    by code_simp+
  have up: "cl_world ?c = Some demo_service" by (simp add: beside_def)
  have travel: "resp_travels wire128 resp" if "dispatch calm_env demo_logout_packet demo_service = Some (resp, s')" for resp s'
    using that demo_logout_answered demo_logout_travels by simp
  have db: "sv_db demo_service = Some (fresh_conn demo_tables)" "snap (fresh_conn demo_tables) = None"
    by (simp_all add: demo_service_def)
  have "\<exists>s1. cl_world c' = Some s1 \<and> (\<forall>s2 rk s3. serves calm_env s1 s2 \<longrightarrow>
      getActiveKey calm_env (ci_clientId (m_info ?c)) (ci_serverId (m_info ?c)) 6 s2 = Some (rk, s3) \<longrightarrow> \<not> ak_valid rk)"
    by (rule logout_end_to_end [OF run up h p, where m = "fresh_conn demo_tables"]) (use node after travel db demo_logout_travels in \<open>simp_all add: ids\<close>)
  with run show ?thesis by (auto simp: ids)
qed

end
