(* ===== verification/ProtobufProps.thy ===== *)
theory ProtobufProps
  imports Base128
begin

text \<open>
  What the generated protobuf code does, whatever the library underneath, as long as it keeps the format:
  the parser ends on every byte string, the serializer writes as many bytes as \<open>ByteSizeLong\<close> says, and
  reading gives back the packet that was written.
\<close>

section \<open>The parser ends\<close>

text \<open>A case of the switch that ends and does not go back in the input.\<close>

definition advances :: "string \<Rightarrow> 'm field_result \<Rightarrow> bool" where
  "advances s fr \<longleftrightarrow> fr \<noteq> Stuck \<and> (\<forall>m r. fr = Field m (Some r) \<longrightarrow> length r \<le> length s)"

lemma advances_Unusual [simp]: "advances s Unusual"
  by (simp add: advances_def)

context protobuf
begin

lemma advances_fields [simp]:
  "advances s (int32_field rt put s)" "advances s (int64_field rt put s)" "advances s (enum_field rt m put' s)"
  "advances s (string_field rt old put'' s)"
  by (auto simp: advances_def int32_field_def int64_field_def enum_field_def string_field_def split: prod.splits
      dest: varint_forward string_forward)

lemma parse_message_total:
  assumes "\<And>sub s. parse sub s \<noteq> None"
  shows "parse_message rt parse sub s \<noteq> None"
proof (cases "rt_ReadLength rt s")
  case (Some p)
  obtain y e where "parse sub (fst p) = Some (y, e)"
    using assms [of sub "fst p"] by (cases "parse sub (fst p)") auto
  with Some show ?thesis by (cases p) (simp add: parse_message_def)
qed (simp add: parse_message_def)

lemma parse_message_forward: "parse_message rt parse sub s = Some (x, Some r) \<Longrightarrow> length r \<le> length s"
  by (auto simp: parse_message_def bind_eq_Some_conv split: option.splits if_splits dest: length_forward)

lemma advances_message [simp]:
  assumes "\<And>sub s. parse sub s \<noteq> None"
  shows "advances s (message_field rt parse sub put s)"
proof -
  obtain x r where "parse_message rt parse sub s = Some (x, r)"
    using parse_message_total [OF assms] by fastforce
  then show ?thesis by (auto simp: advances_def message_field_def dest: parse_message_forward)
qed

lemma loop_total:
  assumes "\<And>t m s. advances s (sw t m s)" and "length s \<le> n"
  shows "parse_loop rt sw n m s \<noteq> None"
  using assms(2)
proof (induction n arbitrary: m s)
  case (Suc n)
  show ?case
  proof (cases "s = [] \<or> rt_ReadTag rt s = None")
    case False
    then obtain c cs t s1 where s: "s = c # cs" and tag: "rt_ReadTag rt (c # cs) = Some (t, s1)"
      by (cases s) fastforce+
    have len: "length s1 \<le> n" using Suc.prems tag_forward [OF tag] s by simp
    have sw: "advances s1 (sw t m s1)" by (rule assms(1))
    have IH: "parse_loop rt sw n m' r \<noteq> None" if "length r \<le> length s1" for m' r
      using Suc.IH that len by simp
    show ?thesis
    proof (cases "sw t m s1")
      case (Field m' r)
      with s tag sw IH show ?thesis by (cases r) (auto simp: advances_def)
    next
      case Unusual
      with s tag IH unknown_forward show ?thesis by (auto split: option.splits)
    next
      case Stuck
      with sw show ?thesis by (simp add: advances_def)
    qed
  qed (cases s; auto)
qed simp

lemma QueryMessageListRequest_advances [simp]: "advances s (QueryMessageListRequest_case rt t m s)"
  by (simp add: QueryMessageListRequest_case_def)

lemma QueryMessageListRequest_total [simp]: "QueryMessageListRequest_InternalParse rt m s \<noteq> None"
  by (simp add: QueryMessageListRequest_InternalParse_def loop_total)

lemma KeyAgreementRequest_advances [simp]: "advances s (KeyAgreementRequest_case rt t m s)"
  by (simp add: KeyAgreementRequest_case_def)

lemma KeyAgreementRequest_total [simp]: "KeyAgreementRequest_InternalParse rt m s \<noteq> None"
  by (simp add: KeyAgreementRequest_InternalParse_def loop_total)

lemma KeyCheckRequest_advances [simp]: "advances s (KeyCheckRequest_case rt t m s)"
  by (simp add: KeyCheckRequest_case_def)

lemma KeyCheckRequest_total [simp]: "KeyCheckRequest_InternalParse rt m s \<noteq> None"
  by (simp add: KeyCheckRequest_InternalParse_def loop_total)

lemma KeyLogoutRequest_advances [simp]: "advances s (KeyLogoutRequest_case rt t m s)"
  by (simp add: KeyLogoutRequest_case_def)

lemma KeyLogoutRequest_total [simp]: "KeyLogoutRequest_InternalParse rt m s \<noteq> None"
  by (simp add: KeyLogoutRequest_InternalParse_def loop_total)

lemma KeyOperationResponse_advances [simp]: "advances s (KeyOperationResponse_case rt t m s)"
  by (simp add: KeyOperationResponse_case_def)

lemma KeyOperationResponse_total [simp]: "KeyOperationResponse_InternalParse rt m s \<noteq> None"
  by (simp add: KeyOperationResponse_InternalParse_def loop_total)

lemma Header_advances [simp]: "advances s (Header_case rt t m s)"
  by (simp add: Header_case_def)

lemma Header_total [simp]: "Header_InternalParse rt m s \<noteq> None"
  by (simp add: Header_InternalParse_def loop_total)

lemma EncryptedMessage_advances [simp]: "advances s (EncryptedMessage_case rt t m s)"
  by (simp add: EncryptedMessage_case_def)

lemma EncryptedMessage_total [simp]: "EncryptedMessage_InternalParse rt m s \<noteq> None"
  by (simp add: EncryptedMessage_InternalParse_def loop_total)

lemma SendMessageRequest_advances [simp]: "advances s (SendMessageRequest_case rt t m s)"
  by (simp add: SendMessageRequest_case_def)

lemma SendMessageRequest_total [simp]: "SendMessageRequest_InternalParse rt m s \<noteq> None"
  by (simp add: SendMessageRequest_InternalParse_def loop_total)

lemma SendMessageResponse_advances [simp]: "advances s (SendMessageResponse_case rt t m s)"
  by (simp add: SendMessageResponse_case_def)

lemma SendMessageResponse_total [simp]: "SendMessageResponse_InternalParse rt m s \<noteq> None"
  by (simp add: SendMessageResponse_InternalParse_def loop_total)

lemma QueryMessageRequest_advances [simp]: "advances s (QueryMessageRequest_case rt t m s)"
  by (simp add: QueryMessageRequest_case_def)

lemma QueryMessageRequest_total [simp]: "QueryMessageRequest_InternalParse rt m s \<noteq> None"
  by (simp add: QueryMessageRequest_InternalParse_def loop_total)

lemma QueryMessageResponse_advances [simp]: "advances s (QueryMessageResponse_case rt t m s)"
  by (simp add: QueryMessageResponse_case_def)

lemma QueryMessageResponse_total [simp]: "QueryMessageResponse_InternalParse rt m s \<noteq> None"
  by (simp add: QueryMessageResponse_InternalParse_def loop_total)

lemma MessageSummary_advances [simp]: "advances s (MessageSummary_case rt t m s)"
  by (simp add: MessageSummary_case_def)

lemma MessageSummary_total [simp]: "MessageSummary_InternalParse rt m s \<noteq> None"
  by (simp add: MessageSummary_InternalParse_def loop_total)


lemma parse_summaries_total:
  "length s < n \<Longrightarrow> \<exists>ms' r. parse_summaries rt n ms s = Some (ms', r) \<and> (\<forall>t. r = Some t \<longrightarrow> length t \<le> length s)"
proof (induction n arbitrary: ms s)
  case (Suc n)
  obtain x r where p: "parse_message rt (MessageSummary_InternalParse rt) MessageSummary_default s = Some (x, r)"
    using parse_message_total [of "MessageSummary_InternalParse rt" MessageSummary_default s] MessageSummary_total
    by fastforce
  show ?case
  proof (cases r)
    case (Some t)
    have len: "length t \<le> length s" using p Some by (auto dest: parse_message_forward)
    show ?thesis
    proof (cases t)
      case (Cons c cs)
      have "length cs < n" using Suc.prems len Cons by simp
      from Suc.IH [OF this] obtain ms' r' where "parse_summaries rt n (ms @ [x]) cs = Some (ms', r')"
        "\<forall>t. r' = Some t \<longrightarrow> length t \<le> length cs" by blast
      with p Some Cons len show ?thesis by (auto simp: Let_def)
    qed (use p Some in simp)
  qed (use p in simp)
qed simp

lemma QueryMessageListResponse_advances [simp]: "advances s (QueryMessageListResponse_case rt t m s)"
proof -
  obtain ms r where "parse_summaries rt (Suc (length s)) (lr_messages m) s = Some (ms, r)"
    "\<forall>t. r = Some t \<longrightarrow> length t \<le> length s"
    using parse_summaries_total [of s "Suc (length s)" "lr_messages m"] by auto
  then show ?thesis by (simp add: QueryMessageListResponse_case_def advances_def [of s "Field _ _"])
qed

lemma QueryMessageListResponse_total [simp]: "QueryMessageListResponse_InternalParse rt m s \<noteq> None"
  by (simp add: QueryMessageListResponse_InternalParse_def loop_total)

lemma RequestPacket_advances [simp]: "advances s (RequestPacket_case rt t m s)"
  by (simp add: RequestPacket_case_def)

lemma RequestPacket_total: "RequestPacket_InternalParse rt m s \<noteq> None"
  by (simp add: RequestPacket_InternalParse_def loop_total)

lemma ResponsePacket_advances [simp]: "advances s (ResponsePacket_case rt t m s)"
  by (simp add: ResponsePacket_case_def)

lemma ResponsePacket_total: "ResponsePacket_InternalParse rt m s \<noteq> None"
  by (simp add: ResponsePacket_InternalParse_def loop_total)

section \<open>The announced size is the size written\<close>

lemma string_size: "0 < f \<Longrightarrow> f < 16 \<Longrightarrow> length (rt_WriteString rt f x) = Suc (rt_StringSize rt x)"
  using write_string [of f x] by auto

lemma message_size: "0 < f \<Longrightarrow> f < 16 \<Longrightarrow> length (rt_WriteMessage rt f x) = Suc (rt_MessageSize rt (length x))"
  using write_message [of f x] by auto

lemma int32_size: "0 < f \<Longrightarrow> f < 16 \<Longrightarrow> is_int32 v \<Longrightarrow> length (rt_WriteInt32 rt f v) = Suc (rt_Int32Size rt v)"
  using write_int32 [of f v] by auto

lemma int64_size: "0 < f \<Longrightarrow> f < 16 \<Longrightarrow> is_int64 v \<Longrightarrow> length (rt_WriteInt64 rt f v) = Suc (rt_Int64Size rt v)"
  using write_int64 [of f v] by auto

lemma enum_size: "0 < f \<Longrightarrow> f < 16 \<Longrightarrow> is_int32 v \<Longrightarrow> length (rt_WriteEnum rt f v) = Suc (rt_EnumSize rt v)"
  using write_enum [of f v] by auto

lemma ascii [simp]: "list_all (\<lambda>c. (of_char c :: nat) < 128) x \<Longrightarrow> rt_utf8 rt x"
  by (rule ascii_utf8) (simp add: list_all_iff)

text \<open>Upper bounds, for packets whose texts have a known length.\<close>

lemma size_bounds:
  "is_int32 v \<Longrightarrow> rt_Int32Size rt v \<le> 10" "is_int64 v \<Longrightarrow> rt_Int64Size rt v \<le> 10"
  "is_int32 v \<Longrightarrow> rt_EnumSize rt v \<le> 10" "length x < 2 ^ 31 \<Longrightarrow> rt_StringSize rt x \<le> length x + 5"
  using write_int32 [of 1 v] write_int64 [of 1 v] write_enum [of 1 v] write_string [of 1 x] by auto

lemma message_bound: "n < 2 ^ 31 \<Longrightarrow> rt_MessageSize rt n \<le> n + 5"
  using write_message [of 1 "replicate n NUL"] by auto

lemmas sizes = string_size message_size int32_size int64_size enum_size

lemma QueryMessageListRequest_size: "QueryMessageListRequest_ranges m \<Longrightarrow> length (QueryMessageListRequest_ToArray rt m) = QueryMessageListRequest_ByteSizeLong rt m"
  by (simp add: QueryMessageListRequest_ToArray_def QueryMessageListRequest_ByteSizeLong_def QueryMessageListRequest_ranges_def sizes)

lemma KeyAgreementRequest_size: "KeyAgreementRequest_ranges m \<Longrightarrow> length (KeyAgreementRequest_ToArray rt m) = KeyAgreementRequest_ByteSizeLong rt m"
  by (simp add: KeyAgreementRequest_ToArray_def KeyAgreementRequest_ByteSizeLong_def KeyAgreementRequest_ranges_def sizes)

lemma KeyCheckRequest_size: "KeyCheckRequest_ranges m \<Longrightarrow> length (KeyCheckRequest_ToArray rt m) = KeyCheckRequest_ByteSizeLong rt m"
  by (simp add: KeyCheckRequest_ToArray_def KeyCheckRequest_ByteSizeLong_def KeyCheckRequest_ranges_def sizes)

lemma KeyLogoutRequest_size: "KeyLogoutRequest_ranges m \<Longrightarrow> length (KeyLogoutRequest_ToArray rt m) = KeyLogoutRequest_ByteSizeLong rt m"
  by (simp add: KeyLogoutRequest_ToArray_def KeyLogoutRequest_ByteSizeLong_def KeyLogoutRequest_ranges_def sizes)

lemma KeyOperationResponse_size: "KeyOperationResponse_ranges m \<Longrightarrow> length (KeyOperationResponse_ToArray rt m) = KeyOperationResponse_ByteSizeLong rt m"
  by (simp add: KeyOperationResponse_ToArray_def KeyOperationResponse_ByteSizeLong_def KeyOperationResponse_ranges_def sizes)

lemma Header_size: "Header_ranges m \<Longrightarrow> length (Header_ToArray rt m) = Header_ByteSizeLong rt m"
  by (simp add: Header_ToArray_def Header_ByteSizeLong_def Header_ranges_def sizes)

lemma EncryptedMessage_size: "EncryptedMessage_ranges m \<Longrightarrow> length (EncryptedMessage_ToArray rt m) = EncryptedMessage_ByteSizeLong rt m"
  by (simp add: EncryptedMessage_ToArray_def EncryptedMessage_ByteSizeLong_def EncryptedMessage_ranges_def sizes)

lemma SendMessageRequest_size: "SendMessageRequest_ranges m \<Longrightarrow> length (SendMessageRequest_ToArray rt m) = SendMessageRequest_ByteSizeLong rt m"
  by (auto simp: SendMessageRequest_ToArray_def SendMessageRequest_ByteSizeLong_def SendMessageRequest_ranges_def sizes EncryptedMessage_size split: option.split)

lemma SendMessageResponse_size: "SendMessageResponse_ranges m \<Longrightarrow> length (SendMessageResponse_ToArray rt m) = SendMessageResponse_ByteSizeLong rt m"
  by (simp add: SendMessageResponse_ToArray_def SendMessageResponse_ByteSizeLong_def SendMessageResponse_ranges_def sizes)

lemma QueryMessageRequest_size: "QueryMessageRequest_ranges m \<Longrightarrow> length (QueryMessageRequest_ToArray rt m) = QueryMessageRequest_ByteSizeLong rt m"
  by (simp add: QueryMessageRequest_ToArray_def QueryMessageRequest_ByteSizeLong_def QueryMessageRequest_ranges_def sizes)

lemma QueryMessageResponse_size: "QueryMessageResponse_ranges m \<Longrightarrow> length (QueryMessageResponse_ToArray rt m) = QueryMessageResponse_ByteSizeLong rt m"
  by (simp add: QueryMessageResponse_ToArray_def QueryMessageResponse_ByteSizeLong_def QueryMessageResponse_ranges_def sizes)

lemma MessageSummary_size: "MessageSummary_ranges m \<Longrightarrow> length (MessageSummary_ToArray rt m) = MessageSummary_ByteSizeLong rt m"
  by (simp add: MessageSummary_ToArray_def MessageSummary_ByteSizeLong_def MessageSummary_ranges_def sizes)


lemma QueryMessageListResponse_size:
  assumes "QueryMessageListResponse_ranges m"
  shows "length (QueryMessageListResponse_ToArray rt m) = QueryMessageListResponse_ByteSizeLong rt m"
proof -
  have "length (concat (map (\<lambda>x. rt_WriteMessage rt 3 (MessageSummary_ToArray rt x)) xs)) =
      length xs + sum_list (map (\<lambda>x. rt_MessageSize rt (MessageSummary_ByteSizeLong rt x)) xs)"
    if "\<forall>x \<in> set xs. MessageSummary_ranges x" for xs
    using that by (induction xs) (simp_all add: sizes MessageSummary_size)
  with assms show ?thesis
    by (simp add: QueryMessageListResponse_ToArray_def QueryMessageListResponse_ByteSizeLong_def
        QueryMessageListResponse_ranges_def sizes)
qed

lemma RequestPacket_size: "RequestPacket_ranges p \<Longrightarrow> length (RequestPacket_ToArray rt p) = RequestPacket_ByteSizeLong rt p"
  by (auto simp: RequestPacket_ToArray_def RequestPacket_ByteSizeLong_def RequestPacket_ranges_def sizes Header_size
      SendMessageRequest_size QueryMessageRequest_size QueryMessageListRequest_size KeyAgreementRequest_size
      KeyCheckRequest_size KeyLogoutRequest_size split: option.splits RequestBody.splits)

lemma ResponsePacket_size:
  "ResponsePacket_ranges p \<Longrightarrow> length (ResponsePacket_ToArray rt p) = ResponsePacket_ByteSizeLong rt p"
  by (auto simp: ResponsePacket_ToArray_def ResponsePacket_ByteSizeLong_def ResponsePacket_ranges_def sizes Header_size
      SendMessageResponse_size QueryMessageResponse_size QueryMessageListResponse_size KeyOperationResponse_size
      split: option.splits ResponseBody.splits)

end

section \<open>Reading what was written\<close>

text \<open>On the bytes \<open>s\<close> the loop turns \<open>m\<close> into \<open>m'\<close> and reaches the end.\<close>

definition parses :: "pb_runtime \<Rightarrow> (nat \<Rightarrow> 'm \<Rightarrow> string \<Rightarrow> 'm field_result) \<Rightarrow> 'm \<Rightarrow> string \<Rightarrow> 'm \<Rightarrow> bool" where
  "parses rt sw m s m' \<longleftrightarrow>
     (length s < 2 ^ 31 \<longrightarrow> (\<forall>n. length s \<le> n \<longrightarrow> parse_loop rt sw n m s = Some (m', AtEnd)))"

lemma parses_done: "m = m' \<Longrightarrow> parses rt sw m [] m'"
  by (simp add: parses_def)

lemma parses_loop: "parses rt sw m s m' \<Longrightarrow> length s < 2 ^ 31 \<Longrightarrow> parse_loop rt sw (length s) m s = Some (m', AtEnd)"
  by (simp add: parses_def)

lemma to_int32_read: "is_int32 v \<Longrightarrow> to_int32 (nat (v mod 2 ^ 64)) = v"
proof -
  assume "is_int32 v"
  then have "signed_take_bit 31 (take_bit 64 v) = v"
    by (simp add: is_int32_def signed_take_bit_take_bit signed_take_bit_int_eq_self)
  then show ?thesis by (simp add: to_int32_def take_bit_eq_mod signed_of_int)
qed

lemma to_int64_read: "is_int64 v \<Longrightarrow> to_int64 (nat (v mod 2 ^ 64)) = v"
proof -
  assume "is_int64 v"
  then have "signed_take_bit 63 (take_bit 64 v) = v"
    by (simp add: is_int64_def signed_take_bit_take_bit signed_take_bit_int_eq_self)
  then show ?thesis by (simp add: to_int64_def take_bit_eq_mod signed_of_int)
qed

lemma QueryMessageListRequest_cases:
  "QueryMessageListRequest_case rt (8 * 1 + 2) m = string_field rt (qml_sender_id m) (\<lambda>x. m\<lparr>qml_sender_id := x\<rparr>)"
  "QueryMessageListRequest_case rt (8 * 2) m = int32_field rt (\<lambda>x. m\<lparr>qml_limit := x\<rparr>)"
  by (simp_all add: QueryMessageListRequest_case_def fun_eq_iff)

lemma KeyAgreementRequest_cases:
  "KeyAgreementRequest_case rt (8 * 1 + 2) m = string_field rt (kar_public_key m) (\<lambda>x. m\<lparr>kar_public_key := x\<rparr>)"
  "KeyAgreementRequest_case rt (8 * 2 + 2) m = string_field rt (kar_sign m) (\<lambda>x. m\<lparr>kar_sign := x\<rparr>)"
  by (simp_all add: KeyAgreementRequest_case_def fun_eq_iff)

lemma KeyCheckRequest_cases:
  "KeyCheckRequest_case rt (8 * 1) m = int32_field rt (\<lambda>x. m\<lparr>kcr_key_id := x\<rparr>)"
  by (simp_all add: KeyCheckRequest_case_def fun_eq_iff)

lemma KeyLogoutRequest_cases:
  "KeyLogoutRequest_case rt (8 * 1) m = int32_field rt (\<lambda>x. m\<lparr>klr_key_id := x\<rparr>)"
  by (simp_all add: KeyLogoutRequest_case_def fun_eq_iff)

lemma KeyOperationResponse_cases:
  "KeyOperationResponse_case rt (8 * 1) m = enum_field rt m (\<lambda>x. m\<lparr>ko_code := x\<rparr>)"
  "KeyOperationResponse_case rt (8 * 2 + 2) m = string_field rt (ko_message m) (\<lambda>x. m\<lparr>ko_message := x\<rparr>)"
  "KeyOperationResponse_case rt (8 * 3) m = int32_field rt (\<lambda>x. m\<lparr>ko_key_id := x\<rparr>)"
  "KeyOperationResponse_case rt (8 * 4 + 2) m = string_field rt (ko_data m) (\<lambda>x. m\<lparr>ko_data := x\<rparr>)"
  by (simp_all add: KeyOperationResponse_case_def fun_eq_iff)

lemma Header_cases:
  "Header_case rt (8 * 1 + 2) m = string_field rt (h_message_id m) (\<lambda>x. m\<lparr>h_message_id := x\<rparr>)"
  "Header_case rt (8 * 2) m = enum_field rt m (\<lambda>x. m\<lparr>h_command := x\<rparr>)"
  "Header_case rt (8 * 3 + 2) m = string_field rt (h_sender_id m) (\<lambda>x. m\<lparr>h_sender_id := x\<rparr>)"
  "Header_case rt (8 * 4 + 2) m = string_field rt (h_receiver_id m) (\<lambda>x. m\<lparr>h_receiver_id := x\<rparr>)"
  "Header_case rt (8 * 5) m = int64_field rt (\<lambda>x. m\<lparr>h_timestamp := x\<rparr>)"
  by (simp_all add: Header_case_def fun_eq_iff)

lemma EncryptedMessage_cases:
  "EncryptedMessage_case rt (8 * 1) m = int32_field rt (\<lambda>x. m\<lparr>em_key_id := x\<rparr>)"
  "EncryptedMessage_case rt (8 * 2) m = enum_field rt m (\<lambda>x. m\<lparr>em_msg_type := x\<rparr>)"
  "EncryptedMessage_case rt (8 * 3 + 2) m = string_field rt (em_ciphertext m) (\<lambda>x. m\<lparr>em_ciphertext := x\<rparr>)"
  "EncryptedMessage_case rt (8 * 4 + 2) m = string_field rt (em_nonce m) (\<lambda>x. m\<lparr>em_nonce := x\<rparr>)"
  "EncryptedMessage_case rt (8 * 5 + 2) m = string_field rt (em_tag m) (\<lambda>x. m\<lparr>em_tag := x\<rparr>)"
  "EncryptedMessage_case rt (8 * 6 + 2) m = string_field rt (em_algorithm m) (\<lambda>x. m\<lparr>em_algorithm := x\<rparr>)"
  by (simp_all add: EncryptedMessage_case_def fun_eq_iff)

lemma SendMessageResponse_cases:
  "SendMessageResponse_case rt (8 * 1) m = enum_field rt m (\<lambda>x. m\<lparr>sr_code := x\<rparr>)"
  "SendMessageResponse_case rt (8 * 2 + 2) m = string_field rt (sr_message m) (\<lambda>x. m\<lparr>sr_message := x\<rparr>)"
  "SendMessageResponse_case rt (8 * 3 + 2) m = string_field rt (sr_server_message_id m) (\<lambda>x. m\<lparr>sr_server_message_id := x\<rparr>)"
  "SendMessageResponse_case rt (8 * 4) m = int64_field rt (\<lambda>x. m\<lparr>sr_server_time := x\<rparr>)"
  "SendMessageResponse_case rt (8 * 5) m = enum_field rt m (\<lambda>x. m\<lparr>sr_delivery_status := x\<rparr>)"
  by (simp_all add: SendMessageResponse_case_def fun_eq_iff)

lemma QueryMessageRequest_cases:
  "QueryMessageRequest_case rt (8 * 1 + 2) m = string_field rt (qmr_server_message_id m) (\<lambda>x. m\<lparr>qmr_server_message_id := x\<rparr>)"
  by (simp_all add: QueryMessageRequest_case_def fun_eq_iff)

lemma QueryMessageResponse_cases:
  "QueryMessageResponse_case rt (8 * 1) m = enum_field rt m (\<lambda>x. m\<lparr>qr_code := x\<rparr>)"
  "QueryMessageResponse_case rt (8 * 2 + 2) m = string_field rt (qr_message m) (\<lambda>x. m\<lparr>qr_message := x\<rparr>)"
  "QueryMessageResponse_case rt (8 * 3 + 2) m = string_field rt (qr_server_message_id m) (\<lambda>x. m\<lparr>qr_server_message_id := x\<rparr>)"
  "QueryMessageResponse_case rt (8 * 4 + 2) m = string_field rt (qr_sender_id m) (\<lambda>x. m\<lparr>qr_sender_id := x\<rparr>)"
  "QueryMessageResponse_case rt (8 * 5 + 2) m = string_field rt (qr_receiver_id m) (\<lambda>x. m\<lparr>qr_receiver_id := x\<rparr>)"
  "QueryMessageResponse_case rt (8 * 6) m = int32_field rt (\<lambda>x. m\<lparr>qr_key_id := x\<rparr>)"
  "QueryMessageResponse_case rt (8 * 7 + 2) m = string_field rt (qr_msg_type m) (\<lambda>x. m\<lparr>qr_msg_type := x\<rparr>)"
  "QueryMessageResponse_case rt (8 * 8) m = int64_field rt (\<lambda>x. m\<lparr>qr_send_time := x\<rparr>)"
  "QueryMessageResponse_case rt (8 * 9) m = int32_field rt (\<lambda>x. m\<lparr>qr_status := x\<rparr>)"
  by (simp_all add: QueryMessageResponse_case_def fun_eq_iff)

lemma MessageSummary_cases:
  "MessageSummary_case rt (8 * 1 + 2) m = string_field rt (ms_server_message_id m) (\<lambda>x. m\<lparr>ms_server_message_id := x\<rparr>)"
  "MessageSummary_case rt (8 * 2 + 2) m = string_field rt (ms_sender_id m) (\<lambda>x. m\<lparr>ms_sender_id := x\<rparr>)"
  "MessageSummary_case rt (8 * 3 + 2) m = string_field rt (ms_receiver_id m) (\<lambda>x. m\<lparr>ms_receiver_id := x\<rparr>)"
  "MessageSummary_case rt (8 * 4) m = int32_field rt (\<lambda>x. m\<lparr>ms_key_id := x\<rparr>)"
  "MessageSummary_case rt (8 * 5 + 2) m = string_field rt (ms_msg_type m) (\<lambda>x. m\<lparr>ms_msg_type := x\<rparr>)"
  "MessageSummary_case rt (8 * 6) m = int64_field rt (\<lambda>x. m\<lparr>ms_send_time := x\<rparr>)"
  "MessageSummary_case rt (8 * 7) m = int32_field rt (\<lambda>x. m\<lparr>ms_status := x\<rparr>)"
  by (simp_all add: MessageSummary_case_def fun_eq_iff)


lemma SendMessageRequest_cases:
  "SendMessageRequest_case rt (8 * 1 + 2) m = message_field rt (EncryptedMessage_InternalParse rt) (smr_get_message m)
     (\<lambda>x. m\<lparr>smr_message := Some x\<rparr>)"
  by (simp add: SendMessageRequest_case_def fun_eq_iff)

lemma QueryMessageListResponse_cases:
  "QueryMessageListResponse_case rt (8 * 1) m = enum_field rt m (\<lambda>x. m\<lparr>lr_code := x\<rparr>)"
  "QueryMessageListResponse_case rt (8 * 2 + 2) m = string_field rt (lr_message m) (\<lambda>x. m\<lparr>lr_message := x\<rparr>)"
  by (simp_all add: QueryMessageListResponse_case_def fun_eq_iff)

lemma RequestPacket_cases:
  "RequestPacket_case rt (8 * 1 + 2) m = message_field rt (Header_InternalParse rt) (get_header (rq_header m))
     (\<lambda>x. m\<lparr>rq_header := Some x\<rparr>)"
  "RequestPacket_case rt (8 * 2 + 2) m = message_field rt (SendMessageRequest_InternalParse rt)
     (case send_msg_req (rq_body m) of Some r \<Rightarrow> r | None \<Rightarrow> SendMessageRequest_default) (\<lambda>x. m\<lparr>rq_body := SendMsgReq x\<rparr>)"
  "RequestPacket_case rt (8 * 3 + 2) m = message_field rt (QueryMessageRequest_InternalParse rt)
     (case query_msg_req (rq_body m) of Some r \<Rightarrow> r | None \<Rightarrow> QueryMessageRequest_default) (\<lambda>x. m\<lparr>rq_body := QueryMsgReq x\<rparr>)"
  "RequestPacket_case rt (8 * 4 + 2) m = message_field rt (QueryMessageListRequest_InternalParse rt)
     (case query_msg_list_req (rq_body m) of Some r \<Rightarrow> r | None \<Rightarrow> QueryMessageListRequest_default) (\<lambda>x. m\<lparr>rq_body := QueryMsgListReq x\<rparr>)"
  "RequestPacket_case rt (8 * 5 + 2) m = message_field rt (KeyAgreementRequest_InternalParse rt)
     (case key_agree_req (rq_body m) of Some r \<Rightarrow> r | None \<Rightarrow> KeyAgreementRequest_default) (\<lambda>x. m\<lparr>rq_body := KeyAgreeReq x\<rparr>)"
  "RequestPacket_case rt (8 * 6 + 2) m = message_field rt (KeyCheckRequest_InternalParse rt)
     (case key_check_req (rq_body m) of Some r \<Rightarrow> r | None \<Rightarrow> KeyCheckRequest_default) (\<lambda>x. m\<lparr>rq_body := KeyCheckReq x\<rparr>)"
  "RequestPacket_case rt (8 * 7 + 2) m = message_field rt (KeyLogoutRequest_InternalParse rt)
     (case key_logout_req (rq_body m) of Some r \<Rightarrow> r | None \<Rightarrow> KeyLogoutRequest_default) (\<lambda>x. m\<lparr>rq_body := KeyLogoutReq x\<rparr>)"
  by (simp_all add: RequestPacket_case_def fun_eq_iff)

lemma ResponsePacket_cases:
  "ResponsePacket_case rt (8 * 1 + 2) m = message_field rt (Header_InternalParse rt) (get_header (rs_header m))
     (\<lambda>x. m\<lparr>rs_header := Some x\<rparr>)"
  "ResponsePacket_case rt (8 * 2 + 2) m = message_field rt (SendMessageResponse_InternalParse rt)
     (case send_msg_resp (rs_body m) of Some r \<Rightarrow> r | None \<Rightarrow> SendMessageResponse_default) (\<lambda>x. m\<lparr>rs_body := SendMsgResp x\<rparr>)"
  "ResponsePacket_case rt (8 * 3 + 2) m = message_field rt (QueryMessageResponse_InternalParse rt)
     (case query_msg_resp (rs_body m) of Some r \<Rightarrow> r | None \<Rightarrow> QueryMessageResponse_default) (\<lambda>x. m\<lparr>rs_body := QueryMsgResp x\<rparr>)"
  "ResponsePacket_case rt (8 * 4 + 2) m = message_field rt (QueryMessageListResponse_InternalParse rt)
     (case query_msg_list_resp (rs_body m) of Some r \<Rightarrow> r | None \<Rightarrow> QueryMessageListResponse_default) (\<lambda>x. m\<lparr>rs_body := QueryMsgListResp x\<rparr>)"
  "ResponsePacket_case rt (8 * 5 + 2) m = message_field rt (KeyOperationResponse_InternalParse rt)
     (case key_op_resp (rs_body m) of Some r \<Rightarrow> r | None \<Rightarrow> KeyOperationResponse_default) (\<lambda>x. m\<lparr>rs_body := KeyOpResp x\<rparr>)"
  by (simp_all add: ResponsePacket_case_def fun_eq_iff)

context protobuf
begin

lemma parses_step:
  assumes "0 < t" "t < 128" and "length (char_of t # b @ r) < 2 ^ 31 \<Longrightarrow> sw t m (b @ r) = Field mid (Some r)"
    and "parses rt sw mid r m'"
  shows "parses rt sw m (char_of t # b @ r) m'"
  unfolding parses_def
proof (intro impI allI)
  fix n assume len: "length (char_of t # b @ r) < 2 ^ 31" and n: "length (char_of t # b @ r) \<le> n"
  then obtain k where k: "n = Suc k" by (cases n) auto
  from assms(4) len n k have "parse_loop rt sw k mid r = Some (m', AtEnd)" by (simp add: parses_def)
  with assms(1,2) assms(3) [OF len] k show "parse_loop rt sw n m (char_of t # b @ r) = Some (m', AtEnd)"
    by (simp add: read_tag)
qed

lemma parses_string:
  assumes "sw (8 * f + 2) m = string_field rt old put" "0 < f" "f < 16" "rt_utf8 rt x" "x = [] \<Longrightarrow> put x = m"
    and "parses rt sw (put x) r m'"
  shows "parses rt sw m ((if x \<noteq> [] then rt_WriteString rt f x else []) @ r) m'"
proof (cases "x = []")
  case False
  obtain b where b: "rt_WriteString rt f x = char_of (8 * f + 2) # b" "length x \<le> length b"
    "length x < 2 ^ 31 \<Longrightarrow> rt_ReadString rt old (b @ r) = (x, Some r)"
    using write_string [OF assms(2,3), of x] assms(4) by blast
  have "parses rt sw m (char_of (8 * f + 2) # b @ r) m'"
    using assms b by (intro parses_step [where mid = "put x"]) (auto simp: string_field_def)
  with False b show ?thesis by simp
qed (use assms in simp)

lemma parses_int32:
  assumes "sw (8 * f) m = int32_field rt put" "0 < f" "f < 16" "is_int32 x" "x = 0 \<Longrightarrow> put x = m"
    and "parses rt sw (put x) r m'"
  shows "parses rt sw m ((if x \<noteq> 0 then rt_WriteInt32 rt f x else []) @ r) m'"
proof (cases "x = 0")
  case False
  obtain b where b: "rt_WriteInt32 rt f x = char_of (8 * f) # b" "rt_ReadVarint rt (b @ r) = (nat (x mod 2 ^ 64), Some r)"
    using write_int32 [OF assms(2-4)] by blast
  have "parses rt sw m (char_of (8 * f) # b @ r) m'"
    using assms b to_int32_read [OF assms(4)] by (intro parses_step [where mid = "put x"]) (auto simp: int32_field_def)
  with False b show ?thesis by simp
qed (use assms in simp)

lemma parses_enum:
  assumes "sw (8 * f) m = enum_field rt m put" "0 < f" "f < 16" "is_int32 x" "x = 0 \<Longrightarrow> put x = m"
    and "parses rt sw (put x) r m'"
  shows "parses rt sw m ((if x \<noteq> 0 then rt_WriteEnum rt f x else []) @ r) m'"
proof (cases "x = 0")
  case False
  obtain b where b: "rt_WriteEnum rt f x = char_of (8 * f) # b" "rt_ReadVarint rt (b @ r) = (nat (x mod 2 ^ 64), Some r)"
    using write_enum [OF assms(2-4)] by blast
  have "parses rt sw m (char_of (8 * f) # b @ r) m'"
    using assms b to_int32_read [OF assms(4)] by (intro parses_step [where mid = "put x"]) (auto simp: enum_field_def)
  with False b show ?thesis by simp
qed (use assms in simp)

lemma parses_int64:
  assumes "sw (8 * f) m = int64_field rt put" "0 < f" "f < 16" "is_int64 x" "x = 0 \<Longrightarrow> put x = m"
    and "parses rt sw (put x) r m'"
  shows "parses rt sw m ((if x \<noteq> 0 then rt_WriteInt64 rt f x else []) @ r) m'"
proof (cases "x = 0")
  case False
  obtain b where b: "rt_WriteInt64 rt f x = char_of (8 * f) # b" "rt_ReadVarint rt (b @ r) = (nat (x mod 2 ^ 64), Some r)"
    using write_int64 [OF assms(2-4)] by blast
  have "parses rt sw m (char_of (8 * f) # b @ r) m'"
    using assms b to_int64_read [OF assms(4)] by (intro parses_step [where mid = "put x"]) (auto simp: int64_field_def)
  with False b show ?thesis by simp
qed (use assms in simp)

lemma read_written_message:
  assumes "0 < f" "f < 16" "parses rt sw' sub w x" "\<And>m s. parse m s = parse_loop rt sw' (length s) m s"
  obtains b where "rt_WriteMessage rt f w = char_of (8 * f + 2) # b" "length w \<le> length b"
    "\<And>r. length (b @ r) < 2 ^ 31 \<Longrightarrow> parse_message rt parse sub (b @ r) = Some (x, Some r)"
proof -
  obtain b where b: "rt_WriteMessage rt f w = char_of (8 * f + 2) # b" "length w \<le> length b"
    "\<And>r. length w < 2 ^ 31 \<Longrightarrow> rt_ReadLength rt (b @ r) = Some (w, Some r)"
    using write_message [OF assms(1,2), of w] by blast
  have "parse_message rt parse sub (b @ r) = Some (x, Some r)" if "length (b @ r) < 2 ^ 31" for r
    using that b assms(4) parses_loop [OF assms(3)] by (simp add: parse_message_def)
  with b(1,2) show ?thesis by (rule that)
qed

lemma parses_message:
  assumes "sw (8 * f + 2) m = message_field rt parse sub put" "0 < f" "f < 16"
    and "parses rt sw' sub w x" "\<And>m s. parse m s = parse_loop rt sw' (length s) m s"
    and "parses rt sw (put x) r m'"
  shows "parses rt sw m (rt_WriteMessage rt f w @ r) m'"
proof -
  obtain b where b: "rt_WriteMessage rt f w = char_of (8 * f + 2) # b"
    "length (b @ r) < 2 ^ 31 \<Longrightarrow> parse_message rt parse sub (b @ r) = Some (x, Some r)"
    using read_written_message [OF assms(2-5)] by blast
  have "parses rt sw m (char_of (8 * f + 2) # b @ r) m'"
    using assms b by (intro parses_step [where mid = "put x"]) (auto simp: message_field_def)
  with b show ?thesis by simp
qed

lemmas parses_field = parses_string parses_int32 parses_enum parses_int64

lemma QueryMessageListRequest_parses: "QueryMessageListRequest_ranges m \<Longrightarrow> QueryMessageListRequest_utf8 rt m \<Longrightarrow> parses rt (QueryMessageListRequest_case rt) QueryMessageListRequest_default (QueryMessageListRequest_ToArray rt m @ []) m"
  unfolding QueryMessageListRequest_ToArray_def append_assoc
  by ((rule parses_field, rule QueryMessageListRequest_cases, simp, simp, simp add: QueryMessageListRequest_ranges_def QueryMessageListRequest_utf8_def, simp add: QueryMessageListRequest_default_def)+,
    rule parses_done, simp add: QueryMessageListRequest_default_def)

lemma KeyAgreementRequest_parses: "KeyAgreementRequest_ranges m \<Longrightarrow> KeyAgreementRequest_utf8 rt m \<Longrightarrow> parses rt (KeyAgreementRequest_case rt) KeyAgreementRequest_default (KeyAgreementRequest_ToArray rt m @ []) m"
  unfolding KeyAgreementRequest_ToArray_def append_assoc
  by ((rule parses_field, rule KeyAgreementRequest_cases, simp, simp, simp add: KeyAgreementRequest_ranges_def KeyAgreementRequest_utf8_def, simp add: KeyAgreementRequest_default_def)+,
    rule parses_done, simp add: KeyAgreementRequest_default_def)

lemma KeyCheckRequest_parses: "KeyCheckRequest_ranges m \<Longrightarrow> KeyCheckRequest_utf8 rt m \<Longrightarrow> parses rt (KeyCheckRequest_case rt) KeyCheckRequest_default (KeyCheckRequest_ToArray rt m @ []) m"
  unfolding KeyCheckRequest_ToArray_def append_assoc
  by ((rule parses_field, rule KeyCheckRequest_cases, simp, simp, simp add: KeyCheckRequest_ranges_def KeyCheckRequest_utf8_def, simp add: KeyCheckRequest_default_def)+,
    rule parses_done, simp add: KeyCheckRequest_default_def)

lemma KeyLogoutRequest_parses: "KeyLogoutRequest_ranges m \<Longrightarrow> KeyLogoutRequest_utf8 rt m \<Longrightarrow> parses rt (KeyLogoutRequest_case rt) KeyLogoutRequest_default (KeyLogoutRequest_ToArray rt m @ []) m"
  unfolding KeyLogoutRequest_ToArray_def append_assoc
  by ((rule parses_field, rule KeyLogoutRequest_cases, simp, simp, simp add: KeyLogoutRequest_ranges_def KeyLogoutRequest_utf8_def, simp add: KeyLogoutRequest_default_def)+,
    rule parses_done, simp add: KeyLogoutRequest_default_def)

lemma KeyOperationResponse_parses: "KeyOperationResponse_ranges m \<Longrightarrow> KeyOperationResponse_utf8 rt m \<Longrightarrow> parses rt (KeyOperationResponse_case rt) KeyOperationResponse_default (KeyOperationResponse_ToArray rt m @ []) m"
  unfolding KeyOperationResponse_ToArray_def append_assoc
  by ((rule parses_field, rule KeyOperationResponse_cases, simp, simp, simp add: KeyOperationResponse_ranges_def KeyOperationResponse_utf8_def, simp add: KeyOperationResponse_default_def)+,
    rule parses_done, simp add: KeyOperationResponse_default_def)

lemma Header_parses: "Header_ranges m \<Longrightarrow> Header_utf8 rt m \<Longrightarrow> parses rt (Header_case rt) Header_default (Header_ToArray rt m @ []) m"
  unfolding Header_ToArray_def append_assoc
  by ((rule parses_field, rule Header_cases, simp, simp, simp add: Header_ranges_def Header_utf8_def, simp add: Header_default_def)+,
    rule parses_done, simp add: Header_default_def)

lemma EncryptedMessage_parses: "EncryptedMessage_ranges m \<Longrightarrow> EncryptedMessage_utf8 rt m \<Longrightarrow> parses rt (EncryptedMessage_case rt) EncryptedMessage_default (EncryptedMessage_ToArray rt m @ []) m"
  unfolding EncryptedMessage_ToArray_def append_assoc
  by ((rule parses_field, rule EncryptedMessage_cases, simp, simp, simp add: EncryptedMessage_ranges_def EncryptedMessage_utf8_def, simp add: EncryptedMessage_default_def)+,
    rule parses_done, simp add: EncryptedMessage_default_def)

lemma SendMessageResponse_parses: "SendMessageResponse_ranges m \<Longrightarrow> SendMessageResponse_utf8 rt m \<Longrightarrow> parses rt (SendMessageResponse_case rt) SendMessageResponse_default (SendMessageResponse_ToArray rt m @ []) m"
  unfolding SendMessageResponse_ToArray_def append_assoc
  by ((rule parses_field, rule SendMessageResponse_cases, simp, simp, simp add: SendMessageResponse_ranges_def SendMessageResponse_utf8_def, simp add: SendMessageResponse_default_def)+,
    rule parses_done, simp add: SendMessageResponse_default_def)

lemma QueryMessageRequest_parses: "QueryMessageRequest_ranges m \<Longrightarrow> QueryMessageRequest_utf8 rt m \<Longrightarrow> parses rt (QueryMessageRequest_case rt) QueryMessageRequest_default (QueryMessageRequest_ToArray rt m @ []) m"
  unfolding QueryMessageRequest_ToArray_def append_assoc
  by ((rule parses_field, rule QueryMessageRequest_cases, simp, simp, simp add: QueryMessageRequest_ranges_def QueryMessageRequest_utf8_def, simp add: QueryMessageRequest_default_def)+,
    rule parses_done, simp add: QueryMessageRequest_default_def)

lemma QueryMessageResponse_parses: "QueryMessageResponse_ranges m \<Longrightarrow> QueryMessageResponse_utf8 rt m \<Longrightarrow> parses rt (QueryMessageResponse_case rt) QueryMessageResponse_default (QueryMessageResponse_ToArray rt m @ []) m"
  unfolding QueryMessageResponse_ToArray_def append_assoc
  by ((rule parses_field, rule QueryMessageResponse_cases, simp, simp, simp add: QueryMessageResponse_ranges_def QueryMessageResponse_utf8_def, simp add: QueryMessageResponse_default_def)+,
    rule parses_done, simp add: QueryMessageResponse_default_def)

lemma MessageSummary_parses: "MessageSummary_ranges m \<Longrightarrow> MessageSummary_utf8 rt m \<Longrightarrow> parses rt (MessageSummary_case rt) MessageSummary_default (MessageSummary_ToArray rt m @ []) m"
  unfolding MessageSummary_ToArray_def append_assoc
  by ((rule parses_field, rule MessageSummary_cases, simp, simp, simp add: MessageSummary_ranges_def MessageSummary_utf8_def, simp add: MessageSummary_default_def)+,
    rule parses_done, simp add: MessageSummary_default_def)


lemma SendMessageRequest_parses:
  assumes "SendMessageRequest_ranges m" "SendMessageRequest_utf8 rt m"
  shows "parses rt (SendMessageRequest_case rt) SendMessageRequest_default (SendMessageRequest_ToArray rt m @ []) m"
proof (cases "smr_message m")
  case None
  then show ?thesis
    by (simp add: SendMessageRequest_ToArray_def SendMessageRequest_default_def parses_done)
next
  case (Some x)
  with assms have "EncryptedMessage_ranges x" "EncryptedMessage_utf8 rt x"
    by (simp_all add: SendMessageRequest_ranges_def SendMessageRequest_utf8_def)
  then have x: "parses rt (EncryptedMessage_case rt) (smr_get_message SendMessageRequest_default) (EncryptedMessage_ToArray rt x) x"
    using EncryptedMessage_parses [of x] by (simp add: smr_get_message_def SendMessageRequest_default_def)
  have "parses rt (SendMessageRequest_case rt) SendMessageRequest_default
      (rt_WriteMessage rt 1 (EncryptedMessage_ToArray rt x) @ []) m"
    by (rule parses_message, rule SendMessageRequest_cases, simp, simp, rule x, rule EncryptedMessage_InternalParse_def,
      rule parses_done, simp add: SendMessageRequest_default_def Some [symmetric])
  with Some show ?thesis by (simp add: SendMessageRequest_ToArray_def)
qed

lemma summary_written:
  assumes "MessageSummary_ranges y" "MessageSummary_utf8 rt y"
  obtains b where "rt_WriteMessage rt 3 (MessageSummary_ToArray rt y) = char_of (26 :: nat) # b"
    "\<And>r. length (b @ r) < 2 ^ 31 \<Longrightarrow>
       parse_message rt (MessageSummary_InternalParse rt) MessageSummary_default (b @ r) = Some (y, Some r)"
proof -
  have y: "parses rt (MessageSummary_case rt) MessageSummary_default (MessageSummary_ToArray rt y) y"
    using MessageSummary_parses [OF assms] by simp
  obtain b where "rt_WriteMessage rt 3 (MessageSummary_ToArray rt y) = char_of (8 * 3 + 2 :: nat) # b"
    "\<And>r. length (b @ r) < 2 ^ 31 \<Longrightarrow>
       parse_message rt (MessageSummary_InternalParse rt) MessageSummary_default (b @ r) = Some (y, Some r)"
    by (rule read_written_message [where f = 3, OF _ _ y MessageSummary_InternalParse_def]) simp_all
  then show ?thesis by (intro that [of b]) simp_all
qed

text \<open>The bytes of a non-empty list of summaries, read by the loop that starts behind the first tag.\<close>

lemma summaries_read:
  assumes "\<forall>x \<in> set (y # ys). MessageSummary_ranges x \<and> MessageSummary_utf8 rt x"
  shows "\<exists>b. concat (map (\<lambda>x. rt_WriteMessage rt 3 (MessageSummary_ToArray rt x)) (y # ys)) = char_of (26 :: nat) # b \<and>
    (length b < 2 ^ 31 \<longrightarrow> (\<forall>n ms. length b < n \<longrightarrow> parse_summaries rt n ms b = Some (ms @ y # ys, Some [])))"
  using assms
proof (induction ys arbitrary: y)
  case Nil
  then have y: "MessageSummary_ranges y" "MessageSummary_utf8 rt y" by simp_all
  from summary_written [OF y] obtain b where b: "rt_WriteMessage rt 3 (MessageSummary_ToArray rt y) = char_of (26 :: nat) # b"
    "\<And>r. length (b @ r) < 2 ^ 31 \<Longrightarrow>
       parse_message rt (MessageSummary_InternalParse rt) MessageSummary_default (b @ r) = Some (y, Some r)"
    by metis
  have "parse_summaries rt n ms b = Some (ms @ [y], Some [])" if "length b < 2 ^ 31" "length b < n" for n ms
    using b(2) [of "[]"] that by (cases n) simp_all
  with b(1) show ?case by simp
next
  case (Cons z zs)
  then have y: "MessageSummary_ranges y" "MessageSummary_utf8 rt y" by simp_all
  from summary_written [OF y] obtain b where b: "rt_WriteMessage rt 3 (MessageSummary_ToArray rt y) = char_of (26 :: nat) # b"
    "\<And>r. length (b @ r) < 2 ^ 31 \<Longrightarrow>
       parse_message rt (MessageSummary_InternalParse rt) MessageSummary_default (b @ r) = Some (y, Some r)"
    by metis
  obtain b' where b': "concat (map (\<lambda>x. rt_WriteMessage rt 3 (MessageSummary_ToArray rt x)) (z # zs)) = char_of (26 :: nat) # b'"
    "length b' < 2 ^ 31 \<Longrightarrow> length b' < n \<Longrightarrow> parse_summaries rt n ms b' = Some (ms @ z # zs, Some [])" for n ms
    using Cons.IH [of z] Cons.prems by auto
  have "parse_summaries rt n ms (b @ char_of (26 :: nat) # b') = Some (ms @ y # z # zs, Some [])"
    if "length (b @ char_of (26 :: nat) # b') < 2 ^ 31" "length (b @ char_of (26 :: nat) # b') < n" for n ms
    using b(2) [OF that(1)] b'(2) [of "n - 1" "ms @ [y]"] that by (cases n) (simp_all add: Let_def)
  with b(1) b'(1) show ?case by simp
qed

lemma QueryMessageListResponse_parses:
  assumes "QueryMessageListResponse_ranges m" "QueryMessageListResponse_utf8 rt m"
  shows "parses rt (QueryMessageListResponse_case rt) QueryMessageListResponse_default
    (QueryMessageListResponse_ToArray rt m @ []) m"
proof -
  let ?m = "QueryMessageListResponse_default\<lparr>lr_code := lr_code m, lr_message := lr_message m\<rparr>"
  let ?w = "concat (map (\<lambda>x. rt_WriteMessage rt 3 (MessageSummary_ToArray rt x)) (lr_messages m))"
  have "parses rt (QueryMessageListResponse_case rt) ?m ?w m"
  proof (cases "lr_messages m")
    case Nil
    then show ?thesis by (simp add: QueryMessageListResponse_default_def parses_done)
  next
    case (Cons y ys)
    obtain b where b: "?w = char_of (26 :: nat) # b"
      "length b < 2 ^ 31 \<Longrightarrow> length b < n \<Longrightarrow> parse_summaries rt n ms b = Some (ms @ y # ys, Some [])" for n ms
      using summaries_read [of y ys] assms Cons by (auto simp: QueryMessageListResponse_ranges_def QueryMessageListResponse_utf8_def)
    have "QueryMessageListResponse_case rt 26 ?m (b @ []) = Field m (Some [])" if "length b < 2 ^ 31"
      using b(2) [of "Suc (length b)" "[]"] that
      by (simp add: QueryMessageListResponse_case_def QueryMessageListResponse_default_def Cons [symmetric])
    then have "parses rt (QueryMessageListResponse_case rt) ?m (char_of (26 :: nat) # b @ []) m"
      by (intro parses_step [where mid = m]) (simp_all add: parses_done)
    with b(1) show ?thesis by simp
  qed
  then show ?thesis
    unfolding QueryMessageListResponse_ToArray_def append_assoc append_Nil2
    using assms by - ((rule parses_enum parses_string, rule QueryMessageListResponse_cases, simp, simp,
        simp add: QueryMessageListResponse_ranges_def QueryMessageListResponse_utf8_def, simp add: QueryMessageListResponse_default_def)+, simp)
qed

lemma RequestPacket_parses:
  assumes "RequestPacket_ranges p" "RequestPacket_utf8 rt p"
  shows "parses rt (RequestPacket_case rt) RequestPacket_default (RequestPacket_ToArray rt p @ []) p"
proof -
  let ?m = "RequestPacket_default\<lparr>rq_header := rq_header p\<rparr>"
  obtain w where w: "RequestPacket_ToArray rt p =
      (case rq_header p of None \<Rightarrow> [] | Some x \<Rightarrow> rt_WriteMessage rt 1 (Header_ToArray rt x)) @ w"
    and body: "parses rt (RequestPacket_case rt) ?m w p"
  proof (cases "rq_body p")
    case NoRequest
    have "parses rt (RequestPacket_case rt) ?m [] p"
      using NoRequest by (intro parses_done) (simp add: RequestPacket_default_def)
    with NoRequest show ?thesis by (intro that [of "[]"]) (simp_all add: RequestPacket_ToArray_def)
  next
    case (SendMsgReq x)
    with assms have x: "parses rt (SendMessageRequest_case rt) SendMessageRequest_default (SendMessageRequest_ToArray rt x) x"
      using SendMessageRequest_parses [of x] by (simp add: RequestPacket_ranges_def RequestPacket_utf8_def)
    have "parses rt (RequestPacket_case rt) ?m (rt_WriteMessage rt 2 (SendMessageRequest_ToArray rt x) @ []) p"
      by (rule parses_message, rule RequestPacket_cases, simp, simp, simp add: RequestPacket_default_def, rule x,
        rule SendMessageRequest_InternalParse_def, rule parses_done, simp add: RequestPacket_default_def SendMsgReq [symmetric])
    with SendMsgReq show ?thesis by (intro that) (simp_all add: RequestPacket_ToArray_def)
  next
    case (QueryMsgReq x)
    with assms have x: "parses rt (QueryMessageRequest_case rt) QueryMessageRequest_default (QueryMessageRequest_ToArray rt x) x"
      using QueryMessageRequest_parses [of x] by (simp add: RequestPacket_ranges_def RequestPacket_utf8_def)
    have "parses rt (RequestPacket_case rt) ?m (rt_WriteMessage rt 3 (QueryMessageRequest_ToArray rt x) @ []) p"
      by (rule parses_message, rule RequestPacket_cases, simp, simp, simp add: RequestPacket_default_def, rule x,
        rule QueryMessageRequest_InternalParse_def, rule parses_done, simp add: RequestPacket_default_def QueryMsgReq [symmetric])
    with QueryMsgReq show ?thesis by (intro that) (simp_all add: RequestPacket_ToArray_def)
  next
    case (QueryMsgListReq x)
    with assms have x: "parses rt (QueryMessageListRequest_case rt) QueryMessageListRequest_default (QueryMessageListRequest_ToArray rt x) x"
      using QueryMessageListRequest_parses [of x] by (simp add: RequestPacket_ranges_def RequestPacket_utf8_def)
    have "parses rt (RequestPacket_case rt) ?m (rt_WriteMessage rt 4 (QueryMessageListRequest_ToArray rt x) @ []) p"
      by (rule parses_message, rule RequestPacket_cases, simp, simp, simp add: RequestPacket_default_def, rule x,
        rule QueryMessageListRequest_InternalParse_def, rule parses_done, simp add: RequestPacket_default_def QueryMsgListReq [symmetric])
    with QueryMsgListReq show ?thesis by (intro that) (simp_all add: RequestPacket_ToArray_def)
  next
    case (KeyAgreeReq x)
    with assms have x: "parses rt (KeyAgreementRequest_case rt) KeyAgreementRequest_default (KeyAgreementRequest_ToArray rt x) x"
      using KeyAgreementRequest_parses [of x] by (simp add: RequestPacket_ranges_def RequestPacket_utf8_def)
    have "parses rt (RequestPacket_case rt) ?m (rt_WriteMessage rt 5 (KeyAgreementRequest_ToArray rt x) @ []) p"
      by (rule parses_message, rule RequestPacket_cases, simp, simp, simp add: RequestPacket_default_def, rule x,
        rule KeyAgreementRequest_InternalParse_def, rule parses_done, simp add: RequestPacket_default_def KeyAgreeReq [symmetric])
    with KeyAgreeReq show ?thesis by (intro that) (simp_all add: RequestPacket_ToArray_def)
  next
    case (KeyCheckReq x)
    with assms have x: "parses rt (KeyCheckRequest_case rt) KeyCheckRequest_default (KeyCheckRequest_ToArray rt x) x"
      using KeyCheckRequest_parses [of x] by (simp add: RequestPacket_ranges_def RequestPacket_utf8_def)
    have "parses rt (RequestPacket_case rt) ?m (rt_WriteMessage rt 6 (KeyCheckRequest_ToArray rt x) @ []) p"
      by (rule parses_message, rule RequestPacket_cases, simp, simp, simp add: RequestPacket_default_def, rule x,
        rule KeyCheckRequest_InternalParse_def, rule parses_done, simp add: RequestPacket_default_def KeyCheckReq [symmetric])
    with KeyCheckReq show ?thesis by (intro that) (simp_all add: RequestPacket_ToArray_def)
  next
    case (KeyLogoutReq x)
    with assms have x: "parses rt (KeyLogoutRequest_case rt) KeyLogoutRequest_default (KeyLogoutRequest_ToArray rt x) x"
      using KeyLogoutRequest_parses [of x] by (simp add: RequestPacket_ranges_def RequestPacket_utf8_def)
    have "parses rt (RequestPacket_case rt) ?m (rt_WriteMessage rt 7 (KeyLogoutRequest_ToArray rt x) @ []) p"
      by (rule parses_message, rule RequestPacket_cases, simp, simp, simp add: RequestPacket_default_def, rule x,
        rule KeyLogoutRequest_InternalParse_def, rule parses_done, simp add: RequestPacket_default_def KeyLogoutReq [symmetric])
    with KeyLogoutReq show ?thesis by (intro that) (simp_all add: RequestPacket_ToArray_def)
  qed
  show ?thesis
  proof (cases "rq_header p")
    case None
    with w body show ?thesis by (simp add: RequestPacket_default_def)
  next
    case (Some h)
    with assms have h: "parses rt (Header_case rt) Header_default (Header_ToArray rt h) h"
      using Header_parses [of h] by (simp add: RequestPacket_ranges_def RequestPacket_utf8_def)
    have "parses rt (RequestPacket_case rt) RequestPacket_default (rt_WriteMessage rt 1 (Header_ToArray rt h) @ w) p"
      by (rule parses_message, rule RequestPacket_cases, simp, simp, simp add: RequestPacket_default_def get_header_def, rule h,
        rule Header_InternalParse_def, rule body [unfolded Some])
    with w Some show ?thesis by simp
  qed
qed

lemma ResponsePacket_parses:
  assumes "ResponsePacket_ranges p" "ResponsePacket_utf8 rt p"
  shows "parses rt (ResponsePacket_case rt) ResponsePacket_default (ResponsePacket_ToArray rt p @ []) p"
proof -
  let ?m = "ResponsePacket_default\<lparr>rs_header := rs_header p\<rparr>"
  obtain w where w: "ResponsePacket_ToArray rt p =
      (case rs_header p of None \<Rightarrow> [] | Some x \<Rightarrow> rt_WriteMessage rt 1 (Header_ToArray rt x)) @ w"
    and body: "parses rt (ResponsePacket_case rt) ?m w p"
  proof (cases "rs_body p")
    case NoResponse
    have "parses rt (ResponsePacket_case rt) ?m [] p"
      using NoResponse by (intro parses_done) (simp add: ResponsePacket_default_def)
    with NoResponse show ?thesis by (intro that [of "[]"]) (simp_all add: ResponsePacket_ToArray_def)
  next
    case (SendMsgResp x)
    with assms have x: "parses rt (SendMessageResponse_case rt) SendMessageResponse_default (SendMessageResponse_ToArray rt x) x"
      using SendMessageResponse_parses [of x] by (simp add: ResponsePacket_ranges_def ResponsePacket_utf8_def)
    have "parses rt (ResponsePacket_case rt) ?m (rt_WriteMessage rt 2 (SendMessageResponse_ToArray rt x) @ []) p"
      by (rule parses_message, rule ResponsePacket_cases, simp, simp, simp add: ResponsePacket_default_def, rule x,
        rule SendMessageResponse_InternalParse_def, rule parses_done, simp add: ResponsePacket_default_def SendMsgResp [symmetric])
    with SendMsgResp show ?thesis by (intro that) (simp_all add: ResponsePacket_ToArray_def)
  next
    case (QueryMsgResp x)
    with assms have x: "parses rt (QueryMessageResponse_case rt) QueryMessageResponse_default (QueryMessageResponse_ToArray rt x) x"
      using QueryMessageResponse_parses [of x] by (simp add: ResponsePacket_ranges_def ResponsePacket_utf8_def)
    have "parses rt (ResponsePacket_case rt) ?m (rt_WriteMessage rt 3 (QueryMessageResponse_ToArray rt x) @ []) p"
      by (rule parses_message, rule ResponsePacket_cases, simp, simp, simp add: ResponsePacket_default_def, rule x,
        rule QueryMessageResponse_InternalParse_def, rule parses_done, simp add: ResponsePacket_default_def QueryMsgResp [symmetric])
    with QueryMsgResp show ?thesis by (intro that) (simp_all add: ResponsePacket_ToArray_def)
  next
    case (QueryMsgListResp x)
    with assms have x: "parses rt (QueryMessageListResponse_case rt) QueryMessageListResponse_default (QueryMessageListResponse_ToArray rt x) x"
      using QueryMessageListResponse_parses [of x] by (simp add: ResponsePacket_ranges_def ResponsePacket_utf8_def)
    have "parses rt (ResponsePacket_case rt) ?m (rt_WriteMessage rt 4 (QueryMessageListResponse_ToArray rt x) @ []) p"
      by (rule parses_message, rule ResponsePacket_cases, simp, simp, simp add: ResponsePacket_default_def, rule x,
        rule QueryMessageListResponse_InternalParse_def, rule parses_done, simp add: ResponsePacket_default_def QueryMsgListResp [symmetric])
    with QueryMsgListResp show ?thesis by (intro that) (simp_all add: ResponsePacket_ToArray_def)
  next
    case (KeyOpResp x)
    with assms have x: "parses rt (KeyOperationResponse_case rt) KeyOperationResponse_default (KeyOperationResponse_ToArray rt x) x"
      using KeyOperationResponse_parses [of x] by (simp add: ResponsePacket_ranges_def ResponsePacket_utf8_def)
    have "parses rt (ResponsePacket_case rt) ?m (rt_WriteMessage rt 5 (KeyOperationResponse_ToArray rt x) @ []) p"
      by (rule parses_message, rule ResponsePacket_cases, simp, simp, simp add: ResponsePacket_default_def, rule x,
        rule KeyOperationResponse_InternalParse_def, rule parses_done, simp add: ResponsePacket_default_def KeyOpResp [symmetric])
    with KeyOpResp show ?thesis by (intro that) (simp_all add: ResponsePacket_ToArray_def)
  qed
  show ?thesis
  proof (cases "rs_header p")
    case None
    with w body show ?thesis by (simp add: ResponsePacket_default_def)
  next
    case (Some h)
    with assms have h: "parses rt (Header_case rt) Header_default (Header_ToArray rt h) h"
      using Header_parses [of h] by (simp add: ResponsePacket_ranges_def ResponsePacket_utf8_def)
    have "parses rt (ResponsePacket_case rt) ResponsePacket_default (rt_WriteMessage rt 1 (Header_ToArray rt h) @ w) p"
      by (rule parses_message, rule ResponsePacket_cases, simp, simp, simp add: ResponsePacket_default_def get_header_def, rule h,
        rule Header_InternalParse_def, rule body [unfolded Some])
    with w Some show ?thesis by simp
  qed
qed

text \<open>The codecs on the generated code give back what was sent.\<close>

lemma request_read_back:
  assumes "RequestPacket_ranges p" "RequestPacket_utf8 rt p" "length (encodeRequest (pb_wire rt) p) < 2 ^ 31"
  shows "decodeRequest (pb_wire rt) (encodeRequest (pb_wire rt) p) = p"
  using parses_loop [OF RequestPacket_parses [OF assms(1,2), unfolded append_Nil2]] assms(3)
  by (simp add: decodeRequest_def encodeRequest_def pb_wire_def parsed_def RequestPacket_InternalParse_def)

lemma response_read_back:
  assumes "ResponsePacket_ranges p" "ResponsePacket_utf8 rt p" "length (encodeResponse (pb_wire rt) p) < 2 ^ 31"
  shows "decodeResponse (pb_wire rt) (encodeResponse (pb_wire rt) p) = p"
  using parses_loop [OF ResponsePacket_parses [OF assms(1,2), unfolded append_Nil2]] assms(3)
  by (simp add: decodeResponse_def encodeResponse_def pb_wire_def parsed_def ResponsePacket_InternalParse_def)

end

section \<open>Properties\<close>

definition demo_request :: RequestPacket where
  "demo_request = \<lparr>rq_header = Some \<lparr>h_message_id = ''m1'', h_command = CMD_QUERY_MSG_LIST_REQ, h_sender_id = ''alice'',
       h_receiver_id = ''srv'', h_timestamp = - 1\<rparr>,
     rq_body = QueryMsgListReq \<lparr>qml_sender_id = ''alice'', qml_limit = 300\<rparr>\<rparr>"

definition demo_response :: ResponsePacket where
  "demo_response = \<lparr>rs_header = None, rs_body = QueryMsgListResp \<lparr>lr_code = RESULT_SUCCESS, lr_message = ''ok'',
     lr_messages = [MessageSummary_default\<lparr>ms_sender_id := ''alice'', ms_key_id := - 5\<rparr>, MessageSummary_default]\<rparr>\<rparr>"

text \<open>Evaluation on concrete packets.\<close>

lemmas base128_eval = base128_def put_int_def put_bytes_def u64_def bytes_size_def put_varint.simps is_int32_def is_int64_def

lemmas demo_eval = base128_eval demo_request_def demo_response_def MessageSummary_default_def
  encodeRequest_def encodeResponse_def pb_wire_def RequestPacket_ToArray_def ResponsePacket_ToArray_def Header_ToArray_def
  QueryMessageListRequest_ToArray_def QueryMessageListResponse_ToArray_def MessageSummary_ToArray_def
  RequestPacket_ByteSizeLong_def ResponsePacket_ByteSizeLong_def Header_ByteSizeLong_def
  QueryMessageListRequest_ByteSizeLong_def QueryMessageListResponse_ByteSizeLong_def MessageSummary_ByteSizeLong_def
  RequestPacket_ranges_def ResponsePacket_ranges_def Header_ranges_def QueryMessageListRequest_ranges_def
  QueryMessageListResponse_ranges_def MessageSummary_ranges_def
  RequestPacket_utf8_def ResponsePacket_utf8_def Header_utf8_def QueryMessageListRequest_utf8_def
  QueryMessageListResponse_utf8_def MessageSummary_utf8_def

text \<open>C14. Requests and responses survive the wire: over any protobuf library that keeps the documented
  format, a packet whose integers fit their fields and whose texts are UTF-8 is read back by the generated
  parsers exactly as the generated serializers wrote it, with every optional sub-message, every case of the
  body and every list of summaries, as long as it is shorter than 2 GB.\<close>

theorem packets_read_back:
  assumes "protobuf rt"
  shows "(RequestPacket_ranges p \<and> RequestPacket_utf8 rt p \<and> length (encodeRequest (pb_wire rt) p) < 2 ^ 31 \<longrightarrow>
      decodeRequest (pb_wire rt) (encodeRequest (pb_wire rt) p) = p) \<and>
    (ResponsePacket_ranges q \<and> ResponsePacket_utf8 rt q \<and> length (encodeResponse (pb_wire rt) q) < 2 ^ 31 \<longrightarrow>
      decodeResponse (pb_wire rt) (encodeResponse (pb_wire rt) q) = q)"
  using protobuf.request_read_back [OF assms] protobuf.response_read_back [OF assms] by blast

theorem packets_read_back_witness:
  "length (encodeRequest (pb_wire base128) demo_request) = 43 \<and>
   decodeRequest (pb_wire base128) (encodeRequest (pb_wire base128) demo_request) = demo_request \<and>
   length (encodeResponse (pb_wire base128) demo_response) = 30 \<and>
   decodeResponse (pb_wire base128) (encodeResponse (pb_wire base128) demo_response) = demo_response"
proof -
  have len: "length (encodeRequest (pb_wire base128) demo_request) = 43"
    "length (encodeResponse (pb_wire base128) demo_response) = 30" by (simp_all add: demo_eval)
  moreover have "RequestPacket_ranges demo_request" "RequestPacket_utf8 base128 demo_request"
    "ResponsePacket_ranges demo_response" "ResponsePacket_utf8 base128 demo_response" by (simp_all add: demo_eval)
  ultimately show ?thesis using packets_read_back [OF base128.protobuf_axioms, of demo_request demo_response] by simp
qed

text \<open>C15. The parsers end: whatever bytes arrive, and whatever the packet already holds, both parsers come to
  the end of the input, to an end-group tag or to a failure; no input keeps a worker in their loops, and
  \<open>decodeMsg\<close> always has a packet to return.\<close>

theorem parsers_end:
  assumes "protobuf rt"
  shows "(\<exists>m e. RequestPacket_InternalParse rt p s = Some (m, e)) \<and>
    (\<exists>m e. ResponsePacket_InternalParse rt q s = Some (m, e))"
  using protobuf.RequestPacket_total [OF assms, of p s] protobuf.ResponsePacket_total [OF assms, of q s]
  by (metis not_None_eq surj_pair)

theorem parsers_end_witness:
  "(\<exists>m e. RequestPacket_InternalParse base128 demo_request (replicate 9 (CHR 0x0A)) = Some (m, e)) \<and>
   (\<exists>m e. ResponsePacket_InternalParse base128 demo_response (replicate 9 (CHR 0x0A)) = Some (m, e))"
  using parsers_end [OF base128.protobuf_axioms] by blast

text \<open>C16. The buffer is exactly filled: the serializers, which do not look at the end of the buffer that
  \<open>ByteSizeLong\<close> has sized, write exactly that many bytes, whatever the texts of the packet hold.\<close>

theorem buffer_filled:
  assumes "protobuf rt"
  shows "(RequestPacket_ranges p \<longrightarrow> length (RequestPacket_ToArray rt p) = RequestPacket_ByteSizeLong rt p) \<and>
    (ResponsePacket_ranges q \<longrightarrow> length (ResponsePacket_ToArray rt q) = ResponsePacket_ByteSizeLong rt q)"
  using protobuf.RequestPacket_size [OF assms] protobuf.ResponsePacket_size [OF assms] by blast

theorem buffer_filled_witness:
  "RequestPacket_ByteSizeLong base128 demo_request = 43 \<and> length (RequestPacket_ToArray base128 demo_request) = 43 \<and>
   ResponsePacket_ByteSizeLong base128 demo_response = 30 \<and> length (ResponsePacket_ToArray base128 demo_response) = 30"
proof -
  have "RequestPacket_ByteSizeLong base128 demo_request = 43" "ResponsePacket_ByteSizeLong base128 demo_response = 30"
    "RequestPacket_ranges demo_request" "ResponsePacket_ranges demo_response" by (simp_all add: demo_eval)
  then show ?thesis using buffer_filled [OF base128.protobuf_axioms, of demo_request demo_response] by simp
qed

end
