(* ===== verification/OverProtobuf.thy ===== *)
theory OverProtobuf
  imports Session ServerAnswers ProtobufProps
begin

text \<open>
  Client and server over the generated protobuf code. \<open>Session\<close> asks of the byte format that it carries
  the request and the answer in question; here this is shown of \<open>pb_wire\<close>, over every protobuf library
  that keeps the format, for the key operations: what the client builds and what the handlers answer always
  fits, if the identifiers are short texts in ASCII and the clocks are numbers of 64 bits.
\<close>

section \<open>Short texts\<close>

abbreviation ascii_text :: "string \<Rightarrow> bool" where
  "ascii_text \<equiv> list_all (\<lambda>c. (of_char c :: nat) < 128)"

definition short :: "string \<Rightarrow> bool" where
  "short x \<longleftrightarrow> ascii_text x \<and> length x \<le> 1000"

definition plain :: "string \<Rightarrow> bool" where
  "plain x \<longleftrightarrow> ascii_text x \<and> length x \<le> 2 ^ 20"

lemma short_plain: "short x \<Longrightarrow> plain x"
  by (simp add: short_def plain_def)

lemma show_nat_ascii: "ascii_text (show_nat n)"
  using show_nat_digits [of _ n] by (force simp: list_all_iff is_digit_def)

lemma show_nat_length: "n < 10 ^ Suc k \<Longrightarrow> length (show_nat n) \<le> Suc k"
proof (induction k arbitrary: n)
  case 0
  then show ?case by (simp add: show_nat.simps [of n])
next
  case (Suc k)
  then have "n div 10 < 10 ^ Suc k" by (simp add: div_less_iff_less_mult mult.commute)
  then show ?case using Suc.IH [of "n div 10"] by (simp add: show_nat.simps [of n])
qed

lemma show_u64_length: "length (show_u64 w) \<le> 20"
proof -
  have "unat w < 2 ^ 64" using unsigned_less [of w] by simp
  then show ?thesis using show_nat_length [of "unat w" 19] by (simp add: show_u64_def)
qed

text \<open>Clock readings are \<open>time_t\<close> and a number of microseconds, both of 64 bits.\<close>

definition clocks_fit :: "env \<Rightarrow> bool" where
  "clocks_fit env \<longleftrightarrow> (\<forall>k. is_int64 (e_time env k)) \<and> (\<forall>k. e_micros env k < 2 ^ 63)"

text \<open>\<open>id + "_" + micros + "_" + sequence\<close>.\<close>

lemma scoped_plain:
  assumes "short i" "n < 2 ^ 63"
  shows "plain (i @ ''_'' @ show_nat n @ ''_'' @ show_u64 w)"
  using assms show_nat_length [of n 18] show_u64_length [of w] show_nat_ascii
  by (simp add: short_def plain_def show_u64_def)

section \<open>Packets of short texts fit a frame\<close>

definition header_plain :: "Header \<Rightarrow> bool" where
  "header_plain h \<longleftrightarrow> is_int32 (h_command h) \<and> is_int64 (h_timestamp h) \<and> plain (h_message_id h) \<and>
     plain (h_sender_id h) \<and> plain (h_receiver_id h)"

definition answer_plain :: "KeyOperationResponse \<Rightarrow> bool" where
  "answer_plain r \<longleftrightarrow> is_int32 (ko_code r) \<and> is_int32 (ko_key_id r) \<and> plain (ko_message r) \<and> plain (ko_data r)"

fun key_request_plain :: "RequestBody \<Rightarrow> bool" where
  "key_request_plain (KeyAgreeReq r) = (plain (kar_public_key r) \<and> plain (kar_sign r))"
| "key_request_plain (KeyCheckReq r) = is_int32 (kcr_key_id r)"
| "key_request_plain (KeyLogoutReq r) = is_int32 (klr_key_id r)"
| "key_request_plain b = False"

context protobuf
begin

lemma plain_utf8: "plain x \<Longrightarrow> rt_utf8 rt x"
  by (simp add: plain_def)

lemma plain_size: "plain x \<Longrightarrow> rt_StringSize rt x \<le> 2 ^ 20 + 5"
  using size_bounds(4) [of x] by (simp add: plain_def)

lemma plain_header:
  assumes "header_plain h"
  shows "Header_ranges h" "Header_utf8 rt h" "Header_ByteSizeLong rt h < 2 ^ 22"
  using assms plain_utf8 plain_size [of "h_message_id h"] plain_size [of "h_sender_id h"] plain_size [of "h_receiver_id h"]
    size_bounds(3) [of "h_command h"] size_bounds(2) [of "h_timestamp h"]
  by (simp_all add: header_plain_def Header_ranges_def Header_utf8_def Header_ByteSizeLong_def)

lemma plain_answer:
  assumes "answer_plain r"
  shows "KeyOperationResponse_ranges r" "KeyOperationResponse_utf8 rt r" "KeyOperationResponse_ByteSizeLong rt r < 2 ^ 22"
  using assms plain_utf8 plain_size [of "ko_message r"] plain_size [of "ko_data r"]
    size_bounds(3) [of "ko_code r"] size_bounds(1) [of "ko_key_id r"]
  by (simp_all add: answer_plain_def KeyOperationResponse_ranges_def KeyOperationResponse_utf8_def
      KeyOperationResponse_ByteSizeLong_def)

lemma plain_agreement:
  assumes "plain (kar_public_key r)" "plain (kar_sign r)"
  shows "KeyAgreementRequest_ranges r" "KeyAgreementRequest_utf8 rt r" "KeyAgreementRequest_ByteSizeLong rt r < 2 ^ 22"
  using assms plain_utf8 plain_size [of "kar_public_key r"] plain_size [of "kar_sign r"]
  by (simp_all add: KeyAgreementRequest_ranges_def KeyAgreementRequest_utf8_def KeyAgreementRequest_ByteSizeLong_def)

lemma plain_key_id:
  assumes "is_int32 (kcr_key_id r)" "is_int32 (klr_key_id q)"
  shows "KeyCheckRequest_ByteSizeLong rt r < 2 ^ 22" "KeyLogoutRequest_ByteSizeLong rt q < 2 ^ 22"
  using size_bounds(1) [OF assms(1)] size_bounds(1) [OF assms(2)]
  by (simp_all add: KeyCheckRequest_ByteSizeLong_def KeyLogoutRequest_ByteSizeLong_def)

lemma key_answer_travels:
  assumes "header_plain h" "answer_plain r"
  shows "resp_travels (pb_wire rt) \<lparr>rs_header = Some h, rs_body = KeyOpResp r\<rparr>"
proof -
  let ?p = "\<lparr>rs_header = Some h, rs_body = KeyOpResp r\<rparr>"
  have ok: "ResponsePacket_ranges ?p" "ResponsePacket_utf8 rt ?p"
    using plain_header [OF assms(1)] plain_answer [OF assms(2)]
    by (simp_all add: ResponsePacket_ranges_def ResponsePacket_utf8_def)
  have "ResponsePacket_ByteSizeLong rt ?p + 4 < 2 ^ 31"
    using plain_header(3) [OF assms(1)] plain_answer(3) [OF assms(2)] message_bound [of "Header_ByteSizeLong rt h"]
      message_bound [of "KeyOperationResponse_ByteSizeLong rt r"] by (simp add: ResponsePacket_ByteSizeLong_def)
  then show ?thesis
    using response_read_back [OF ok] ResponsePacket_size [OF ok(1)]
    by (simp add: resp_travels_def fits_frame_def encodeResponse_def decodeResponse_def pb_wire_def)
qed

lemma key_request_travels:
  assumes "rq_header p = Some h" "header_plain h" "key_request_plain (rq_body p)"
  shows "req_travels (pb_wire rt) p"
proof -
  have ok: "RequestPacket_ranges p" "RequestPacket_utf8 rt p"
    using assms(1,3) plain_header [OF assms(2)] plain_agreement
    by (auto simp: RequestPacket_ranges_def RequestPacket_utf8_def KeyCheckRequest_ranges_def KeyLogoutRequest_ranges_def
        KeyCheckRequest_utf8_def KeyLogoutRequest_utf8_def split: RequestBody.split)
  note h = plain_header(3) [OF assms(2)] message_bound [of "Header_ByteSizeLong rt h"]
  have "RequestPacket_ByteSizeLong rt p + 4 < 2 ^ 31"
  proof (cases "rq_body p")
    case (KeyAgreeReq r)
    with assms(3) have "KeyAgreementRequest_ByteSizeLong rt r < 2 ^ 22" by (intro plain_agreement) simp_all
    with KeyAgreeReq assms(1) h message_bound [of "KeyAgreementRequest_ByteSizeLong rt r"] show ?thesis
      by (simp add: RequestPacket_ByteSizeLong_def)
  next
    case (KeyCheckReq r)
    with assms(3) have "KeyCheckRequest_ByteSizeLong rt r < 2 ^ 22"
      using plain_key_id(1) [of r "KeyLogoutRequest_default"] by (simp add: KeyLogoutRequest_default_def is_int32_def)
    with KeyCheckReq assms(1) h message_bound [of "KeyCheckRequest_ByteSizeLong rt r"] show ?thesis
      by (simp add: RequestPacket_ByteSizeLong_def)
  next
    case (KeyLogoutReq r)
    with assms(3) have "KeyLogoutRequest_ByteSizeLong rt r < 2 ^ 22"
      using plain_key_id(2) [of "KeyCheckRequest_default" r] by (simp add: KeyCheckRequest_default_def is_int32_def)
    with KeyLogoutReq assms(1) h message_bound [of "KeyLogoutRequest_ByteSizeLong rt r"] show ?thesis
      by (simp add: RequestPacket_ByteSizeLong_def)
  qed (use assms(3) in simp_all)
  then show ?thesis
    using request_read_back [OF ok] RequestPacket_size [OF ok(1)]
    by (simp add: req_travels_def fits_frame_def encodeRequest_def decodeRequest_def pb_wire_def)
qed

end

section \<open>What the client builds\<close>

lemma buildKeyHeader_plain:
  assumes "buildKeyHeader env cmd c = (h, c')" "clocks_fit env" "is_int32 cmd"
    and "short (ci_clientId (m_info c))" "short (ci_serverId (m_info c))"
  shows "header_plain (pb_header h)"
  using assms scoped_plain [OF assms(4)]
  by (auto simp: buildKeyHeader_def client_time_def time_now_def micros_now_def Let_def header_plain_def clocks_fit_def
      short_plain)

text \<open>Encoded bytes are ASCII and at most twice as long, and what RSA makes is short.\<close>

definition rsa_texts_fit :: "env \<Rightarrow> bool" where
  "rsa_texts_fit env \<longleftrightarrow> (\<forall>x. ascii_text (e_b64_enc env x) \<and> length (e_b64_enc env x) \<le> 2 * length x + 4) \<and>
     (\<forall>k r m c. e_rsa_encrypt env k r m = Some (Some c) \<longrightarrow> length c \<le> 2 ^ 16) \<and>
     (\<forall>k r m c. e_rsa_sign env k r m = Some (Some c) \<longrightarrow> length c \<le> 2 ^ 16) \<and>
     (\<forall>k. plain (e_pem_text env (fst (e_keygen env k))))"

lemma encoded_plain: "rsa_texts_fit env \<Longrightarrow> length x \<le> 2 ^ 16 \<Longrightarrow> plain (e_b64_enc env x)"
  by (fastforce simp: rsa_texts_fit_def plain_def dest: spec [of _ x])

lemma plain_Nil [simp]: "plain []"
  by (simp add: plain_def)

lemma rsa_plain:
  assumes "rsa_texts_fit env"
  shows "rsaPublicEncrypt env k r x = Some y \<Longrightarrow> plain y" "rsaSign env k r x = Some y \<Longrightarrow> plain y"
  using assms encoded_plain [OF assms]
  by (auto simp: rsaPublicEncrypt_def rsaSign_def bind_eq_Some_conv rsa_texts_fit_def split: option.splits)

section \<open>What the handlers answer\<close>

definition info_plain :: "V2KeyOperationResponseInfo \<Rightarrow> bool" where
  "info_plain r \<longleftrightarrow> header_plain (pb_header (vko_header r)) \<and> is_int32 (vko_code r) \<and> is_int32 (vko_keyId r) \<and>
     plain (vko_message r) \<and> plain (vko_data r)"

lemma yields_plain:
  assumes "clocks_fit env" "rq_header p = Some rh" "header_plain rh" "plain (sv_id s)"
    and "is_int32 c" "is_int32 code" "is_int32 k" "plain msg" "plain d"
  shows "yields info_plain (Some (makeKeyResponse env p c code msg k d s))"
  using assms
  by (auto simp: yields_def makeKeyResponse_def buildKeyResponseHeader_def service_time_def time_now_def Let_def info_plain_def
      header_plain_def clocks_fit_def empty_header_def)

lemma answer_texts [simp]:
  "plain ''invalid key logout request''" "plain ''logout failed in db''" "plain ''logout success''"
  "plain ''db logout success, shm update failed''" "plain ''invalid key agreement request''" "plain ''verify sign failed''"
  "plain ''write db failed''" "plain ''key agreement success''"
  by (simp_all add: plain_def)

lemma answer_codes [simp]:
  "is_int32 0" "is_int32 1" "is_int32 2" "is_int32 6" "is_int32 7" "is_int32 8" "is_int32 9" "is_int32 10"
  "is_int32 11" "is_int32 12"
  by (simp_all add: is_int32_def)

lemma SeckeyLogout_plain:
  assumes "clocks_fit env" "rq_header p = Some rh" "header_plain rh" "plain (sv_id s)"
    and "rq_body p = KeyLogoutReq r" "is_int32 (klr_key_id r)"
  shows "yields info_plain (SeckeyLogout env p s)"
  using assms unfolding SeckeyLogout_def Let_def
  by (auto intro!: yields_bind yields_let yields_if yields_plain dest!: key_calls_id(2,4))

lemma stored_key_id:
  assumes "store_key env node s = Some ((True, node'), s')"
  shows "is_int32 (n_seckeyID node')"
proof -
  from assms obtain m m' where "writeSecKeyWithTrans env node m = Some ((True, node'), m')"
    by (auto simp: store_key_def bind_eq_Some_conv split: option.splits)
  from writeSecKeyWithTrans_success [OF this] obtain k where "rotates env node k (tbl m) (tbl m')"
    "node' = node\<lparr>n_seckeyID := k, n_status := 1\<rparr>" by auto
  then show ?thesis by (auto simp: rotates_def rotate_ready_def is_int32_def)
qed

lemma seckeyAgree_plain:
  assumes "clocks_fit env" "rsa_texts_fit env" "rq_header p = Some rh" "header_plain rh" "plain (sv_id s)"
    and "rq_body p = KeyAgreeReq r"
  shows "yields info_plain (seckeyAgree env p s)"
  using assms unfolding seckeyAgree_def Let_def
  by (auto intro!: yields_bind [where m = "verify_agreement _ _ _ _"] yields_bind [where m = "store_key _ _ _"] yields_call
        yields_let yields_if yields_plain
      dest!: key_calls_id(5) getRandKey_effect(4) verify_agreement_effect(3) dest: key_calls_id(3) stored_key_id rsa_plain(1))

lemma agreement_request_plain:
  assumes req: "agreement_request env c = Some (Some (rsa, info), c')" and "files_ok env" "\<And>k. e_ssl env k"
    and fit: "clocks_fit env" "rsa_texts_fit env" "short (ci_clientId (m_info c))" "short (ci_serverId (m_info c))"
  shows "header_plain (pb_header (vka_header info))" "plain (vka_publicKey info)" "plain (vka_sign info)"
proof -
  from agreement_request_made [OF req assms(2,3)] obtain i pub pri where "e_keygen env i = (pub, pri)"
    "vka_publicKey info = e_pem_text env pub" by metis
  with fit(2) show "plain (vka_publicKey info)" by (metis rsa_texts_fit_def fst_conv)
  obtain r w files where g: "generateKeyPair env ''pub.pem'' ''pri.pem'' RsaCrypto_empty (cl_proc c, cl_files c) =
      (r, w, files)" by (metis prod.exhaust)
  obtain h c1 where h: "buildKeyHeader env CMD_KEY_AGREE_REQ (c\<lparr>cl_proc := w, cl_files := files\<rparr>) = (h, c1)" by fastforce
  obtain k c2 where k: "next_ssl c1 = (k, c2)" by fastforce
  from req g h k have "vka_header info = h" and sign: "\<exists>x. rsaSign env k rsa x = Some (vka_sign info)"
    by (auto simp: agreement_request_def Let_def bind_eq_Some_conv split: option.splits)
  with buildKeyHeader_plain [OF h fit(1)] fit(3,4) show "header_plain (pb_header (vka_header info))" by simp
  from sign rsa_plain(2) [OF fit(2)] show "plain (vka_sign info)" by blast
qed

section \<open>An environment of this kind\<close>

text \<open>Clocks that stand still, bytes encoded in hexadecimal digits, RSA that refuses data longer than a key.\<close>

definition hex_val :: "char \<Rightarrow> nat" where
  "hex_val c = (let n = of_char c in if n < 58 then n - 48 else n - 87)"

fun unhex :: "string \<Rightarrow> string" where
  "unhex (a # b # cs) = char_of (16 * hex_val a + hex_val b) # unhex cs"
| "unhex _ = []"

definition still_env :: env where
  "still_env = calm_env\<lparr>e_time := \<lambda>k. 5, e_micros := \<lambda>k. 7, e_b64_enc := \<lambda>x. concat (map hex2 x),
     e_b64_read := \<lambda>s. (int (length (unhex s)), unhex s),
     e_rsa_encrypt := \<lambda>k pem m. Some (if length m \<le> 245 then Some (rev m) else None),
     e_rsa_sign := \<lambda>k pem m. Some (if length m \<le> 245 then Some (rev m) else None)\<rparr>"

lemma of_hex_digit: "d < 16 \<Longrightarrow> of_char (hex_digit d) = (if d < 10 then 48 + d else 87 + d)"
  by (simp add: hex_digit_def)

lemma hex_digit_plain: "d < 16 \<Longrightarrow> (of_char (hex_digit d) :: nat) < 128" "d < 16 \<Longrightarrow> hex_digit d \<noteq> NUL"
proof -
  show "(of_char (hex_digit d) :: nat) < 128" if "d < 16" using that by (simp add: of_hex_digit)
  show "hex_digit d \<noteq> NUL" if "d < 16"
  proof
    assume "hex_digit d = NUL"
    then have "(of_char (hex_digit d) :: nat) = 0" by simp
    with of_hex_digit [OF that] show False by (simp split: if_splits)
  qed
qed

lemma hex_val_digit [simp]: "d < 16 \<Longrightarrow> hex_val (hex_digit d) = d"
  by (simp add: hex_val_def of_hex_digit Let_def)

lemma char_halves [simp]: "(of_char (c :: char) :: nat) div 16 < 16" "(of_char c :: nat) mod 16 < 16"
  using nat_of_char_less_256 [of c] by (simp_all add: less_mult_imp_div_less)

lemma unhex_hex [simp]: "unhex (concat (map hex2 x)) = x"
  by (induction x) (simp_all add: hex2_def)

lemma hex_ascii: "ascii_text (concat (map hex2 x))" "length (concat (map hex2 x)) = 2 * length x"
  "NUL \<notin> set (concat (map hex2 x))"
  by (induction x) (auto simp: hex2_def hex_digit_plain dest: sym)

lemma still_env_simps [simp]:
  "e_ssl still_env k" "files_ok still_env" "base64_ok still_env" "rsa_ok still_env" "clocks_fit still_env"
  "rsa_texts_fit still_env"
proof -
  show "base64_ok still_env" using hex_ascii(3) by (simp add: base64_ok_def still_env_def)
qed (auto simp: still_env_def files_ok_def rsa_ok_def clocks_fit_def is_int64_def rsa_texts_fit_def hex_ascii plain_def
    split: if_splits)

section \<open>Properties\<close>

text \<open>C6. A logout over protobuf: whatever the library under the generated code, as long as it keeps the
  format, and whatever the two networks do, when \<open>keyLogout\<close> has made the client's cached key unusable, the
  server has revoked it and never hands it out again. That request and answer survive the wire is not assumed:
  the identifiers are short, the clocks and the key number have the width of their types.\<close>

theorem logout_over_protobuf:
  assumes pb: "protobuf rt" and run: "keyLogout env (pb_wire rt) net (server_peer env (pb_wire rt) snet fd) c = Some c'"
    and up: "cl_world c = Some s" and k: "k = n_seckeyID (shmRead (ci_clientId (m_info c)) (ci_serverId (m_info c)) (m_shm c))"
    and fit: "clocks_fit env" "short (ci_clientId (m_info c))" "short (ci_serverId (m_info c))" "short (sv_id s)" "is_int32 k"
    and was: "n_status (shmRead (ci_clientId (m_info c)) (ci_serverId (m_info c)) (m_shm c)) = 1"
    and is_now: "n_status (shmRead (ci_clientId (m_info c)) (ci_serverId (m_info c)) (m_shm c')) \<noteq> 1"
    and db: "sv_db s = Some m" "snap m = None"
  shows "\<exists>s1. cl_world c' = Some s1 \<and> (\<forall>s2 rk s3. serves env s1 s2 \<longrightarrow>
     getActiveKey env (ci_clientId (m_info c)) (ci_serverId (m_info c)) k s2 = Some (rk, s3) \<longrightarrow> \<not> ak_valid rk)"
proof -
  obtain h c1 where h: "buildKeyHeader env CMD_KEY_LOGOUT_REQ c = (h, c1)" by fastforce
  let ?p = "init_logout_req \<lparr>vkl_header = h, vkl_keyId = k\<rparr> RequestPacket_default"
  have p: "rq_header ?p = Some (pb_header h)" "rq_body ?p = KeyLogoutReq \<lparr>klr_key_id = k\<rparr>"
    by (simp_all add: init_logout_req_def)
  have hp: "header_plain (pb_header h)" using buildKeyHeader_plain [OF h fit(1)] fit(2,3) by simp
  have "req_travels (pb_wire rt) ?p" using protobuf.key_request_travels [OF pb p(1) hp] p(2) fit(5) by simp
  moreover have "resp_travels (pb_wire rt) resp" if d: "dispatch env ?p s = Some (resp, s')" for resp s'
  proof -
    from dispatch_logout [OF d] obtain out where out: "SeckeyLogout env ?p s = Some (out, s')"
      "resp = init_key_resp out ResponsePacket_default" .
    with SeckeyLogout_plain [OF fit(1) p(1) hp short_plain [OF fit(4)] p(2)] fit(5) have "info_plain out"
      by (auto simp: yields_def)
    with out(2) protobuf.key_answer_travels [OF pb] show ?thesis
      by (simp add: info_plain_def init_key_resp_def answer_plain_def ResponsePacket_default_def)
  qed
  ultimately show ?thesis by (rule logout_end_to_end [OF run up h refl k _ _ was is_now db])
qed

theorem logout_over_protobuf_witness:
  "\<exists>c' s1. keyLogout still_env (pb_wire base128) demo_net (server_peer still_env (pb_wire base128) demo_net 7)
      (beside demo_alice demo_service) = Some c' \<and> cl_world c' = Some s1 \<and>
     (\<forall>s2 rk s3. serves still_env s1 s2 \<longrightarrow> getActiveKey still_env ''alice'' ''srv'' 6 s2 = Some (rk, s3) \<longrightarrow> \<not> ak_valid rk)"
proof -
  let ?c = "beside demo_alice demo_service"
  let ?run = "keyLogout still_env (pb_wire base128) demo_net (server_peer still_env (pb_wire base128) demo_net 7) ?c"
  have "map_option (\<lambda>c. n_status (shmRead ''alice'' ''srv'' (m_shm c))) ?run = Some 0" by code_simp
  then obtain c' where run: "?run = Some c'" and after: "n_status (shmRead ''alice'' ''srv'' (m_shm c')) = 0" by auto
  have ids: "ci_clientId (m_info ?c) = ''alice''" "ci_serverId (m_info ?c) = ''srv''"
    and node: "6 = n_seckeyID (shmRead ''alice'' ''srv'' (m_shm ?c))" "n_status (shmRead ''alice'' ''srv'' (m_shm ?c)) = 1"
    by code_simp+
  have up: "cl_world ?c = Some demo_service" by (simp add: beside_def)
  have "short ''alice''" "short ''srv''" "is_int32 6" by (simp_all add: short_def is_int32_def)
  then have "\<exists>s1. cl_world c' = Some s1 \<and> (\<forall>s2 rk s3. serves still_env s1 s2 \<longrightarrow>
      getActiveKey still_env (ci_clientId (m_info ?c)) (ci_serverId (m_info ?c)) 6 s2 = Some (rk, s3) \<longrightarrow> \<not> ak_valid rk)"
    using node after
    by (intro logout_over_protobuf [OF base128.protobuf_axioms run up, where m = "fresh_conn demo_tables"])
      (simp_all add: ids)
  with run show ?thesis by (auto simp: ids)
qed



end
