(* ===== verification/Shared.thy ===== *)
theory Shared
  imports KeyLife
begin

text \<open>
  The workers of the pool share one MySQL connection: \<open>ServerOP\<close> has one \<open>mysqlOP\<close> with one handle, and
  nothing makes a handler wait for another. Here the rotation of \<open>mysqlOP::writeSecKeyWithTrans\<close> is a task
  that yields at every call of the client library. Run alone it is the rotation of \<open>KeyStore\<close>; run in turns
  with another one it is not a transaction any more.
\<close>

section \<open>Tasks\<close>

text \<open>A task is what a thread still has to do: nothing, or a statement, or fetching the result set, and then
  what depends on the answer.\<close>

datatype 'a task =
    Return 'a
  | Query sql "bool \<Rightarrow> 'a task"
  | Fetch "sql_rows option \<Rightarrow> 'a task"

primrec and_then :: "'a task \<Rightarrow> ('a \<Rightarrow> 'b task) \<Rightarrow> 'b task" where
  "and_then (Return x) g = g x"
| "and_then (Query q f) g = Query q (\<lambda>ok. and_then (f ok) g)"
| "and_then (Fetch f) g = Fetch (\<lambda>r. and_then (f r) g)"

primrec exec :: "'a task \<Rightarrow> env \<Rightarrow> mysql \<Rightarrow> ('a \<times> mysql) option" where
  "exec (Return x) = (\<lambda>env m. Some (x, m))"
| "exec (Query q f) = (\<lambda>env m. case mysql_query env q m of None \<Rightarrow> None | Some (ok, m) \<Rightarrow> exec (f ok) env m)"
| "exec (Fetch f) = (\<lambda>env m. let (r, m) = mysql_store_result env m in exec (f r) env m)"

lemma exec_and_then [simp]:
  "exec (and_then t g) env m = (case exec t env m of None \<Rightarrow> None | Some (x, m) \<Rightarrow> exec (g x) env m)"
  by (induction t arbitrary: m) (simp_all split: option.split prod.split)

section \<open>The rotation as a task\<close>

definition keysn_task :: "int option task" where
  "keysn_task = Query SelectKeysn (\<lambda>ok. if \<not> ok then Return None
     else Fetch (\<lambda>r. Return (case r of
         None \<Rightarrow> None
       | Some rows \<Rightarrow> (case first_column rows of
           None \<Rightarrow> None
         | Some x \<Rightarrow> if atoi x \<le> 0 then None else Some (atoi x)))))"

definition active_task :: "string \<Rightarrow> string \<Rightarrow> int option task" where
  "active_task c v = Query (SelectActiveKeys c v) (\<lambda>ok. if \<not> ok then Return None
     else Fetch (\<lambda>r. Return (case r of
         None \<Rightarrow> None
       | Some rows \<Rightarrow> (case first_column rows of None \<Rightarrow> Some 0 | Some x \<Rightarrow> Some (atoi x)))))"

definition replace_task :: "string \<Rightarrow> string \<Rightarrow> string \<Rightarrow> int \<Rightarrow> int \<Rightarrow> bool task" where
  "replace_task c v sk keyID rotatedFrom =
     Query (RotateActiveKeys c v) (\<lambda>ok. if \<not> ok then Return False
     else Query (InsertKey c v keyID sk (if rotatedFrom > 0 then Some rotatedFrom else None)) (\<lambda>ok.
       if \<not> ok then Return False else Query BumpKeysn Return))"

definition undo_task :: "'a \<Rightarrow> 'a task" where
  "undo_task x = Query Rollback (\<lambda>_. Return x)"

definition rotation_task :: "NodeSHMInfo \<Rightarrow> (bool \<times> NodeSHMInfo) task" where
  "rotation_task p =
     (let c = c_str (n_clientID p); v = c_str (n_serverID p) in
      Query StartTransaction (\<lambda>ok. if \<not> ok then Return (False, p)
      else and_then keysn_task (\<lambda>key. case key of
          None \<Rightarrow> undo_task (False, p)
        | Some keyID \<Rightarrow> and_then (active_task c v) (\<lambda>old. case old of
            None \<Rightarrow> undo_task (False, p)
          | Some rotatedFrom \<Rightarrow> and_then (replace_task c v (c_str (n_seckey p)) keyID rotatedFrom) (\<lambda>ok.
              if \<not> ok then undo_task (False, p)
              else Query Commit (\<lambda>ok. if \<not> ok then undo_task (False, p)
              else Return (True, p\<lparr>n_seckeyID := keyID, n_status := state_code Active\<rparr>)))))))"

lemma bind_pair: "m \<bind> (\<lambda>(x, s). f x s) = (case m of None \<Rightarrow> None | Some (x, s) \<Rightarrow> f x s)"
  by (cases m) auto

lemma exec_keysn [simp]: "exec keysn_task env m = lock_keysn env m"
  by (auto simp: keysn_task_def lock_keysn_def bind_pair split: option.split prod.split)

lemma exec_active [simp]: "exec (active_task c v) env m = lock_active env c v m"
  by (auto simp: active_task_def lock_active_def bind_pair split: option.split prod.split)

lemma exec_replace [simp]:
  "exec (replace_task c v sk k old) env m = rotate_and_insert env c v sk k old m"
  by (auto simp: replace_task_def rotate_and_insert_def bind_pair split: option.split prod.split)

lemma exec_undo [simp]: "exec (undo_task x) env m = rollback env x m"
  by (auto simp: undo_task_def rollback_def bind_pair split: option.split prod.split)


section \<open>Taking turns\<close>

text \<open>One call of the client library; the connection belongs to whoever calls. What a statement has left as
  its result set is fetched by its own task before another one speaks in the schedules below, so that the
  library has nothing to complain of.\<close>

fun task_step :: "env \<Rightarrow> 'a task \<Rightarrow> mysql \<Rightarrow> ('a task \<times> mysql) option" where
  "task_step env (Return x) m = None"
| "task_step env (Query q f) m = (case mysql_query env q m of None \<Rightarrow> None | Some (ok, m) \<Rightarrow> Some (f ok, m))"
| "task_step env (Fetch f) m = (let (r, m) = mysql_store_result env m in Some (f r, m))"

fun interleave :: "env \<Rightarrow> nat list \<Rightarrow> 'a task list \<Rightarrow> mysql \<Rightarrow> ('a task list \<times> mysql) option" where
  "interleave env [] ts m = Some (ts, m)"
| "interleave env (i # is) ts m =
     (if length ts \<le> i then None
      else (case task_step env (ts ! i) m of None \<Rightarrow> None | Some (t, m) \<Rightarrow> interleave env is (ts[i := t]) m))"

text \<open>A task that has the connection for itself to its end has the effect of \<^const>\<open>exec\<close>.\<close>

lemma interleave_append:
  "interleave env (xs @ ys) ts m = (case interleave env xs ts m of None \<Rightarrow> None | Some (ts, m) \<Rightarrow> interleave env ys ts m)"
  by (induction env xs ts m rule: interleave.induct) (simp_all split: option.split prod.split)

lemma interleave_uninterrupted:
  assumes "exec t env m = Some (x, m')" and "i < length ts"
  shows "\<exists>n. interleave env (replicate n i) (ts[i := t]) m = Some (ts[i := Return x], m')"
  using assms
proof (induction t arbitrary: m)
  case (Return y)
  then show ?case by (intro exI [of _ 0]) simp
next
  case (Query q f)
  from Query.prems obtain ok m1 where q: "mysql_query env q m = Some (ok, m1)" "exec (f ok) env m1 = Some (x, m')"
    by (auto split: option.splits)
  from Query.IH [OF rangeI q(2) Query.prems(2)] obtain n where
    "interleave env (replicate n i) (ts[i := f ok]) m1 = Some (ts[i := Return x], m')" by blast
  with q(1) Query.prems(2) show ?case by (intro exI [of _ "Suc n"]) simp
next
  case (Fetch f)
  obtain r m1 where r: "mysql_store_result env m = (r, m1)" by fastforce
  with Fetch.prems have e: "exec (f r) env m1 = Some (x, m')" by simp
  from Fetch.IH [OF rangeI e Fetch.prems(2)] obtain n where
    "interleave env (replicate n i) (ts[i := f r]) m1 = Some (ts[i := Return x], m')" by blast
  with r Fetch.prems(2) show ?case by (intro exI [of _ "Suc n"]) simp
qed

text \<open>Two agreements of one client, in turns: both start a transaction on the one connection and read the same
  number; the second one's insertion meets the first one's and is refused, and its rollback takes the first
  one's row with it; the first one goes on, commits nothing, and reports success.\<close>

definition turns :: "nat list" where
  "turns = [0, 1, 0, 0, 1, 1, 0, 0, 1, 1, 0, 0, 1, 1, 1, 0, 0]"

lemma two_results:
  assumes "case x of Some ([Return (True, p), Return (False, q)], m) \<Rightarrow> P p m | _ \<Rightarrow> False"
  shows "\<exists>p q m. x = Some ([Return (True, p), Return (False, q)], m) \<and> P p m"
proof -
  from assms obtain ts m where x: "x = Some (ts, m)" by (cases x) auto
  with assms obtain t us where ts: "ts = t # us" by (cases ts) auto
  with assms x obtain a where t: "t = Return a" by (cases t) auto
  with assms x ts obtain p where a: "a = (True, p)" by (cases a; cases "fst a") auto
  with assms x ts t obtain u vs where us: "us = u # vs" by (cases us) auto
  with assms x ts t a obtain b where u: "u = Return b" by (cases u) auto
  with assms x ts t a us obtain q where b: "b = (False, q)" by (cases b; cases "fst b") auto
  with assms x ts t a us u have "vs = []" by (cases vs) auto
  with assms x ts t a us u b show ?thesis by simp
qed

definition demo_node2 :: NodeSHMInfo where
  "demo_node2 = demo_node\<lparr>n_seckey := ''fedcba9876543210'' @ replicate 112 NUL\<rparr>"

text \<open>C12. The rotation is no transaction for the server as it is: with a database that answers every
  statement, two key agreements that share the connection can end so that one reports success for a key of
  which the tables, with no transaction open, have no row; the key it replaced is still active. (The comment
  in the code says that the lock on the number makes agreements wait for each other; locks are held against
  other connections only.)\<close>

theorem rotation_lost:
  "\<exists>is p q m'. interleave calm_env is [rotation_task demo_node, rotation_task demo_node2] (fresh_conn demo_tables) =
       Some ([Return (True, p), Return (False, q)], m') \<and>
     n_status p = state_code Active \<and> snap m' = None \<and>
     list_all (\<lambda>r. kr_keyid r \<noteq> n_seckeyID p) (t_keys (tbl m')) \<and> t_keys (tbl m') = t_keys demo_tables"
proof -
  have "case interleave calm_env turns [rotation_task demo_node, rotation_task demo_node2] (fresh_conn demo_tables) of
      Some ([Return (True, p), Return (False, q)], m') \<Rightarrow> n_status p = state_code Active \<and> snap m' = None \<and>
        list_all (\<lambda>r. kr_keyid r \<noteq> n_seckeyID p) (t_keys (tbl m')) \<and> t_keys (tbl m') = t_keys demo_tables
    | _ \<Rightarrow> False"
    by code_simp
  from two_results [OF this] show ?thesis by blast
qed

end
