(* ===== verification/Running.thy ===== *)
theory Running
  imports ServerAnswers LoopProps Wire
begin

text \<open>
  The whole server: the threads of \<open>EventLoop\<close> with \<open>processV2Request\<close> as what a worker makes of a request.
  What is known of sequences of requests holds at every moment of a run, whatever the threads, the network
  and the peers do, as long as one request is processed at a time.
\<close>

section \<open>The state of the handlers along a run\<close>

text \<open>Only processing a request changes it.\<close>

lemma take_task_state: "take_task i s = Some s' \<Longrightarrow> lp_state s' = lp_state s"
  by (auto simp: take_task_def set_worker_def split: if_splits list.splits)

lemma worker_step_state:
  assumes "worker_step net process i w s = Some s'" and "\<And>fd c d. w \<noteq> Process fd c d"
  shows "lp_state s' = lp_state s"
  using assms take_task_state [of i s s']
  by (cases w) (auto simp: set_worker_def close_fd_def unmarkFdProcessing_def split: option.splits prod.splits)

lemma main_step_state: "main_step a pc s = Some s' \<Longrightarrow> lp_state s' = lp_state s"
  by (erule main_step.elims)
     (auto simp: markFdProcessing_def accept_conn_def close_fd_def enqueue_def Let_def split: if_splits prod.splits)

text \<open>The answers that have been sent or are about to be.\<close>

fun unsent :: "worker \<Rightarrow> string set" where
  "unsent (Send fd c r) = {r}"
| "unsent _ = {}"

definition answers :: "'st loop \<Rightarrow> string set" where
  "answers s = (snd \<circ> snd) ` set (lp_sent s) \<union> (\<Union>w \<in> set (m_workers s). unsent w)"

lemma answers_set_worker: "answers (set_worker i w s) \<subseteq> answers s \<union> unsent w"
  using set_update_subset_insert [of "m_workers s" i w] by (auto simp: answers_def set_worker_def)

lemma answers_quietD: "x \<in> answers (set_worker i w s) \<Longrightarrow> unsent w = {} \<Longrightarrow> x \<in> answers s"
  using answers_set_worker [of i w s] by auto

lemma answers_frame [simp]:
  "answers (s\<lparr>k_conns := x\<rparr>) = answers s" "answers (s\<lparr>lp_state := st\<rparr>) = answers s" "answers (s\<lparr>m_server := e\<rparr>) = answers s"
  "answers (s\<lparr>m_tasks := q\<rparr>) = answers s" "answers (s\<lparr>lp_main := pc\<rparr>) = answers s" "answers (close_fd fd s) = answers s"
  "answers (unmarkFdProcessing fd s) = answers s"
  by (simp_all add: answers_def close_fd_def unmarkFdProcessing_def)

lemma take_task_answers: "take_task i s = Some s' \<Longrightarrow> answers s' \<subseteq> answers s"
  by (auto simp: take_task_def dest!: answers_quietD split: if_splits list.splits)

lemma worker_step_answers:
  assumes "worker_step net process i w s = Some s'" and "unsent w \<subseteq> answers s"
  shows "lp_state s' = lp_state s \<and> answers s' \<subseteq> answers s \<or>
     (\<exists>d r. process d (lp_state s) = Some (r, lp_state s') \<and> answers s' \<subseteq> insert r (answers s))"
proof (cases w)
  case Idle
  with assms(1) have "take_task i s = Some s'" by simp
  from take_task_answers [OF this] take_task_state [OF this] show ?thesis by blast
next
  case (Process fd c d)
  with assms(1) obtain r st where p: "process d (lp_state s) = Some (r, st)"
    and s': "s' = set_worker i (if r = [] then DelFd fd else Send fd c r) (s\<lparr>lp_state := st\<rparr>)" by (auto split: option.splits)
  from s' have "lp_state s' = st" by (simp add: set_worker_def)
  moreover have "answers s' \<subseteq> insert r (answers s)"
    using answers_set_worker [of i "if r = [] then DelFd fd else Send fd c r" "s\<lparr>lp_state := st\<rparr>"] s'
    by (auto split: if_splits)
  ultimately show ?thesis using p by blast
next
  case (Send fd c r)
  show ?thesis
  proof (cases "k_fds s fd")
    case None
    with assms(1) Send answers_set_worker [of i "DelFd fd" s] worker_step_state [OF assms(1)] show ?thesis by simp
  next
    case (Some c')
    with assms(1) Send obtain tcp where s': "s' = set_worker i (DelFd fd)
        (s\<lparr>k_conns := (k_conns s)(c' := tcp), lp_sent := lp_sent s @ [(c, c', r)]\<rparr>)" by (auto split: option.splits)
    have "answers (s\<lparr>k_conns := (k_conns s)(c' := tcp), lp_sent := lp_sent s @ [(c, c', r)]\<rparr>) = insert r (answers s)"
      by (simp add: answers_def)
    with answers_set_worker [of i "DelFd fd" "s\<lparr>k_conns := (k_conns s)(c' := tcp), lp_sent := lp_sent s @ [(c, c', r)]\<rparr>"]
      assms(2) Send s' have "answers s' \<subseteq> answers s" by auto
    with worker_step_state [OF assms(1)] Send show ?thesis by simp
  qed
qed (use assms(1) worker_step_state [OF assms(1)] in \<open>auto dest!: answers_quietD split: option.splits prod.splits if_splits\<close>)

lemma main_step_answers: "main_step a pc s = Some s' \<Longrightarrow> answers s' = answers s"
  by (erule main_step.elims)
     (auto simp: answers_def markFdProcessing_def accept_conn_def close_fd_def enqueue_def Let_def split: if_splits prod.splits)

lemma step_of_effect:
  assumes "step_of net process l s = Some s'"
  shows "lp_state s' = lp_state s \<and> answers s' \<subseteq> answers s \<or>
     (\<exists>d r. process d (lp_state s) = Some (r, lp_state s') \<and> answers s' \<subseteq> insert r (answers s))"
proof (cases l)
  case (Main a)
  with assms have "main_step a (lp_main s) s = Some s'" by (auto split: if_splits)
  from main_step_state [OF this] main_step_answers [OF this] show ?thesis by simp
next
  case (Worker i)
  with assms have i: "i < length (m_workers s)" "worker_step net process i (m_workers s ! i) s = Some s'"
    by (auto split: if_splits)
  then have "unsent (m_workers s ! i) \<subseteq> answers s" by (auto simp: answers_def)
  from worker_step_answers [OF i(2) this] show ?thesis .
qed (use assms in \<open>auto simp: connects_def arrives_def answers_def Let_def\<close>)

section \<open>Runs\<close>

inductive runs ::
    "net \<Rightarrow> (string \<Rightarrow> 'st \<Rightarrow> (string \<times> 'st) option) \<Rightarrow> 'st loop \<Rightarrow> 'st loop \<Rightarrow> bool"
  for net process where
  runs_stay: "runs net process s s"
| runs_step: "runs net process s s1 \<Longrightarrow> step_of net process l s1 = Some s2 \<Longrightarrow> runs net process s s2"

lemma serves_trans: "serves env a b \<Longrightarrow> serves env b c \<Longrightarrow> serves env a c"
  by (rotate_tac, induction rule: serves.induct) (auto intro: serves.intros)

text \<open>The bytes are the answer that the dispatcher gave to a request at some moment between \<open>a\<close> and \<open>b\<close>.\<close>

definition answered_within :: "env \<Rightarrow> wire \<Rightarrow> service \<Rightarrow> service \<Rightarrow> string \<Rightarrow> bool" where
  "answered_within env wi a b r \<longleftrightarrow> (\<exists>p s resp s'. serves env a s \<and> dispatch env p s = Some (resp, s') \<and>
     serves env s' b \<and> r = encodeResponse wi resp)"

lemma runs_sequential:
  assumes "runs net (processV2Request env wi) s s'" and "answers s = {}"
  shows "serves env (lp_state s) (lp_state s') \<and> (\<forall>r \<in> answers s'. answered_within env wi (lp_state s) (lp_state s') r)"
  using assms
proof induction
  case (runs_stay s)
  then show ?case by (simp add: serves_start)
next
  case (runs_step s s1 l s2)
  then have IH: "serves env (lp_state s) (lp_state s1)" "\<forall>r \<in> answers s1. answered_within env wi (lp_state s) (lp_state s1) r"
    by simp_all
  from step_of_effect [OF runs_step.hyps(2)] show ?case
  proof (elim disjE exE conjE)
    assume "lp_state s2 = lp_state s1" "answers s2 \<subseteq> answers s1"
    with IH show ?thesis by auto
  next
    fix d r assume "processV2Request env wi d (lp_state s1) = Some (r, lp_state s2)" and sub: "answers s2 \<subseteq> insert r (answers s1)"
    then obtain resp where d: "dispatch env (decodeRequest wi d) (lp_state s1) = Some (resp, lp_state s2)"
      and r: "r = encodeResponse wi resp" by (auto simp: processV2Request_def bind_eq_Some_conv)
    from d have st: "serves env (lp_state s1) (lp_state s2)" by (rule serves_request [OF serves_start])
    have new: "answered_within env wi (lp_state s) (lp_state s2) r"
      unfolding answered_within_def using IH(1) d r serves_start by blast
    have "answered_within env wi (lp_state s) (lp_state s2) x" if "answered_within env wi (lp_state s) (lp_state s1) x" for x
      using that serves_trans [OF _ st] unfolding answered_within_def by blast
    with IH new sub serves_trans [OF IH(1) st] show ?thesis by blast
  qed
qed

lemma sent_answers: "(c, c', r) \<in> set (lp_sent s) \<Longrightarrow> r \<in> answers s"
  by (force simp: answers_def)

lemma startServer_answers: "startServer sys n st = Some s \<Longrightarrow> answers s = {} \<and> lp_state s = st"
  by (auto simp: startServer_def answers_def Let_def split: if_splits prod.splits)

lemma run_runs: "runs net process s0 s \<Longrightarrow> run net process ls s = Some s' \<Longrightarrow> runs net process s0 s'"
  by (induction ls arbitrary: s) (auto split: option.splits intro: runs_step)


definition plain_wire :: wire where
  "plain_wire = \<lparr>w_ser_req = (\<lambda>_. ''q''), w_parse_req = (\<lambda>_. demo_check ''alice'' 6), w_ser_resp = (\<lambda>_. ''r''),
     w_parse_resp = (\<lambda>_. ResponsePacket_default)\<rparr>"


end
