(* ===== verification/Startup.thy ===== *)
theory Startup
  imports Running ClientOp
begin

text \<open>
  How the server comes up: \<open>Config::load\<close>, the segment that \<open>BaseShm.cpp\<close> finds or makes, the constructor of
  \<open>ServerOP\<close> and \<open>main\<close>; and what is left of the invariant when a server has died and is started again on its
  database and its segment. \<open>TcpServer.cpp\<close>, an older listening socket, is here, too.
\<close>

section \<open>Configuration and segment\<close>

text \<open>\<open>contents\<close>: what the JSON library makes of the file, none where the file does not open; the inner option
  is none where the text is not parsed.\<close>

definition Config_load :: "Config option option \<Rightarrow> Config \<Rightarrow> bool \<times> Config" where
  "Config_load contents root =
     (case contents of
        None \<Rightarrow> (False, root)
      | Some parsed \<Rightarrow> (case parsed of None \<Rightarrow> (False, root) | Some c \<Rightarrow> (True, c)))"

text \<open>\<open>shmget\<close> with \<open>IPC_CREAT\<close>: the segments of the kernel by key; one that is there must be large enough,
  a new one is filled with zeros.\<close>

definition getShmID :: "(int \<rightharpoonup> NodeSHMInfo list) \<Rightarrow> int \<Rightarrow> nat \<Rightarrow> NodeSHMInfo list option" where
  "getShmID segs key maxNode =
     (case segs key of
        None \<Rightarrow> Some (replicate maxNode node_new)
      | Some ns \<Rightarrow> if length ns < maxNode then None else Some ns)"

definition SecKeyShm_open :: "(string \<Rightarrow> int) \<Rightarrow> (int \<rightharpoonup> NodeSHMInfo list) \<Rightarrow> string \<Rightarrow> nat \<Rightarrow> SecKeyShm" where
  "SecKeyShm_open ftok segs pathName maxNode =
     (case getShmID segs (ftok pathName) maxNode of
        None \<Rightarrow> \<lparr>shm_ok = False, shm_nodes = []\<rparr>
      | Some ns \<Rightarrow> \<lparr>shm_ok = True, shm_nodes = take maxNode ns\<rparr>)"

section \<open>The constructor and main\<close>

text \<open>Without a configuration nothing is set: \<open>junk\<close> is what the port happens to hold. A connection that was
  refused is only reported.\<close>

record ServerOP =
  op_port :: "16 word"
  op_service :: service
  op_pool :: "nat option"

definition new_service :: "string \<Rightarrow> mysql option \<Rightarrow> SecKeyShm \<Rightarrow> service" where
  "new_service serverID db shm = \<lparr>sv_id = serverID, sv_db = db, sv_shm = shm, sv_proc = proc_start, sv_seq_msg = 0,
     sv_seq_qry = 0, sv_files = (\<lambda>_. None)\<rparr>"

definition ServerOP_new ::
    "Config option option \<Rightarrow> 16 word \<Rightarrow> bool \<Rightarrow> tables \<Rightarrow> (string \<Rightarrow> int \<Rightarrow> SecKeyShm) \<Rightarrow> ServerOP option" where
  "ServerOP_new contents junk up t shm = (
     let (ok, config) = Config_load contents \<lparr>cf_string = (\<lambda>_. Some []), cf_int = (\<lambda>_. Some 0)\<rparr> in
     if \<not> ok then
       Some \<lparr>op_port = junk, op_service = new_service [] None \<lparr>shm_ok = False, shm_nodes = []\<rparr>, op_pool = None\<rparr>
     else do {
       port \<leftarrow> getInt config ''Port'';
       serverID \<leftarrow> getString config ''ServerID'';
       userDB \<leftarrow> getString config ''UserDB'';
       passDB \<leftarrow> getString config ''PassDB'';
       dbName \<leftarrow> getString config ''ConnectDB'';
       host \<leftarrow> getString config ''Host'';
       let (_, m) = connectDb up (fresh_conn t);
       shmKey \<leftarrow> getString config ''ShmKey'';
       maxNode \<leftarrow> getInt config ''ShmMaxNode'';
       Some \<lparr>op_port = word_of_int port, op_service = new_service serverID (Some m) (shm shmKey maxNode), op_pool = Some 4\<rparr>
     })"

text \<open>Without its pool the server listens, and dies at the first event of a client; that is not followed.\<close>

definition server_main :: "(nat \<Rightarrow> int) \<Rightarrow> ServerOP \<Rightarrow> service loop option" where
  "server_main sys op = (case op_pool op of None \<Rightarrow> None | Some n \<Rightarrow> startServer sys n (op_service op))"

lemma ServerOP_new_configured:
  assumes "ServerOP_new (Some (Some cfg)) junk up t shm = Some op"
  obtains name key n where "op_service op = new_service name (Some ((fresh_conn t)\<lparr>m_conn := up\<rparr>)) (shm key n)"
    "op_pool op = Some 4" "getString cfg ''ServerID'' = Some name"
proof -
  have "connectDb up (fresh_conn t) = (up, (fresh_conn t)\<lparr>m_conn := up\<rparr>)" by (simp add: connectDb_def fresh_conn_def)
  with assms that show thesis by (auto simp: ServerOP_new_def Config_load_def bind_eq_Some_conv)
qed

lemma server_ok_new:
  assumes "wf_shm shm" and "pairs_ok env t" and "\<And>n. n \<in> set (shm_nodes shm) \<Longrightarrow> node_hit n \<Longrightarrow> backed env n t"
  shows "server_ok env (new_service name (Some ((fresh_conn t)\<lparr>m_conn := up\<rparr>)) shm)"
  using assms by (simp add: server_ok_def new_service_def committed_def fresh_conn_def)

text \<open>A fresh segment backs nothing.\<close>

lemma server_ok_first_start:
  assumes "ServerOP_new (Some (Some cfg)) junk up t (\<lambda>_ n. SecKeyShm_new True (nat n)) = Some op" and "pairs_ok env t"
  shows "server_ok env (op_service op)"
  using assms(1)
proof (rule ServerOP_new_configured)
  fix name key n assume "op_service op = new_service name (Some ((fresh_conn t)\<lparr>m_conn := up\<rparr>)) (SecKeyShm_new True (nat n))"
  then show ?thesis using server_ok_new [OF wf_shm_new assms(2)] by (auto simp: SecKeyShm_new_def split: if_splits)
qed


definition demo_config :: Config where
  "demo_config = \<lparr>cf_string = (\<lambda>k. Some (if k = ''ServerID'' then ''srv'' else ''x'')), cf_int = (\<lambda>k. Some 3)\<rparr>"


section \<open>The older listening socket\<close>

text \<open>\<open>tl_closed\<close>: the descriptors that were closed. \<^const>\<open>None\<close>: the process has exited.\<close>

record TcpServer =
  tl_lfd :: int
  tl_closed :: "int list"

definition TcpServer_new :: TcpServer where
  "TcpServer_new = \<lparr>tl_lfd = -1, tl_closed = []\<rparr>"

definition closeListen :: "TcpServer \<Rightarrow> TcpServer" where
  "closeListen t = (if tl_lfd t \<noteq> -1 then t\<lparr>tl_closed := tl_closed t @ [tl_lfd t]\<rparr> else t)"

definition setListen :: "(nat \<Rightarrow> int) \<Rightarrow> TcpServer \<Rightarrow> (int \<times> TcpServer) option" where
  "setListen sys t =
     (let t = t\<lparr>tl_lfd := sys 0\<rparr> in
      if tl_lfd t = -1 then None
      else if sys 1 = -1 then None
      else if sys 2 = -1 then None
      else if sys 3 = -1 then None
      else Some (sys 3, t))"

definition acceptClient :: "(nat \<Rightarrow> int) \<Rightarrow> TcpServer \<Rightarrow> TcpSocket option" where
  "acceptClient sys t =
     (if sys 0 < 0 then None
      else if sys 0 = 0 then None
      else if sys 1 = -1 then None
      else Some (TcpSocket_new (sys 1)))"

text \<open>\<open>closeListen\<close> keeps the number, so that the destructor closes it again, by then perhaps the descriptor of
  something else.\<close>

lemma closed_twice:
  assumes "setListen sys TcpServer_new = Some (r, t)"
  shows "tl_closed (closeListen (closeListen t)) = [tl_lfd t, tl_lfd t]"
  using assms by (auto simp: setListen_def closeListen_def TcpServer_new_def Let_def split: if_splits)

end
