(* ===== verification/AesCbc.thy ===== *)
theory AesCbc
  imports Crypto
begin

text \<open>
  \<open>AesCrypto.cpp\<close>, the older wrapper around AES in CBC mode, which the running program does not use any
  more: padding, the initialisation vector taken from the key, and what it does to texts that it has not
  made itself. \<open>AES_cbc_encrypt\<close> in its two directions is a parameter.
\<close>

section \<open>The class\<close>

abbreviation (input) AES_BLOCK_SIZE :: nat where "AES_BLOCK_SIZE \<equiv> 16"

record cbc =
  cbc_enc :: "string \<Rightarrow> string \<Rightarrow> string \<Rightarrow> string"
  cbc_dec :: "string \<Rightarrow> string \<Rightarrow> string \<Rightarrow> string"

text \<open>The two key schedules are those of \<open>m_key\<close>; a key of another size leaves it empty and them unset.\<close>

record AesCrypto =
  ac_key :: string

definition AesCrypto_new :: "string \<Rightarrow> AesCrypto" where
  "AesCrypto_new key = \<lparr>ac_key = (if length key = 16 \<or> length key = 24 \<or> length key = 32 then key else [])\<rparr>"

text \<open>\<open>m_key.at(..)\<close> throws where there is no such byte.\<close>

definition generateIvec :: "AesCrypto \<Rightarrow> string option" where
  "generateIvec a =
     (if length (ac_key a) < AES_BLOCK_SIZE then None
      else Some (map (\<lambda>i. ac_key a ! (AES_BLOCK_SIZE - i - 1)) [0..<AES_BLOCK_SIZE]))"

text \<open>\<open>char\<close> is signed.\<close>

definition char_value :: "char \<Rightarrow> int" where
  "char_value c = (let n = (of_char c :: nat) in if n < 128 then int n else int n - 256)"

text \<open>\<open>outData.substr(0, outData.size() - padding)\<close> with unsigned arithmetic; the last byte of an empty text
  is none.\<close>

definition cut_padding :: "string \<Rightarrow> string option" where
  "cut_padding outData =
     (if outData = [] then None
      else let padding = char_value (last outData) in
        Some (if 0 \<le> padding \<and> padding \<le> int (length outData) then take (length outData - nat padding) outData
              else outData))"

definition aesCrypto :: "cbc \<Rightarrow> bool \<Rightarrow> string \<Rightarrow> AesCrypto \<Rightarrow> string option" where
  "aesCrypto lib encrypting data a = do {
     ivec \<leftarrow> generateIvec a;
     let input = (if encrypting
       then let padding = AES_BLOCK_SIZE - length data mod AES_BLOCK_SIZE in data @ replicate padding (char_of padding)
       else data);
     let outData = resize_str (length input) ((if encrypting then cbc_enc else cbc_dec) lib (ac_key a) ivec input);
     if encrypting then Some outData else cut_padding outData
   }"

definition aesEncrypt :: "cbc \<Rightarrow> string \<Rightarrow> AesCrypto \<Rightarrow> string option" where
  "aesEncrypt lib data a = aesCrypto lib True data a"

definition aesDecrypt :: "cbc \<Rightarrow> string \<Rightarrow> AesCrypto \<Rightarrow> string option" where
  "aesDecrypt lib data a = aesCrypto lib False data a"

section \<open>What it promises\<close>

text \<open>CBC on whole blocks: lengths are kept, and one direction undoes the other.\<close>

definition cbc_ok :: "cbc \<Rightarrow> bool" where
  "cbc_ok lib \<longleftrightarrow> (\<forall>k iv x. length x mod AES_BLOCK_SIZE = 0 \<longrightarrow>
     length (cbc_enc lib k iv x) = length x \<and> cbc_dec lib k iv (cbc_enc lib k iv x) = x)"

lemma char_value_of [simp]: "n < 128 \<Longrightarrow> char_value (char_of n) = int n" for n :: nat
  by (simp add: char_value_def of_char_of take_bit_eq_mod)

lemma cut_padding_padded:
  assumes "0 < n" "n \<le> AES_BLOCK_SIZE"
  shows "cut_padding (data @ replicate n (char_of n)) = Some data"
proof -
  have "last (data @ replicate n (char_of n :: char)) = char_of n" using assms(1) by (simp add: last_append)
  then show ?thesis using assms by (simp add: cut_padding_def Let_def)
qed

lemma padded_blocks: "(length data + (16 - length data mod 16)) mod 16 = (0 :: nat)" for data :: string
  by presburger

lemma generateIvec_new:
  "generateIvec (AesCrypto_new key) = (if length key \<in> {16, 24, 32} then Some (rev (take 16 key)) else None)"
proof (cases "length key \<in> {16, 24, 32}")
  case True
  then have "map (\<lambda>i. key ! (AES_BLOCK_SIZE - i - 1)) [0..<AES_BLOCK_SIZE] = rev (take 16 key)"
    by (intro nth_equalityI) (auto simp: rev_nth)
  with True show ?thesis by (auto simp: generateIvec_def AesCrypto_new_def)
qed (auto simp: generateIvec_def AesCrypto_new_def)

text \<open>A text of any length comes back, whatever its last bytes are; with a key of another size nothing works.\<close>

theorem aes_roundtrip:
  assumes "cbc_ok lib"
  shows "aesEncrypt lib data (AesCrypto_new key) \<bind> (\<lambda>c. aesDecrypt lib c (AesCrypto_new key)) =
     (if length key \<in> {16, 24, 32} then Some data else None)"
proof (cases "length key \<in> {16, 24, 32}")
  case True
  let ?p = "16 - length data mod 16" and ?iv = "rev (take 16 key)" and ?k = "ac_key (AesCrypto_new key)"
  let ?in = "data @ replicate ?p (char_of ?p)"
  have "length ?in mod 16 = 0" using padded_blocks [of data] by simp
  with assms have lib: "length (cbc_enc lib ?k ?iv ?in) = length ?in" "cbc_dec lib ?k ?iv (cbc_enc lib ?k ?iv ?in) = ?in"
    by (simp_all add: cbc_ok_def del: length_append length_replicate)
  from lib(1) have "aesEncrypt lib data (AesCrypto_new key) = Some (cbc_enc lib ?k ?iv ?in)"
    using True resize_str_self [of "cbc_enc lib ?k ?iv ?in"]
    by (simp add: aesEncrypt_def aesCrypto_def generateIvec_new Let_def del: resize_str_self)
  moreover have "resize_str (length (cbc_enc lib ?k ?iv ?in)) ?in = ?in" by (metis lib(1) resize_str_self)
  then have "aesDecrypt lib (cbc_enc lib ?k ?iv ?in) (AesCrypto_new key) = cut_padding ?in"
    using True lib(2) by (simp add: aesDecrypt_def aesCrypto_def generateIvec_new Let_def)
  moreover have "0 < ?p" "?p \<le> AES_BLOCK_SIZE" by simp_all
  ultimately show ?thesis using True cut_padding_padded [of ?p data] by simp
next
  case False
  then show ?thesis by (simp add: aesEncrypt_def aesCrypto_def generateIvec_new)
qed

text \<open>What is not a whole number of padded blocks is not refused: a padding byte that is not 1 to 16 is
  believed as long as it is no larger than the text, and ignored otherwise.\<close>

lemma cut_padding_total: "data \<noteq> [] \<Longrightarrow> \<exists>r. cut_padding data = Some r \<and> r = take (length r) data"
  by (auto simp: cut_padding_def Let_def)

end
