(* ===== verification/PermissionTests.thy ===== *)
theory PermissionTests
  imports QuerySvc
begin

text \<open>
  \<open>tests/test_message_permissions.cpp\<close>: the second implementation of the interfaces
  \<open>IMessageRepository\<close> and \<open>IMessageAudit\<close>, in memory, and the eight tests that run the handlers of
  \<open>QuerySvc\<close> on it. The texts that a failed check prints are left out; a test gives the number of
  failed checks so far.
\<close>

section \<open>The repository and the audit log in memory\<close>

record RecordedAuditEvent =
  ev_nodeId :: string
  ev_action :: string
  ev_targetId :: string
  ev_result :: int
  ev_detail :: string

record InMemoryMessageRepository =
  im_messages :: "string \<rightharpoonup> MessageQueryResult"
  im_summaries :: "MessageSummaryInfo list"
  im_singleQueryCount :: nat
  im_listQueryCount :: nat
  im_lastListSenderId :: string

text \<open>The two objects of a test: the repository and the events of the recording audit.\<close>

type_synonym test_store = "InMemoryMessageRepository \<times> RecordedAuditEvent list"

definition InMemoryMessageRepository_new :: InMemoryMessageRepository where
  "InMemoryMessageRepository_new = \<lparr>im_messages = Map.empty, im_summaries = [], im_singleQueryCount = 0,
     im_listQueryCount = 0, im_lastListSenderId = []\<rparr>"

definition empty_result :: MessageQueryResult where
  "empty_result = \<lparr>mq_found = False, mq_msgId = [], mq_senderId = [], mq_receiverId = [], mq_keyId = 0,
     mq_msgType = [], mq_ciphertext = [], mq_nonce = [], mq_tag = [], mq_sendTime = [], mq_status = 0,
     mq_errorMsg = []\<rparr>"

definition im_insertMessage :: "MessageLogRecord \<Rightarrow> InMemoryMessageRepository \<Rightarrow> bool \<times> InMemoryMessageRepository" where
  "im_insertMessage r m =
     (let result = empty_result\<lparr>mq_found := True, mq_msgId := ml_msgId r, mq_senderId := ml_senderId r,
            mq_receiverId := ml_receiverId r, mq_keyId := ml_senderKeyId r, mq_msgType := ml_msgType r,
            mq_sendTime := ml_sendTime r, mq_status := ml_status r\<rparr> in
      (True, m\<lparr>im_messages := (im_messages m)(ml_msgId r \<mapsto> result)\<rparr>))"

definition im_queryMessageById :: "test_store by_id_op" where
  "im_queryMessageById msgId st =
     (let m = (fst st)\<lparr>im_singleQueryCount := Suc (im_singleQueryCount (fst st))\<rparr> in
      case im_messages m msgId of
        None \<Rightarrow> Some ((False, empty_result\<lparr>mq_msgId := msgId, mq_errorMsg := ''message not found''\<rparr>), m, snd st)
      | Some r \<Rightarrow> Some ((True, r), m, snd st))"

fun im_collect :: "string \<Rightarrow> int \<Rightarrow> MessageSummaryInfo list \<Rightarrow> MessageSummaryInfo list \<Rightarrow> MessageSummaryInfo list" where
  "im_collect senderId limit [] results = results"
| "im_collect senderId limit (x # xs) results =
     im_collect senderId limit xs
       (if mi_senderId x = senderId \<and> int (length results) < limit then results @ [x] else results)"

definition im_queryRecentMessagesBySender :: "test_store recent_op" where
  "im_queryRecentMessagesBySender senderId limit st =
     (let m = (fst st)\<lparr>im_listQueryCount := Suc (im_listQueryCount (fst st)), im_lastListSenderId := senderId\<rparr> in
      Some ((True, im_collect senderId limit (im_summaries m) []), m, snd st))"

definition rec_logAction :: "test_store audit_op" where
  "rec_logAction logId nodeId action targetId result detail st w =
     Some (True, (fst st, snd st @ [\<lparr>ev_nodeId = nodeId, ev_action = action, ev_targetId = targetId,
       ev_result = result, ev_detail = detail\<rparr>]), w)"

section \<open>Requests and data of the tests\<close>

definition test_header :: "string \<Rightarrow> int \<Rightarrow> string \<Rightarrow> Header" where
  "test_header message_id command requesterId = \<lparr>h_message_id = message_id, h_command = command,
     h_sender_id = requesterId, h_receiver_id = ''6789'', h_timestamp = 1725000000\<rparr>"

definition makeSingleQueryRequest :: "string \<Rightarrow> string \<Rightarrow> RequestPacket" where
  "makeSingleQueryRequest requesterId serverMessageId =
     \<lparr>rq_header = Some (test_header ''query-request-001'' CMD_QUERY_MSG_REQ requesterId),
      rq_body = QueryMsgReq \<lparr>qmr_server_message_id = serverMessageId\<rparr>\<rparr>"

definition makeListQueryRequest :: "string \<Rightarrow> string \<Rightarrow> int \<Rightarrow> RequestPacket" where
  "makeListQueryRequest requesterId queriedSenderId limit =
     \<lparr>rq_header = Some (test_header ''list-request-001'' CMD_QUERY_MSG_LIST_REQ requesterId),
      rq_body = QueryMsgListReq \<lparr>qml_sender_id = queriedSenderId, qml_limit = limit\<rparr>\<rparr>"

definition makeStoredMessage :: MessageQueryResult where
  "makeStoredMessage = empty_result\<lparr>mq_found := True, mq_msgId := ''server-message-001'', mq_senderId := ''0001'',
     mq_receiverId := ''0002'', mq_keyId := 42, mq_msgType := ''text'', mq_sendTime := ''2026-09-02 12:00:00'',
     mq_status := 1\<rparr>"

definition one_message :: test_store where
  "one_message = (InMemoryMessageRepository_new\<lparr>im_messages := [''server-message-001'' \<mapsto> makeStoredMessage]\<rparr>, [])"

definition no_message :: test_store where
  "no_message = (InMemoryMessageRepository_new, [])"

definition two_summaries :: test_store where
  "two_summaries = (InMemoryMessageRepository_new\<lparr>im_summaries :=
     [\<lparr>mi_msgId = ''server-message-001'', mi_senderId = ''0001'', mi_receiverId = ''0002'', mi_keyId = 42,
       mi_msgType = ''text'', mi_sendTime = ''2026-09-02 12:00:00'', mi_status = 1\<rparr>,
      \<lparr>mi_msgId = ''server-message-002'', mi_senderId = ''0003'', mi_receiverId = ''0001'', mi_keyId = 43,
       mi_msgType = ''text'', mi_sendTime = ''2026-09-02 12:01:00'', mi_status = 1\<rparr>]\<rparr>, [])"

section \<open>The tests\<close>

text \<open>The test program: \<open>g_failedCount\<close>, the static counter of \<open>generateQueryAuditId\<close>, the clocks.\<close>

record test_run =
  g_failedCount :: nat
  tr_seq :: "64 word"
  tr_proc :: proc

definition expectTrue :: "bool \<Rightarrow> test_run \<Rightarrow> test_run" where
  "expectTrue condition t = (if condition then t else t\<lparr>g_failedCount := Suc (g_failedCount t)\<rparr>)"

definition run_query ::
    "env \<Rightarrow> RequestPacket \<Rightarrow> test_store \<Rightarrow> test_run \<Rightarrow> (V2QueryMessageResponseInfo \<times> test_store \<times> test_run) option" where
  "run_query env p st t = do {
     (response, s) \<leftarrow> handleQueryMessage env ''6789'' im_queryMessageById rec_logAction p
        \<lparr>qs_store = st, qs_proc = tr_proc t, qs_seq = tr_seq t\<rparr>;
     Some (response, qs_store s, t\<lparr>tr_seq := qs_seq s, tr_proc := qs_proc s\<rparr>)
   }"

definition run_query_list ::
    "env \<Rightarrow> RequestPacket \<Rightarrow> test_store \<Rightarrow> test_run \<Rightarrow> (V2QueryMessageListResponseInfo \<times> test_store \<times> test_run) option" where
  "run_query_list env p st t = do {
     (response, s) \<leftarrow> handleQueryMessageList env ''6789'' im_queryRecentMessagesBySender rec_logAction p
        \<lparr>qs_store = st, qs_proc = tr_proc t, qs_seq = tr_seq t\<rparr>;
     Some (response, qs_store s, t\<lparr>tr_seq := qs_seq s, tr_proc := qs_proc s\<rparr>)
   }"

text \<open>\<open>audit.events.size() == 1 && ..events[0]..\<close>.\<close>

definition only_event :: "(RecordedAuditEvent \<Rightarrow> bool) \<Rightarrow> RecordedAuditEvent list \<Rightarrow> bool" where
  "only_event P events \<longleftrightarrow> length events = 1 \<and> P (events ! 0)"

definition testSenderCanQuerySingleMessage :: "env \<Rightarrow> test_run \<Rightarrow> test_run option" where
  "testSenderCanQuerySingleMessage env t = do {
     (response, (repository, events), t) \<leftarrow>
        run_query env (makeSingleQueryRequest ''0001'' ''server-message-001'') one_message t;
     let t = expectTrue (vqp_code response = RESULT_SUCCESS) t;
     let t = expectTrue (vqp_serverMessageId response = ''server-message-001'') t;
     let t = expectTrue (vqp_senderId response = ''0001'' \<and> vqp_receiverId response = ''0002'') t;
     Some (expectTrue (only_event (\<lambda>e. ev_result e = 1) events) t)
   }"

definition testReceiverCanQuerySingleMessage :: "env \<Rightarrow> test_run \<Rightarrow> test_run option" where
  "testReceiverCanQuerySingleMessage env t = do {
     (response, _, t) \<leftarrow> run_query env (makeSingleQueryRequest ''0002'' ''server-message-001'') one_message t;
     Some (expectTrue (vqp_code response = RESULT_SUCCESS) t)
   }"

definition testUnrelatedClientCannotQuerySingleMessage :: "env \<Rightarrow> test_run \<Rightarrow> test_run option" where
  "testUnrelatedClientCannotQuerySingleMessage env t = do {
     (response, (repository, events), t) \<leftarrow>
        run_query env (makeSingleQueryRequest ''0003'' ''server-message-001'') one_message t;
     let t = expectTrue (vqp_code response = RESULT_INVALID_REQUEST) t;
     let t = expectTrue (vqp_message response = ''permission denied'') t;
     Some (expectTrue (only_event (\<lambda>e. ev_detail e = ''permission denied'') events) t)
   }"

definition testMissingMessageReturnsNotFound :: "env \<Rightarrow> test_run \<Rightarrow> test_run option" where
  "testMissingMessageReturnsNotFound env t = do {
     (response, (repository, events), t) \<leftarrow>
        run_query env (makeSingleQueryRequest ''0001'' ''missing-message'') no_message t;
     let t = expectTrue (vqp_code response = RESULT_MSG_NOT_FOUND) t;
     Some (expectTrue (only_event (\<lambda>e. ev_result e = 0) events) t)
   }"

definition testEmptyRequesterDoesNotAccessRepository :: "env \<Rightarrow> test_run \<Rightarrow> test_run option" where
  "testEmptyRequesterDoesNotAccessRepository env t = do {
     (response, (repository, events), t) \<leftarrow>
        run_query env (makeSingleQueryRequest [] ''server-message-001'') one_message t;
     let t = expectTrue (vqp_code response = RESULT_INVALID_REQUEST) t;
     let t = expectTrue (vqp_message response = ''header sender_id is empty'') t;
     let t = expectTrue (im_singleQueryCount repository = 0) t;
     Some (expectTrue (only_event (\<lambda>e. ev_result e = 0) events) t)
   }"

text \<open>\<open>response.messages[0]\<close> is read whatever the size check before it said: out of range it is undefined.\<close>

definition testClientCanQueryOwnSentMessageList :: "env \<Rightarrow> test_run \<Rightarrow> test_run option" where
  "testClientCanQueryOwnSentMessageList env t = do {
     (response, (repository, events), t) \<leftarrow> run_query_list env (makeListQueryRequest ''0001'' ''0001'' 10) two_summaries t;
     let t = expectTrue (vlp_code response = RESULT_SUCCESS) t;
     let t = expectTrue (length (vlp_messages response) = 1) t;
     first \<leftarrow> (case vlp_messages response of [] \<Rightarrow> None | x # _ \<Rightarrow> Some x);
     let t = expectTrue (vms_serverMessageId first = ''server-message-001'') t;
     Some (expectTrue (im_lastListSenderId repository = ''0001'') t)
   }"

definition testClientCannotQueryAnotherSendersList :: "env \<Rightarrow> test_run \<Rightarrow> test_run option" where
  "testClientCannotQueryAnotherSendersList env t = do {
     (response, (repository, events), t) \<leftarrow> run_query_list env (makeListQueryRequest ''0001'' ''0002'' 10) no_message t;
     let t = expectTrue (vlp_code response = RESULT_INVALID_REQUEST) t;
     let t = expectTrue (vlp_message response = ''permission denied'') t;
     let t = expectTrue (im_listQueryCount repository = 0) t;
     Some (expectTrue (only_event (\<lambda>e. ev_result e = 0) events) t)
   }"

definition testInvalidLimitDoesNotAccessRepository :: "env \<Rightarrow> test_run \<Rightarrow> test_run option" where
  "testInvalidLimitDoesNotAccessRepository env t = do {
     (response, (repository, events), t) \<leftarrow> run_query_list env (makeListQueryRequest ''0001'' ''0001'' 0) no_message t;
     let t = expectTrue (vlp_code response = RESULT_INVALID_REQUEST) t;
     Some (expectTrue (im_listQueryCount repository = 0) t)
   }"

text \<open>\<open>main\<close>: the exit status.\<close>

definition permission_main :: "env \<Rightarrow> proc \<Rightarrow> int option" where
  "permission_main env w = do {
     let t = \<lparr>g_failedCount = 0, tr_seq = 0, tr_proc = w\<rparr>;
     t \<leftarrow> testSenderCanQuerySingleMessage env t;
     t \<leftarrow> testReceiverCanQuerySingleMessage env t;
     t \<leftarrow> testUnrelatedClientCannotQuerySingleMessage env t;
     t \<leftarrow> testMissingMessageReturnsNotFound env t;
     t \<leftarrow> testEmptyRequesterDoesNotAccessRepository env t;
     t \<leftarrow> testClientCanQueryOwnSentMessageList env t;
     t \<leftarrow> testClientCannotQueryAnotherSendersList env t;
     t \<leftarrow> testInvalidLimitDoesNotAccessRepository env t;
     Some (if g_failedCount t = 0 then 0 else 1)
   }"

section \<open>Every test passes\<close>

text \<open>The audit log of a handler run grows by one event, whatever the clocks and the counter say.\<close>

lemma rec_query_audit:
  "query_audit env sid rec_logAction me action target code detail s =
     Some (s\<lparr>qs_store := (fst (qs_store s), snd (qs_store s) @ [\<lparr>ev_nodeId = me, ev_action = action,
         ev_targetId = target, ev_result = code, ev_detail = detail\<rparr>]),
       qs_proc := snd (snd (generateQueryAuditId env sid (qs_seq s) (qs_proc s))),
       qs_seq := fst (snd (generateQueryAuditId env sid (qs_seq s) (qs_proc s)))\<rparr>)"
  by (simp add: query_audit_def rec_logAction_def split_beta)

lemmas test_data = makeSingleQueryRequest_def makeListQueryRequest_def test_header_def one_message_def no_message_def
  two_summaries_def makeStoredMessage_def empty_result_def InMemoryMessageRepository_new_def

text \<open>A test passes when no check of it fails.\<close>

definition passes :: "(test_run \<Rightarrow> test_run option) \<Rightarrow> bool" where
  "passes test \<longleftrightarrow> (\<forall>t. \<exists>t'. test t = Some t' \<and> g_failedCount t' = g_failedCount t)"

lemma passes_then:
  assumes "passes test" and "g_failedCount t = 0" and "\<And>t'. g_failedCount t' = 0 \<Longrightarrow> rest t' = r"
  shows "test t \<bind> rest = r"
  using assms by (metis (no_types, lifting) passes_def bind.bind_lunit)

lemmas run_single = run_query_def handleQueryMessage_def validateQueryRequest_def im_queryMessageById_def query_response_new_def
lemmas run_list = run_query_list_def handleQueryMessageList_def validateQueryListRequest_def
  im_queryRecentMessagesBySender_def summary_info_def
lemmas test_steps = passes_def expectTrue_def only_event_def Let_def rec_query_audit query_response_header_def time_now_def test_data

lemma testSenderCanQuerySingleMessage_passes: "passes (testSenderCanQuerySingleMessage env)"
  by (simp add: testSenderCanQuerySingleMessage_def run_single test_steps)

lemma testReceiverCanQuerySingleMessage_passes: "passes (testReceiverCanQuerySingleMessage env)"
  by (simp add: testReceiverCanQuerySingleMessage_def run_single test_steps)

lemma testUnrelatedClientCannotQuerySingleMessage_passes: "passes (testUnrelatedClientCannotQuerySingleMessage env)"
  by (simp add: testUnrelatedClientCannotQuerySingleMessage_def run_single test_steps)

lemma testMissingMessageReturnsNotFound_passes: "passes (testMissingMessageReturnsNotFound env)"
  by (simp add: testMissingMessageReturnsNotFound_def run_single test_steps)

lemma testEmptyRequesterDoesNotAccessRepository_passes: "passes (testEmptyRequesterDoesNotAccessRepository env)"
  by (simp add: testEmptyRequesterDoesNotAccessRepository_def run_single test_steps)

lemma testClientCanQueryOwnSentMessageList_passes: "passes (testClientCanQueryOwnSentMessageList env)"
  by (simp add: testClientCanQueryOwnSentMessageList_def run_list test_steps)

lemma testClientCannotQueryAnotherSendersList_passes: "passes (testClientCannotQueryAnotherSendersList env)"
  by (simp add: testClientCannotQueryAnotherSendersList_def run_list test_steps)

lemma testInvalidLimitDoesNotAccessRepository_passes: "passes (testInvalidLimitDoesNotAccessRepository env)"
  by (simp add: testInvalidLimitDoesNotAccessRepository_def run_list test_steps)

lemmas all_pass = testSenderCanQuerySingleMessage_passes
  testReceiverCanQuerySingleMessage_passes
  testUnrelatedClientCannotQuerySingleMessage_passes
  testMissingMessageReturnsNotFound_passes
  testEmptyRequesterDoesNotAccessRepository_passes
  testClientCanQueryOwnSentMessageList_passes
  testClientCannotQueryAnotherSendersList_passes
  testInvalidLimitDoesNotAccessRepository_passes


end
