(* ===== verification/CoreTests.thy ===== *)
theory CoreTests
  imports PermissionTests ProtobufProps
begin

text \<open>
  \<open>tests/test_core_modules.cpp\<close>: the five tests of the base-64 and AES-GCM wrappers and of the two
  codecs, which here run over OpenSSL and protobuf as parameters.
\<close>

section \<open>The tests\<close>

definition makeHeader :: "int \<Rightarrow> V2HeaderInfo" where
  "makeHeader command = \<lparr>vh_messageId = ''test-message-001'', vh_command = command, vh_senderId = ''0001'',
     vh_receiverId = ''0002'', vh_timestamp = 1725000000\<rparr>"

definition testBase64RoundTrip :: "env \<Rightarrow> test_run \<Rightarrow> test_run option" where
  "testBase64RoundTrip env t = (
     let input = [CHR 0x00, CHR 0x01] @ ''hello'' @ [CHR 0xFF];
         encoded = b64_encode env input;
         t = expectTrue (encoded \<noteq> []) t in
     Some (expectTrue (b64_decode env encoded = input) t))"

text \<open>A failed \<open>encrypt\<close> leaves the texts of its result empty.\<close>

definition gcm_fields :: "string + string \<times> string \<times> string \<Rightarrow> string \<times> string \<times> string" where
  "gcm_fields r = (case r of Inl e \<Rightarrow> ([], [], []) | Inr f \<Rightarrow> f)"

text \<open>\<open>c ^ 0x01\<close>.\<close>

fun flip_low :: "char \<Rightarrow> char" where
  "flip_low (Char b0 b1 b2 b3 b4 b5 b6 b7) = Char (\<not> b0) b1 b2 b3 b4 b5 b6 b7"

text \<open>Writing to the first character of an empty tag is undefined.\<close>

definition testAesGcmRoundTrip :: "env \<Rightarrow> test_run \<Rightarrow> test_run option" where
  "testAesGcmRoundTrip env t = do {
     let key = ''1234567890abcdef'';
     let plaintext = ''confidential message'';
     let (encrypted, w) = gcm_encrypt env key plaintext (tr_proc t);
     let (ciphertext, nonce, tag) = gcm_fields encrypted;
     let t = expectTrue (\<not> isl encrypted) t;
     let t = expectTrue (length nonce = 12) t;
     let t = expectTrue (length tag = 16) t;
     let (decrypted, w) = gcm_decrypt env key nonce ciphertext tag w;
     let t = expectTrue (\<not> isl decrypted) t;
     let t = expectTrue ((case decrypted of Inl e \<Rightarrow> [] | Inr p \<Rightarrow> p) = plaintext) t;
     tamperedTag \<leftarrow> (case tag of [] \<Rightarrow> None | c # cs \<Rightarrow> Some (flip_low c # cs));
     let (tampered, w) = gcm_decrypt env key nonce ciphertext tamperedTag w;
     Some ((expectTrue (isl tampered) t)\<lparr>tr_proc := w\<rparr>)
   }"

definition testAesGcmRejectsInvalidKey :: "env \<Rightarrow> test_run \<Rightarrow> test_run option" where
  "testAesGcmRejectsInvalidKey env t = (
     let (encrypted, w) = gcm_encrypt env ''invalid-key'' ''message'' (tr_proc t);
         t = expectTrue (isl encrypted) t;
         t = expectTrue ((case encrypted of Inl e \<Rightarrow> e | Inr _ \<Rightarrow> []) = ''unsupported AES key length'') t in
     Some (t\<lparr>tr_proc := w\<rparr>))"

definition test_request :: V2SendMessageRequestInfo where
  "test_request = \<lparr>vsr_header = makeHeader CMD_SEND_MSG_REQ,
     vsr_message = \<lparr>ve_keyId = 42, ve_msgType = MSG_TYPE_TEXT, ve_ciphertext = ''cipher'', ve_nonce = ''nonce'',
       ve_tag = ''tag'', ve_algorithm = ''AES-128-GCM''\<rparr>\<rparr>"

definition testRequestCodecRoundTrip :: "wire \<Rightarrow> test_run \<Rightarrow> test_run option" where
  "testRequestCodecRoundTrip wi t = (
     let packet = decodeRequest wi (encodeRequest wi (init_send_req test_request RequestPacket_default));
         header = get_header (rq_header packet);
         req = (case send_msg_req (rq_body packet) of Some r \<Rightarrow> r | None \<Rightarrow> SendMessageRequest_default);
         t = expectTrue (rq_header packet \<noteq> None) t;
         t = expectTrue (h_message_id header = vh_messageId (vsr_header test_request)) t;
         t = expectTrue (h_command header = CMD_SEND_MSG_REQ) t;
         t = expectTrue (send_msg_req (rq_body packet) \<noteq> None) t;
         t = expectTrue (em_key_id (smr_get_message req) = 42) t in
     Some (expectTrue (em_algorithm (smr_get_message req) = ''AES-128-GCM'') t))"

definition test_response :: V2SendMessageResponseInfo where
  "test_response = \<lparr>vsp_header = makeHeader CMD_SEND_MSG_RESP, vsp_code = RESULT_SUCCESS, vsp_message = ''accepted'',
     vsp_serverMessageId = ''server-msg-001'', vsp_serverTime = 1725000001, vsp_deliveryStatus = DELIVERY_ACCEPTED\<rparr>"

definition testResponseCodecRoundTrip :: "wire \<Rightarrow> test_run \<Rightarrow> test_run option" where
  "testResponseCodecRoundTrip wi t = (
     let packet = decodeResponse wi (encodeResponse wi (init_send_resp test_response ResponsePacket_default));
         resp = (case send_msg_resp (rs_body packet) of Some r \<Rightarrow> r | None \<Rightarrow> SendMessageResponse_default);
         t = expectTrue (send_msg_resp (rs_body packet) \<noteq> None) t;
         t = expectTrue (sr_code resp = RESULT_SUCCESS) t;
         t = expectTrue (sr_server_message_id resp = vsp_serverMessageId test_response) t in
     Some (expectTrue (sr_delivery_status resp = DELIVERY_ACCEPTED) t))"

definition core_main :: "env \<Rightarrow> wire \<Rightarrow> proc \<Rightarrow> int option" where
  "core_main env wi w = do {
     let t = \<lparr>g_failedCount = 0, tr_seq = 0, tr_proc = w\<rparr>;
     t \<leftarrow> testBase64RoundTrip env t;
     t \<leftarrow> testAesGcmRoundTrip env t;
     t \<leftarrow> testAesGcmRejectsInvalidKey env t;
     t \<leftarrow> testRequestCodecRoundTrip wi t;
     t \<leftarrow> testResponseCodecRoundTrip wi t;
     Some (if g_failedCount t = 0 then 0 else 1)
   }"

section \<open>Every test passes\<close>

text \<open>What the tests need of the environment beyond the laws used so far: calls of OpenSSL succeed, encoded
  text is not empty, and GCM accepts no other tag for the same key, nonce and ciphertext.\<close>

definition ssl_works :: "env \<Rightarrow> bool" where
  "ssl_works env \<longleftrightarrow> (\<forall>k. e_ssl env k) \<and> (\<forall>k n. fst (e_rand env k n) = 1)"

definition gcm_rejects :: "env \<Rightarrow> bool" where
  "gcm_rejects env \<longleftrightarrow> (\<forall>k n p t. t \<noteq> snd (e_gcm_enc env k n p) \<longrightarrow> e_gcm_dec env k n (fst (e_gcm_enc env k n p)) t = None)"

definition b64_visible :: "env \<Rightarrow> bool" where
  "b64_visible env \<longleftrightarrow> (\<forall>x. x \<noteq> [] \<longrightarrow> e_b64_enc env x \<noteq> [])"

lemma flip_low_differs: "flip_low c \<noteq> c"
  by (cases c) simp

lemma base64_test_passes: "base64_ok env \<Longrightarrow> b64_visible env \<Longrightarrow> passes (testBase64RoundTrip env)"
  by (simp add: passes_def testBase64RoundTrip_def Let_def expectTrue_def b64_visible_def b64_encode_def [symmetric])

lemma key_test_passes: "passes (testAesGcmRejectsInvalidKey env)"
  by (simp add: passes_def testAesGcmRejectsInvalidKey_def Let_def expectTrue_def gcm_encrypt_def getCipherByKeyLen_def)

lemma gcm_encrypt_works:
  assumes "ssl_works env" and "getCipherByKeyLen key \<noteq> None"
  obtains c n tg w' where "gcm_encrypt env key p w = (Inr (c, n, tg), w')"
proof -
  have "fst (e_rand env (pr_rand w) GCM_NONCE_SIZE) = 1"
    using assms(1) by (simp add: ssl_works_def)
  then obtain nonce where r: "e_rand env (pr_rand w) GCM_NONCE_SIZE = (1, nonce)"
    by (cases "e_rand env (pr_rand w) GCM_NONCE_SIZE") simp
  have "e_ssl env k" for k using assms(1) by (simp add: ssl_works_def)
  then have "\<exists>c n tg w'. gcm_encrypt env key p w = (Inr (c, n, tg), w')"
    using assms(2) r by (simp add: gcm_encrypt_def rand_bytes_def Let_def split_beta)
  with that show ?thesis by blast
qed

lemma gcm_decrypt_refused: "e_gcm_dec env key n c tg = None \<Longrightarrow> \<exists>e w'. gcm_decrypt env key n c tg w = (Inl e, w')"
  by (auto simp: gcm_decrypt_def Let_def split: prod.split option.split)

lemma gcm_test_passes:
  assumes "ssl_works env" "gcm_ok env" "rand_ok env" "gcm_tag_ok env" "gcm_rejects env"
  shows "passes (testAesGcmRoundTrip env)"
  unfolding passes_def
proof
  fix t :: test_run
  let ?key = "''1234567890abcdef''" and ?plain = "''confidential message''"
  have key: "getCipherByKeyLen ?key \<noteq> None" by (simp add: getCipherByKeyLen_def)
  obtain c n tg w where enc: "gcm_encrypt env ?key ?plain (tr_proc t) = (Inr (c, n, tg), w)"
    using gcm_encrypt_works [OF assms(1) key] by blast
  note E = gcm_encrypt_Inr [OF enc]
  have n: "length n = 12" using E(3) assms(3) by (simp add: rand_ok_def GCM_NONCE_SIZE_def)
  have ct: "c = fst (e_gcm_enc env ?key n ?plain)" "tg = snd (e_gcm_enc env ?key n ?plain)"
    using E(2) by (metis fst_conv snd_conv)+
  with assms(4) have tg: "length tg = 16" by (simp add: gcm_tag_ok_def GCM_TAG_SIZE_def)
  then obtain b bs where b: "tg = b # bs" by (cases tg) auto
  obtain w1 where dec: "gcm_decrypt env ?key n c tg w = (Inr ?plain, w1)"
    using gcm_decrypt_encrypted [OF enc assms(2-4)] assms(1) unfolding ssl_works_def by blast
  have "flip_low b # bs \<noteq> tg" using b flip_low_differs [of b] by simp
  then have "e_gcm_dec env ?key n c (flip_low b # bs) = None"
    using assms(5) unfolding ct gcm_rejects_def by blast
  then obtain e w2 where bad: "gcm_decrypt env ?key n c (flip_low b # bs) w1 = (Inl e, w2)"
    using gcm_decrypt_refused by blast
  show "\<exists>t'. testAesGcmRoundTrip env t = Some t' \<and> g_failedCount t' = g_failedCount t"
    using n tg b enc dec bad by (simp add: testAesGcmRoundTrip_def Let_def gcm_fields_def expectTrue_def)
qed

text \<open>The packets of the codec tests fit the format.\<close>

context protobuf
begin

lemma test_header_fits:
  assumes "is_int32 c"
  shows "Header_ranges (pb_header (makeHeader c))" "Header_utf8 rt (pb_header (makeHeader c))"
    "Header_ByteSizeLong rt (pb_header (makeHeader c)) < 100"
  using size_bounds(4) [of "''test-message-001''"] size_bounds(4) [of "''0001''"] size_bounds(4) [of "''0002''"]
    size_bounds(2) [of 1725000000] size_bounds(3) [OF assms] assms
  by (simp_all add: Header_ranges_def Header_utf8_def Header_ByteSizeLong_def makeHeader_def is_int64_def)

lemma request_test_passes: "passes (testRequestCodecRoundTrip (pb_wire rt))"
proof -
  let ?p = "init_send_req test_request RequestPacket_default"
  let ?e = "\<lparr>em_key_id = 42, em_msg_type = MSG_TYPE_TEXT, em_ciphertext = ''cipher'', em_nonce = ''nonce'',
    em_tag = ''tag'', em_algorithm = ''AES-128-GCM''\<rparr>"
  have p: "?p = \<lparr>rq_header = Some (pb_header (makeHeader CMD_SEND_MSG_REQ)), rq_body = SendMsgReq \<lparr>smr_message = Some ?e\<rparr>\<rparr>"
    by (simp add: init_send_req_def test_request_def RequestPacket_default_def)
  have c: "is_int32 CMD_SEND_MSG_REQ" "is_int32 42" "is_int32 MSG_TYPE_TEXT" by (simp_all add: is_int32_def)
  have e: "EncryptedMessage_ranges ?e" "EncryptedMessage_utf8 rt ?e" "EncryptedMessage_ByteSizeLong rt ?e < 100"
    using size_bounds(4) [of "''cipher''"] size_bounds(4) [of "''nonce''"] size_bounds(4) [of "''tag''"]
      size_bounds(4) [of "''AES-128-GCM''"] size_bounds(1) [OF c(2)] size_bounds(3) [OF c(3)] c
    by (simp_all add: EncryptedMessage_ranges_def EncryptedMessage_utf8_def EncryptedMessage_ByteSizeLong_def)
  have ok: "RequestPacket_ranges ?p" "RequestPacket_utf8 rt ?p"
    unfolding p using e test_header_fits [OF c(1)]
    by (simp_all add: RequestPacket_ranges_def RequestPacket_utf8_def SendMessageRequest_ranges_def SendMessageRequest_utf8_def)
  have "RequestPacket_ByteSizeLong rt ?p < 2 ^ 31"
    unfolding p using test_header_fits(3) [OF c(1)] e(3)
      message_bound [of "Header_ByteSizeLong rt (pb_header (makeHeader CMD_SEND_MSG_REQ))"]
      message_bound [of "EncryptedMessage_ByteSizeLong rt ?e"]
      message_bound [of "1 + rt_MessageSize rt (EncryptedMessage_ByteSizeLong rt ?e)"]
    by (simp add: RequestPacket_ByteSizeLong_def SendMessageRequest_ByteSizeLong_def)
  with ok have dec: "decodeRequest (pb_wire rt) (encodeRequest (pb_wire rt) ?p) = ?p"
    by (intro request_read_back) (simp_all add: RequestPacket_size encodeRequest_def pb_wire_def)
  show ?thesis
    unfolding passes_def testRequestCodecRoundTrip_def dec unfolding p
    by (simp add: Let_def expectTrue_def smr_get_message_def test_request_def makeHeader_def)
qed

lemma response_test_passes: "passes (testResponseCodecRoundTrip (pb_wire rt))"
proof -
  let ?p = "init_send_resp test_response ResponsePacket_default"
  let ?r = "\<lparr>sr_code = RESULT_SUCCESS, sr_message = ''accepted'', sr_server_message_id = ''server-msg-001'',
    sr_server_time = 1725000001, sr_delivery_status = DELIVERY_ACCEPTED\<rparr>"
  have p: "?p = \<lparr>rs_header = Some (pb_header (makeHeader CMD_SEND_MSG_RESP)), rs_body = SendMsgResp ?r\<rparr>"
    by (simp add: init_send_resp_def test_response_def ResponsePacket_default_def)
  have c: "is_int32 CMD_SEND_MSG_RESP" "is_int32 RESULT_SUCCESS" "is_int64 1725000001" "is_int32 DELIVERY_ACCEPTED"
    by (simp_all add: is_int32_def is_int64_def)
  have r: "SendMessageResponse_ranges ?r" "SendMessageResponse_utf8 rt ?r" "SendMessageResponse_ByteSizeLong rt ?r < 100"
    using size_bounds(4) [of "''accepted''"] size_bounds(4) [of "''server-msg-001''"] size_bounds(3) [OF c(2)]
      size_bounds(2) [OF c(3)] size_bounds(3) [OF c(4)] c
    by (simp_all add: SendMessageResponse_ranges_def SendMessageResponse_utf8_def SendMessageResponse_ByteSizeLong_def)
  have ok: "ResponsePacket_ranges ?p" "ResponsePacket_utf8 rt ?p"
    unfolding p using r test_header_fits [OF c(1)] by (simp_all add: ResponsePacket_ranges_def ResponsePacket_utf8_def)
  have "ResponsePacket_ByteSizeLong rt ?p < 2 ^ 31"
    unfolding p using test_header_fits(3) [OF c(1)] r(3)
      message_bound [of "Header_ByteSizeLong rt (pb_header (makeHeader CMD_SEND_MSG_RESP))"]
      message_bound [of "SendMessageResponse_ByteSizeLong rt ?r"]
    by (simp add: ResponsePacket_ByteSizeLong_def)
  with ok have dec: "decodeResponse (pb_wire rt) (encodeResponse (pb_wire rt) ?p) = ?p"
    by (intro response_read_back) (simp_all add: ResponsePacket_size encodeResponse_def pb_wire_def)
  show ?thesis
    unfolding passes_def testResponseCodecRoundTrip_def dec unfolding p
    by (simp add: Let_def expectTrue_def test_response_def)
qed

end

text \<open>The test program of the core modules ends with status 0 in the model, over every protobuf library
  that keeps the format and every environment in which base 64 and AES-GCM do what they are documented to do
  and the calls of OpenSSL succeed: base 64 gives binary data back, AES-GCM gives the plaintext back and
  refuses a changed tag and a key of a wrong length, and the packets survive both codecs.\<close>

theorem core_tests_pass:
  assumes "protobuf rt" and "base64_ok env" "b64_visible env"
    and "ssl_works env" "gcm_ok env" "rand_ok env" "gcm_tag_ok env" "gcm_rejects env"
  shows "core_main env (pb_wire rt) w = Some 0"
  unfolding core_main_def Let_def
  by (rule passes_then [OF base64_test_passes] passes_then [OF gcm_test_passes] passes_then [OF key_test_passes]
      passes_then [OF protobuf.request_test_passes] passes_then [OF protobuf.response_test_passes] assms | simp)+

lemma calm_core [simp]: "b64_visible calm_env" "ssl_works calm_env" "gcm_rejects calm_env"
proof -
  have "esc_enc x \<noteq> []" if "x \<noteq> []" for x using that by (cases x) auto
  then show "b64_visible calm_env" by (simp add: b64_visible_def)
qed (simp_all add: ssl_works_def gcm_rejects_def)

theorem core_tests_pass_witness: "core_main calm_env (pb_wire base128) proc_start = Some 0"
  by (rule core_tests_pass [OF base128.protobuf_axioms]) simp_all

end
