(* ===== verification/Spec2Isabelle.thy ===== *)
theory Spec2Isabelle
  imports ServerAnswers Session OverProtobuf Shared Startup AesCbc CoreTests
begin

text \<open>
  A verification development for the encrypted transmission demo: a server that agrees on AES keys with
  clients, keeps them in MySQL and in shared memory, relays encrypted messages between the clients, and a
  client with a menu on the terminal.

  \<^bold>\<open>The program.\<close> The server (\<open>src/ServerSeckey\<close>) accepts connections in one thread that waits on
  \<open>epoll\<close> and hands readable descriptors to a pool of workers. A worker runs
  \<open>ServerOP::handleClientFd\<close>: it reads one frame, decodes it, dispatches the request to the key handlers
  of \<open>ServerOP\<close> or to \<open>MessageService\<close>, sends the answer and closes the connection. The handlers work
  on a key table in MySQL (\<open>mysqlOP\<close>), on a cache of the current keys in System V shared memory
  (\<open>SecKeyShm\<close>), on a message log and an audit log. A client (\<open>src/ClientSecKey\<close>) opens one connection
  for each action: it agrees on a key by RSA (\<open>ClientOP::keyAgreement\<close>), checks or revokes it, sends a text
  encrypted under it and queries what was sent. The server decrypts a text with the sender's key and
  encrypts it again for the receiver. The two directories share their sockets, cryptographic wrappers, codecs
  and cache; such a file is modelled once.

  \<^bold>\<open>How the model reads.\<close> A C++ function becomes a definition of the same name that takes the state it
  works on and returns it updated; a class or struct is a record, an enumeration a datatype, a packet a record
  with a datatype for its \<open>oneof\<close>. An operation of type \<open>'a option\<close> gives \<^const>\<open>None\<close> where the code
  does not get to its end: an exception that nobody catches, memory that is overrun, a system call that waits
  for ever, a signal that kills the process. Error answers of the code are values: return codes, sums, results
  with a flag. What is not under \<open>src/\<close> is an argument: \<open>env\<close> (the fate of every SQL statement, the clocks,
  OpenSSL, the file system), \<open>net\<close> (the answer of every socket call), \<open>wire\<close> (the
  byte format, with the generated code as the instance \<open>pb_wire\<close>), \<open>pb_runtime\<close> (the protobuf library under
  that code), and for the terminal the stream of characters. They are indexed by the number of the call, so that any pattern of
  failures is an instance; a property that needs more of them names it (\<open>base64_ok\<close>, \<open>gcm_ok\<close>, \<open>rsa_ok\<close>,
  \<open>files_ok\<close>, \<open>order_ok\<close>, \<open>req_travels\<close>, the locale \<open>protobuf\<close>), and \<open>Sample\<close> has one environment in which all of this holds.
  Integers are kept at their width where they can wrap: the frame length is a \<open>32 word\<close> read as a signed
  number, the counters of identifiers are \<open>64 word\<close>, the port is a \<open>16 word\<close>.

  \<^bold>\<open>The theories.\<close>

  \<^item> \<open>Prelude\<close>: C strings and arrays, \<open>std::to_string\<close> and \<open>atoi\<close>, search in a vector.
  \<^item> \<open>NodeShm\<close> (\<open>SeckKeyNodeInfo.h\<close>, \<open>BaseShm.cpp\<close>, \<open>SecKeyShm.cpp\<close>): the segment as the list of its slots,
    \<open>shmWrite\<close>, \<open>shmRead\<close>, \<open>shmUpdateStatus\<close>; the locale \<open>key_cache\<close> is what its users rely on.
  \<^item> \<open>DateTime\<close>, \<open>External\<close>, \<open>Sample\<close>: time stamps as text; the tables of \<open>init_db.sql\<close> and the record
    \<open>env\<close>; one concrete environment.
  \<^item> \<open>Database\<close>, \<open>KeyStore\<close>, \<open>KeyLife\<close> (\<open>KeyLifecycle.h\<close>, \<open>mysqlOP.cpp\<close>): every SQL statement of the
    program and its effect on the tables, with transactions; rotation, check and logout of keys; their
    invariant, the abstract rotation they implement and the irreversible life of a key.
  \<^item> \<open>Crypto\<close> (\<open>Base64Util.cpp\<close>, \<open>AesGcmCrypto.cpp\<close>, \<open>Hash.cpp\<close>, \<open>RsaCrypto.cpp\<close>): the wrappers around OpenSSL.
  \<^item> \<open>MsgStore\<close> (\<open>MessageRepository.cpp\<close>, \<open>AuditService.cpp\<close>, the rest of \<open>mysqlOP.cpp\<close>): message and audit log.
  \<^item> \<open>Packets\<close>, \<open>Codecs\<close>, \<open>Wire\<close> (\<open>MessageV2.proto\<close>, \<open>V2RequestCodec.cpp\<close>, \<open>V2RespondCodec.cpp\<close>): packets in
    memory, the mapping of the business structures onto them, and bytes; \<open>Wire\<close> also has
    \<open>processV2Request\<close> on bytes and \<open>handleClientFd\<close> for one connection alone.
  \<^item> \<open>Protobuf\<close>, \<open>Base128\<close>, \<open>ProtobufProps\<close> (\<open>MessageV2.pb.cc\<close>): for each message the generated parser,
    serializer and size; the laws of the library underneath as a locale, interpreted on the documented base-128
    encoding; that parsers end, buffers are exactly filled and packets are read back.
  \<^item> \<open>PermissionTests\<close>, \<open>CoreTests\<close> (\<open>src/tests\<close>): the two test programs, with the repository and the audit log
    in memory that implement the interfaces of \<open>QuerySvc\<close> a second time; both end with status 0.
  \<^item> \<open>QuerySvc\<close> (\<open>MessageQueryService.cpp\<close>): the queries, over the two interfaces of the C++ class, which are
    locales here, and interpreted on \<open>MsgStore\<close>.
  \<^item> \<open>MessageSvc\<close>, \<open>MessageProps\<close> (\<open>MessageService.cpp\<close>): the handler of a text in its eleven steps, and what it
    promises.
  \<^item> \<open>ServerOp\<close>, \<open>ServerLife\<close>, \<open>ServerProps\<close>, \<open>ServerAnswers\<close> (\<open>ServerOP.cpp\<close>): the key handlers and the
    dispatcher; what any request may do to database and cache (the locale \<open>step_preorder\<close> gives the rules by
    which this is proved along the text of a handler); the invariant and the promises of the handlers; that
    every request is answered.
  \<^item> \<open>Framing\<close>, \<open>FramingProps\<close> (\<open>TcpSocket.cpp\<close>): connecting and one frame; round trip for every splitting of
    the stream, and what holds for a network that fails in any way.
  \<^item> \<open>EventLoop\<close>, \<open>LoopProps\<close> (\<open>EpollServer.cpp\<close>, \<open>ThreadPool.cpp\<close>, \<open>ServerOP::startServer\<close>): main thread, pool
    and workers as steps that interleave, with a kernel of descriptors, edge-triggered events and connections;
    invariants by induction on the steps, and two runs that the code does not exclude.
  \<^item> \<open>Console\<close>, \<open>Client\<close>, \<open>ClientOp\<close>, \<open>ClientProps\<close> (\<open>MessageClient.cpp\<close>, \<open>ClientOP.cpp\<close>, \<open>main.cpp\<close>): \<open>std::cin\<close>,
    the menu actions against any peer, and what holds whatever the peer answers.
  \<^item> \<open>Running\<close>: the threads with \<open>processV2Request\<close> as what they do: every run is a sequence of requests.
  \<^item> \<open>Shared\<close>: the rotation of a key as a task that yields at each call of the MySQL library, for the one
    connection that all workers share.
  \<^item> \<open>Startup\<close> (\<open>Config.cpp\<close>, the constructor of \<open>ServerOP\<close>, the server's \<open>main.cpp\<close>, \<open>TcpServer.cpp\<close>): how the
    server comes up, and that a restart finds the invariant again.
  \<^item> \<open>AesCbc\<close> (\<open>AesCrypto.cpp\<close>): the older wrapper around AES in CBC mode.
  \<^item> \<open>Session\<close>: the client with the server as its peer; \<open>OverProtobuf\<close>: the same for agreement and logout over
    \<open>pb_wire\<close>, where that request and answer survive the wire is shown and no longer assumed.

  \<^bold>\<open>What is shown.\<close> Keys: the rotation of a key is atomic under every failure of a statement; dead keys stay
  dead; over any sequence of requests each cached key is backed by a row and a pair has at most one active key;
  a logout is final; an agreement that succeeds is one durable rotation, and its key is the one the message
  service hands out. Messages: a text is stored exactly once or not at all and the audit log tells which; only
  under keys that the database confirms; its receiver can open it; queries show a message to its two parties
  only. Transport: frames survive every splitting, a truncated one is reported; a descriptor has one owner; an
  answer goes to the connection of its request; the generated parsers end on every input and read back what the
  serializers wrote. Client: the memory of its cache stays well typed whatever a
  server sends, and only encrypted texts leave it. Together: an exchange is a call of the dispatcher, done at
  most once; an agreement leaves one key on both sides and in the database; a server that dies and is started again is in a good state; a text typed at one client is
  what its receiver's cached key opens. The threads do not show, as long as one request is processed at a time;
  that the workers do not wait for each other does show: two rotations that take turns on the shared connection
  lose a key that was reported as written. Some properties show what the code does where it does not do what its
  comments say: an identifier that overruns a cache entry, a negative frame length, a request that is lost and
  an answer that goes to another client when a descriptor is reused, a menu that never ends.

  \<^bold>\<open>Bounds and termination.\<close> The loop of a generated parser has the number of bytes
  as fuel, the loop over a repeated field one more, and \<open>parsers_end\<close> shows that it is enough. There is no other
  fuel. \<open>readn\<close> is total by a measure on the bytes that are missing;
  \<open>writen\<close> repeats a \<open>send\<close> interrupted by a signal without limit and the menu repeats until its choice, so both
  are partial functions into an option, and a property says when they return. The other loops of the code run
  over a list and are structural. The threads are a step relation, so that a run has any length.

  \<^bold>\<open>Not modelled.\<close> The protobuf library (a parameter, see \<open>Protobuf\<close>) and the parts of the generated code that
  the program does not use; the text of SQL statements and its escaping, as MySQL reads the values back; the vendored JSON
  library; the code for Windows; log output and what the client
  prints, except for the responses to queries. In the event loop the processing of a request is one step of a worker; two handlers at once are modelled
  for the statements of a rotation only (\<open>Shared\<close>), with each call of the MySQL library as one step. Memory safety is modelled where the code copies
  into fixed arrays, and not elsewhere.
\<close>

end
